(* ===== verification/Prelude.thy ===== *)
theory Prelude
  imports Complex_Main "HOL-Library.Word"
begin

text \<open>
  What every component shares: the typed errors of \<^verbatim>\<open>pkg/errors/errors.go\<close>, the result
  type of a Go method that returns \<open>(value, error)\<close>, identifiers, the byte strings and the
  two operations of Go's \<^verbatim>\<open>strings\<close> package the domain code calls everywhere
  (\<open>TrimSpace\<close>, \<open>ToLower\<close>), and generic lemmas on results and lists.
\<close>

section \<open>Collections of facts the components share\<close>

named_theorems state_simps \<open>unfolding equations of the operations of the state machines\<close>
named_theorems svc_simps \<open>unfolding equations of the service (use-case) operations\<close>

section \<open>Typed errors (pkg/errors)\<close>

datatype kind =
    KindValidation | KindNotFound | KindConflict | KindUnauthorized | KindForbidden
  | KindUnavailable | KindInternal | KindPreconditionEx | KindRateLimited

record derr =
  err_kind :: kind
  err_code :: string
  err_msg :: string
  err_cause :: "string option"
  err_retry :: int

definition New :: "kind \<Rightarrow> string \<Rightarrow> string \<Rightarrow> derr" where
  "New k code msg = \<lparr>err_kind = k, err_code = code, err_msg = msg, err_cause = None, err_retry = 0\<rparr>"

definition Wrap :: "kind \<Rightarrow> string \<Rightarrow> string \<Rightarrow> string \<Rightarrow> derr" where
  "Wrap k code msg cause =
     \<lparr>err_kind = k, err_code = code, err_msg = msg, err_cause = Some cause, err_retry = 0\<rparr>"

definition WithRetryAfter :: "int \<Rightarrow> derr \<Rightarrow> derr" where
  "WithRetryAfter seconds e = e\<lparr>err_retry := seconds\<rparr>"

definition Validation :: "string \<Rightarrow> string \<Rightarrow> derr" where
  "Validation code msg = New KindValidation code msg"

definition NotFound :: "string \<Rightarrow> string \<Rightarrow> derr" where
  "NotFound code msg = New KindNotFound code msg"

definition Conflict :: "string \<Rightarrow> string \<Rightarrow> derr" where
  "Conflict code msg = New KindConflict code msg"

text \<open>The text a kind is stored as, and the text of an error (\<^verbatim>\<open>Error.Error\<close>).\<close>

fun kind_text :: "kind \<Rightarrow> string" where
  "kind_text KindValidation = ''validation''"
| "kind_text KindNotFound = ''not_found''"
| "kind_text KindConflict = ''conflict''"
| "kind_text KindUnauthorized = ''unauthorized''"
| "kind_text KindForbidden = ''forbidden''"
| "kind_text KindUnavailable = ''unavailable''"
| "kind_text KindInternal = ''internal''"
| "kind_text KindPreconditionEx = ''precondition''"
| "kind_text KindRateLimited = ''rate_limited''"

definition error_text :: "derr \<Rightarrow> string" where
  "error_text e = (case err_cause e of
      Some c \<Rightarrow> kind_text (err_kind e) @ '': '' @ err_msg e @ '': '' @ c
    | None \<Rightarrow> kind_text (err_kind e) @ '': '' @ err_msg e)"

section \<open>Results\<close>

type_synonym 'a res = "derr + 'a"

definition is_ok :: "'a res \<Rightarrow> bool" where
  "is_ok r = (case r of Inl _ \<Rightarrow> False | Inr _ \<Rightarrow> True)"

lemma is_ok_simps [simp]: "is_ok (Inr x)" "\<not> is_ok (Inl e)"
  by (simp_all add: is_ok_def)

lemma is_ok_iff: "is_ok r \<longleftrightarrow> (\<exists>x. r = Inr x)"
  by (cases r) auto

text \<open>
  The value a pointer receiver holds after a call: a method of the domain that returns an
  error leaves the receiver as it was, so the value is the new one on success and the old
  one on an error.
\<close>

definition after :: "'a \<Rightarrow> 'a res \<Rightarrow> 'a" where
  "after x r = (case r of Inl _ \<Rightarrow> x | Inr y \<Rightarrow> y)"

lemma after_simps [simp]: "after x (Inr y) = y" "after x (Inl e) = x"
  by (simp_all add: after_def)

section \<open>Identifiers and times\<close>

text \<open>
  A \<^verbatim>\<open>uuid.UUID\<close> is 16 bytes; \<^verbatim>\<open>uuid.Nil\<close> is all zeros. \<^verbatim>\<open>uuid.New\<close> is a third-party
  generator: an operation that calls it takes the identifier it returned as an argument. A
  \<^verbatim>\<open>time.Time\<close> in UTC is its number of nanoseconds since the Unix epoch; an operation that
  reads the clock takes the reading as an argument.
\<close>

type_synonym uuid = "128 word"

abbreviation Nil_uuid :: uuid where "Nil_uuid \<equiv> 0"

type_synonym time = int
type_synonym duration = int

section \<open>Strings\<close>

text \<open>
  A Go string is a sequence of bytes, and so is an Isabelle \<open>string\<close>: each \<open>char\<close> is one
  byte. \<^verbatim>\<open>strings.TrimSpace\<close> removes the Unicode white space at both ends. \<open>space_prefix\<close>
  is the number of bytes of the white-space rune a string starts with, 0 if there is none:
  the six ASCII ones, U+0085 and U+00A0 (two bytes), and U+1680, U+2000 to U+200A, U+2028,
  U+2029, U+202F, U+205F, U+3000 (three bytes).
\<close>

definition byte :: "char \<Rightarrow> nat" where
  "byte c = of_char c"

definition ascii_space :: "char \<Rightarrow> bool" where
  "ascii_space c \<longleftrightarrow> byte c \<in> {9, 10, 11, 12, 13, 32}"

definition space2 :: "char \<Rightarrow> char \<Rightarrow> bool" where
  "space2 a b \<longleftrightarrow> byte a = 194 \<and> byte b \<in> {133, 160}"

definition space3 :: "char \<Rightarrow> char \<Rightarrow> char \<Rightarrow> bool" where
  "space3 a b c \<longleftrightarrow>
     (byte a = 225 \<and> byte b = 154 \<and> byte c = 128)
   \<or> (byte a = 226 \<and> byte b = 128 \<and> (128 \<le> byte c \<and> byte c \<le> 138 \<or> byte c \<in> {168, 169, 175}))
   \<or> (byte a = 226 \<and> byte b = 129 \<and> byte c = 159)
   \<or> (byte a = 227 \<and> byte b = 128 \<and> byte c = 128)"

fun trim_left :: "string \<Rightarrow> string" where
  "trim_left [] = []"
| "trim_left [a] = (if ascii_space a then [] else [a])"
| "trim_left [a, b] =
     (if ascii_space a then trim_left [b] else if space2 a b then [] else [a, b])"
| "trim_left (a # b # c # s) =
     (if ascii_space a then trim_left (b # c # s)
      else if space2 a b then trim_left (c # s)
      else if space3 a b c then trim_left s
      else a # b # c # s)"

text \<open>The right end, on the reversed string: the bytes of a rune arrive last byte first.\<close>

fun trim_left_rev :: "string \<Rightarrow> string" where
  "trim_left_rev [] = []"
| "trim_left_rev [a] = (if ascii_space a then [] else [a])"
| "trim_left_rev [b, a] =
     (if ascii_space b then trim_left_rev [a] else if space2 a b then [] else [b, a])"
| "trim_left_rev (c # b # a # s) =
     (if ascii_space c then trim_left_rev (b # a # s)
      else if space2 b c then trim_left_rev (a # s)
      else if space3 a b c then trim_left_rev s
      else c # b # a # s)"

definition TrimSpace :: "string \<Rightarrow> string" where
  "TrimSpace s = rev (trim_left_rev (rev (trim_left s)))"

lemma trim_left_suffix: "\<exists>p. s = p @ trim_left s"
proof (induction s rule: trim_left.induct)
  case (4 a b c s)
  consider "ascii_space a" | "\<not> ascii_space a" "space2 a b"
    | "\<not> ascii_space a" "\<not> space2 a b" "space3 a b c"
    | "\<not> ascii_space a" "\<not> space2 a b" "\<not> space3 a b c"
    by blast
  then show ?case
  proof cases
    case 1
    with "4.IH"(1) show ?thesis by simp (metis append_Cons)
  next
    case 2
    with "4.IH"(2) show ?thesis by simp (metis append_Cons)
  next
    case 3
    with "4.IH"(3) show ?thesis by simp (metis append_Cons)
  qed simp
qed auto

lemma length_trim_left: "length (trim_left s) \<le> length s"
  by (induction s rule: trim_left.induct) auto

lemma length_trim_left_rev: "length (trim_left_rev s) \<le> length s"
  by (induction s rule: trim_left_rev.induct) auto

lemma length_TrimSpace: "length (TrimSpace s) \<le> length s"
  using le_trans[OF length_trim_left_rev[of "rev (trim_left s)"]] length_trim_left[of s]
  by (simp add: TrimSpace_def)

text \<open>
  \<^verbatim>\<open>strings.ToLower\<close> maps the ASCII capitals of an all-ASCII string; on any other string it
  consults the Unicode tables, which are the parameter \<open>ulower\<close>.
\<close>

definition lower_byte :: "char \<Rightarrow> char" where
  "lower_byte c = (if 65 \<le> byte c \<and> byte c \<le> 90 then char_of (byte c + 32) else c)"

definition ToLower :: "(string \<Rightarrow> string) \<Rightarrow> string \<Rightarrow> string" where
  "ToLower ulower s = (if \<forall>c \<in> set s. byte c < 128 then map lower_byte s else ulower s)"

text \<open>\<^verbatim>\<open>strings.Contains\<close>: some suffix of the string starts with the searched one.\<close>

fun is_prefix :: "string \<Rightarrow> string \<Rightarrow> bool" where
  "is_prefix [] s = True"
| "is_prefix (x # xs) [] = False"
| "is_prefix (x # xs) (y # ys) = (x = y \<and> is_prefix xs ys)"

fun Contains :: "string \<Rightarrow> string \<Rightarrow> bool" where
  "Contains [] p = is_prefix p []"
| "Contains (c # s) p = (is_prefix p (c # s) \<or> Contains s p)"

lemma is_prefix_iff: "is_prefix p s \<longleftrightarrow> (\<exists>t. s = p @ t)"
  by (induction p s rule: is_prefix.induct) auto

lemma Contains_iff: "Contains s p \<longleftrightarrow> (\<exists>a b. s = a @ p @ b)"
proof (induction s)
  case Nil
  then show ?case by (auto simp: is_prefix_iff)
next
  case (Cons c s)
  show ?case
  proof
    assume "Contains (c # s) p"
    then consider t where "c # s = p @ t" | a b where "s = a @ p @ b"
      using Cons.IH by (auto simp: is_prefix_iff)
    then show "\<exists>a b. c # s = a @ p @ b"
    proof cases
      case (1 t)
      then show ?thesis by (intro exI[of _ "[]"] exI[of _ t]) simp
    next
      case (2 a b)
      then show ?thesis by (intro exI[of _ "c # a"] exI[of _ b]) simp
    qed
  next
    assume "\<exists>a b. c # s = a @ p @ b"
    then obtain a b where ab: "c # s = a @ p @ b" by blast
    show "Contains (c # s) p"
    proof (cases a)
      case Nil
      with ab have "is_prefix p (c # s)" by (auto simp: is_prefix_iff)
      then show ?thesis by simp
    next
      case (Cons d a')
      with ab have "s = a' @ p @ b" by simp
      with Cons.IH have "Contains s p" by blast
      then show ?thesis by simp
    qed
  qed
qed

text \<open>The text of a uuid: 32 hexadecimal digits in groups of 8, 4, 4, 4 and 12.\<close>

definition hex_digit :: "nat \<Rightarrow> char" where
  "hex_digit n = char_of (if n < 10 then 48 + n else 87 + n)"

definition uuid_digits :: "uuid \<Rightarrow> string" where
  "uuid_digits u = map (\<lambda>i. hex_digit (nat (uint u div 16 ^ (31 - i) mod 16))) [0..<32]"

text \<open>For evaluation: the digits from the right, and a table of the sixteen characters.\<close>

fun nibbles :: "nat \<Rightarrow> int \<Rightarrow> string \<Rightarrow> string" where
  "nibbles 0 n acc = acc"
| "nibbles (Suc k) n acc = nibbles k (n div 16) (hex_digit (nat (n mod 16)) # acc)"

lemma nibbles_eq: "nibbles k n acc = map (\<lambda>i. hex_digit (nat (n div 16 ^ (k - 1 - i) mod 16))) [0..<k] @ acc"
proof (induction k arbitrary: n acc)
  case (Suc k)
  have "n div 16 div 16 ^ (k - 1 - i) = n div 16 ^ (k - i)" if "i < k" for i
    using that by (simp add: zdiv_zmult2_eq[symmetric] power_Suc[symmetric] Suc_diff_Suc del: power_Suc)
  then show ?case by (simp add: Suc.IH cong: map_cong)
qed simp

lemma uuid_digits_code [code]: "uuid_digits u = nibbles 32 (uint u) []"
  by (simp add: nibbles_eq uuid_digits_def)

lemma hex_digit_code [code]:
  "hex_digit n = (if n < 16 then ''0123456789abcdef'' ! n else char_of (87 + n))"
proof (cases "n < 16")
  case True
  then have "n \<in> set [0..<16]" by simp
  then show ?thesis by (auto simp: upt_rec hex_digit_def char_of_def bit_iff_odd)
qed (simp add: hex_digit_def)

definition uuid_text :: "uuid \<Rightarrow> string" where
  "uuid_text u = (let h = uuid_digits u in
     take 8 h @ ''-'' @ take 4 (drop 8 h) @ ''-'' @ take 4 (drop 12 h) @ ''-''
     @ take 4 (drop 16 h) @ ''-'' @ drop 20 h)"

lemma length_uuid_text: "length (uuid_text u) = 36"
  by (simp add: uuid_text_def uuid_digits_def Let_def)

text \<open>A text between single quotes, as the messages that name a state write it.\<close>

definition quoted :: "string \<Rightarrow> string" where
  "quoted s = CHR 0x27 # s @ [CHR 0x27]"

text \<open>The dash of the messages, three bytes in UTF-8.\<close>

definition dash :: string where
  "dash = [CHR 0xE2, CHR 0x80, CHR 0x94]"

section \<open>Lists\<close>

lemma filter_eq_singleton_unique:
  "filter P xs = [x] \<Longrightarrow> y \<in> set xs \<Longrightarrow> P y \<Longrightarrow> y = x"
proof -
  assume f: "filter P xs = [x]" and "y \<in> set xs" "P y"
  then have "y \<in> set (filter P xs)" unfolding set_filter by blast
  then show "y = x" unfolding f by simp
qed

lemma distinct_map_fst_unique:
  "distinct (map f xs) \<Longrightarrow> x \<in> set xs \<Longrightarrow> y \<in> set xs \<Longrightarrow> f x = f y \<Longrightarrow> x = y"
  by (meson distinct_map inj_onD)

lemma sum_list_map_filter_split:
  "sum_list (map f xs) = sum_list (map f (filter P xs)) + sum_list (map f (filter (\<lambda>x. \<not> P x) xs))"
  for f :: "'a \<Rightarrow> rat"
  by (induction xs) auto

end
