(* ===== verification/Float64.thy ===== *)
theory Float64
  imports Prelude
begin

text \<open>
  Go's \<^verbatim>\<open>float64\<close>: IEEE 754 binary64 with round to nearest, ties to even, executable over
  the rationals. Money, rates and scores are \<^verbatim>\<open>float64\<close> in every component, so sums and
  comparisons are those of the hardware and not those of the reals. A finite value is the
  rational it denotes; the two zeros are one value (no modelled operation divides by a
  computed zero or prints a zero, so none can tell them apart). Overflow goes to the
  infinities, and subnormals are rounded at \<open>2 powi (-1074)\<close>. The theory ends with the facts
  the components use: rounding is monotone, exact on representable values (in particular on
  whole numbers up to \<open>2 ^ 53\<close>), and off by at most half an ulp.
\<close>

section \<open>Powers of two and the binary exponent\<close>

definition p2 :: "int \<Rightarrow> rat" where
  "p2 k = 2 powi k"

lemma p2_code [code]: "p2 k = (if 0 \<le> k then of_int (2 ^ nat k) else 1 / of_int (2 ^ nat (- k)))"
  by (simp add: p2_def power_int_def inverse_eq_divide power_one_over)

lemma p2_pos [simp]: "0 < p2 k"
  by (simp add: p2_def)

lemma p2_nonzero [simp]: "p2 k \<noteq> 0"
  by (simp add: p2_def)

lemma p2_nonneg [simp]: "0 \<le> p2 k"
  by (simp add: p2_def)

lemma p2_0 [simp]: "p2 0 = 1"
  by (simp add: p2_def)

lemma p2_add: "p2 (a + b) = p2 a * p2 b"
  by (simp add: p2_def power_int_add)

lemma p2_diff: "p2 (a - b) = p2 a / p2 b"
  by (simp add: p2_def power_int_diff)

lemma p2_nat: "p2 (int n) = 2 ^ n"
  by (simp add: p2_def)

lemma p2_nonneg_int: "0 \<le> k \<Longrightarrow> p2 k = of_int (2 ^ nat k)"
  using p2_nat[of "nat k"] by simp

lemma p2_mono: "a \<le> b \<Longrightarrow> p2 a \<le> p2 b"
  by (simp add: p2_def power_int_increasing)

lemma p2_strict_mono: "a < b \<Longrightarrow> p2 a < p2 b"
  by (simp add: p2_def power_int_strict_increasing)

lemma p2_less_imp: "p2 a < p2 b \<Longrightarrow> a < b"
  using p2_mono[of b a] by linarith

lemma p2_plus1: "p2 (a + 1) = 2 * p2 a"
  by (simp add: p2_add) (simp add: p2_def)

text \<open>The number of binary digits of a positive integer.\<close>

fun nbits :: "int \<Rightarrow> int" where
  "nbits p = (if p \<le> 0 then 0 else 1 + nbits (p div 2))"

declare nbits.simps [simp del]

lemma nbits_bounds: "0 < p \<Longrightarrow> \<exists>n. nbits p = int n + 1 \<and> 2 ^ n \<le> p \<and> p < 2 ^ (n + 1)"
proof (induction p rule: nbits.induct)
  case (1 p)
  have p: "p = 2 * (p div 2) + p mod 2" "0 \<le> p mod 2" "p mod 2 < 2" by simp_all
  show ?case
  proof (cases "p = 1")
    case True
    have "nbits 1 = 1" by (simp add: nbits.simps[of 1] nbits.simps[of 0])
    with True show ?thesis by (intro exI[of _ 0]) simp
  next
    case False
    with 1 obtain n where n: "nbits (p div 2) = int n + 1" "2 ^ n \<le> p div 2" "p div 2 < 2 ^ (n + 1)"
      by (auto simp: pos_imp_zdiv_pos_iff)
    have "nbits p = int (n + 1) + 1" using 1(2) n(1) by (simp add: nbits.simps[of p])
    moreover have "2 ^ (n + 1) \<le> p" "p < 2 ^ (n + 1 + 1)" using n(2,3) p by auto
    ultimately show ?thesis by blast
  qed
qed

lemma nbits_p2:
  assumes "0 < p"
  shows "p2 (nbits p - 1) \<le> of_int p" and "of_int p < p2 (nbits p)"
proof -
  from nbits_bounds[OF assms] obtain n
    where n: "nbits p = int n + 1" "2 ^ n \<le> p" "p < 2 ^ (n + 1)" by blast
  have "(of_int (2 ^ n) :: rat) \<le> of_int p" using n(2) by (simp only: of_int_le_iff)
  then show "p2 (nbits p - 1) \<le> of_int p" by (simp add: n(1) p2_nat)
  have "(of_int p :: rat) < of_int (2 ^ (n + 1))" using n(3) by (simp only: of_int_less_iff)
  then show "of_int p < p2 (nbits p)" using p2_nat[of "n + 1"] by (simp add: n(1) add.commute)
qed

text \<open>\<open>ilog2 x\<close> is the exponent \<open>e\<close> with \<open>2 powi e \<le> x < 2 powi (e + 1)\<close>, for a positive \<open>x\<close>.\<close>

definition ilog2 :: "rat \<Rightarrow> int" where
  "ilog2 x = (let (p, q) = quotient_of x; k = nbits p - nbits q
              in if p2 k \<le> x then k else k - 1)"

lemma ilog2_bounds:
  assumes "0 < x"
  shows "p2 (ilog2 x) \<le> x \<and> x < p2 (ilog2 x + 1)"
proof -
  obtain p q where pq: "quotient_of x = (p, q)" by (cases "quotient_of x")
  then have x: "x = of_int p / of_int q" by (rule quotient_of_div)
  have q: "0 < q" using pq by (rule quotient_of_denom_pos)
  have p: "0 < p" using assms q by (simp add: x zero_less_divide_iff)
  define k where "k = nbits p - nbits q"
  have lo: "p2 (k - 1) \<le> x"
  proof -
    have "p2 (k - 1) = p2 (nbits p - 1) / p2 (nbits q)"
      by (simp add: k_def p2_diff[symmetric] algebra_simps)
    also have "\<dots> \<le> of_int p / of_int q"
      using nbits_p2[OF p] nbits_p2[OF q] p q by (intro frac_le) (auto simp: less_imp_le)
    finally show ?thesis by (simp add: x)
  qed
  have hi: "x < p2 (k + 1)"
  proof -
    have "x < p2 (nbits p) / of_int q"
      using nbits_p2[OF p] q by (simp add: x divide_strict_right_mono)
    also have "\<dots> \<le> p2 (nbits p) / p2 (nbits q - 1)"
      using nbits_p2[OF q] q by (intro divide_left_mono) auto
    also have "\<dots> = p2 (k + 1)" by (simp add: k_def p2_diff[symmetric] algebra_simps)
    finally show ?thesis .
  qed
  have "ilog2 x = (if p2 k \<le> x then k else k - 1)"
    by (simp add: ilog2_def pq k_def Let_def)
  with lo hi show ?thesis by auto
qed

lemma ilog2_unique: "p2 e \<le> x \<Longrightarrow> x < p2 (e + 1) \<Longrightarrow> ilog2 x = e"
proof -
  assume e: "p2 e \<le> x" "x < p2 (e + 1)"
  then have "0 < x" using p2_pos[of e] by linarith
  then have i: "p2 (ilog2 x) \<le> x" "x < p2 (ilog2 x + 1)" using ilog2_bounds by auto
  have "p2 e < p2 (ilog2 x + 1)" "p2 (ilog2 x) < p2 (e + 1)" using e i by auto
  then show ?thesis by (auto dest!: p2_less_imp)
qed

lemma ilog2_mono: "0 < x \<Longrightarrow> x \<le> y \<Longrightarrow> ilog2 x \<le> ilog2 y"
proof -
  assume a: "0 < x" "x \<le> y"
  then have "p2 (ilog2 x) \<le> x" "y < p2 (ilog2 y + 1)" using ilog2_bounds[of x] ilog2_bounds[of y] by auto
  with a have "p2 (ilog2 x) < p2 (ilog2 y + 1)" by linarith
  then show ?thesis by (auto dest!: p2_less_imp)
qed

section \<open>Rounding to an integer, ties to even\<close>

definition rne :: "rat \<Rightarrow> int" where
  "rne x = (let f = \<lfloor>x\<rfloor>; d = x - of_int f in
     if d < 1 / 2 then f else if 1 / 2 < d then f + 1 else if even f then f else f + 1)"

lemma rne_of_int [simp]: "rne (of_int n) = n"
  by (simp add: rne_def)

lemma rne_error: "\<bar>of_int (rne x) - x\<bar> \<le> 1 / 2"
  unfolding rne_def Let_def using floor_correct[of x] by auto

lemma rne_range: "rne x = \<lfloor>x\<rfloor> \<or> rne x = \<lfloor>x\<rfloor> + 1"
  by (auto simp: rne_def Let_def)

lemma rne_mono: "x \<le> y \<Longrightarrow> rne x \<le> rne y"
proof -
  assume xy: "x \<le> y"
  then have f: "\<lfloor>x\<rfloor> \<le> \<lfloor>y\<rfloor>" by (rule floor_mono)
  show ?thesis
  proof (cases "\<lfloor>x\<rfloor> = \<lfloor>y\<rfloor>")
    case True
    with xy show ?thesis by (auto simp: rne_def Let_def)
  next
    case False
    with f have "\<lfloor>x\<rfloor> + 1 \<le> \<lfloor>y\<rfloor>" by linarith
    with rne_range[of x] rne_range[of y] show ?thesis by linarith
  qed
qed

lemma rne_minus: "rne (- x) = - rne x"
proof (cases "x = of_int \<lfloor>x\<rfloor>")
  case True
  then have "rne (- x) = rne (of_int (- \<lfloor>x\<rfloor>))" by simp
  also have "\<dots> = - rne x" using True by (metis rne_of_int)
  finally show ?thesis .
next
  case False
  have "\<lfloor>- x\<rfloor> = - \<lfloor>x\<rfloor> - 1" using False by linarith
  then show ?thesis by (auto simp: rne_def Let_def)
qed

lemma rne_bound_le: "x \<le> of_int n \<Longrightarrow> rne x \<le> n"
  using rne_mono[of x "of_int n"] by simp

lemma rne_bound_ge: "of_int n \<le> x \<Longrightarrow> n \<le> rne x"
  using rne_mono[of "of_int n" x] by simp

section \<open>Rounding to 53 bits\<close>

definition expo :: "rat \<Rightarrow> int" where
  "expo x = max (ilog2 \<bar>x\<bar>) (- 1022)"

definition ulp :: "rat \<Rightarrow> rat" where
  "ulp x = p2 (expo x - 52)"

definition rndq :: "rat \<Rightarrow> rat" where
  "rndq x = (if x = 0 then 0 else of_int (rne (x / ulp x)) * ulp x)"

lemma ulp_pos [simp]: "0 < ulp x" "0 \<le> ulp x" "ulp x \<noteq> 0"
  by (simp_all add: ulp_def)

lemma expo_minus [simp]: "expo (- x) = expo x"
  by (simp add: expo_def)

lemma ulp_minus [simp]: "ulp (- x) = ulp x"
  by (simp add: ulp_def)

lemma rndq_0 [simp]: "rndq 0 = 0"
  by (simp add: rndq_def)

lemma rndq_minus: "rndq (- x) = - rndq x"
  by (simp add: rndq_def rne_minus)

lemma scaled_upper: "x \<noteq> 0 \<Longrightarrow> \<bar>x\<bar> / ulp x < 2 ^ 53"
proof -
  assume "x \<noteq> 0"
  then have "\<bar>x\<bar> < p2 (ilog2 \<bar>x\<bar> + 1)" using ilog2_bounds[of "\<bar>x\<bar>"] by simp
  also have "\<dots> \<le> p2 (expo x + 1)" by (rule p2_mono) (simp add: expo_def)
  also have "\<dots> = p2 (int 53) * ulp x" by (simp add: ulp_def p2_add[symmetric] add.commute)
  also have "\<dots> = 2 ^ 53 * ulp x" by (simp only: p2_nat)
  finally show ?thesis by (simp add: divide_less_eq)
qed

lemma scaled_lower: "x \<noteq> 0 \<Longrightarrow> - 1022 \<le> ilog2 \<bar>x\<bar> \<Longrightarrow> 2 ^ 52 \<le> \<bar>x\<bar> / ulp x"
proof -
  assume "x \<noteq> 0" "- 1022 \<le> ilog2 \<bar>x\<bar>"
  then have "2 ^ 52 * ulp x = p2 (int 52) * p2 (ilog2 \<bar>x\<bar> - 52)"
    by (simp only: ulp_def expo_def p2_nat max_absorb1)
  also have "\<dots> = p2 (ilog2 \<bar>x\<bar>)" by (simp add: p2_add[symmetric])
  also have "\<dots> \<le> \<bar>x\<bar>" using \<open>x \<noteq> 0\<close> ilog2_bounds[of "\<bar>x\<bar>"] by simp
  finally show ?thesis by (simp add: le_divide_eq)
qed

lemma rndq_nonneg: "0 \<le> x \<Longrightarrow> 0 \<le> rndq x"
  using rne_bound_ge[of 0 "x / ulp x"] by (simp add: rndq_def)

lemma rndq_nonpos: "x \<le> 0 \<Longrightarrow> rndq x \<le> 0"
  using rndq_nonneg[of "- x"] by (simp add: rndq_minus)

lemma rndq_mono_pos:
  assumes "0 < x" "x \<le> y"
  shows "rndq x \<le> rndq y"
proof (cases "expo x = expo y")
  case True
  then have "ulp x = ulp y" by (simp add: ulp_def)
  moreover have "rne (x / ulp y) \<le> rne (y / ulp y)"
    using assms by (intro rne_mono divide_right_mono) auto
  ultimately show ?thesis using assms by (simp add: rndq_def)
next
  case False
  have "ilog2 x \<le> ilog2 y" using assms by (rule ilog2_mono)
  with False assms have ey: "expo x + 1 \<le> expo y" "expo y = ilog2 y" "- 1022 \<le> ilog2 y"
    by (auto simp: expo_def)
  have "rne (x / ulp x) \<le> 2 ^ 53"
    using scaled_upper[of x] assms by (intro rne_bound_le) simp
  then have "rndq x \<le> of_int (2 ^ 53) * ulp x"
    using assms of_int_le_iff[of "rne (x / ulp x)" "2 ^ 53"] by (simp add: rndq_def mult_right_mono)
  also have "\<dots> = p2 (int 53) * ulp x" unfolding p2_nat by simp
  also have "\<dots> = p2 (expo x + 1)" by (simp only: ulp_def p2_add[symmetric]) (simp add: add.commute)
  also have "\<dots> \<le> p2 (expo y)" using ey by (intro p2_mono)
  also have "\<dots> = of_int (2 ^ 52) * ulp y"
    using p2_nat[of 52] by (simp add: ulp_def p2_diff field_simps)
  also have "\<dots> \<le> rndq y"
  proof -
    have "2 ^ 52 \<le> rne (y / ulp y)"
      using scaled_lower[of y] assms ey by (intro rne_bound_ge) simp
    then have "of_int (2 ^ 52) \<le> (of_int (rne (y / ulp y)) :: rat)" by (simp only: of_int_le_iff)
    then show ?thesis using assms by (simp add: rndq_def mult_right_mono)
  qed
  finally show ?thesis .
qed

lemma rndq_mono: "x \<le> y \<Longrightarrow> rndq x \<le> rndq y"
proof -
  assume xy: "x \<le> y"
  consider "0 < x" | "x \<le> 0" "0 \<le> y" | "y < 0" by linarith
  then show ?thesis
  proof cases
    case 1
    with xy show ?thesis by (simp add: rndq_mono_pos)
  next
    case 2
    then show ?thesis using rndq_nonneg[of y] rndq_nonpos[of x] by linarith
  next
    case 3
    with xy have "rndq (- y) \<le> rndq (- x)" by (intro rndq_mono_pos) auto
    then show ?thesis by (simp add: rndq_minus)
  qed
qed

text \<open>The values of the format: 53-bit significand, exponent of the last bit at least -1074.\<close>

definition representable :: "rat \<Rightarrow> bool" where
  "representable x \<longleftrightarrow> (\<exists>m k. x = of_int m * p2 k \<and> \<bar>m\<bar> \<le> 2 ^ 53 \<and> - 1074 \<le> k)"

lemma representable_norm:
  assumes "representable x"
  shows "\<exists>m k. x = of_int m * p2 k \<and> \<bar>m\<bar> < 2 ^ 53 \<and> - 1074 \<le> k"
proof -
  from assms obtain m k where m: "x = of_int m * p2 k" "\<bar>m\<bar> \<le> 2 ^ 53" "- 1074 \<le> k"
    by (auto simp: representable_def)
  show ?thesis
  proof (cases "\<bar>m\<bar> = 2 ^ 53")
    case True
    then have "m = 2 ^ 53 \<or> m = - (2 ^ 53)" by linarith
    then have ev: "m = 2 * (m div 2)" by (elim disjE) simp_all
    have "x = of_int (2 * (m div 2)) * p2 k" using m(1) ev by simp
    then have "x = of_int (m div 2) * p2 (k + 1)" by (simp add: p2_plus1)
    moreover have "\<bar>m div 2\<bar> < 2 ^ 53" using True by (auto simp: abs_if split: if_splits)
    ultimately
show ?thesis using m(3) by (intro exI[of _ "m div 2"] exI[of _ "k + 1"]) simp
  next
    case False
    with m(2) have "\<bar>m\<bar> < 2 ^ 53" by linarith
    with m show ?thesis by blast
  qed
qed

lemma rndq_exact:
  assumes "representable x"
  shows "rndq x = x"
proof (cases "x = 0")
  case False
  from representable_norm[OF assms] obtain m k
    where m: "x = of_int m * p2 k" "\<bar>m\<bar> < 2 ^ 53" "- 1074 \<le> k" by blast
  have "\<bar>x\<bar> = of_int \<bar>m\<bar> * p2 k" by (simp add: m(1) abs_mult)
  also have "\<dots> < of_int (2 ^ 53) * p2 k" using m(2) by (simp only: mult_less_cancel_right_pos p2_pos of_int_less_iff)
  also have "\<dots> = p2 (k + 53)" using p2_nat[of 53] by (simp add: p2_add)
  finally have "\<bar>x\<bar> < p2 (k + 53)" .
  moreover have "p2 (ilog2 \<bar>x\<bar>) \<le> \<bar>x\<bar>" using False ilog2_bounds[of "\<bar>x\<bar>"] by simp
  ultimately have "ilog2 \<bar>x\<bar> < k + 53" using p2_less_imp[of "ilog2 \<bar>x\<bar>" "k + 53"] by linarith
  with m(3) have e: "expo x - 52 \<le> k" by (simp add: expo_def)
  have "x / ulp x = of_int m * p2 (k - (expo x - 52))"
    by (simp add: m(1) ulp_def p2_diff)
  also have "\<dots> = of_int (m * 2 ^ nat (k - (expo x - 52)))"
    using e by (simp add: p2_nonneg_int)
  finally have s: "x / ulp x = of_int (m * 2 ^ nat (k - (expo x - 52)))" .
  have "rndq x = of_int (rne (x / ulp x)) * ulp x" using False by (simp add: rndq_def)
  also have "\<dots> = x / ulp x * ulp x" by (simp only: s rne_of_int)
  finally show ?thesis by simp
qed simp

lemma representable_rndq: "representable (rndq x)"
proof (cases "x = 0")
  case True
  then show ?thesis unfolding representable_def by (intro exI[of _ 0] exI[of _ 0]) simp
next
  case False
  then have u: "\<bar>x\<bar> / ulp x < 2 ^ 53" by (rule scaled_upper)
  then have "x / ulp x \<le> of_int (2 ^ 53)" "of_int (- (2 ^ 53)) \<le> x / ulp x"
    by (auto simp: abs_if field_simps split: if_splits)
  then have "rne (x / ulp x) \<le> 2 ^ 53" "- (2 ^ 53) \<le> rne (x / ulp x)"
    by (blast intro: rne_bound_le rne_bound_ge)+
  then show ?thesis using False unfolding representable_def
    by (intro exI[of _ "rne (x / ulp x)"] exI[of _ "expo x - 52"])
       (auto simp: rndq_def ulp_def expo_def)
qed

lemma rndq_idem [simp]: "rndq (rndq x) = rndq x"
  by (rule rndq_exact[OF representable_rndq])

lemma representable_int: "\<bar>n\<bar> \<le> 2 ^ 53 \<Longrightarrow> representable (of_int n)"
  unfolding representable_def by (intro exI[of _ n] exI[of _ 0]) simp

lemma rndq_int: "\<bar>n\<bar> \<le> 2 ^ 53 \<Longrightarrow> rndq (of_int n) = of_int n"
  by (intro rndq_exact representable_int)

lemma rndq_error: "\<bar>rndq x - x\<bar> \<le> ulp x / 2"
proof (cases "x = 0")
  case False
  have "rndq x - x = (of_int (rne (x / ulp x)) - x / ulp x) * ulp x"
    using False by (simp add: rndq_def algebra_simps)
  then have "\<bar>rndq x - x\<bar> = \<bar>of_int (rne (x / ulp x)) - x / ulp x\<bar> * ulp x"
    by (simp add: abs_mult)
  also have "\<dots> \<le> 1 / 2 * ulp x" by (intro mult_right_mono rne_error) simp
  finally show ?thesis by simp
qed simp

lemma rndq_rel_error:
  assumes "p2 (- 1022) \<le> \<bar>x\<bar>"
  shows "\<bar>rndq x - x\<bar> \<le> \<bar>x\<bar> * p2 (- 53)"
proof -
  have x: "x \<noteq> 0" using assms p2_pos[of "- 1022"] by (metis abs_zero not_le)
  then have "p2 (ilog2 \<bar>x\<bar>) \<le> \<bar>x\<bar>" "\<bar>x\<bar> < p2 (ilog2 \<bar>x\<bar> + 1)" using ilog2_bounds[of "\<bar>x\<bar>"] by auto
  moreover from this have "- 1022 \<le> ilog2 \<bar>x\<bar>"
    using assms p2_less_imp[of "- 1022" "ilog2 \<bar>x\<bar> + 1"] by linarith
  moreover from this have "ulp x = p2 (ilog2 \<bar>x\<bar>) * p2 (- 52)"
    by (simp add: ulp_def expo_def p2_add[symmetric])
  ultimately have "ulp x \<le> \<bar>x\<bar> * p2 (- 52)" by (simp add: mult_right_mono)
  moreover have "p2 (- 52) = 2 * p2 (- 53)" using p2_plus1[of "- 53"] by simp
  ultimately show ?thesis using rndq_error[of x] by simp
qed

lemma rndq_le_int: "x \<le> of_int n \<Longrightarrow> \<bar>n\<bar> \<le> 2 ^ 53 \<Longrightarrow> rndq x \<le> of_int n"
  using rndq_mono[of x "of_int n"] by (simp add: rndq_int)

lemma rndq_ge_int: "of_int n \<le> x \<Longrightarrow> \<bar>n\<bar> \<le> 2 ^ 53 \<Longrightarrow> of_int n \<le> rndq x"
  using rndq_mono[of "of_int n" x] by (simp add: rndq_int)

section \<open>Values and operations\<close>

datatype f64 = Fin rat | PInf | NInf | NaN

definition rnd :: "rat \<Rightarrow> f64" where
  "rnd x = (let r = rndq x in
     if p2 1024 \<le> r then PInf else if r \<le> - p2 1024 then NInf else Fin r)"

fun feq :: "f64 \<Rightarrow> f64 \<Rightarrow> bool" where
  "feq (Fin a) (Fin b) = (a = b)"
| "feq PInf PInf = True"
| "feq NInf NInf = True"
| "feq _ _ = False"

fun flt :: "f64 \<Rightarrow> f64 \<Rightarrow> bool" where
  "flt (Fin a) (Fin b) = (a < b)"
| "flt (Fin a) PInf = True"
| "flt NInf (Fin b) = True"
| "flt NInf PInf = True"
| "flt _ _ = False"

definition fle :: "f64 \<Rightarrow> f64 \<Rightarrow> bool" where
  "fle x y \<longleftrightarrow> flt x y \<or> feq x y"

fun fneg :: "f64 \<Rightarrow> f64" where
  "fneg (Fin a) = Fin (- a)"
| "fneg PInf = NInf"
| "fneg NInf = PInf"
| "fneg NaN = NaN"

fun fadd :: "f64 \<Rightarrow> f64 \<Rightarrow> f64" where
  "fadd NaN _ = NaN"
| "fadd _ NaN = NaN"
| "fadd (Fin a) (Fin b) = rnd (a + b)"
| "fadd PInf NInf = NaN"
| "fadd NInf PInf = NaN"
| "fadd PInf _ = PInf"
| "fadd _ PInf = PInf"
| "fadd NInf _ = NInf"
| "fadd _ NInf = NInf"

definition fsub :: "f64 \<Rightarrow> f64 \<Rightarrow> f64" where
  "fsub x y = fadd x (fneg y)"

text \<open>The infinity a product or quotient overflows to, by the sign of the operands.\<close>

fun fsgn :: "f64 \<Rightarrow> rat" where
  "fsgn (Fin a) = sgn a"
| "fsgn PInf = 1"
| "fsgn NInf = - 1"
| "fsgn NaN = 0"

definition inf_of :: "rat \<Rightarrow> f64" where
  "inf_of s = (if 0 < s then PInf else if s < 0 then NInf else NaN)"

fun fmul :: "f64 \<Rightarrow> f64 \<Rightarrow> f64" where
  "fmul NaN _ = NaN"
| "fmul _ NaN = NaN"
| "fmul (Fin a) (Fin b) = rnd (a * b)"
| "fmul x y = inf_of (fsgn x * fsgn y)"

text \<open>A zero divisor is the positive zero: the modelled code divides by constants and counts only.\<close>

fun fdiv :: "f64 \<Rightarrow> f64 \<Rightarrow> f64" where
  "fdiv NaN _ = NaN"
| "fdiv _ NaN = NaN"
| "fdiv (Fin a) (Fin b) = (if b = 0 then inf_of (sgn a) else rnd (a / b))"
| "fdiv (Fin a) _ = Fin 0"
| "fdiv x (Fin b) = (if b = 0 then x else inf_of (fsgn x * sgn b))"
| "fdiv _ _ = NaN"

text \<open>\<^verbatim>\<open>math.Abs\<close>, \<^verbatim>\<open>math.Round\<close> (half away from zero, exact), and the conversions.\<close>

fun fabs :: "f64 \<Rightarrow> f64" where
  "fabs (Fin a) = Fin \<bar>a\<bar>"
| "fabs NInf = PInf"
| "fabs x = x"

fun fround :: "f64 \<Rightarrow> f64" where
  "fround (Fin a) = Fin (if 0 \<le> a then of_int \<lfloor>a + 1 / 2\<rfloor> else - of_int \<lfloor>1 / 2 - a\<rfloor>)"
| "fround x = x"

definition f_of_int :: "int \<Rightarrow> f64" where
  "f_of_int n = rnd (of_int n)"

text \<open>
  \<^verbatim>\<open>int64(f)\<close> truncates towards zero; out of range the result is that of amd64
  (\<^verbatim>\<open>CVTTSD2SQ\<close>), the least \<^verbatim>\<open>int64\<close>.
\<close>

definition trunc :: "rat \<Rightarrow> int" where
  "trunc a = (if 0 \<le> a then \<lfloor>a\<rfloor> else - \<lfloor>- a\<rfloor>)"

fun int64_of :: "f64 \<Rightarrow> int" where
  "int64_of (Fin a) = (if - (2 ^ 63) \<le> trunc a \<and> trunc a < 2 ^ 63 then trunc a else - (2 ^ 63))"
| "int64_of _ = - (2 ^ 63)"

section \<open>Facts about the operations\<close>

lemma fle_simps [simp]:
  "fle (Fin a) (Fin b) \<longleftrightarrow> a \<le> b" "fle (Fin a) PInf" "\<not> fle (Fin a) NInf" "fle NInf (Fin b)"
  "\<not> fle PInf (Fin b)" "\<not> fle NaN y" "\<not> fle x NaN"
  by (auto simp: fle_def elim: flt.elims feq.elims)

lemma flt_NaN [simp]: "\<not> flt NaN y" "\<not> flt x NaN"
  by (auto elim: flt.elims)

lemma feq_NaN [simp]: "\<not> feq NaN y" "\<not> feq x NaN"
  by (auto elim: feq.elims)

lemma fle_trans: "fle x y \<Longrightarrow> fle y z \<Longrightarrow> fle x z"
  by (cases x; cases y; cases z) (auto simp: fle_def)

lemma flt_le_trans: "flt x y \<Longrightarrow> fle y z \<Longrightarrow> flt x z"
  by (cases x; cases y; cases z) (auto simp: fle_def)

lemma flt_irrefl [simp]: "\<not> flt x x"
  by (cases x) auto

lemma flt_imp_fle: "flt x y \<Longrightarrow> fle x y"
  by (simp add: fle_def)

lemma fle_total: "x \<noteq> NaN \<Longrightarrow> y \<noteq> NaN \<Longrightarrow> fle x y \<or> flt y x"
  by (cases x; cases y) (auto simp: fle_def)

lemma flt_not_fle: "flt x y \<Longrightarrow> \<not> fle y x"
  by (cases x; cases y) (auto simp: fle_def)

lemma rnd_cases: "rnd x = Fin (rndq x) \<or> rnd x = PInf \<or> rnd x = NInf"
  by (simp add: rnd_def Let_def)

lemma rnd_not_NaN [simp]: "rnd x \<noteq> NaN"
  by (simp add: rnd_def Let_def)

lemma rnd_Fin: "rnd x = Fin a \<Longrightarrow> a = rndq x"
  by (auto simp: rnd_def Let_def split: if_splits)

lemma p2_1024_gt: "(2 :: rat) ^ 53 < p2 1024"
  using p2_strict_mono[of "int 53" 1024] unfolding p2_nat by simp

lemma rnd_small: "\<bar>x\<bar> \<le> 2 ^ 53 \<Longrightarrow> rnd x = Fin (rndq x)"
proof -
  assume x: "\<bar>x\<bar> \<le> 2 ^ 53"
  then have "x \<le> of_int (2 ^ 53)" "of_int (- (2 ^ 53)) \<le> x" by (auto simp: abs_le_iff)
  then have "rndq x \<le> of_int (2 ^ 53)" "of_int (- (2 ^ 53)) \<le> rndq x"
    by (intro rndq_le_int rndq_ge_int; simp only: abs_minus_cancel abs_power2)+
  then show ?thesis using p2_1024_gt by (auto simp: rnd_def Let_def)
qed

lemma rnd_int [simp]: "\<bar>n\<bar> \<le> 2 ^ 53 \<Longrightarrow> rnd (of_int n) = Fin (of_int n)"
proof -
  assume n: "\<bar>n\<bar> \<le> 2 ^ 53"
  then have "(of_int \<bar>n\<bar> :: rat) \<le> of_int (2 ^ 53)" by (simp only: of_int_le_iff)
  then have "\<bar>of_int n :: rat\<bar> \<le> 2 ^ 53" by simp
  then show ?thesis using n by (simp add: rnd_small rndq_int)
qed

lemma rnd_0 [simp]: "rnd 0 = Fin 0"
  using rnd_int[of 0] by simp

lemma rnd_mono: "x \<le> y \<Longrightarrow> fle (rnd x) (rnd y)"
  using rndq_mono[of x y] p2_pos[of 1024]
  by (auto simp: rnd_def Let_def fle_def not_le)

lemma rnd_rndq [simp]: "rnd (rndq x) = rnd x"
  by (simp add: rnd_def)

text \<open>Whole amounts: on integers of at most \<open>2 ^ 53\<close> the operations are exact.\<close>

abbreviation Whole :: "int \<Rightarrow> f64" where
  "Whole n \<equiv> Fin (of_int n)"

lemma fadd_whole: "\<bar>a + b\<bar> \<le> 2 ^ 53 \<Longrightarrow> fadd (Whole a) (Whole b) = Whole (a + b)"
  using rnd_int[of "a + b"] by simp

lemma fsub_whole: "\<bar>a - b\<bar> \<le> 2 ^ 53 \<Longrightarrow> fsub (Whole a) (Whole b) = Whole (a - b)"
  using rnd_int[of "a - b"] by (simp add: fsub_def)

lemma fmul_whole: "\<bar>a * b\<bar> \<le> 2 ^ 53 \<Longrightarrow> fmul (Whole a) (Whole b) = Whole (a * b)"
  using rnd_int[of "a * b"] by simp

lemma f_of_int_whole: "\<bar>n\<bar> \<le> 2 ^ 53 \<Longrightarrow> f_of_int n = Whole n"
  by (simp add: f_of_int_def)

lemma rnd_between_inf: "fle (rnd x) PInf" "fle NInf (rnd x)"
  using rnd_cases[of x] by (auto simp: fle_def)

lemma fadd_mono_left: "fle x y \<Longrightarrow> fadd x z \<noteq> NaN \<Longrightarrow> fadd y z \<noteq> NaN \<Longrightarrow> fle (fadd x z) (fadd y z)"
  using rnd_between_inf
  by (cases x; cases y; cases z) (auto simp: fle_def[of PInf] fle_def[of NInf] intro!: rnd_mono)

section \<open>Evaluation\<close>

text \<open>Halves and quarters of small integers need no rounding, and small results no overflow check.\<close>

definition rnd_big :: "rat \<Rightarrow> f64" where
  "rnd_big x = rnd x"

lemma rnd_big_code [code]: "rnd_big x = (let r = rndq x in
     if p2 1024 \<le> r then PInf else if r \<le> - p2 1024 then NInf else Fin r)"
  by (simp add: rnd_big_def rnd_def)

lemma rnd_code [code]: "rnd x = (let (p, q) = quotient_of x in
     if (q = 1 \<or> q = 2 \<or> q = 4) \<and> \<bar>p\<bar> \<le> 9007199254740992 then Fin x
     else if \<bar>p\<bar> \<le> 9007199254740992 * q then Fin (rndq x) else rnd_big x)"
proof -
  obtain p q where pq: "quotient_of x = (p, q)" by (cases "quotient_of x")
  then have x: "x = of_int p / of_int q" by (rule quotient_of_div)
  have q: "0 < q" using pq by (rule quotient_of_denom_pos)
  have small: "rnd x = Fin (rndq x)" if "\<bar>p\<bar> \<le> 2 ^ 53 * q"
  proof (rule rnd_small)
    have "of_int \<bar>p\<bar> \<le> (of_int (2 ^ 53 * q) :: rat)" using that by (simp only: of_int_le_iff)
    then show "\<bar>x\<bar> \<le> 2 ^ 53" using q by (simp add: x divide_le_eq)
  qed
  have "rndq x = x" if c: "q = 1 \<or> q = 2 \<or> q = 4" "\<bar>p\<bar> \<le> 2 ^ 53"
  proof (rule rndq_exact)
    obtain k where k: "q = 2 ^ k" "k \<le> 2" using c(1) by (auto intro: that[of 0] that[of 1] that[of 2])
    then have "x = of_int p * p2 (- int k)"
      by (simp add: x p2_def power_int_minus divide_inverse)
    with c(2) k(2) show "representable x" unfolding representable_def
      by (intro exI[of _ p] exI[of _ "- int k"]) simp
  qed
  moreover have "\<bar>p\<bar> \<le> 2 ^ 53 * q" if "\<bar>p\<bar> \<le> 2 ^ 53"
    using that mult_left_mono[of 1 q "2 ^ 53"] q by linarith
  ultimately show ?thesis using small by (auto simp: pq rnd_big_def)
qed

end
