(* ===== verification/PaymentDomain.thy ===== *)
theory PaymentDomain
  imports Float64
begin

text \<open>
  The entities of the payment context (\<^verbatim>\<open>internal/payment/domain\<close>): payment intents,
  refunds, inbound webhooks, gateways and saved methods, each with its constructor and its
  transition methods. A method that returns an error returns \<open>Inl\<close> and leaves the receiver
  unchanged; the clock reading and a fresh identifier are arguments. The second half states,
  for the intent and the refund, the graph of legal transitions as a step relation, shows
  that the methods realise exactly that graph, and proves the entity invariants over every
  sequence of method calls.
\<close>

section \<open>Payment intents (payment_intent.go)\<close>

datatype payment_status =
    PaymentStatusCreated | PaymentStatusRouting | PaymentStatusPending | PaymentStatusSucceeded
  | PaymentStatusFailed | PaymentStatusExpired | PaymentStatusCancelled | PaymentStatusRefunded
  | PaymentStatusPartiallyRefunded

fun payment_status_text :: "payment_status \<Rightarrow> string" where
  "payment_status_text PaymentStatusCreated = ''created''"
| "payment_status_text PaymentStatusRouting = ''routing''"
| "payment_status_text PaymentStatusPending = ''pending''"
| "payment_status_text PaymentStatusSucceeded = ''succeeded''"
| "payment_status_text PaymentStatusFailed = ''failed''"
| "payment_status_text PaymentStatusExpired = ''expired''"
| "payment_status_text PaymentStatusCancelled = ''cancelled''"
| "payment_status_text PaymentStatusRefunded = ''refunded''"
| "payment_status_text PaymentStatusPartiallyRefunded = ''partially_refunded''"

definition payment_IsTerminal :: "payment_status \<Rightarrow> bool" where
  "payment_IsTerminal s = (case s of
      PaymentStatusFailed \<Rightarrow> True | PaymentStatusExpired \<Rightarrow> True
    | PaymentStatusCancelled \<Rightarrow> True | PaymentStatusRefunded \<Rightarrow> True | _ \<Rightarrow> False)"

record route_decision =
  chosen_gateway_id :: uuid
  chosen_gateway_code :: string
  considered_count :: int
  considered_codes :: "string list"
  rd_reason :: string
  decided_at :: time

record payment_intent =
  pi_id :: uuid
  pi_invoice_id :: uuid
  pi_customer_id :: "uuid option"
  pi_gateway_id :: "uuid option"
  pi_amount :: f64
  pi_currency :: string
  pi_status :: payment_status
  pi_routing :: "route_decision option"
  pi_idempotency_key :: "string option"
  pi_external_ref :: "string option"
  pi_paid_at :: "time option"
  pi_expired_at :: "time option"
  pi_cancelled_at :: "time option"
  pi_failure_code :: string
  pi_failure_reason :: string
  pi_refunded_amount :: f64
  pi_created_at :: time
  pi_updated_at :: time

definition NewPaymentIntent ::
    "uuid \<Rightarrow> time \<Rightarrow> uuid \<Rightarrow> f64 \<Rightarrow> string \<Rightarrow> payment_intent res" where
  "NewPaymentIntent fresh now invoice_id amount idempotency_key =
    (if invoice_id = Nil_uuid then
       Inl (Validation ''intent.invoice_required'' ''invoice_id is required'')
     else if fle amount (Fin 0) then
       Inl (Validation ''intent.amount_invalid'' ''amount must be > 0'')
     else Inr \<lparr>pi_id = fresh, pi_invoice_id = invoice_id, pi_customer_id = None,
       pi_gateway_id = None, pi_amount = amount, pi_currency = ''IDR'',
       pi_status = PaymentStatusCreated, pi_routing = None,
       pi_idempotency_key = (let k = TrimSpace idempotency_key in if k \<noteq> [] then Some k else None),
       pi_external_ref = None, pi_paid_at = None, pi_expired_at = None, pi_cancelled_at = None,
       pi_failure_code = [], pi_failure_reason = [], pi_refunded_amount = Fin 0,
       pi_created_at = now, pi_updated_at = now\<rparr>)"

definition Route :: "time \<Rightarrow> uuid \<Rightarrow> route_decision \<Rightarrow> payment_intent \<Rightarrow> payment_intent res" where
  "Route now gateway_id decision i =
    (if pi_status i \<noteq> PaymentStatusCreated \<and> pi_status i \<noteq> PaymentStatusRouting then
       Inl (Conflict ''intent.cannot_route''
         ''only intents in 'created' or 'routing' state can be routed'')
     else if gateway_id = Nil_uuid then
       Inl (Validation ''intent.gateway_required'' ''gateway_id is required to route'')
     else Inr (i\<lparr>pi_gateway_id := Some gateway_id, pi_routing := Some decision,
                 pi_status := PaymentStatusRouting, pi_updated_at := now\<rparr>))"

definition MarkPending :: "time \<Rightarrow> string \<Rightarrow> payment_intent \<Rightarrow> payment_intent res" where
  "MarkPending now external_ref i =
    (if pi_status i \<noteq> PaymentStatusRouting then
       Inl (Conflict ''intent.cannot_mark_pending''
         (''only intents in 'routing' state can move to '' @ quoted ''pending''))
     else let ref = TrimSpace external_ref in
       if ref = [] then
         Inl (Validation ''intent.external_ref_required'' ''external_payment_ref is required'')
       else Inr (i\<lparr>pi_external_ref := Some ref, pi_status := PaymentStatusPending,
                   pi_updated_at := now\<rparr>))"

definition MarkSucceeded :: "time \<Rightarrow> time \<Rightarrow> payment_intent \<Rightarrow> payment_intent res" where
  "MarkSucceeded now paid_time i =
    (if pi_status i = PaymentStatusSucceeded then Inr i
     else if pi_status i \<noteq> PaymentStatusPending then
       Inl (Conflict ''intent.cannot_mark_succeeded''
         ''only intents in 'pending' state can succeed'')
     else Inr (i\<lparr>pi_paid_at := Some paid_time, pi_status := PaymentStatusSucceeded,
                 pi_updated_at := now\<rparr>))"

definition MarkFailed :: "time \<Rightarrow> string \<Rightarrow> string \<Rightarrow> payment_intent \<Rightarrow> payment_intent res" where
  "MarkFailed now code reason i =
    (if pi_status i \<noteq> PaymentStatusPending \<and> pi_status i \<noteq> PaymentStatusRouting then
       Inl (Conflict ''intent.cannot_mark_failed''
         ''only intents in 'routing' or 'pending' state can fail'')
     else Inr (i\<lparr>pi_failure_code := TrimSpace code, pi_failure_reason := TrimSpace reason,
                 pi_status := PaymentStatusFailed, pi_updated_at := now\<rparr>))"

definition MarkExpired :: "time \<Rightarrow> payment_intent \<Rightarrow> payment_intent res" where
  "MarkExpired now i =
    (if pi_status i \<noteq> PaymentStatusPending then
       Inl (Conflict ''intent.cannot_mark_expired''
         ''only intents in 'pending' state can expire'')
     else Inr (i\<lparr>pi_expired_at := Some now, pi_status := PaymentStatusExpired,
                 pi_updated_at := now\<rparr>))"

definition MarkCancelled :: "time \<Rightarrow> payment_intent \<Rightarrow> payment_intent res" where
  "MarkCancelled now i =
    (if pi_status i = PaymentStatusCancelled then Inr i
     else if pi_status i \<in> {PaymentStatusCreated, PaymentStatusRouting, PaymentStatusPending} then
       Inr (i\<lparr>pi_cancelled_at := Some now, pi_status := PaymentStatusCancelled,
              pi_updated_at := now\<rparr>)
     else Inl (Conflict ''intent.cannot_cancel''
       ''only non-terminal pre-success intents can be cancelled''))"

definition MarkPartiallyRefunded :: "time \<Rightarrow> f64 \<Rightarrow> payment_intent \<Rightarrow> payment_intent res" where
  "MarkPartiallyRefunded now cumulative i =
    (if pi_status i \<noteq> PaymentStatusSucceeded \<and> pi_status i \<noteq> PaymentStatusPartiallyRefunded then
       Inl (Conflict ''intent.cannot_partially_refund''
         ''only succeeded or partially-refunded intents can absorb a partial refund'')
     else if fle cumulative (Fin 0) then
       Inl (Validation ''intent.refund_amount_invalid'' ''refunded amount must be > 0'')
     else if fle (pi_amount i) cumulative then
       Inl (Validation ''intent.refund_exceeds_amount''
         ''cumulative refund must be strictly less than the intent amount; use MarkFullyRefunded for equal amounts'')
     else Inr (i\<lparr>pi_refunded_amount := cumulative, pi_status := PaymentStatusPartiallyRefunded,
                 pi_updated_at := now\<rparr>))"

definition MarkFullyRefunded :: "time \<Rightarrow> payment_intent \<Rightarrow> payment_intent res" where
  "MarkFullyRefunded now i =
    (if pi_status i \<noteq> PaymentStatusSucceeded \<and> pi_status i \<noteq> PaymentStatusPartiallyRefunded then
       Inl (Conflict ''intent.cannot_fully_refund''
         ''only succeeded or partially-refunded intents can be fully refunded'')
     else Inr (i\<lparr>pi_refunded_amount := pi_amount i, pi_status := PaymentStatusRefunded,
                 pi_updated_at := now\<rparr>))"

lemmas intent_defs = Route_def MarkPending_def MarkSucceeded_def MarkFailed_def MarkExpired_def
  MarkCancelled_def MarkPartiallyRefunded_def MarkFullyRefunded_def

section \<open>Refunds (refund.go)\<close>

datatype refund_status =
    RefundStatusRequested | RefundStatusApproved | RefundStatusProcessing
  | RefundStatusCompleted | RefundStatusRejected | RefundStatusFailed

fun refund_status_text :: "refund_status \<Rightarrow> string" where
  "refund_status_text RefundStatusRequested = ''requested''"
| "refund_status_text RefundStatusApproved = ''approved''"
| "refund_status_text RefundStatusProcessing = ''processing''"
| "refund_status_text RefundStatusCompleted = ''completed''"
| "refund_status_text RefundStatusRejected = ''rejected''"
| "refund_status_text RefundStatusFailed = ''failed''"

definition refund_IsTerminal :: "refund_status \<Rightarrow> bool" where
  "refund_IsTerminal s = (case s of
      RefundStatusCompleted \<Rightarrow> True | RefundStatusRejected \<Rightarrow> True | RefundStatusFailed \<Rightarrow> True
    | _ \<Rightarrow> False)"

record refund =
  rf_id :: uuid
  rf_intent_id :: uuid
  rf_amount :: f64
  rf_reason :: string
  rf_status :: refund_status
  rf_external_ref :: "string option"
  rf_requested_by :: "uuid option"
  rf_approved_by :: "uuid option"
  rf_approved_at :: "time option"
  rf_completed_at :: "time option"
  rf_created_at :: time
  rf_updated_at :: time

definition NewRefund ::
    "uuid \<Rightarrow> time \<Rightarrow> uuid \<Rightarrow> f64 \<Rightarrow> string \<Rightarrow> uuid option \<Rightarrow> refund res" where
  "NewRefund fresh now intent_id amount reason requested_by =
    (if intent_id = Nil_uuid then
       Inl (Validation ''refund.intent_required'' ''payment_intent_id is required'')
     else if fle amount (Fin 0) then
       Inl (Validation ''refund.amount_invalid'' ''amount must be > 0'')
     else Inr \<lparr>rf_id = fresh, rf_intent_id = intent_id, rf_amount = amount,
       rf_reason = TrimSpace reason, rf_status = RefundStatusRequested, rf_external_ref = None,
       rf_requested_by = requested_by, rf_approved_by = None, rf_approved_at = None,
       rf_completed_at = None, rf_created_at = now, rf_updated_at = now\<rparr>)"

definition refund_Approve :: "time \<Rightarrow> uuid \<Rightarrow> refund \<Rightarrow> refund res" where
  "refund_Approve now by_user r =
    (if rf_status r \<noteq> RefundStatusRequested then
       Inl (Conflict ''refund.cannot_approve'' ''only requested refunds can be approved'')
     else if by_user = Nil_uuid then
       Inl (Validation ''refund.approver_required'' ''approver user id is required'')
     else Inr (r\<lparr>rf_approved_by := Some by_user, rf_approved_at := Some now,
                 rf_status := RefundStatusApproved, rf_updated_at := now\<rparr>))"

text \<open>The rationale of a rejection or failure is appended to the reason already there.\<close>

definition append_reason :: "string \<Rightarrow> string \<Rightarrow> refund \<Rightarrow> refund" where
  "append_reason tag reason r =
    (let t = TrimSpace reason in
     if t \<noteq> [] then
       (if rf_reason r \<noteq> [] then r\<lparr>rf_reason := rf_reason r @ '' | '' @ tag @ t\<rparr>
        else r\<lparr>rf_reason := tag @ t\<rparr>)
     else r)"

definition refund_Reject :: "time \<Rightarrow> string \<Rightarrow> refund \<Rightarrow> refund res" where
  "refund_Reject now reason r =
    (if rf_status r \<noteq> RefundStatusRequested then
       Inl (Conflict ''refund.cannot_reject'' ''only requested refunds can be rejected'')
     else Inr ((append_reason ''rejected: '' reason r)
                 \<lparr>rf_status := RefundStatusRejected, rf_updated_at := now\<rparr>))"

definition StartProcessing :: "time \<Rightarrow> refund \<Rightarrow> refund res" where
  "StartProcessing now r =
    (if rf_status r \<noteq> RefundStatusApproved then
       Inl (Conflict ''refund.cannot_start_processing''
         ''only approved refunds can move to processing'')
     else Inr (r\<lparr>rf_status := RefundStatusProcessing, rf_updated_at := now\<rparr>))"

definition refund_MarkCompleted :: "time \<Rightarrow> string \<Rightarrow> refund \<Rightarrow> refund res" where
  "refund_MarkCompleted now external_ref r =
    (if rf_status r \<noteq> RefundStatusProcessing then
       Inl (Conflict ''refund.cannot_complete'' ''only processing refunds can be marked completed'')
     else let ref = TrimSpace external_ref;
              r' = (if ref \<noteq> [] then r\<lparr>rf_external_ref := Some ref\<rparr> else r)
          in Inr (r'\<lparr>rf_completed_at := Some now, rf_status := RefundStatusCompleted,
                     rf_updated_at := now\<rparr>))"

definition refund_MarkFailed :: "time \<Rightarrow> string \<Rightarrow> refund \<Rightarrow> refund res" where
  "refund_MarkFailed now reason r =
    (if rf_status r \<noteq> RefundStatusProcessing then
       Inl (Conflict ''refund.cannot_fail'' ''only processing refunds can be marked failed'')
     else Inr ((append_reason ''failed: '' reason r)
                 \<lparr>rf_status := RefundStatusFailed, rf_updated_at := now\<rparr>))"

lemmas refund_defs = refund_Approve_def refund_Reject_def StartProcessing_def
  refund_MarkCompleted_def refund_MarkFailed_def

section \<open>Webhooks (payment_webhook.go)\<close>

datatype webhook_status =
    WebhookStatusReceived | WebhookStatusVerified | WebhookStatusProcessed | WebhookStatusFailed
  | WebhookStatusDuplicate | WebhookStatusSuspect

record payment_webhook =
  wh_id :: uuid
  wh_gateway_id :: uuid
  wh_event_id :: string
  wh_payload :: string
  wh_signature_valid :: bool
  wh_status :: webhook_status
  wh_intent_id :: "uuid option"
  wh_error_msg :: string
  wh_received_at :: time
  wh_processed_at :: "time option"

definition NewPaymentWebhook ::
    "uuid \<Rightarrow> time \<Rightarrow> uuid \<Rightarrow> string \<Rightarrow> string \<Rightarrow> payment_webhook res" where
  "NewPaymentWebhook fresh now gateway_id external_event_id payload =
    (if gateway_id = Nil_uuid then
       Inl (Validation ''webhook.gateway_required'' ''gateway_id is required'')
     else let ev = TrimSpace external_event_id in
       if ev = [] then
         Inl (Validation ''webhook.event_id_required'' ''external_event_id is required'')
       else if payload = [] then
         Inl (Validation ''webhook.payload_empty'' ''payload is required'')
       else Inr \<lparr>wh_id = fresh, wh_gateway_id = gateway_id, wh_event_id = ev,
         wh_payload = payload, wh_signature_valid = False, wh_status = WebhookStatusReceived,
         wh_intent_id = None, wh_error_msg = [], wh_received_at = now, wh_processed_at = None\<rparr>)"

definition MarkVerified :: "payment_webhook \<Rightarrow> payment_webhook res" where
  "MarkVerified w =
    (if wh_status w = WebhookStatusVerified then Inr w
     else if wh_status w \<noteq> WebhookStatusReceived then
       Inl (Conflict ''webhook.cannot_verify'' ''only received webhooks can be verified'')
     else Inr (w\<lparr>wh_signature_valid := True, wh_status := WebhookStatusVerified\<rparr>))"

definition MarkProcessed :: "time \<Rightarrow> uuid option \<Rightarrow> payment_webhook \<Rightarrow> payment_webhook res" where
  "MarkProcessed now intent_id w =
    (if wh_status w \<noteq> WebhookStatusVerified then
       Inl (Conflict ''webhook.cannot_process'' ''only verified webhooks can be marked processed'')
     else Inr (w\<lparr>wh_intent_id := intent_id, wh_processed_at := Some now,
                 wh_status := WebhookStatusProcessed\<rparr>))"

definition MarkSuspect :: "string \<Rightarrow> payment_webhook \<Rightarrow> payment_webhook" where
  "MarkSuspect reason w = w\<lparr>wh_signature_valid := False, wh_status := WebhookStatusSuspect,
                            wh_error_msg := TrimSpace reason\<rparr>"

definition MarkDuplicate :: "payment_webhook \<Rightarrow> payment_webhook" where
  "MarkDuplicate w = w\<lparr>wh_status := WebhookStatusDuplicate\<rparr>"

definition webhook_MarkFailed :: "string \<Rightarrow> payment_webhook \<Rightarrow> payment_webhook" where
  "webhook_MarkFailed reason w = w\<lparr>wh_status := WebhookStatusFailed, wh_error_msg := TrimSpace reason\<rparr>"

section \<open>Gateways and saved methods (payment_gateway.go, payment_method.go)\<close>

datatype gateway_kind =
    GatewayKindVABank | GatewayKindVAAggregator | GatewayKindEWallet | GatewayKindQRIS
  | GatewayKindH2HBank | GatewayKindCard | GatewayKindCrypto
  | GatewayKindOther string \<comment> \<open>any other text a caller converts to \<^verbatim>\<open>GatewayKind\<close>\<close>

definition kind_Valid :: "gateway_kind \<Rightarrow> bool" where
  "kind_Valid k = (case k of GatewayKindOther _ \<Rightarrow> False | _ \<Rightarrow> True)"

record payment_gateway =
  gw_id :: uuid
  gw_code :: string
  gw_name :: string
  gw_kind :: gateway_kind
  gw_is_active :: bool
  gw_priority :: int
  gw_supported_methods :: "string list"
  gw_min_amount :: "f64 option"
  gw_max_amount :: "f64 option"
  gw_config_encrypted :: string
  gw_config_key_version :: int
  gw_created_at :: time
  gw_updated_at :: time

definition NewPaymentGateway ::
    "uuid \<Rightarrow> time \<Rightarrow> string \<Rightarrow> string \<Rightarrow> gateway_kind \<Rightarrow> int \<Rightarrow> payment_gateway res" where
  "NewPaymentGateway fresh now code0 name0 kind priority =
    (let code = TrimSpace code0; name = TrimSpace name0 in
     if code = [] then Inl (Validation ''gateway.code_required'' ''code is required'')
     else if name = [] then Inl (Validation ''gateway.name_required'' ''name is required'')
     else if \<not> kind_Valid kind then
       Inl (Validation ''gateway.kind_invalid'' ''kind must be a recognised value'')
     else Inr \<lparr>gw_id = fresh, gw_code = code, gw_name = name, gw_kind = kind,
       gw_is_active = True, gw_priority = priority, gw_supported_methods = [],
       gw_min_amount = None, gw_max_amount = None, gw_config_encrypted = [],
       gw_config_key_version = 1, gw_created_at = now, gw_updated_at = now\<rparr>)"

definition MatchesAmount :: "payment_gateway \<Rightarrow> f64 \<Rightarrow> bool" where
  "MatchesAmount g amount =
    (if (case gw_min_amount g of Some m \<Rightarrow> flt amount m | None \<Rightarrow> False) then False
     else if (case gw_max_amount g of Some m \<Rightarrow> flt m amount | None \<Rightarrow> False) then False
     else True)"

definition SupportsMethod :: "payment_gateway \<Rightarrow> string \<Rightarrow> bool" where
  "SupportsMethod g method =
    (if gw_supported_methods g = [] then True else method \<in> set (gw_supported_methods g))"

record payment_method =
  pm_id :: uuid
  pm_customer_id :: uuid
  pm_kind :: string
  pm_gateway_id :: uuid
  pm_masked_account :: string
  pm_expires_at :: "time option"
  pm_is_default :: bool
  pm_last_used_at :: "time option"
  pm_created_at :: time
  pm_updated_at :: time

definition NewPaymentMethod ::
    "uuid \<Rightarrow> time \<Rightarrow> uuid \<Rightarrow> uuid \<Rightarrow> string \<Rightarrow> string \<Rightarrow> payment_method res" where
  "NewPaymentMethod fresh now customer_id gateway_id kind0 masked =
    (if customer_id = Nil_uuid then
       Inl (Validation ''method.customer_required'' ''customer_id is required'')
     else if gateway_id = Nil_uuid then
       Inl (Validation ''method.gateway_required'' ''gateway_id is required'')
     else let kind = TrimSpace kind0 in
       if kind = [] then Inl (Validation ''method.kind_required'' ''kind is required'')
       else Inr \<lparr>pm_id = fresh, pm_customer_id = customer_id, pm_kind = kind,
         pm_gateway_id = gateway_id, pm_masked_account = TrimSpace masked, pm_expires_at = None,
         pm_is_default = False, pm_last_used_at = None, pm_created_at = now, pm_updated_at = now\<rparr>)"

end
