(* ===== verification/PaymentLifecycle.thy ===== *)
theory PaymentLifecycle
  imports PaymentDomain
begin

text \<open>
  The life of a payment intent and of a refund as state machines: the documented graph of
  legal transitions as an inductive relation, the method calls as events, and the facts that
  hold of every entity the constructors and methods can produce.
\<close>

section \<open>The intent state machine\<close>

text \<open>
  The graph the comment of \<^verbatim>\<open>PaymentStatus\<close> draws, with the moves the methods add to it:
  re-routing (\<^verbatim>\<open>routing \<rightarrow> routing\<close>), failing before an external reference is known
  (\<^verbatim>\<open>routing \<rightarrow> failed\<close>), cancelling from any state before success, several partial refunds,
  and the idempotent repeats of success and cancellation.
\<close>

inductive intent_edge :: "payment_status \<Rightarrow> payment_status \<Rightarrow> bool" where
  created_routing: "intent_edge PaymentStatusCreated PaymentStatusRouting"
| routing_again: "intent_edge PaymentStatusRouting PaymentStatusRouting"
| routing_pending: "intent_edge PaymentStatusRouting PaymentStatusPending"
| routing_failed: "intent_edge PaymentStatusRouting PaymentStatusFailed"
| pending_succeeded: "intent_edge PaymentStatusPending PaymentStatusSucceeded"
| pending_failed: "intent_edge PaymentStatusPending PaymentStatusFailed"
| pending_expired: "intent_edge PaymentStatusPending PaymentStatusExpired"
| created_cancelled: "intent_edge PaymentStatusCreated PaymentStatusCancelled"
| routing_cancelled: "intent_edge PaymentStatusRouting PaymentStatusCancelled"
| pending_cancelled: "intent_edge PaymentStatusPending PaymentStatusCancelled"
| succeeded_again: "intent_edge PaymentStatusSucceeded PaymentStatusSucceeded"
| cancelled_again: "intent_edge PaymentStatusCancelled PaymentStatusCancelled"
| succeeded_partial: "intent_edge PaymentStatusSucceeded PaymentStatusPartiallyRefunded"
| partial_again: "intent_edge PaymentStatusPartiallyRefunded PaymentStatusPartiallyRefunded"
| succeeded_refunded: "intent_edge PaymentStatusSucceeded PaymentStatusRefunded"
| partial_refunded: "intent_edge PaymentStatusPartiallyRefunded PaymentStatusRefunded"

inductive_simps intent_edge_simps [simp]:
  "intent_edge PaymentStatusCreated t" "intent_edge PaymentStatusRouting t"
  "intent_edge PaymentStatusPending t" "intent_edge PaymentStatusSucceeded t"
  "intent_edge PaymentStatusFailed t" "intent_edge PaymentStatusExpired t"
  "intent_edge PaymentStatusCancelled t" "intent_edge PaymentStatusRefunded t"
  "intent_edge PaymentStatusPartiallyRefunded t"

text \<open>A call of one of the transition methods, with its arguments.\<close>

datatype intent_op =
    OpRoute uuid route_decision | OpPending string | OpSucceeded time | OpFailed string string
  | OpExpired | OpCancelled | OpPartial f64 | OpFull

fun intent_apply :: "time \<Rightarrow> intent_op \<Rightarrow> payment_intent \<Rightarrow> payment_intent res" where
  "intent_apply now (OpRoute g d) i = Route now g d i"
| "intent_apply now (OpPending ref) i = MarkPending now ref i"
| "intent_apply now (OpSucceeded t) i = MarkSucceeded now t i"
| "intent_apply now (OpFailed c r) i = MarkFailed now c r i"
| "intent_apply now OpExpired i = MarkExpired now i"
| "intent_apply now OpCancelled i = MarkCancelled now i"
| "intent_apply now (OpPartial a) i = MarkPartiallyRefunded now a i"
| "intent_apply now OpFull i = MarkFullyRefunded now i"

text \<open>The fields no transition method writes.\<close>

definition intent_frame :: "payment_intent \<Rightarrow> payment_intent \<Rightarrow> bool" where
  "intent_frame i j \<longleftrightarrow> pi_id j = pi_id i \<and> pi_invoice_id j = pi_invoice_id i
     \<and> pi_customer_id j = pi_customer_id i \<and> pi_amount j = pi_amount i
     \<and> pi_currency j = pi_currency i \<and> pi_idempotency_key j = pi_idempotency_key i
     \<and> pi_created_at j = pi_created_at i"

lemma intent_apply_frame: "intent_apply now x i = Inr j \<Longrightarrow> intent_frame i j"
  by (cases x) (auto simp: intent_defs intent_frame_def Let_def split: if_splits)

lemma intent_apply_edge: "intent_apply now x i = Inr j \<Longrightarrow> intent_edge (pi_status i) (pi_status j)"
  by (cases x) (auto simp: intent_defs Let_def split: if_splits)

definition paid_status :: "payment_status set" where
  "paid_status = {PaymentStatusSucceeded, PaymentStatusPartiallyRefunded, PaymentStatusRefunded}"

text \<open>
  What holds of every intent the code can produce. The amount is not \<open>\<le> 0\<close> (a NaN passes
  the constructor's test, so the invariant says no more than that); the time stamps and the
  status determine each other; an intent that reached \<^verbatim>\<open>pending\<close> has a gateway and a
  non-empty reference; refunds are recorded only after success and stay below the amount
  until the intent is fully refunded.
\<close>

definition intent_inv :: "payment_intent \<Rightarrow> bool" where
  "intent_inv i \<longleftrightarrow>
     \<not> fle (pi_amount i) (Fin 0)
   \<and> (pi_paid_at i \<noteq> None \<longleftrightarrow> pi_status i \<in> paid_status)
   \<and> (pi_expired_at i \<noteq> None \<longleftrightarrow> pi_status i = PaymentStatusExpired)
   \<and> (pi_cancelled_at i \<noteq> None \<longleftrightarrow> pi_status i = PaymentStatusCancelled)
   \<and> (pi_status i \<in> insert PaymentStatusPending (insert PaymentStatusExpired paid_status) \<longrightarrow>
        pi_external_ref i \<noteq> None \<and> pi_external_ref i \<noteq> Some [])
   \<and> (pi_status i \<notin> {PaymentStatusCreated, PaymentStatusCancelled} \<longrightarrow>
        pi_gateway_id i \<noteq> None \<and> pi_gateway_id i \<noteq> Some Nil_uuid \<and> pi_routing i \<noteq> None)
   \<and> (pi_status i \<notin> {PaymentStatusPartiallyRefunded, PaymentStatusRefunded} \<longrightarrow>
        pi_refunded_amount i = Fin 0)
   \<and> (pi_status i = PaymentStatusPartiallyRefunded \<longrightarrow>
        \<not> fle (pi_refunded_amount i) (Fin 0) \<and> \<not> fle (pi_amount i) (pi_refunded_amount i))
   \<and> (pi_status i = PaymentStatusRefunded \<longrightarrow> pi_refunded_amount i = pi_amount i)"

lemma NewPaymentIntent_inv: "NewPaymentIntent fresh now invoice amt key = Inr i \<Longrightarrow> intent_inv i"
  by (auto simp: NewPaymentIntent_def intent_inv_def paid_status_def split: if_splits)

lemma intent_apply_inv: "intent_inv i \<Longrightarrow> intent_apply now x i = Inr j \<Longrightarrow> intent_inv j"
  by (cases x; cases "pi_status i")
     (clarsimp simp: intent_defs intent_inv_def paid_status_def Let_def split: if_split_asm)+

text \<open>Every intent the constructor and any sequence of successful calls can produce.\<close>

inductive intent_reachable :: "payment_intent \<Rightarrow> bool" where
  fresh: "NewPaymentIntent fresh now invoice amt key = Inr i \<Longrightarrow> intent_reachable i"
| step: "intent_reachable i \<Longrightarrow> intent_apply now x i = Inr j \<Longrightarrow> intent_reachable j"

lemma intent_reachable_inv: "intent_reachable i \<Longrightarrow> intent_inv i"
  by (induction rule: intent_reachable.induct) (auto intro: NewPaymentIntent_inv intent_apply_inv)

text \<open>
  A run of calls in which a failing call leaves the intent as it is (the callers ignore or
  return the error and keep the value).
\<close>

fun intent_run :: "(time \<times> intent_op) list \<Rightarrow> payment_intent \<Rightarrow> payment_intent" where
  "intent_run [] i = i"
| "intent_run ((now, x) # xs) i = intent_run xs (after i (intent_apply now x i))"

lemma intent_run_inv: "intent_inv i \<Longrightarrow> intent_inv (intent_run xs i)"
proof (induction xs arbitrary: i)
  case (Cons x xs)
  obtain now y where x: "x = (now, y)" by (cases x)
  have "intent_inv (after i (intent_apply now y i))"
    using Cons.prems intent_apply_inv by (cases "intent_apply now y i") auto
  with Cons.IH x show ?case by simp
qed simp

text \<open>Progress: how many status changes an intent still has before it.\<close>

fun intent_rank :: "payment_status \<Rightarrow> nat" where
  "intent_rank PaymentStatusCreated = 5"
| "intent_rank PaymentStatusRouting = 4"
| "intent_rank PaymentStatusPending = 3"
| "intent_rank PaymentStatusSucceeded = 2"
| "intent_rank PaymentStatusPartiallyRefunded = 1"
| "intent_rank _ = 0"

lemma intent_edge_rank: "intent_edge s t \<Longrightarrow> s \<noteq> t \<Longrightarrow> intent_rank t < intent_rank s"
  by (cases s) auto

text \<open>The number of status changes along a run.\<close>

fun status_changes :: "(time \<times> intent_op) list \<Rightarrow> payment_intent \<Rightarrow> nat" where
  "status_changes [] i = 0"
| "status_changes ((now, x) # xs) i =
     (let j = after i (intent_apply now x i)
      in (if pi_status j = pi_status i then 0 else 1) + status_changes xs j)"

lemma after_apply_rank:
  "pi_status (after i (intent_apply now x i)) = pi_status i
   \<or> intent_rank (pi_status (after i (intent_apply now x i))) < intent_rank (pi_status i)"
proof (cases "intent_apply now x i")
  case (Inr j)
  then have "intent_edge (pi_status i) (pi_status j)" by (rule intent_apply_edge)
  then have "pi_status j = pi_status i \<or> intent_rank (pi_status j) < intent_rank (pi_status i)"
    by (metis intent_edge_rank)
  with Inr show ?thesis by simp
qed simp

lemma status_changes_rank: "status_changes xs i \<le> intent_rank (pi_status i)"
proof (induction xs arbitrary: i)
  case (Cons a xs)
  obtain now x where a: "a = (now, x)" by (cases a)
  let ?j = "after i (intent_apply now x i)"
  have "status_changes xs ?j \<le> intent_rank (pi_status ?j)" by (rule Cons.IH)
  with after_apply_rank[of i now x] show ?case by (auto simp: a Let_def)
qed simp

section \<open>The refund state machine\<close>

inductive refund_edge :: "refund_status \<Rightarrow> refund_status \<Rightarrow> bool" where
  approve: "refund_edge RefundStatusRequested RefundStatusApproved"
| reject: "refund_edge RefundStatusRequested RefundStatusRejected"
| process: "refund_edge RefundStatusApproved RefundStatusProcessing"
| complete: "refund_edge RefundStatusProcessing RefundStatusCompleted"
| fail: "refund_edge RefundStatusProcessing RefundStatusFailed"

inductive_simps refund_edge_simps [simp]:
  "refund_edge RefundStatusRequested t" "refund_edge RefundStatusApproved t"
  "refund_edge RefundStatusProcessing t" "refund_edge RefundStatusCompleted t"
  "refund_edge RefundStatusRejected t" "refund_edge RefundStatusFailed t"

datatype refund_op =
    OpApprove uuid | OpReject string | OpProcess | OpComplete string | OpRefundFail string

fun refund_apply :: "time \<Rightarrow> refund_op \<Rightarrow> refund \<Rightarrow> refund res" where
  "refund_apply now (OpApprove u) r = refund_Approve now u r"
| "refund_apply now (OpReject s) r = refund_Reject now s r"
| "refund_apply now OpProcess r = StartProcessing now r"
| "refund_apply now (OpComplete s) r = refund_MarkCompleted now s r"
| "refund_apply now (OpRefundFail s) r = refund_MarkFailed now s r"

lemma append_reason_fields [simp]:
  "rf_status (append_reason t s r) = rf_status r" "rf_id (append_reason t s r) = rf_id r"
  "rf_intent_id (append_reason t s r) = rf_intent_id r"
  "rf_amount (append_reason t s r) = rf_amount r"
  "rf_approved_by (append_reason t s r) = rf_approved_by r"
  "rf_approved_at (append_reason t s r) = rf_approved_at r"
  "rf_completed_at (append_reason t s r) = rf_completed_at r"
  "rf_external_ref (append_reason t s r) = rf_external_ref r"
  "rf_requested_by (append_reason t s r) = rf_requested_by r"
  "rf_created_at (append_reason t s r) = rf_created_at r"
  by (simp_all add: append_reason_def Let_def)

lemma append_reason_prefix: "\<exists>t. rf_reason (append_reason tag s r) = rf_reason r @ t"
  by (simp add: append_reason_def Let_def)

lemma refund_apply_edge: "refund_apply now x r = Inr r' \<Longrightarrow> refund_edge (rf_status r) (rf_status r')"
  by (cases x) (auto simp: refund_defs Let_def split: if_splits)

definition refund_frame :: "refund \<Rightarrow> refund \<Rightarrow> bool" where
  "refund_frame r r' \<longleftrightarrow> rf_id r' = rf_id r \<and> rf_intent_id r' = rf_intent_id r
     \<and> rf_amount r' = rf_amount r \<and> rf_requested_by r' = rf_requested_by r
     \<and> rf_created_at r' = rf_created_at r \<and> (\<exists>t. rf_reason r' = rf_reason r @ t)"

lemma refund_apply_frame: "refund_apply now x r = Inr r' \<Longrightarrow> refund_frame r r'"
  by (cases x)
     (auto simp: refund_defs refund_frame_def Let_def append_reason_prefix split: if_splits)

text \<open>
  Nobody is paid back without an approval on record: a refund that left \<^verbatim>\<open>requested\<close>
  other than by rejection names its approver, and it has a completion time exactly when it
  is completed.
\<close>

definition refund_inv :: "refund \<Rightarrow> bool" where
  "refund_inv r \<longleftrightarrow>
     rf_intent_id r \<noteq> Nil_uuid \<and> \<not> fle (rf_amount r) (Fin 0)
   \<and> (rf_status r \<in> {RefundStatusApproved, RefundStatusProcessing, RefundStatusCompleted,
                      RefundStatusFailed}
        \<longleftrightarrow> rf_approved_by r \<noteq> None)
   \<and> rf_approved_by r \<noteq> Some Nil_uuid
   \<and> (rf_approved_by r \<noteq> None \<longleftrightarrow> rf_approved_at r \<noteq> None)
   \<and> (rf_status r = RefundStatusCompleted \<longleftrightarrow> rf_completed_at r \<noteq> None)"

lemma NewRefund_inv: "NewRefund fresh now iid amt reason u = Inr r \<Longrightarrow> refund_inv r"
  by (auto simp: NewRefund_def refund_inv_def split: if_splits)

lemma refund_apply_inv: "refund_inv r \<Longrightarrow> refund_apply now x r = Inr r' \<Longrightarrow> refund_inv r'"
  by (cases x) (auto simp: refund_defs refund_inv_def Let_def split: if_splits)

inductive refund_reachable :: "refund \<Rightarrow> bool" where
  fresh: "NewRefund fresh now iid amt reason u = Inr r \<Longrightarrow> refund_reachable r"
| step: "refund_reachable r \<Longrightarrow> refund_apply now x r = Inr r' \<Longrightarrow> refund_reachable r'"

lemma refund_reachable_inv: "refund_reachable r \<Longrightarrow> refund_inv r"
  by (induction rule: refund_reachable.induct) (auto intro: NewRefund_inv refund_apply_inv)

lemma refund_edge_irrefl: "\<not> refund_edge s s"
  by (cases s) auto

end
