(* ===== verification/Table.thy ===== *)
theory Table
  imports Prelude "HOL-Library.Multiset"
begin

text \<open>
  The repositories of the adapters read and write one SQL table each. A table is the list of
  its rows in insertion order with a primary key; \<open>UPDATE ... SET c1, c2 WHERE id = k\<close>
  replaces the listed columns of the row with that key and reports whether there was one.
  The locale \<open>repository\<close> states what the services rely on: a read after a write returns
  the written columns of that row and leaves the others alone. It is interpreted on the
  tables of each context.
\<close>

section \<open>Tables as lists of rows\<close>

definition tfind :: "('r \<Rightarrow> 'k) \<Rightarrow> 'k \<Rightarrow> 'r list \<Rightarrow> 'r option" where
  "tfind key k rows = find (\<lambda>r. key r = k) rows"

definition tupdate :: "('r \<Rightarrow> 'k) \<Rightarrow> ('r \<Rightarrow> 'r) \<Rightarrow> 'k \<Rightarrow> 'r list \<Rightarrow> 'r list option" where
  "tupdate key f k rows =
     (if \<exists>r \<in> set rows. key r = k
      then Some (map (\<lambda>r. if key r = k then f r else r) rows) else None)"

definition tinsert :: "('r \<Rightarrow> 'k) \<Rightarrow> 'r \<Rightarrow> 'r list \<Rightarrow> 'r list option" where
  "tinsert key r rows = (if \<exists>q \<in> set rows. key q = key r then None else Some (rows @ [r]))"

text \<open>The primary key constraint.\<close>

definition tkeyed :: "('r \<Rightarrow> 'k) \<Rightarrow> 'r list \<Rightarrow> bool" where
  "tkeyed key rows \<longleftrightarrow> distinct (map key rows)"

lemma tfind_Nil [simp]: "tfind key k [] = None"
  by (simp add: tfind_def)

lemma tfind_Cons [simp]: "tfind key k (r # rows) = (if key r = k then Some r else tfind key k rows)"
  by (simp add: tfind_def)

lemma tfind_SomeD: "tfind key k rows = Some r \<Longrightarrow> r \<in> set rows \<and> key r = k"
  by (induction rows) (auto split: if_splits)

lemma tfind_None_iff: "tfind key k rows = None \<longleftrightarrow> (\<forall>r \<in> set rows. key r \<noteq> k)"
  by (induction rows) auto

lemma tfind_mem: "tkeyed key rows \<Longrightarrow> r \<in> set rows \<Longrightarrow> tfind key (key r) rows = Some r"
  by (induction rows) (auto simp: tkeyed_def image_iff)

lemma tfind_append: "tfind key k (xs @ ys) = (case tfind key k xs of Some r \<Rightarrow> Some r | None \<Rightarrow> tfind key k ys)"
  by (induction xs) auto

lemma tfind_map:
  assumes "\<And>r. key (f r) = key r"
  shows "tfind key k (map (\<lambda>r. if key r = c then f r else r) rows)
         = map_option (\<lambda>r. if k = c then f r else r) (tfind key k rows)"
  by (induction rows) (auto simp: assms)

lemma tupdate_Some_iff: "tupdate key f k rows \<noteq> None \<longleftrightarrow> tfind key k rows \<noteq> None"
  by (auto simp: tupdate_def tfind_None_iff)

lemma tfind_tupdate:
  assumes "\<And>r. key (f r) = key r" "tupdate key f c rows = Some rows'"
  shows "tfind key k rows' = map_option (\<lambda>r. if k = c then f r else r) (tfind key k rows)"
  using assms by (auto simp: tupdate_def tfind_map split: if_splits)

lemma tupdate_keyed:
  assumes "\<And>r. key (f r) = key r" "tupdate key f c rows = Some rows'"
  shows "map key rows' = map key rows"
  using assms by (auto simp: tupdate_def split: if_splits)

lemma tupdate_set: "tupdate key f c rows = Some rows' \<Longrightarrow> r' \<in> set rows' \<Longrightarrow>
    (r' \<in> set rows \<and> key r' \<noteq> c) \<or> (\<exists>r \<in> set rows. key r = c \<and> r' = f r)"
  by (auto simp: tupdate_def split: if_splits)

lemma tinsert_keyed: "tkeyed key rows \<Longrightarrow> tinsert key r rows = Some rows' \<Longrightarrow> tkeyed key rows'"
  by (fastforce simp: tinsert_def tkeyed_def split: if_splits)

lemma tfind_tinsert: "tinsert key r rows = Some rows' \<Longrightarrow>
    tfind key k rows' = (if key r = k then Some r else tfind key k rows)"
  by (auto simp: tinsert_def tfind_append tfind_None_iff[THEN iffD2] split: if_splits option.splits)

section \<open>The interface\<close>

text \<open>
  \<open>look k s\<close> is the row with key \<open>k\<close>; \<open>save t r s\<close> writes the columns the UPDATE lists from
  \<open>r\<close> into the row with \<open>r\<close>'s key at database time \<open>t\<close>, \<open>None\<close> if there is no such row;
  \<open>merge t old new\<close> is the row that results.
\<close>

locale repository =
  fixes key :: "'r \<Rightarrow> 'k"
    and merge :: "time \<Rightarrow> 'r \<Rightarrow> 'r \<Rightarrow> 'r"
    and look :: "'k \<Rightarrow> 's \<Rightarrow> 'r option"
    and save :: "time \<Rightarrow> 'r \<Rightarrow> 's \<Rightarrow> 's option"
  assumes look_key: "look k s = Some r \<Longrightarrow> key r = k"
    and merge_key: "key (merge t old new) = key old"
    and save_defined: "save t r s \<noteq> None \<longleftrightarrow> look (key r) s \<noteq> None"
    and look_save: "save t r s = Some s' \<Longrightarrow>
      look k s' = map_option (\<lambda>old. if k = key r then merge t old r else old) (look k s)"
begin

lemma save_found: "look (key r) s = Some old \<Longrightarrow> \<exists>s'. save t r s = Some s'"
  using save_defined[of t r s] by auto

lemma look_save_same: "save t r s = Some s' \<Longrightarrow> look (key r) s = Some old \<Longrightarrow>
    look (key r) s' = Some (merge t old r)"
  by (simp add: look_save)

lemma look_save_other: "save t r s = Some s' \<Longrightarrow> k \<noteq> key r \<Longrightarrow> look k s' = look k s"
  by (cases "look k s") (simp_all add: look_save)

lemma save_dom: "save t r s = Some s' \<Longrightarrow> look k s' = None \<longleftrightarrow> look k s = None"
  by (simp add: look_save)

text \<open>A property of single rows that the write keeps is kept for every row.\<close>

lemma save_rows:
  assumes "save t r s = Some s'"
    and "\<And>k q. look k s = Some q \<Longrightarrow> P q"
    and "\<And>old. look (key r) s = Some old \<Longrightarrow> P (merge t old r)"
    and "look k s' = Some q"
  shows "P q"
proof (cases "look k s")
  case None
  with assms show ?thesis by (simp add: look_save)
next
  case (Some old)
  with assms look_save[OF assms(1), of k] show ?thesis by (auto split: if_splits)
qed

text \<open>A relation between the old and the new rows, as used for "only this row changed".\<close>

lemma save_rel:
  assumes "save t r s = Some s'" and "\<And>q. R q q"
    and "\<And>old. look (key r) s = Some old \<Longrightarrow> R old (merge t old r)"
    and "look k s = Some q"
  shows "\<exists>q'. look k s' = Some q' \<and> R q q'"
  using assms look_save[OF assms(1), of k] by (auto split: if_splits)

end

text \<open>
  Every table of a database state is a repository: \<open>rows\<close> reads the table, \<open>put\<close> replaces it.
\<close>

lemma table_repository:
  assumes key: "\<And>t old r. key (merge t old r) = key old"
    and look: "\<And>k s. look k s = tfind key k (rows s)"
    and save: "\<And>t r s. save t r s =
      map_option (put s) (tupdate key (\<lambda>old. merge t old r) (key r) (rows s))"
    and put: "\<And>rs s. rows (put s rs) = rs"
  shows "repository key merge look save"
proof
  fix k s r assume "look k s = Some r"
  then show "key r = k" by (auto simp: look dest: tfind_SomeD)
next
  fix t s r
  show "save t r s \<noteq> None \<longleftrightarrow> look (key r) s \<noteq> None"
    using tupdate_Some_iff[of key _ "key r" "rows s"] by (simp add: look save)
next
  fix t r s s' k assume "save t r s = Some s'"
  then show "look k s' = map_option (\<lambda>old. if k = key r then merge t old r else old) (look k s)"
    by (auto simp: look save put key tfind_tupdate)
qed (rule key)

section \<open>Sorting for \<open>ORDER BY\<close>\<close>

text \<open>
  \<open>ORDER BY e ASC\<close> is a stable sort by \<open>e\<close>; PostgreSQL leaves the order of equal rows
  open, and no property below depends on it.
\<close>

definition order_by :: "('r \<Rightarrow> int) \<Rightarrow> 'r list \<Rightarrow> 'r list" where
  "order_by e rows = sort_key e rows"

lemma set_order_by [simp]: "set (order_by e rows) = set rows"
  by (simp add: order_by_def)

lemma mset_order_by [simp]: "mset (order_by e rows) = mset rows"
  by (simp add: order_by_def)

lemma length_order_by [simp]: "length (order_by e rows) = length rows"
  by (simp add: order_by_def)

definition page :: "nat \<Rightarrow> nat \<Rightarrow> 'r list \<Rightarrow> 'r list" where
  "page limit offset rows = take limit (drop offset rows)"

end
