(* ===== verification/PaymentRepo.thy ===== *)
theory PaymentRepo
  imports PaymentLifecycle Table
begin

text \<open>
  The storage of the payment context (\<^verbatim>\<open>internal/payment/adapter/postgres\<close>) and the
  environment its services run in. The state \<open>pay_db\<close> holds the tables and the audit log.
  An operation's environment \<open>env\<close> gives the clock readings of the service and of the
  database, the identifier \<^verbatim>\<open>uuid.New\<close> returns, for every call site whether the database
  fails there (\<open>env_fail\<close>), the registered gateway clients, SHA-256 and the Unicode
  lower-casing, and the rank of a text in the database's collation: code that is not in the
  repository. Amounts are stored as they are: the
  NUMERIC(18,2) columns hold every amount with at most two decimals exactly.
\<close>

section \<open>The environment\<close>

text \<open>The call sites at which a repository can report a database failure.\<close>

datatype call =
    IntentsCreate | IntentsFindByID | IntentsFindByExternalRef
  | IntentsList uuid nat
  | IntentsUpdate | IntentsUpdateRow uuid | IntentsListStale
  | GatewaysFindByID | GatewaysFindByCode | GatewaysListActive
  | WebhooksCreate | WebhooksFindByID | WebhooksUpdate
  | RefundsCreate | RefundsFindByID | RefundsUpdate nat | RefundsSum
  | StatementsCreate | StatementsFindByID | StatementsFindByHash | StatementsUpdate nat
  | LinesInsert | LinesListUnmatched | LinesUpdate uuid
  | AuditWrite

text \<open>What a gateway's webhook body and statement file parse to (\<^verbatim>\<open>port.go\<close>).\<close>

record parsed_webhook =
  pw_external_event_id :: string
  pw_external_payment_ref :: string
  pw_new_status :: "payment_status option" \<comment> \<open>None: a text that is no payment status\<close>
  pw_paid_at :: "time option"
  pw_failure_code :: string
  pw_failure_reason :: string
  pw_refund_external_ref :: string

record parsed_h2h_line =
  pl_raw_json :: string
  pl_amount :: f64
  pl_value_date :: time
  pl_reference_text :: string

text \<open>
  A gateway client (\<^verbatim>\<open>port.GatewayClient\<close>): the processor behind it is not in the repository,
  so each method is a function of the client, its error the text of a Go error.
\<close>

record gateway_client =
  cl_create_payment :: "payment_intent \<Rightarrow> string \<Rightarrow> string + string"
  cl_refund_payment :: "payment_intent \<Rightarrow> f64 \<Rightarrow> string \<Rightarrow> string + string"
  cl_verify_signature :: "string \<Rightarrow> string \<Rightarrow> bool"
  cl_parse_webhook :: "string \<Rightarrow> string + parsed_webhook"
  cl_parse_h2h :: "string \<Rightarrow> string + parsed_h2h_line list"

record env =
  env_now :: time
  env_dbnow :: time
  env_fresh :: uuid
  env_fail :: "call \<Rightarrow> derr option"
  env_client :: "string \<Rightarrow> string + gateway_client"
  env_sha256 :: "string \<Rightarrow> string"
  env_lower :: "string \<Rightarrow> string"
  env_collate :: "string \<Rightarrow> int"

section \<open>The tables\<close>

datatype statement_status =
    StatementParsing | StatementParsed | StatementMatching | StatementMatched
  | StatementPartial | StatementFailed

record h2h_statement =
  st_id :: uuid
  st_gateway_id :: uuid
  st_date :: "time option"
  st_raw_filename :: string
  st_raw_hash :: string
  st_line_count :: int
  st_matched_count :: int
  st_unmatched_count :: int
  st_status :: statement_status
  st_created_at :: time
  st_completed_at :: "time option"

record h2h_line =
  ln_id :: uuid
  ln_statement_id :: uuid
  ln_raw_line :: string
  ln_amount :: "f64 option"
  ln_value_date :: "time option"
  ln_reference_text :: string
  ln_intent_id :: "uuid option"
  ln_confidence :: "f64 option"
  ln_method :: string
  ln_created_at :: time

record audit_entry =
  ae_user :: uuid
  ae_record_type :: string
  ae_record_id :: uuid
  ae_field :: string
  ae_before :: string
  ae_after :: string
  ae_reason :: string

text \<open>
  Beside the tables the state keeps what left the system: \<open>ext_payments\<close> lists the calls of
  \<^verbatim>\<open>CreatePayment\<close> and \<open>ext_refunds\<close> those of \<^verbatim>\<open>RefundPayment\<close>, each with the identifier
  of the intent or refund and the amount, in the order the calls were made.
\<close>

record pay_db =
  db_intents :: "payment_intent list"
  db_refunds :: "refund list"
  db_webhooks :: "payment_webhook list"
  db_gateways :: "payment_gateway list"
  db_statements :: "h2h_statement list"
  db_lines :: "h2h_line list"
  db_audit :: "audit_entry list"
  ext_payments :: "(uuid \<times> f64) list"
  ext_refunds :: "(uuid \<times> f64) list"

text \<open>\<^verbatim>\<open>audit.SafeWrite\<close>: a failing write is dropped, it never breaks the operation.\<close>

definition SafeWrite :: "env \<Rightarrow> audit_entry \<Rightarrow> pay_db \<Rightarrow> pay_db" where
  "SafeWrite E e s = (case env_fail E AuditWrite of
      Some _ \<Rightarrow> s | None \<Rightarrow> s\<lparr>db_audit := db_audit s @ [e]\<rparr>)"

definition guard :: "env \<Rightarrow> call \<Rightarrow> 'a res \<Rightarrow> 'a res" where
  "guard E c r = (case env_fail E c of Some e \<Rightarrow> Inl e | None \<Rightarrow> r)"

lemma guard_Inr_iff [simp]: "guard E c r = Inr x \<longleftrightarrow> env_fail E c = None \<and> r = Inr x"
  by (cases "env_fail E c") (auto simp: guard_def)

lemma SafeWrite_tables [simp]:
  "db_intents (SafeWrite E e s) = db_intents s" "db_refunds (SafeWrite E e s) = db_refunds s"
  "db_webhooks (SafeWrite E e s) = db_webhooks s" "db_gateways (SafeWrite E e s) = db_gateways s"
  "db_statements (SafeWrite E e s) = db_statements s" "db_lines (SafeWrite E e s) = db_lines s"
  "ext_payments (SafeWrite E e s) = ext_payments s" "ext_refunds (SafeWrite E e s) = ext_refunds s"
  by (simp_all add: SafeWrite_def split: option.splits)

section \<open>Intents (intent_repo.go)\<close>

definition intent_not_found :: derr where
  "intent_not_found = NotFound ''payment_intent.not_found'' ''payment intent not found''"

definition found :: "derr \<Rightarrow> 'a option \<Rightarrow> 'a res" where
  "found e x = (case x of None \<Rightarrow> Inl e | Some y \<Rightarrow> Inr y)"

lemma found_Inr_iff [simp]: "found e x = Inr y \<longleftrightarrow> x = Some y"
  by (cases x) (auto simp: found_def)

definition look_intent :: "uuid \<Rightarrow> pay_db \<Rightarrow> payment_intent option" where
  "look_intent k s = tfind pi_id k (db_intents s)"

definition duplicate :: "string \<Rightarrow> string \<Rightarrow> derr" where
  "duplicate code msg = Conflict (code @ ''.duplicate'') (msg @ '' '' @ dash @ '' already exists'')"

text \<open>
  With a key the row is inserted unless the key is taken, and then the row that holds the
  key is fetched. The flag says whether the row is new.
\<close>

definition CreateOrFetchByIdempotency ::
    "env \<Rightarrow> payment_intent \<Rightarrow> pay_db \<Rightarrow> pay_db \<times> (bool \<times> payment_intent) res" where
  "CreateOrFetchByIdempotency E i s =
    (case env_fail E IntentsCreate of Some e \<Rightarrow> (s, Inl e)
     | None \<Rightarrow>
      (let insert_row = (case tinsert pi_id i (db_intents s) of
             None \<Rightarrow> (s, Inl (duplicate ''payment_intent'' ''insert payment intent''))
           | Some rows \<Rightarrow> (s\<lparr>db_intents := rows\<rparr>, Inr (True, i)))
       in if pi_idempotency_key i = None \<or> pi_idempotency_key i = Some [] then insert_row
          else (case find (\<lambda>r. pi_idempotency_key r = pi_idempotency_key i) (db_intents s) of
              None \<Rightarrow> insert_row
            | Some r \<Rightarrow> (s, Inr (False, r)))))"

definition intents_FindByID :: "env \<Rightarrow> uuid \<Rightarrow> pay_db \<Rightarrow> payment_intent res" where
  "intents_FindByID E k s = guard E IntentsFindByID (found intent_not_found (look_intent k s))"

definition intents_FindByExternalRef :: "env \<Rightarrow> string \<Rightarrow> pay_db \<Rightarrow> payment_intent res" where
  "intents_FindByExternalRef E ref s = guard E IntentsFindByExternalRef
     (found intent_not_found (find (\<lambda>r. pi_external_ref r = Some ref) (db_intents s)))"

text \<open>The columns \<^verbatim>\<open>Update\<close> writes; a missing routing decision keeps the stored one.\<close>

definition merge_intent :: "time \<Rightarrow> payment_intent \<Rightarrow> payment_intent \<Rightarrow> payment_intent" where
  "merge_intent t old i = old\<lparr>pi_gateway_id := pi_gateway_id i, pi_status := pi_status i,
     pi_routing := (case pi_routing i of None \<Rightarrow> pi_routing old | Some d \<Rightarrow> Some d),
     pi_external_ref := pi_external_ref i, pi_paid_at := pi_paid_at i,
     pi_expired_at := pi_expired_at i, pi_cancelled_at := pi_cancelled_at i,
     pi_failure_code := pi_failure_code i, pi_failure_reason := pi_failure_reason i,
     pi_refunded_amount := pi_refunded_amount i, pi_updated_at := t\<rparr>"

definition save_intent :: "time \<Rightarrow> payment_intent \<Rightarrow> pay_db \<Rightarrow> pay_db option" where
  "save_intent t i s = map_option (\<lambda>rows. s\<lparr>db_intents := rows\<rparr>)
     (tupdate pi_id (\<lambda>old. merge_intent t old i) (pi_id i) (db_intents s))"

definition intents_Update :: "env \<Rightarrow> call \<Rightarrow> payment_intent \<Rightarrow> pay_db \<Rightarrow> pay_db res" where
  "intents_Update E c i s = guard E c (found intent_not_found (save_intent (env_dbnow E) i s))"

record intent_filter =
  if_invoice :: "uuid option"
  if_customer :: "uuid option"
  if_status :: string
  if_limit :: int
  if_offset :: int

definition intent_matches :: "intent_filter \<Rightarrow> payment_intent \<Rightarrow> bool" where
  "intent_matches f i \<longleftrightarrow>
     (case if_invoice f of None \<Rightarrow> True | Some v \<Rightarrow> pi_invoice_id i = v)
   \<and> (case if_customer f of None \<Rightarrow> True | Some c \<Rightarrow> pi_customer_id i = Some c)
   \<and> (if_status f = [] \<or> payment_status_text (pi_status i) = if_status f)"

definition intents_List ::
    "env \<Rightarrow> call \<Rightarrow> intent_filter \<Rightarrow> pay_db \<Rightarrow> (payment_intent list \<times> nat) res" where
  "intents_List E c f s = guard E c
    (let rows = filter (intent_matches f) (db_intents s);
         limit = (if if_limit f \<le> 0 then 50 else if_limit f);
         offset = (if if_offset f < 0 then 0 else if_offset f)
     in Inr (page (nat limit) (nat offset) (order_by (\<lambda>i. - pi_created_at i) rows), length rows))"

definition ListPendingOlderThan :: "env \<Rightarrow> time \<Rightarrow> int \<Rightarrow> pay_db \<Rightarrow> payment_intent list res" where
  "ListPendingOlderThan E cutoff limit s = guard E IntentsListStale
    (Inr (page (nat (if limit \<le> 0 then 200 else limit)) 0
      (order_by pi_created_at
        (filter (\<lambda>i. pi_status i = PaymentStatusPending \<and> pi_created_at i < cutoff) (db_intents s)))))"

section \<open>Gateways (gateway_repo.go)\<close>

definition gateway_not_found :: derr where
  "gateway_not_found = NotFound ''payment_gateway.not_found'' ''payment gateway not found''"

definition gateways_FindByID :: "env \<Rightarrow> uuid \<Rightarrow> pay_db \<Rightarrow> payment_gateway res" where
  "gateways_FindByID E k s =
     guard E GatewaysFindByID (found gateway_not_found (tfind gw_id k (db_gateways s)))"

definition gateways_FindByCode :: "env \<Rightarrow> string \<Rightarrow> pay_db \<Rightarrow> payment_gateway res" where
  "gateways_FindByCode E c s =
     guard E GatewaysFindByCode (found gateway_not_found (tfind gw_code c (db_gateways s)))"

text \<open>
  \<open>ORDER BY priority ASC, code ASC\<close>: sorted by code first, then stably by priority.
\<close>

definition ListActive :: "env \<Rightarrow> pay_db \<Rightarrow> payment_gateway list res" where
  "ListActive E s = guard E GatewaysListActive
     (Inr (order_by gw_priority (order_by (\<lambda>g. env_collate E (gw_code g))
        (filter gw_is_active (db_gateways s)))))"

section \<open>Webhooks (webhook_repo.go)\<close>

definition webhook_not_found :: derr where
  "webhook_not_found = NotFound ''payment_webhook.not_found'' ''payment webhook not found''"

definition look_webhook :: "uuid \<Rightarrow> pay_db \<Rightarrow> payment_webhook option" where
  "look_webhook k s = tfind wh_id k (db_webhooks s)"

definition CreateOrFetchByDedup ::
    "env \<Rightarrow> payment_webhook \<Rightarrow> pay_db \<Rightarrow> pay_db \<times> (bool \<times> payment_webhook) res" where
  "CreateOrFetchByDedup E w s =
    (case env_fail E WebhooksCreate of Some e \<Rightarrow> (s, Inl e)
     | None \<Rightarrow>
      (case find (\<lambda>r. wh_gateway_id r = wh_gateway_id w \<and> wh_event_id r = wh_event_id w)
              (db_webhooks s) of
         Some r \<Rightarrow> (s, Inr (False, r))
       | None \<Rightarrow>
          (case tinsert wh_id w (db_webhooks s) of
             None \<Rightarrow> (s, Inl (duplicate ''payment_webhook'' ''insert payment webhook''))
           | Some rows \<Rightarrow> (s\<lparr>db_webhooks := rows\<rparr>, Inr (True, w)))))"

definition webhooks_FindByID :: "env \<Rightarrow> uuid \<Rightarrow> pay_db \<Rightarrow> payment_webhook res" where
  "webhooks_FindByID E k s = guard E WebhooksFindByID (found webhook_not_found (look_webhook k s))"

definition merge_webhook :: "time \<Rightarrow> payment_webhook \<Rightarrow> payment_webhook \<Rightarrow> payment_webhook" where
  "merge_webhook t old w = old\<lparr>wh_signature_valid := wh_signature_valid w,
     wh_status := wh_status w, wh_intent_id := wh_intent_id w, wh_error_msg := wh_error_msg w,
     wh_processed_at := wh_processed_at w\<rparr>"

definition save_webhook :: "time \<Rightarrow> payment_webhook \<Rightarrow> pay_db \<Rightarrow> pay_db option" where
  "save_webhook t w s = map_option (\<lambda>rows. s\<lparr>db_webhooks := rows\<rparr>)
     (tupdate wh_id (\<lambda>old. merge_webhook t old w) (wh_id w) (db_webhooks s))"

definition webhooks_Update :: "env \<Rightarrow> payment_webhook \<Rightarrow> pay_db \<Rightarrow> pay_db res" where
  "webhooks_Update E w s =
     guard E WebhooksUpdate (found webhook_not_found (save_webhook (env_dbnow E) w s))"

section \<open>Refunds (refund_repo.go)\<close>

definition refund_not_found :: derr where
  "refund_not_found = NotFound ''refund.not_found'' ''refund not found''"

definition look_refund :: "uuid \<Rightarrow> pay_db \<Rightarrow> refund option" where
  "look_refund k s = tfind rf_id k (db_refunds s)"

definition refunds_Create :: "env \<Rightarrow> refund \<Rightarrow> pay_db \<Rightarrow> pay_db res" where
  "refunds_Create E r s = guard E RefundsCreate
    (case tinsert rf_id r (db_refunds s) of
       None \<Rightarrow> Inl (duplicate ''refund'' ''insert refund'')
     | Some rows \<Rightarrow> Inr (s\<lparr>db_refunds := rows\<rparr>))"

definition refunds_FindByID :: "env \<Rightarrow> uuid \<Rightarrow> pay_db \<Rightarrow> refund res" where
  "refunds_FindByID E k s = guard E RefundsFindByID (found refund_not_found (look_refund k s))"

definition merge_refund :: "time \<Rightarrow> refund \<Rightarrow> refund \<Rightarrow> refund" where
  "merge_refund t old r = old\<lparr>rf_amount := rf_amount r, rf_reason := rf_reason r,
     rf_status := rf_status r, rf_external_ref := rf_external_ref r,
     rf_requested_by := rf_requested_by r, rf_approved_by := rf_approved_by r,
     rf_approved_at := rf_approved_at r, rf_completed_at := rf_completed_at r,
     rf_updated_at := t\<rparr>"

definition save_refund :: "time \<Rightarrow> refund \<Rightarrow> pay_db \<Rightarrow> pay_db option" where
  "save_refund t r s = map_option (\<lambda>rows. s\<lparr>db_refunds := rows\<rparr>)
     (tupdate rf_id (\<lambda>old. merge_refund t old r) (rf_id r) (db_refunds s))"

definition refunds_Update :: "env \<Rightarrow> nat \<Rightarrow> refund \<Rightarrow> pay_db \<Rightarrow> pay_db res" where
  "refunds_Update E n r s =
     guard E (RefundsUpdate n) (found refund_not_found (save_refund (env_dbnow E) r s))"

text \<open>
  \<open>SUM\<close> over a NUMERIC column is exact, and NaN if a row is; the driver rounds the sum to a
  double. The column cannot hold an infinity.
\<close>

fun fin_val :: "f64 \<Rightarrow> rat" where
  "fin_val (Fin a) = a"
| "fin_val _ = 0"

definition sum_amounts :: "f64 list \<Rightarrow> f64" where
  "sum_amounts xs = (if NaN \<in> set xs then NaN else rnd (sum_list (map fin_val xs)))"

definition completed_for :: "uuid \<Rightarrow> pay_db \<Rightarrow> refund list" where
  "completed_for iid s =
     filter (\<lambda>r. rf_intent_id r = iid \<and> rf_status r = RefundStatusCompleted) (db_refunds s)"

definition SumCompletedForIntent :: "env \<Rightarrow> uuid \<Rightarrow> pay_db \<Rightarrow> f64 res" where
  "SumCompletedForIntent E iid s = guard E RefundsSum
     (Inr (sum_amounts (map rf_amount (completed_for iid s))))"

section \<open>The repositories satisfy the interface\<close>

lemma merge_ids [simp]:
  "pi_id (merge_intent t oldi i) = pi_id oldi"
  "wh_id (merge_webhook t oldw w) = wh_id oldw"
  "rf_id (merge_refund t oldr r) = rf_id oldr"
  by (simp_all add: merge_intent_def merge_webhook_def merge_refund_def)

interpretation intents: repository pi_id merge_intent look_intent save_intent
  by (rule table_repository[where rows = db_intents and put = "\<lambda>s rs. s\<lparr>db_intents := rs\<rparr>"])
     (simp_all add: look_intent_def save_intent_def)

interpretation webhooks: repository wh_id merge_webhook look_webhook save_webhook
  by (rule table_repository[where rows = db_webhooks and put = "\<lambda>s rs. s\<lparr>db_webhooks := rs\<rparr>"])
     (simp_all add: look_webhook_def save_webhook_def)

interpretation refunds: repository rf_id merge_refund look_refund save_refund
  by (rule table_repository[where rows = db_refunds and put = "\<lambda>s rs. s\<lparr>db_refunds := rs\<rparr>"])
     (simp_all add: look_refund_def save_refund_def)

end
