(* ===== verification/PaymentRouting.thy ===== *)
theory PaymentRouting
  imports PaymentRepo
begin

text \<open>
  The routing policy (\<^verbatim>\<open>internal/payment/usecase/routing.go\<close>): the filter over the candidate
  gateways, the in-place insertion sort by priority, and the decision that is recorded on
  the intent. The sort is modelled on list positions as the loops are written and shown to
  be the library's stable sort.
\<close>

section \<open>The insertion sort\<close>

definition swap :: "nat \<Rightarrow> nat \<Rightarrow> 'a list \<Rightarrow> 'a list" where
  "swap i j xs = xs[i := xs ! j, j := xs ! i]"

text \<open>The inner loop: the element at position \<open>j\<close> moves down while it is smaller.\<close>

fun sift :: "('a \<Rightarrow> int) \<Rightarrow> nat \<Rightarrow> 'a list \<Rightarrow> 'a list" where
  "sift f 0 xs = xs"
| "sift f (Suc j) xs = (if f (xs ! Suc j) < f (xs ! j) then sift f j (swap (Suc j) j xs) else xs)"

text \<open>The outer loop from position \<open>i\<close>.\<close>

function sort_loop :: "('a \<Rightarrow> int) \<Rightarrow> nat \<Rightarrow> 'a list \<Rightarrow> 'a list" where
  "sort_loop f i xs = (if i < length xs then sort_loop f (Suc i) (sift f i xs) else xs)"
  by pat_completeness auto

lemma length_sift [simp]: "length (sift f j xs) = length xs"
  by (induction j arbitrary: xs) (auto simp: swap_def)

termination sort_loop
  by (relation "measure (\<lambda>(f, i, xs). length xs - i)") auto

declare sort_loop.simps [simp del]

definition insertion_sort :: "('a \<Rightarrow> int) \<Rightarrow> 'a list \<Rightarrow> 'a list" where
  "insertion_sort f xs = sort_loop f 1 xs"

text \<open>One pass of the inner loop puts the element after everything that is not larger.\<close>

lemma sift_eq:
  assumes "j < length xs" "sorted (map f (take j xs))"
  shows "sift f j xs = filter (\<lambda>y. f y \<le> f (xs ! j)) (take j xs) @ xs ! j
           # filter (\<lambda>y. f (xs ! j) < f y) (take j xs) @ drop (Suc j) xs"
  using assms
proof (induction j arbitrary: xs)
  case 0
  then show ?case by (cases xs) auto
next
  case (Suc j)
  let ?x = "xs ! Suc j" and ?y = "xs ! j"
  have tk: "take (Suc j) xs = take j xs @ [?y]" using Suc.prems by (simp add: take_Suc_conv_app_nth)
  show ?case
  proof (cases "f ?x < f ?y")
    case True
    let ?xs = "swap (Suc j) j xs"
    have eqs: "take j ?xs = take j xs" "?xs ! j = ?x" "drop (Suc j) ?xs = ?y # drop (Suc (Suc j)) xs"
      using Suc.prems by (auto simp: swap_def drop_update_swap Cons_nth_drop_Suc[symmetric])
    have "sift f j ?xs = filter (\<lambda>y. f y \<le> f ?x) (take j xs) @ ?x
        # filter (\<lambda>y. f ?x < f y) (take j xs) @ ?y # drop (Suc (Suc j)) xs"
      using Suc.IH[of ?xs] Suc.prems tk by (simp add: eqs) (simp add: swap_def sorted_append)
    with True show ?thesis by (simp add: tk)
  next
    case False
    have le: "\<forall>y \<in> set (take (Suc j) xs). f y \<le> f ?x"
      using Suc.prems(2) False by (auto simp: tk sorted_append)
    then have "filter (\<lambda>y. f y \<le> f ?x) (take (Suc j) xs) = take (Suc j) xs"
      "filter (\<lambda>y. f ?x < f y) (take (Suc j) xs) = []" by (auto simp: filter_id_conv filter_empty_conv)
    with False show ?thesis using Suc.prems(1) by (simp add: id_take_nth_drop[symmetric])
  qed
qed

lemma sort_key_snoc:
  "sort_key f (xs @ [x]) = filter (\<lambda>y. f y \<le> f x) (sort_key f xs) @ x
     # filter (\<lambda>y. f x < f y) (sort_key f xs)"
proof (rule properties_for_sort_key)
  let ?ys = "filter (\<lambda>y. f y \<le> f x) (sort_key f xs) @ x # filter (\<lambda>y. f x < f y) (sort_key f xs)"
  have "mset (filter (\<lambda>y. f y \<le> f x) ys) + mset (filter (\<lambda>y. f x < f y) ys) = mset ys" for ys
    by (induction ys) auto
  from this[of "sort_key f xs"] show "mset ?ys = mset (xs @ [x])" by simp
  show "sorted (map f ?ys)"
    by (auto simp: sorted_append intro: sorted_filter)
  fix k
  have key: "[y\<leftarrow>sort_key f xs. f k = f y] = [y\<leftarrow>xs. f k = f y]"
    using sort_key_stable[of f "f k" xs] by (metis (mono_tags, lifting) filter_cong)
  show "[y\<leftarrow>?ys. f k = f y] = [y\<leftarrow>xs @ [x]. f k = f y]"
  proof (cases "f k \<le> f x")
    case True
    have none: "[y\<leftarrow>sort_key f xs. f x < f y \<and> c = f y] = []" if "c \<le> f x" for c
      using that by (auto simp: filter_empty_conv)
    have "[y\<leftarrow>sort_key f xs. f y \<le> f x \<and> f k = f y] = [y\<leftarrow>sort_key f xs. f k = f y]"
      using True by (auto intro: filter_cong)
    then show ?thesis using True by (simp add: key none)
  next
    case False
    then have "[y\<leftarrow>sort_key f xs. f y \<le> f x \<and> f k = f y] = []" by (auto simp: filter_empty_conv)
    moreover have "[y\<leftarrow>sort_key f xs. f x < f y \<and> f k = f y] = [y\<leftarrow>sort_key f xs. f k = f y]"
      using False by (auto intro: filter_cong)
    moreover have "f k \<noteq> f x" using False by auto
    ultimately show ?thesis by (simp add: key)
  qed
qed

lemma sort_loop_inv:
  "i \<le> length xs \<Longrightarrow> take i ys = sort_key f (take i xs) \<Longrightarrow> drop i ys = drop i xs
   \<Longrightarrow> sort_loop f i ys = sort_key f xs"
proof (induction f i ys rule: sort_loop.induct)
  case (1 f i ys)
  from "1.prems" have len: "length ys = length xs"
    by (metis append_take_drop_id length_append length_drop length_sort length_take)
  show ?case
  proof (cases "i < length ys")
    case True
    have x: "ys ! i = xs ! i" using 1(4) True len by (metis hd_drop_conv_nth)
    have "sift f i ys = filter (\<lambda>y. f y \<le> f (ys ! i)) (take i ys) @ ys ! i
        # filter (\<lambda>y. f (ys ! i) < f y) (take i ys) @ drop (Suc i) ys"
      using True 1(3) by (intro sift_eq) simp_all
    also have "\<dots> = sort_key f (take (Suc i) xs) @ drop (Suc i) ys"
      using True len by (simp add: 1(3) x take_Suc_conv_app_nth sort_key_snoc)
    finally have s: "sift f i ys = sort_key f (take (Suc i) xs) @ drop (Suc i) ys" .
    have l: "length (sort_key f (take (Suc i) xs)) = Suc i" using True len by simp
    have "drop (Suc i) ys = drop (Suc i) xs" using 1(4) by (metis drop_Suc drop_tl)
    then have "sort_loop f (Suc i) (sift f i ys) = sort_key f xs"
      using True len l by (intro 1(1)) (auto simp: s)
    with True show ?thesis by (simp add: sort_loop.simps[of f i ys])
  next
    case False
    with "1.prems" len show ?thesis by (subst sort_loop.simps) simp
  qed
qed

lemma insertion_sort_eq: "insertion_sort f xs = sort_key f xs"
proof (cases xs)
  case (Cons x ys)
  then show ?thesis unfolding insertion_sort_def by (intro sort_loop_inv) simp_all
qed (simp add: insertion_sort_def sort_loop.simps)

section \<open>The choice\<close>

definition eligible :: "f64 \<Rightarrow> string \<Rightarrow> payment_gateway \<Rightarrow> bool" where
  "eligible amount method g \<longleftrightarrow>
     gw_is_active g \<and> MatchesAmount g amount \<and> (method = [] \<or> SupportsMethod g method)"

text \<open>The filter loop, with the codes considered and the candidates kept so far.\<close>

fun candidate_loop :: "f64 \<Rightarrow> string \<Rightarrow> payment_gateway list \<Rightarrow> string list \<Rightarrow> payment_gateway list
    \<Rightarrow> string list \<times> payment_gateway list" where
  "candidate_loop amount method [] considered cands = (considered, cands)"
| "candidate_loop amount method (g # gs) considered cands =
     (let considered' = considered @ [gw_code g] in
      if \<not> gw_is_active g then candidate_loop amount method gs considered' cands
      else if \<not> MatchesAmount g amount then candidate_loop amount method gs considered' cands
      else if method \<noteq> [] \<and> \<not> SupportsMethod g method
        then candidate_loop amount method gs considered' cands
      else candidate_loop amount method gs considered' (cands @ [g]))"

definition ChooseGateway :: "time \<Rightarrow> payment_intent \<Rightarrow> string \<Rightarrow> payment_gateway list
    \<Rightarrow> payment_gateway option \<times> route_decision" where
  "ChooseGateway now intent method available =
    (let (considered, cands) = candidate_loop (pi_amount intent) method available [] [] in
     if cands = [] then
       (None, \<lparr>chosen_gateway_id = Nil_uuid, chosen_gateway_code = [],
               considered_count = int (length considered), considered_codes = considered,
               rd_reason = ''no_matching_gateway'', decided_at = now\<rparr>)
     else let chosen = hd (insertion_sort gw_priority cands);
              reason = (if method \<noteq> [] then ''priority_pick_with_method:'' @ method
                        else ''priority_pick'')
          in (Some chosen, \<lparr>chosen_gateway_id = gw_id chosen, chosen_gateway_code = gw_code chosen,
               considered_count = int (length considered), considered_codes = considered,
               rd_reason = reason, decided_at = now\<rparr>))"

lemma candidate_loop_eq: "candidate_loop amount method gs considered cands
    = (considered @ map gw_code gs, cands @ filter (eligible amount method) gs)"
  by (induction gs arbitrary: considered cands) (auto simp: eligible_def Let_def)

lemma hd_sort_key_min:
  assumes "xs \<noteq> []"
  shows "hd (sort_key f xs) \<in> set xs \<and> (\<forall>y \<in> set xs. f (hd (sort_key f xs)) \<le> f y)"
proof -
  have ne: "sort_key f xs \<noteq> []" using assms by (metis length_0_conv length_sort)
  then obtain z zs where z: "sort_key f xs = z # zs" by (cases "sort_key f xs") auto
  have "sorted (map f (z # zs))" using z by (metis sorted_sort_key)
  moreover have "set xs = set (z # zs)" using z by (metis set_sort)
  ultimately show ?thesis by (auto simp: z)
qed

lemma ChooseGateway_None_iff:
  "fst (ChooseGateway now i m av) = None \<longleftrightarrow> (\<forall>g \<in> set av. \<not> eligible (pi_amount i) m g)"
  by (auto simp: ChooseGateway_def candidate_loop_eq Let_def filter_empty_conv)

lemma ChooseGateway_Some:
  assumes "ChooseGateway now i m av = (Some g, d)"
  shows "g \<in> set av" "eligible (pi_amount i) m g"
    "h \<in> set av \<Longrightarrow> eligible (pi_amount i) m h \<Longrightarrow> gw_priority g \<le> gw_priority h"
    "chosen_gateway_id d = gw_id g"
proof -
  let ?c = "filter (eligible (pi_amount i) m) av"
  from assms have ne: "?c \<noteq> []" and g: "g = hd (sort_key gw_priority ?c)"
    and d: "chosen_gateway_id d = gw_id g"
    by (auto simp: ChooseGateway_def candidate_loop_eq Let_def insertion_sort_eq split: if_splits)
  from hd_sort_key_min[OF ne, of gw_priority]
  show "g \<in> set av" "eligible (pi_amount i) m g"
    "h \<in> set av \<Longrightarrow> eligible (pi_amount i) m h \<Longrightarrow> gw_priority g \<le> gw_priority h"
    by (auto simp: g)
  show "chosen_gateway_id d = gw_id g" by (rule d)
qed

end
