(* ===== verification/PaymentIntentSvc.thy ===== *)
theory PaymentIntentSvc
  imports PaymentRouting
begin

text \<open>
  The intent service (\<^verbatim>\<open>internal/payment/usecase/intent.go\<close>): creation with idempotency,
  routing and provisioning at the gateway, cancellation and the expiry job. Each operation
  takes its environment and the database and returns the database and what the Go function
  returns. The second part shows what one operation can do to the stored intents.
\<close>

section \<open>Operations\<close>

definition intent_audit :: "payment_intent \<Rightarrow> string \<Rightarrow> string \<Rightarrow> string \<Rightarrow> string \<Rightarrow> audit_entry" where
  "intent_audit i field before_text after_text reason =
     \<lparr>ae_user = Nil_uuid, ae_record_type = ''payment.intent'', ae_record_id = pi_id i,
      ae_field = field, ae_before = before_text, ae_after = after_text, ae_reason = reason\<rparr>"

text \<open>
  The result is the database, the value the pointer \<open>intent\<close> has afterwards (the caller
  keeps using it), and the returned pair of value and error.
\<close>

definition routeAndProvision :: "env \<Rightarrow> payment_intent \<Rightarrow> string \<Rightarrow> pay_db
    \<Rightarrow> pay_db \<times> payment_intent \<times> payment_intent option \<times> derr option" where
  "routeAndProvision E intent method s =
    (case ListActive E s of Inl e \<Rightarrow> (s, intent, None, Some e)
     | Inr available \<Rightarrow>
      (let (chosen, decision) = ChooseGateway (env_now E) intent method available in
       case chosen of
         None \<Rightarrow> (s, intent, None, Some (Conflict ''intent.no_gateway''
                   ''no payment gateway can accept this intent''))
       | Some g \<Rightarrow>
      (case Route (env_now E) (gw_id g) decision intent of Inl e \<Rightarrow> (s, intent, None, Some e)
       | Inr i1 \<Rightarrow>
      (case env_client E (gw_code g) of
         Inl c \<Rightarrow> (s, i1, None, Some (Wrap KindInternal ''intent.gateway_client_missing''
                   (''gateway client not registered for code '' @ gw_code g) c))
       | Inr client \<Rightarrow>
      (let s1 = s\<lparr>ext_payments := ext_payments s @ [(pi_id i1, pi_amount i1)]\<rparr> in
       case cl_create_payment client i1 method of
         Inl msg \<Rightarrow>
          (let i2 = after i1 (MarkFailed (env_now E) ''gateway_create_error'' msg i1) in
           case intents_Update E IntentsUpdate i2 s1 of Inl e \<Rightarrow> (s1, i2, None, Some e)
           | Inr s' \<Rightarrow> (s', i2, Some i2, Some (Wrap KindUnavailable ''intent.gateway_create_failed''
                   (''gateway '' @ gw_code g @ '' rejected the payment'') msg)))
       | Inr ref \<Rightarrow>
      (case MarkPending (env_now E) ref i1 of Inl e \<Rightarrow> (s1, i1, None, Some e)
       | Inr i2 \<Rightarrow>
      (case intents_Update E IntentsUpdate i2 s1 of Inl e \<Rightarrow> (s1, i2, None, Some e)
       | Inr s' \<Rightarrow> (s', i2, Some i2, None))))))))"

record create_intent_input =
  ci_invoice_id :: uuid
  ci_customer_id :: "uuid option"
  ci_amount :: f64
  ci_currency :: string
  ci_idempotency_key :: string
  ci_preferred_method :: string

text \<open>The optional fields of the request, written over the constructor's defaults.\<close>

definition new_row :: "create_intent_input \<Rightarrow> payment_intent \<Rightarrow> payment_intent" where
  "new_row inp i0 =
     (let i1 = (if ci_customer_id inp \<noteq> None then i0\<lparr>pi_customer_id := ci_customer_id inp\<rparr> else i0)
      in if ci_currency inp \<noteq> [] then i1\<lparr>pi_currency := ci_currency inp\<rparr> else i1)"

definition CreateIntent :: "env \<Rightarrow> create_intent_input \<Rightarrow> pay_db \<Rightarrow> pay_db \<times> payment_intent res" where
  "CreateIntent E inp s =
    (case NewPaymentIntent (env_fresh E) (env_now E) (ci_invoice_id inp) (ci_amount inp)
            (ci_idempotency_key inp) of
       Inl e \<Rightarrow> (s, Inl e)
     | Inr i0 \<Rightarrow>
      (case CreateOrFetchByIdempotency E (new_row inp i0) s of
         (s1, Inl e) \<Rightarrow> (s1, Inl e)
       | (s1, Inr (isfresh, persisted)) \<Rightarrow>
          if \<not> isfresh then (s1, Inr persisted)
          else (case routeAndProvision E persisted (ci_preferred_method inp) s1 of
              (s2, p', _, Some rerr) \<Rightarrow>
                (SafeWrite E (intent_audit p' [] [] (payment_status_text (pi_status p'))
                   (''intent_create_route_failed:'' @ error_text rerr)) s2, Inr p')
            | (s2, p', _, None) \<Rightarrow>
                (SafeWrite E (intent_audit p' [] [] (payment_status_text (pi_status p'))
                   ''intent_created_and_routed'') s2, Inr p'))))"

definition RouteAndPay ::
    "env \<Rightarrow> uuid \<Rightarrow> pay_db \<Rightarrow> pay_db \<times> payment_intent option \<times> derr option" where
  "RouteAndPay E k s =
    (case intents_FindByID E k s of Inl e \<Rightarrow> (s, None, Some e)
     | Inr i \<Rightarrow>
       if pi_status i \<noteq> PaymentStatusCreated \<and> pi_status i \<noteq> PaymentStatusRouting then
         (s, None, Some (Conflict ''intent.cannot_route_in_state''
            (''intent is in state '' @ quoted (payment_status_text (pi_status i)) @ '' '' @ dash
             @ '' only created/routing intents can be routed'')))
       else (case routeAndProvision E i [] s of (s', _, r) \<Rightarrow> (s', r)))"

definition ConfirmFromWebhook :: "env \<Rightarrow> uuid \<Rightarrow> pay_db \<Rightarrow> payment_intent res" where
  "ConfirmFromWebhook E wid s =
    (case webhooks_FindByID E wid s of Inl e \<Rightarrow> Inl e
     | Inr wh \<Rightarrow>
       if wh_status wh \<noteq> WebhookStatusVerified then
         Inl (Conflict ''intent.webhook_not_verified''
           ''webhook must be in 'verified' state before confirming an intent'')
       else (case wh_intent_id wh of
           None \<Rightarrow> Inl (Validation ''intent.webhook_intent_missing''
             (''verified webhook has no payment_intent_id '' @ dash
              @ '' confirm step needs the linked intent''))
         | Some iid \<Rightarrow> intents_FindByID E iid s))"

definition CancelIntent :: "env \<Rightarrow> uuid \<Rightarrow> pay_db \<Rightarrow> pay_db \<times> payment_intent res" where
  "CancelIntent E k s =
    (case intents_FindByID E k s of Inl e \<Rightarrow> (s, Inl e)
     | Inr i \<Rightarrow>
      (case MarkCancelled (env_now E) i of Inl e \<Rightarrow> (s, Inl e)
       | Inr i' \<Rightarrow>
        (case intents_Update E IntentsUpdate i' s of Inl e \<Rightarrow> (s, Inl e)
         | Inr s' \<Rightarrow> (SafeWrite E (intent_audit i' ''status'' (payment_status_text (pi_status i))
                        (payment_status_text (pi_status i')) ''intent_cancelled'') s', Inr i'))))"

text \<open>The loop of the expiry job: an intent that cannot be expired or saved is skipped.\<close>

fun expire_loop :: "env \<Rightarrow> payment_intent list \<Rightarrow> pay_db \<Rightarrow> int \<Rightarrow> pay_db \<times> int" where
  "expire_loop E [] s n = (s, n)"
| "expire_loop E (i # is) s n =
    (case MarkExpired (env_now E) i of Inl _ \<Rightarrow> expire_loop E is s n
     | Inr i' \<Rightarrow>
      (case intents_Update E (IntentsUpdateRow (pi_id i)) i' s of Inl _ \<Rightarrow> expire_loop E is s n
       | Inr s' \<Rightarrow> expire_loop E is
           (SafeWrite E (intent_audit i' ''status'' ''pending'' ''expired'' ''intent_expired_by_cron'') s')
           (n + 1)))"

definition ExpireStaleIntents :: "env \<Rightarrow> duration \<Rightarrow> pay_db \<Rightarrow> pay_db \<times> int res" where
  "ExpireStaleIntents E older_than s =
    (let d = (if older_than \<le> 0 then 24 * 3600 * 10 ^ 9 else older_than);
         cutoff = env_now E - d
     in case ListPendingOlderThan E cutoff 500 s of Inl e \<Rightarrow> (s, Inl e)
        | Inr stale \<Rightarrow> (case expire_loop E stale s 0 of (s', n) \<Rightarrow> (s', Inr n)))"

section \<open>What an operation can do to the stored intents\<close>

definition intents_ok :: "pay_db \<Rightarrow> bool" where
  "intents_ok s \<longleftrightarrow> tkeyed pi_id (db_intents s) \<and> (\<forall>i \<in> set (db_intents s). intent_inv i)"

text \<open>
  The idempotency key is unique among the rows that have one (the UNIQUE column), so the
  key names one payment.
\<close>

definition keys_unique :: "pay_db \<Rightarrow> bool" where
  "keys_unique s \<longleftrightarrow> (\<forall>i \<in> set (db_intents s). \<forall>j \<in> set (db_intents s).
     pi_idempotency_key i = pi_idempotency_key j \<and> pi_idempotency_key i \<noteq> None \<longrightarrow> pi_id i = pi_id j)"

text \<open>
  An operation evolves the stored intents when every row that was there is still there
  under its key, with its immutable columns, and moved along a path of legal transitions.
\<close>

definition intent_evolves :: "payment_intent \<Rightarrow> payment_intent \<Rightarrow> bool" where
  "intent_evolves i j \<longleftrightarrow> intent_frame i j \<and> intent_edge\<^sup>*\<^sup>* (pi_status i) (pi_status j)"

definition intents_evolve :: "pay_db \<Rightarrow> pay_db \<Rightarrow> bool" where
  "intents_evolve s s' \<longleftrightarrow> (\<forall>k i. look_intent k s = Some i \<longrightarrow>
     (\<exists>j. look_intent k s' = Some j \<and> intent_evolves i j))"

lemma intent_evolves_refl [simp]: "intent_evolves i i"
  by (simp add: intent_evolves_def intent_frame_def)

lemma intent_evolves_trans: "intent_evolves i j \<Longrightarrow> intent_evolves j k \<Longrightarrow> intent_evolves i k"
  by (auto simp: intent_evolves_def intent_frame_def)

lemma intents_evolve_refl [simp]: "intents_evolve s s"
  by (auto simp: intents_evolve_def)

lemma intents_evolve_trans: "intents_evolve s t \<Longrightarrow> intents_evolve t u \<Longrightarrow> intents_evolve s u"
  unfolding intents_evolve_def by (meson intent_evolves_trans)

lemma intent_apply_evolves: "intent_apply now x i = Inr j \<Longrightarrow> intent_evolves i j"
  using intent_apply_edge[of now x i j] intent_apply_frame[of now x i j]
  by (auto simp: intent_evolves_def)

lemma look_intent_mem: "intents_ok s \<Longrightarrow> look_intent k s = Some i \<Longrightarrow> i \<in> set (db_intents s) \<and> intent_inv i"
  by (auto simp: intents_ok_def look_intent_def dest: tfind_SomeD)

lemma intents_ok_mem_look: "intents_ok s \<Longrightarrow> i \<in> set (db_intents s) \<Longrightarrow> look_intent (pi_id i) s = Some i"
  by (simp add: intents_ok_def look_intent_def tfind_mem)

lemma db_intents_look: "db_intents s' = db_intents s \<Longrightarrow> look_intent k s' = look_intent k s"
  by (simp add: look_intent_def)

lemma same_intents:
  assumes "db_intents s' = db_intents s"
  shows "intents_ok s' = intents_ok s" "keys_unique s' = keys_unique s" "intents_evolve s s'"
  using assms by (simp_all add: intents_ok_def keys_unique_def intents_evolve_def db_intents_look[OF assms])

text \<open>A row written back after it was read and moved by the domain methods.\<close>

lemma merge_intent_inv: "intent_frame old i \<Longrightarrow> intent_inv i \<Longrightarrow> intent_inv (merge_intent t old i)"
  by (auto simp: intent_frame_def intent_inv_def merge_intent_def split: option.splits)

lemma merge_intent_evolves: "intent_evolves old i \<Longrightarrow> intent_evolves old (merge_intent t old i)"
  by (auto simp: intent_evolves_def intent_frame_def merge_intent_def)

definition good_step :: "pay_db \<Rightarrow> pay_db \<Rightarrow> bool" where
  "good_step s s' \<longleftrightarrow> (intents_ok s \<longrightarrow> intents_ok s' \<and> intents_evolve s s' \<and> (keys_unique s \<longrightarrow> keys_unique s'))"

lemma good_step_refl [simp]: "good_step s s"
  by (simp add: good_step_def)

lemma good_step_trans: "good_step s t \<Longrightarrow> good_step t u \<Longrightarrow> good_step s u"
  by (auto simp: good_step_def intro: intents_evolve_trans)

lemma good_step_same:
  assumes "db_intents s' = db_intents s"
  shows "good_step s s'"
  by (simp add: good_step_def same_intents[OF assms])

lemma good_step_SafeWrite: "good_step s s' \<Longrightarrow> good_step s (SafeWrite E a s')"
  by (rule good_step_trans[OF _ good_step_same]) simp_all

lemma intents_Update_good:
  assumes "intents_Update E c i s = Inr s'"
    and "look_intent (pi_id i) s = Some old" "intent_evolves old i"
    and "intents_ok s \<Longrightarrow> intent_inv i"
  shows "good_step s s'"
  unfolding good_step_def
proof (intro impI conjI)
  assume ok: "intents_ok s"
  from assms(1) have sv: "save_intent (env_dbnow E) i s = Some s'"
    by (simp add: intents_Update_def)
  then obtain rows where up: "tupdate pi_id (\<lambda>q. merge_intent (env_dbnow E) q i) (pi_id i) (db_intents s)
      = Some rows" and s': "s' = s\<lparr>db_intents := rows\<rparr>" by (auto simp: save_intent_def)
  have ids: "map pi_id rows = map pi_id (db_intents s)" using up by (rule tupdate_keyed[rotated]) simp
  have row: "q' \<in> set rows \<Longrightarrow> (q' \<in> set (db_intents s)) \<or> q' = merge_intent (env_dbnow E) old i" for q'
    using tupdate_set[OF up, of q'] assms(2) ok intents_ok_mem_look[OF ok] by fastforce
  have inv: "intent_inv (merge_intent (env_dbnow E) old i)"
    using assms(3,4) ok by (intro merge_intent_inv) (auto simp: intent_evolves_def)
  show "intents_ok s'"
    using ok row inv ids by (auto simp: intents_ok_def s' tkeyed_def)
  show "intents_evolve s s'"
    unfolding intents_evolve_def
  proof (intro allI impI)
    fix k q assume "look_intent k s = Some q"
    then show "\<exists>j. look_intent k s' = Some j \<and> intent_evolves q j"
      using intents.save_rel[OF sv, where R = intent_evolves] assms(2,3) merge_intent_evolves by auto
  qed
  assume ku: "keys_unique s"
  have oldmem: "old \<in> set (db_intents s)" using look_intent_mem[OF ok assms(2)] by simp
  have key: "pi_idempotency_key (merge_intent (env_dbnow E) old i) = pi_idempotency_key old"
    by (simp add: merge_intent_def)
  have "\<exists>p \<in> set (db_intents s). pi_id p = pi_id q \<and> pi_idempotency_key p = pi_idempotency_key q"
    if "q \<in> set rows" for q using row[OF that] oldmem key by auto
  then show "keys_unique s'"
    using ku unfolding keys_unique_def s' by simp metis
qed

lemma routeAndProvision_good:
  assumes "look_intent (pi_id i) s = Some old" "intent_evolves old i" "intents_ok s \<Longrightarrow> intent_inv i"
    and "routeAndProvision E i m s = (s', i', r)"
  shows "good_step s s'"
proof -
  have same: "good_step s (s\<lparr>ext_payments := l\<rparr>)" for l
    by (rule good_step_same) simp
  have step: "good_step s s'"
    if "intent_evolves i j" "intents_ok s \<Longrightarrow> intent_inv j"
      "intents_Update E IntentsUpdate j (s\<lparr>ext_payments := l\<rparr>) = Inr s'" for j s' l
  proof -
    have "pi_id j = pi_id i" using that(1) by (simp add: intent_evolves_def intent_frame_def)
    then have "look_intent (pi_id j) (s\<lparr>ext_payments := l\<rparr>) = Some old"
      using assms(1) by (simp add: look_intent_def)
    moreover have "intents_ok (s\<lparr>ext_payments := l\<rparr>) \<Longrightarrow> intent_inv j"
      using that(2) by (simp add: intents_ok_def)
    ultimately have "good_step (s\<lparr>ext_payments := l\<rparr>) s'"
      using intent_evolves_trans[OF assms(2) that(1)] by (intro intents_Update_good[OF that(3)])
    with same show ?thesis by (rule good_step_trans)
  qed
  have routed: "intent_evolves i j" "intents_ok s \<Longrightarrow> intent_inv j" if "Route n g d i = Inr j" for n g d j
    using that assms(3) intent_apply_evolves[of n "OpRoute g d" i j]
      intent_apply_inv[of i n "OpRoute g d" j] by auto
  have failed: "intent_evolves i (after j (MarkFailed n c r j))"
      "intents_ok s \<Longrightarrow> intent_inv (after j (MarkFailed n c r j))"
    if "intent_evolves i j" "intents_ok s \<Longrightarrow> intent_inv j" for n c r j
    using that intent_apply_evolves[of n "OpFailed c r" j] intent_apply_inv[of j n "OpFailed c r"]
    by (cases "MarkFailed n c r j"; auto intro: intent_evolves_trans)+
  have pending: "intent_evolves i k" "intents_ok s \<Longrightarrow> intent_inv k"
    if "intent_evolves i j" "intents_ok s \<Longrightarrow> intent_inv j" "MarkPending n ref j = Inr k" for n ref j k
    using that intent_apply_evolves[of n "OpPending ref" j] intent_apply_inv[of j n "OpPending ref"]
    by (auto intro: intent_evolves_trans)
  show ?thesis
    using assms(4)
    by (simp add: routeAndProvision_def Let_def split: sum.splits prod.splits option.splits)
       (blast intro: step same good_step_refl routed failed pending)+
qed

text \<open>Creation: the new row is fresh, and no stored row carries its idempotency key.\<close>

lemma intents_evolve_append:
  "db_intents s' = db_intents s @ [i] \<Longrightarrow> intents_evolve s s'"
  by (auto simp: intents_evolve_def look_intent_def tfind_append)

lemma insert_good:
  assumes "tinsert pi_id i (db_intents s) = Some rows" "intent_inv i"
    and "pi_idempotency_key i = None \<or> (\<forall>j \<in> set (db_intents s). pi_idempotency_key j \<noteq> pi_idempotency_key i)"
  shows "good_step s (s\<lparr>db_intents := rows\<rparr>)"
proof -
  have rows: "rows = db_intents s @ [i]" using assms(1) by (auto simp: tinsert_def split: if_splits)
  have "tkeyed pi_id (db_intents s) \<Longrightarrow> tkeyed pi_id rows" using assms(1) by (rule tinsert_keyed[rotated])
  then have ok: "intents_ok s \<Longrightarrow> intents_ok (s\<lparr>db_intents := rows\<rparr>)"
    using assms(2) by (simp add: intents_ok_def) (simp add: rows)
  have "keys_unique (s\<lparr>db_intents := rows\<rparr>)" if ku: "keys_unique s"
    unfolding keys_unique_def
  proof (intro ballI impI)
    fix a b assume "a \<in> set (db_intents (s\<lparr>db_intents := rows\<rparr>))" "b \<in> set (db_intents (s\<lparr>db_intents := rows\<rparr>))"
      and k: "pi_idempotency_key a = pi_idempotency_key b \<and> pi_idempotency_key a \<noteq> None"
    then consider "a \<in> set (db_intents s)" "b \<in> set (db_intents s)" | "a = i" "b = i"
      | "a \<in> set (db_intents s)" "b = i" | "a = i" "b \<in> set (db_intents s)" by (auto simp: rows)
    then show "pi_id a = pi_id b"
    proof cases
      case 1
      with ku k show ?thesis unfolding keys_unique_def by blast
    next
      case 3
      with k assms(3) show ?thesis by metis
    next
      case 4
      with k assms(3) show ?thesis by metis
    qed simp
  qed
  then show ?thesis
    using ok intents_evolve_append[of "s\<lparr>db_intents := rows\<rparr>" s i] by (simp add: good_step_def rows)
qed

lemma find_None_all: "find P xs = None \<longleftrightarrow> (\<forall>x \<in> set xs. \<not> P x)"
  by (auto simp: find_None_iff)

lemma find_SomeD: "find P xs = Some x \<Longrightarrow> x \<in> set xs \<and> P x"
  by (induction xs) (auto split: if_splits)

lemma CreateOrFetch_cases:
  assumes "CreateOrFetchByIdempotency E i s = (s', Inr (isfresh, p))"
    and "pi_idempotency_key i \<noteq> Some []"
  shows "(isfresh \<and> p = i \<and> (\<exists>rows. tinsert pi_id i (db_intents s) = Some rows \<and> s' = s\<lparr>db_intents := rows\<rparr>)
            \<and> (pi_idempotency_key i = None
               \<or> (\<forall>j \<in> set (db_intents s). pi_idempotency_key j \<noteq> pi_idempotency_key i)))
       \<or> (\<not> isfresh \<and> s' = s \<and> p \<in> set (db_intents s)
            \<and> pi_idempotency_key p = pi_idempotency_key i \<and> pi_idempotency_key i \<noteq> None)"
proof (cases "pi_idempotency_key i = None")
  case True
  with assms show ?thesis
    by (auto simp: CreateOrFetchByIdempotency_def Let_def split: option.splits)
next
  case key: False
  let ?f = "find (\<lambda>r. pi_idempotency_key r = pi_idempotency_key i) (db_intents s)"
  show ?thesis
  proof (cases ?f)
    case None
    then have "\<forall>j \<in> set (db_intents s). pi_idempotency_key j \<noteq> pi_idempotency_key i"
      by (simp add: find_None_all)
    with assms key None show ?thesis
      by (auto simp: CreateOrFetchByIdempotency_def Let_def split: option.splits)
  next
    case (Some r)
    with find_SomeD[OF Some] assms key show ?thesis
      by (auto simp: CreateOrFetchByIdempotency_def Let_def split: option.splits)
  qed
qed

lemma CreateOrFetch_error: "CreateOrFetchByIdempotency E i s = (s', Inl e) \<Longrightarrow> s' = s"
  by (auto simp: CreateOrFetchByIdempotency_def Let_def split: option.splits if_splits)

lemma new_row_inv: "intent_inv (new_row inp i) = intent_inv i"
  by (simp add: new_row_def Let_def intent_inv_def)

lemma new_row_key: "NewPaymentIntent f n v a k = Inr i \<Longrightarrow> pi_idempotency_key (new_row inp i) \<noteq> Some []"
  by (auto simp: NewPaymentIntent_def new_row_def Let_def split: if_splits)

lemma CreateIntent_good:
  assumes "CreateIntent E inp s = (s', r)"
  shows "good_step s s'"
proof (cases "NewPaymentIntent (env_fresh E) (env_now E) (ci_invoice_id inp) (ci_amount inp) (ci_idempotency_key inp)")
  case (Inl e)
  with assms show ?thesis by (simp add: CreateIntent_def)
next
  case (Inr i0)
  let ?i = "new_row inp i0"
  have inv: "intent_inv ?i" using NewPaymentIntent_inv[OF Inr] by (simp add: new_row_inv)
  have key: "pi_idempotency_key ?i \<noteq> Some []" using Inr by (rule new_row_key)
  note unf = CreateIntent_def Inr
  obtain s1 r1 where c: "CreateOrFetchByIdempotency E ?i s = (s1, r1)"
    by (cases "CreateOrFetchByIdempotency E ?i s")
  show ?thesis
  proof (cases r1)
    case (Inl e)
    with c have "s1 = s" using CreateOrFetch_error by blast
    with assms c Inl show ?thesis by (simp add: unf)
  next
    case r1: (Inr fp)
    obtain isfresh p where fp: "fp = (isfresh, p)" by (cases fp)
    show ?thesis
    proof (cases isfresh)
      case False
      with assms c r1 fp CreateOrFetch_cases[OF c[unfolded r1 fp] key] show ?thesis by (simp add: unf)
    next
      case True
      with CreateOrFetch_cases[OF c[unfolded r1 fp] key] obtain rows where
        p: "p = ?i" and ins: "tinsert pi_id ?i (db_intents s) = Some rows"
        and s1: "s1 = s\<lparr>db_intents := rows\<rparr>"
        and k: "pi_idempotency_key ?i = None
               \<or> (\<forall>j \<in> set (db_intents s). pi_idempotency_key j \<noteq> pi_idempotency_key ?i)" by auto
      have g1: "good_step s s1" unfolding s1 by (rule insert_good[OF ins inv k])
      have l1: "look_intent (pi_id ?i) s1 = Some ?i"
        using tfind_tinsert[OF ins] by (simp add: s1 look_intent_def)
      obtain s2 p' v e where rp: "routeAndProvision E p (ci_preferred_method inp) s1 = (s2, p', v, e)"
        by (cases "routeAndProvision E p (ci_preferred_method inp) s1")
      have "good_step s1 s2" using rp l1 inv p by (auto intro: routeAndProvision_good)
      with g1 have "good_step s s2" by (rule good_step_trans)
      with assms c r1 fp True rp show ?thesis
        by (auto simp: unf intro: good_step_SafeWrite split: option.splits)
    qed
  qed
qed

lemma RouteAndPay_good:
  assumes "RouteAndPay E k s = (s', r)"
  shows "good_step s s'"
proof (cases "\<exists>i. intents_FindByID E k s = Inr i \<and> pi_status i \<in> {PaymentStatusCreated, PaymentStatusRouting}")
  case True
  then obtain i where i: "intents_FindByID E k s = Inr i" by blast
  then have l: "look_intent k s = Some i" by (simp add: intents_FindByID_def)
  have id: "pi_id i = k" using l by (rule intents.look_key)
  obtain s2 i' v e where rp: "routeAndProvision E i [] s = (s2, i', v, e)"
    by (cases "routeAndProvision E i [] s")
  have "intents_ok s \<Longrightarrow> intent_inv i" using l look_intent_mem by blast
  with rp l id have "good_step s s2" by (auto intro: routeAndProvision_good)
  with assms True i rp show ?thesis by (auto simp: RouteAndPay_def split: if_splits)
next
  case False
  with assms show ?thesis by (auto simp: RouteAndPay_def split: sum.splits if_splits)
qed

text \<open>One move of one stored intent by a domain method, saved.\<close>

lemma apply_save_good:
  assumes "look_intent k s = Some i" "intent_apply now x i = Inr j" "intents_Update E c j s = Inr s'"
  shows "good_step s s'"
proof (rule intents_Update_good[OF assms(3)])
  show "intent_evolves i j" using assms(2) by (rule intent_apply_evolves)
  then have "pi_id j = pi_id i" by (simp add: intent_evolves_def intent_frame_def)
  then show "look_intent (pi_id j) s = Some i" using assms(1) intents.look_key[OF assms(1)] by simp
  show "intents_ok s \<Longrightarrow> intent_inv j"
    using assms look_intent_mem intent_apply_inv by blast
qed

lemma CancelIntent_good: "CancelIntent E k s = (s', r) \<Longrightarrow> good_step s s'"
proof -
  assume c: "CancelIntent E k s = (s', r)"
  show ?thesis
  proof (cases "intents_FindByID E k s")
    case (Inl e)
    with c show ?thesis by (simp add: CancelIntent_def)
  next
    case i: (Inr i)
    show ?thesis
    proof (cases "MarkCancelled (env_now E) i")
      case (Inl e)
      with c i show ?thesis by (simp add: CancelIntent_def)
    next
      case (Inr j)
      with c i show ?thesis
        by (auto simp: CancelIntent_def intents_FindByID_def split: sum.splits
            intro!: good_step_SafeWrite apply_save_good[where x = OpCancelled and k = k and i = i])
    qed
  qed
qed

text \<open>
  The expiry loop works on copies read before it started, so it needs that each copy is
  still what is stored: the copies have distinct keys, and a save touches its own row only.
\<close>

lemma expire_loop_good:
  "distinct (map pi_id is) \<Longrightarrow> (\<And>i. i \<in> set is \<Longrightarrow> look_intent (pi_id i) s = Some i)
   \<Longrightarrow> expire_loop E is s n = (s', m) \<Longrightarrow> good_step s s'"
proof (induction "is" arbitrary: s n)
  case (Cons i "is")
  show ?case
  proof (cases "MarkExpired (env_now E) i")
    case (Inl e)
    with Cons show ?thesis by simp
  next
    case (Inr i')
    show ?thesis
    proof (cases "intents_Update E (IntentsUpdateRow (pi_id i)) i' s")
      case (Inl e)
      with Cons Inr show ?thesis by simp
    next
      case up: (Inr s1)
      have g: "good_step s s1"
        using Cons.prems(2)[of i] Inr up by (intro apply_save_good[where x = OpExpired]) auto
      have id: "pi_id i' = pi_id i" using Inr by (auto simp: MarkExpired_def split: if_splits)
      have "look_intent (pi_id q) s1 = Some q" if "q \<in> set is" for q
      proof -
        have "pi_id q \<noteq> pi_id i'" using that Cons.prems(1) id by (metis distinct.simps(2) image_eqI list.simps(9) set_map)
        then show ?thesis
          using up Cons.prems(2)[of q] that
          by (auto simp: intents_Update_def intents.look_save_other)
      qed
      then have "good_step (SafeWrite E (intent_audit i' ''status'' ''pending'' ''expired''
          ''intent_expired_by_cron'') s1) s'"
        using Cons.prems Inr up by (intro Cons.IH) (auto simp: look_intent_def)
      with g show ?thesis by (blast intro: good_step_trans good_step_SafeWrite)
    qed
  qed
qed simp

lemma page_subset: "set (page n d xs) \<subseteq> set xs"
  by (auto simp: page_def dest: in_set_takeD in_set_dropD)

lemma distinct_map_page: "distinct (map f xs) \<Longrightarrow> distinct (map f (page n d xs))"
  by (simp add: page_def take_map[symmetric] drop_map[symmetric])

lemma distinct_map_order_by: "distinct (map f xs) \<Longrightarrow> distinct (map f (order_by g xs))"
  by (simp add: order_by_def distinct_map)

lemma distinct_map_filter_key: "distinct (map f xs) \<Longrightarrow> distinct (map f (filter P xs))"
  by (simp add: distinct_map_filter)

lemma ExpireStaleIntents_good:
  assumes "ExpireStaleIntents E d s = (s', r)"
  shows "good_step s s'"
proof (cases "ListPendingOlderThan E (env_now E - (if d \<le> 0 then 24 * 3600 * 10 ^ 9 else d)) 500 s")
  case (Inl e)
  with assms show ?thesis by (simp add: ExpireStaleIntents_def Let_def)
next
  case (Inr stale)
  obtain s2 n where l: "expire_loop E stale s 0 = (s2, n)" by (cases "expire_loop E stale s 0")
  have "good_step s s2" if ok: "intents_ok s"
  proof (rule expire_loop_good[OF _ _ l])
    show "distinct (map pi_id stale)" using Inr ok
      by (auto simp: ListPendingOlderThan_def intents_ok_def tkeyed_def intro!: distinct_map_page
          distinct_map_order_by distinct_map_filter_key)
    show "i \<in> set stale \<Longrightarrow> look_intent (pi_id i) s = Some i" for i
      using Inr page_subset ok by (force simp: ListPendingOlderThan_def intro!: intents_ok_mem_look)
  qed
  then have "good_step s s2" by (auto simp: good_step_def)
  with assms Inr l show ?thesis by (auto simp: ExpireStaleIntents_def Let_def)
qed

end
