(* ===== verification/PaymentRefundSvc.thy ===== *)
theory PaymentRefundSvc
  imports PaymentIntentSvc
begin

text \<open>
  The refund service (\<^verbatim>\<open>internal/payment/usecase/refund.go\<close>): request with the headroom
  check, approval and rejection, the call to the gateway, and completion, which recomputes
  the refunded amount of the parent intent from the completed rows. The second part shows
  that the gateway is asked at most once per refund and only for an approved one, and what
  completion writes to the intent.
\<close>

section \<open>Operations\<close>

record request_refund_input =
  rr_intent_id :: uuid
  rr_amount :: f64
  rr_reason :: string
  rr_requested_by :: "uuid option"

definition refund_audit ::
    "uuid \<Rightarrow> refund \<Rightarrow> string \<Rightarrow> string \<Rightarrow> string \<Rightarrow> audit_entry" where
  "refund_audit user r field before_text reason =
     \<lparr>ae_user = user, ae_record_type = ''payment.refund'', ae_record_id = rf_id r,
      ae_field = field, ae_before = before_text, ae_after = refund_status_text (rf_status r),
      ae_reason = reason\<rparr>"

text \<open>The tolerance constant \<open>0.001\<close>.\<close>

definition milli :: f64 where
  "milli = rnd (1 / 1000)"

definition RequestRefund :: "env \<Rightarrow> request_refund_input \<Rightarrow> pay_db \<Rightarrow> pay_db \<times> refund res" where
  "RequestRefund E inp s =
    (case intents_FindByID E (rr_intent_id inp) s of Inl e \<Rightarrow> (s, Inl e)
     | Inr i \<Rightarrow>
       if pi_status i \<noteq> PaymentStatusSucceeded \<and> pi_status i \<noteq> PaymentStatusPartiallyRefunded then
         (s, Inl (Conflict ''refund.intent_not_eligible''
           (''only succeeded or partially-refunded intents can be refunded (current status: ''
            @ payment_status_text (pi_status i) @ '')'')))
       else let headroom = fsub (pi_amount i) (pi_refunded_amount i) in
         if flt (fadd headroom milli) (rr_amount inp) then
           (s, Inl (Validation ''refund.amount_exceeds_headroom''
             ''refund amount exceeds remaining refundable balance''))
         else (case NewRefund (env_fresh E) (env_now E) (rr_intent_id inp) (rr_amount inp)
                      (rr_reason inp) (rr_requested_by inp) of
             Inl e \<Rightarrow> (s, Inl e)
           | Inr r \<Rightarrow>
              (case refunds_Create E r s of Inl e \<Rightarrow> (s, Inl e)
               | Inr s' \<Rightarrow>
                  (let uid = (case rr_requested_by inp of None \<Rightarrow> Nil_uuid | Some u \<Rightarrow> u)
                   in (SafeWrite E (refund_audit uid r [] [] ''refund_requested'') s', Inr r)))))"

definition ApproveRefund :: "env \<Rightarrow> uuid \<Rightarrow> uuid \<Rightarrow> pay_db \<Rightarrow> pay_db \<times> refund res" where
  "ApproveRefund E k by_user s =
    (case refunds_FindByID E k s of Inl e \<Rightarrow> (s, Inl e)
     | Inr r \<Rightarrow>
      (case refund_Approve (env_now E) by_user r of Inl e \<Rightarrow> (s, Inl e)
       | Inr r' \<Rightarrow>
        (case refunds_Update E 0 r' s of Inl e \<Rightarrow> (s, Inl e)
         | Inr s' \<Rightarrow> (SafeWrite E (refund_audit by_user r' ''status''
                        (refund_status_text (rf_status r)) ''refund_approved'') s', Inr r'))))"

definition RejectRefund :: "env \<Rightarrow> uuid \<Rightarrow> string \<Rightarrow> pay_db \<Rightarrow> pay_db \<times> refund res" where
  "RejectRefund E k reason s =
    (case refunds_FindByID E k s of Inl e \<Rightarrow> (s, Inl e)
     | Inr r \<Rightarrow>
      (case refund_Reject (env_now E) reason r of Inl e \<Rightarrow> (s, Inl e)
       | Inr r' \<Rightarrow>
        (case refunds_Update E 0 r' s of Inl e \<Rightarrow> (s, Inl e)
         | Inr s' \<Rightarrow> (SafeWrite E (refund_audit Nil_uuid r' ''status''
                        (refund_status_text (rf_status r)) (''refund_rejected:'' @ reason)) s',
                     Inr r'))))"

definition ProcessRefund ::
    "env \<Rightarrow> uuid \<Rightarrow> pay_db \<Rightarrow> pay_db \<times> refund option \<times> derr option" where
  "ProcessRefund E k s =
    (case refunds_FindByID E k s of Inl e \<Rightarrow> (s, None, Some e)
     | Inr r \<Rightarrow>
    (case intents_FindByID E (rf_intent_id r) s of Inl e \<Rightarrow> (s, None, Some e)
     | Inr i \<Rightarrow>
    (case pi_gateway_id i of
       None \<Rightarrow> (s, None, Some (Validation ''refund.intent_has_no_gateway''
         ''cannot process refund: the parent intent has no chosen gateway''))
     | Some gid \<Rightarrow>
    (case gateways_FindByID E gid s of Inl e \<Rightarrow> (s, None, Some e)
     | Inr gw \<Rightarrow>
    (case env_client E (gw_code gw) of
       Inl c \<Rightarrow> (s, None, Some (Wrap KindInternal ''refund.gateway_client_missing''
         (''gateway client not registered for code '' @ gw_code gw) c))
     | Inr client \<Rightarrow>
    (case StartProcessing (env_now E) r of Inl e \<Rightarrow> (s, None, Some e)
     | Inr r1 \<Rightarrow>
    (case refunds_Update E 0 r1 s of Inl e \<Rightarrow> (s, None, Some e)
     | Inr s1 \<Rightarrow>
      (let s2 = s1\<lparr>ext_refunds := ext_refunds s1 @ [(rf_id r1, rf_amount r1)]\<rparr> in
       case cl_refund_payment client i (rf_amount r1) (rf_reason r1) of
         Inl msg \<Rightarrow>
          (let r2 = after r1 (refund_MarkFailed (env_now E) msg r1);
               s3 = after s2 (refunds_Update E 1 r2 s2)
           in (s3, Some r2, Some (Wrap KindUnavailable ''refund.gateway_call_failed''
                 (''gateway '' @ gw_code gw @ '' rejected the refund'') msg)))
       | Inr ref \<Rightarrow>
          if ref \<noteq> [] then
            (let r2 = r1\<lparr>rf_external_ref := Some ref\<rparr> in
             case refunds_Update E 2 r2 s2 of Inl e \<Rightarrow> (s2, None, Some e)
             | Inr s3 \<Rightarrow> (s3, Some r2, None))
          else (s2, Some r1, None)))))))))"

text \<open>The second half of completion: the parent intent takes the cumulative amount.\<close>

definition settle_intent :: "env \<Rightarrow> uuid \<Rightarrow> pay_db \<Rightarrow> pay_db" where
  "settle_intent E iid s =
    (case intents_FindByID E iid s of Inl _ \<Rightarrow> s
     | Inr i \<Rightarrow>
      (case SumCompletedForIntent E iid s of Inl _ \<Rightarrow> s
       | Inr cumulative \<Rightarrow>
          if flt (fabs (fsub cumulative (pi_amount i))) milli then
            (case MarkFullyRefunded (env_now E) i of Inl _ \<Rightarrow> s
             | Inr j \<Rightarrow> SafeWrite E (intent_audit j ''status'' ''succeeded/partially_refunded''
                 (payment_status_text (pi_status j)) ''intent_fully_refunded'')
                 (after s (intents_Update E IntentsUpdate j s)))
          else if flt (Fin 0) cumulative then
            (case MarkPartiallyRefunded (env_now E) cumulative i of Inl _ \<Rightarrow> s
             | Inr j \<Rightarrow> SafeWrite E (intent_audit j ''status'' ''succeeded''
                 (payment_status_text (pi_status j)) ''intent_partially_refunded'')
                 (after s (intents_Update E IntentsUpdate j s)))
          else s))"

definition MarkRefundCompleted :: "env \<Rightarrow> uuid \<Rightarrow> string \<Rightarrow> pay_db \<Rightarrow> pay_db \<times> refund res" where
  "MarkRefundCompleted E k external_ref s =
    (case refunds_FindByID E k s of Inl e \<Rightarrow> (s, Inl e)
     | Inr r \<Rightarrow>
      (case refund_MarkCompleted (env_now E) external_ref r of Inl e \<Rightarrow> (s, Inl e)
       | Inr r' \<Rightarrow>
        (case refunds_Update E 0 r' s of Inl e \<Rightarrow> (s, Inl e)
         | Inr s1 \<Rightarrow>
            (let s2 = SafeWrite E (refund_audit Nil_uuid r' ''status''
                        (refund_status_text (rf_status r)) ''refund_completed'') s1
             in (settle_intent E (rf_intent_id r') s2, Inr r')))))"

section \<open>Effect on the intents\<close>

lemma refund_writes [simp]:
  "refunds_Create E r s = Inr s' \<Longrightarrow> db_intents s' = db_intents s \<and> ext_refunds s' = ext_refunds s"
  "refunds_Update E n r s = Inr s' \<Longrightarrow> db_intents s' = db_intents s \<and> ext_refunds s' = ext_refunds s"
  by (auto simp: refunds_Create_def refunds_Update_def save_refund_def split: option.splits)

lemma settle_intent_good: "good_step s (settle_intent E iid s)"
proof (cases "intents_FindByID E iid s")
  case (Inr i)
  then have l: "look_intent iid s = Some i" by (simp add: intents_FindByID_def)
  have upd: "good_step s (after s (intents_Update E IntentsUpdate j s))"
    if "intent_apply n x i = Inr j" for n x j
    using apply_save_good[OF l that] by (cases "intents_Update E IntentsUpdate j s") auto
  have full: "MarkFullyRefunded n i = Inr j \<Longrightarrow> good_step s (after s (intents_Update E IntentsUpdate j s))"
    and part: "MarkPartiallyRefunded n c i = Inr j \<Longrightarrow> good_step s (after s (intents_Update E IntentsUpdate j s))"
    for n c j using upd[of n OpFull] upd[of n "OpPartial c"] by simp_all
  show ?thesis
    by (auto simp: settle_intent_def Inr split: sum.splits intro: good_step_SafeWrite full part)
qed (simp add: settle_intent_def)

lemma refund_ops_intents:
  "RequestRefund E inp s = (s', x) \<Longrightarrow> db_intents s' = db_intents s"
  "ApproveRefund E k u s = (s', x) \<Longrightarrow> db_intents s' = db_intents s"
  "RejectRefund E k reason s = (s', x) \<Longrightarrow> db_intents s' = db_intents s"
  by (auto simp: RequestRefund_def ApproveRefund_def RejectRefund_def Let_def
      split: sum.splits if_splits)

lemma ProcessRefund_intents:
  "ProcessRefund E k s = (s', x) \<Longrightarrow> db_intents s' = db_intents s"
proof -
  have aft: "db_intents (after s (refunds_Update E n r s)) = db_intents s" for n r s
    by (cases "refunds_Update E n r s") auto
  assume "ProcessRefund E k s = (s', x)"
  then show ?thesis
    by (auto simp: ProcessRefund_def Let_def aft split: sum.splits option.splits if_splits)
qed

lemma MarkRefundCompleted_good:
  assumes "MarkRefundCompleted E k ref s = (s', x)"
  shows "good_step s s'"
proof -
  have "good_step s (settle_intent E iid (SafeWrite E a s1))" if "db_intents s1 = db_intents s" for iid a s1
    by (rule good_step_trans[OF _ settle_intent_good]) (simp add: good_step_same that)
  with assms show ?thesis
    by (auto simp: MarkRefundCompleted_def Let_def split: sum.splits)
qed

section \<open>The refunds table and the calls to the gateway\<close>

text \<open>
  What holds of the refunds table in every state: the key constraint, the entity invariant
  of each row, and that each call of \<^verbatim>\<open>RefundPayment\<close> was for a different refund, which was
  approved and has left \<^verbatim>\<open>approved\<close> for good, and for its amount.
\<close>

definition call_ok :: "pay_db \<Rightarrow> uuid \<times> f64 \<Rightarrow> bool" where
  "call_ok s c \<longleftrightarrow> (\<exists>r. look_refund (fst c) s = Some r \<and> rf_amount r = snd c
     \<and> rf_status r \<in> {RefundStatusProcessing, RefundStatusCompleted, RefundStatusFailed})"

definition refunds_ok :: "pay_db \<Rightarrow> bool" where
  "refunds_ok s \<longleftrightarrow> tkeyed rf_id (db_refunds s) \<and> (\<forall>r \<in> set (db_refunds s). refund_inv r)
     \<and> distinct (map fst (ext_refunds s)) \<and> (\<forall>c \<in> set (ext_refunds s). call_ok s c)"

lemma call_ok_same: "db_refunds s' = db_refunds s \<Longrightarrow> call_ok s' c = call_ok s c"
  by (simp add: call_ok_def look_refund_def)

lemma refunds_ok_same:
  assumes "db_refunds s' = db_refunds s" "ext_refunds s' = ext_refunds s"
  shows "refunds_ok s' = refunds_ok s"
  using assms(2) by (simp add: refunds_ok_def assms(1) call_ok_same[OF assms(1)])

lemma refunds_ok_SafeWrite [simp]: "refunds_ok (SafeWrite E a s) = refunds_ok s"
  by (rule refunds_ok_same) simp_all

lemma look_refund_mem: "refunds_ok s \<Longrightarrow> look_refund k s = Some r \<Longrightarrow> r \<in> set (db_refunds s) \<and> refund_inv r"
  by (auto simp: refunds_ok_def look_refund_def dest: tfind_SomeD)

lemma refunds_mem_look: "refunds_ok s \<Longrightarrow> r \<in> set (db_refunds s) \<Longrightarrow> look_refund (rf_id r) s = Some r"
  by (simp add: refunds_ok_def look_refund_def tfind_mem)

text \<open>
  What a saved row may be: it carries the key, intent and amount of the stored one, and if
  the stored one had been sent to the gateway it still counts as sent.
\<close>

definition refund_moves :: "refund \<Rightarrow> refund \<Rightarrow> bool" where
  "refund_moves old r \<longleftrightarrow> rf_id r = rf_id old \<and> rf_intent_id r = rf_intent_id old
     \<and> rf_amount r = rf_amount old
     \<and> (rf_status r = rf_status old \<or> refund_edge (rf_status old) (rf_status r))"

lemma refund_apply_moves: "refund_apply now x r = Inr r' \<Longrightarrow> refund_moves r r'"
  using refund_apply_edge[of now x r r'] refund_apply_frame[of now x r r']
  by (auto simp: refund_moves_def refund_frame_def)

lemma sent_moves:
  "refund_moves old r \<Longrightarrow> rf_status old \<in> {RefundStatusProcessing, RefundStatusCompleted, RefundStatusFailed}
   \<Longrightarrow> rf_status r \<in> {RefundStatusProcessing, RefundStatusCompleted, RefundStatusFailed}"
  by (cases "rf_status old") (auto simp: refund_moves_def)

lemma merge_refund_inv: "rf_intent_id r = rf_intent_id old \<Longrightarrow> refund_inv r \<Longrightarrow> refund_inv (merge_refund t old r)"
  by (auto simp: refund_inv_def merge_refund_def)

lemma refunds_Update_ok:
  assumes ok: "refunds_ok s" and up: "refunds_Update E n r s = Inr s'"
    and old: "look_refund (rf_id r) s = Some old" "refund_moves old r" "refund_inv r"
  shows "refunds_ok s'" and "look_refund (rf_id r) s' = Some (merge_refund (env_dbnow E) old r)"
proof -
  from up have sv: "save_refund (env_dbnow E) r s = Some s'" by (simp add: refunds_Update_def)
  then obtain rows where tu: "tupdate rf_id (\<lambda>q. merge_refund (env_dbnow E) q r) (rf_id r) (db_refunds s)
      = Some rows" and s': "s' = s\<lparr>db_refunds := rows\<rparr>" by (auto simp: save_refund_def)
  show "look_refund (rf_id r) s' = Some (merge_refund (env_dbnow E) old r)"
    using refunds.look_save_same[OF sv old(1)] .
  have ids: "map rf_id rows = map rf_id (db_refunds s)" using tu by (rule tupdate_keyed[rotated]) simp
  have inv: "refund_inv (merge_refund (env_dbnow E) old r)"
    using old by (intro merge_refund_inv) (auto simp: refund_moves_def)
  have rows: "\<forall>q \<in> set rows. refund_inv q"
    using tupdate_set[OF tu] ok inv old(1) refunds_mem_look[OF ok]
    by (fastforce simp: refunds_ok_def)
  have "call_ok s' c" if "call_ok s c" for c
  proof -
    from that obtain q where q: "look_refund (fst c) s = Some q" "rf_amount q = snd c"
      "rf_status q \<in> {RefundStatusProcessing, RefundStatusCompleted, RefundStatusFailed}"
      by (auto simp: call_ok_def)
    show ?thesis
    proof (cases "fst c = rf_id r")
      case True
      then have "q = old" using q(1) old(1) by simp
      moreover have "rf_amount (merge_refund (env_dbnow E) old r) = rf_amount old"
        "rf_status (merge_refund (env_dbnow E) old r) = rf_status r"
        using old(2) by (auto simp: merge_refund_def refund_moves_def)
      ultimately show ?thesis
        using q sent_moves[OF old(2)] refunds.look_save_same[OF sv old(1)] True
        by (auto simp: call_ok_def)
    next
      case False
      with q refunds.look_save_other[OF sv] show ?thesis by (auto simp: call_ok_def)
    qed
  qed
  then show "refunds_ok s'"
    using ok rows ids by (simp add: refunds_ok_def s' tkeyed_def)
qed

lemma refund_apply_save_ok:
  assumes "refunds_ok s" "look_refund k s = Some r" "refund_apply now x r = Inr r'"
    and "refunds_Update E n r' s = Inr s'"
  shows "refunds_ok s'" and "look_refund k s' = Some (merge_refund (env_dbnow E) r r')"
proof -
  have id: "rf_id r = k" using assms(2) by (rule refunds.look_key)
  have mv: "refund_moves r r'" using assms(3) by (rule refund_apply_moves)
  then have l: "look_refund (rf_id r') s = Some r" using assms(2) id by (simp add: refund_moves_def)
  have inv: "refund_inv r'" using assms look_refund_mem refund_apply_inv by blast
  from refunds_Update_ok[OF assms(1,4) l mv inv] mv id
  show "refunds_ok s'" "look_refund k s' = Some (merge_refund (env_dbnow E) r r')"
    by (auto simp: refund_moves_def)
qed

lemma refunds_Create_ok:
  assumes "refunds_ok s" "refunds_Create E r s = Inr s'" "refund_inv r"
  shows "refunds_ok s'"
proof -
  from assms(2) have "tinsert rf_id r (db_refunds s) \<noteq> None"
    by (cases "tinsert rf_id r (db_refunds s)") (simp_all add: refunds_Create_def)
  then obtain rows where ins: "tinsert rf_id r (db_refunds s) = Some rows" by blast
  with assms(2) have s': "s' = s\<lparr>db_refunds := rows\<rparr>" by (simp add: refunds_Create_def)
  have rows: "rows = db_refunds s @ [r]" using ins by (auto simp: tinsert_def split: if_splits)
  have k: "tkeyed rf_id rows" using assms(1) by (intro tinsert_keyed[OF _ ins]) (simp add: refunds_ok_def)
  have call: "call_ok s' c" if "call_ok s c" for c
  proof -
    from that obtain q where "look_refund (fst c) s = Some q" "rf_amount q = snd c"
      "rf_status q \<in> {RefundStatusProcessing, RefundStatusCompleted, RefundStatusFailed}"
      unfolding call_ok_def by blast
    moreover from this(1) have "look_refund (fst c) s' = Some q"
      by (simp add: look_refund_def s' rows tfind_append)
    ultimately show ?thesis unfolding call_ok_def by blast
  qed
  have "\<forall>q \<in> set rows. refund_inv q" using assms(1,3) by (simp add: rows refunds_ok_def)
  moreover have "\<forall>c \<in> set (ext_refunds s'). call_ok s' c"
    using assms(1) call by (simp add: refunds_ok_def s')
  ultimately show ?thesis using assms(1) k by (simp add: refunds_ok_def s')
qed

lemma RequestRefund_ok:
  "refunds_ok s \<Longrightarrow> RequestRefund E inp s = (s', x) \<Longrightarrow> refunds_ok s'"
  by (auto simp: RequestRefund_def Let_def split: sum.splits if_splits
      intro: refunds_Create_ok[OF _ _ NewRefund_inv[OF sym]])

lemma ApproveRefund_ok:
  assumes "refunds_ok s" "ApproveRefund E k u s = (s', x)"
  shows "refunds_ok s'"
proof (cases "\<exists>r r'. refunds_FindByID E k s = Inr r \<and> refund_Approve (env_now E) u r = Inr r'")
  case True
  then obtain r r' where r: "refunds_FindByID E k s = Inr r" "refund_Approve (env_now E) u r = Inr r'" by blast
  with assms refund_apply_save_ok(1)[OF assms(1), of k r "env_now E" "OpApprove u" r' E 0]
  show ?thesis by (auto simp: ApproveRefund_def refunds_FindByID_def split: sum.splits)
next
  case False
  with assms show ?thesis by (auto simp: ApproveRefund_def split: sum.splits)
qed

lemma RejectRefund_ok:
  assumes "refunds_ok s" "RejectRefund E k reason s = (s', x)"
  shows "refunds_ok s'"
proof (cases "\<exists>r r'. refunds_FindByID E k s = Inr r \<and> refund_Reject (env_now E) reason r = Inr r'")
  case True
  then obtain r r' where r: "refunds_FindByID E k s = Inr r" "refund_Reject (env_now E) reason r = Inr r'" by blast
  with assms refund_apply_save_ok(1)[OF assms(1), of k r "env_now E" "OpReject reason" r' E 0]
  show ?thesis by (auto simp: RejectRefund_def refunds_FindByID_def split: sum.splits)
next
  case False
  with assms show ?thesis by (auto simp: RejectRefund_def split: sum.splits)
qed

text \<open>
  Processing: the row is saved as \<^verbatim>\<open>processing\<close> before the gateway is called, so a row whose
  call is on record is never \<^verbatim>\<open>approved\<close> again, whichever later write fails.
\<close>

lemma refunds_ok_call:
  assumes "refunds_ok s" "look_refund k s = Some r" "rf_status r = RefundStatusProcessing"
    and "k \<notin> fst ` set (ext_refunds s)"
  shows "refunds_ok (s\<lparr>ext_refunds := ext_refunds s @ [(k, rf_amount r)]\<rparr>)"
  using assms by (auto simp: refunds_ok_def call_ok_def look_refund_def)

lemma approved_not_sent:
  "refunds_ok s \<Longrightarrow> look_refund k s = Some r \<Longrightarrow> rf_status r = RefundStatusApproved
   \<Longrightarrow> k \<notin> fst ` set (ext_refunds s)"
  by (auto simp: refunds_ok_def call_ok_def)

lemma ProcessRefund_ok:
  assumes ok: "refunds_ok s" and p: "ProcessRefund E k s = (s', x)"
  shows "refunds_ok s'"
proof (cases "\<exists>r r1 s1. refunds_FindByID E k s = Inr r \<and> StartProcessing (env_now E) r = Inr r1
    \<and> refunds_Update E 0 r1 s = Inr s1")
  case False
  with p ok show ?thesis
    by (auto simp: ProcessRefund_def split: sum.splits option.splits if_splits)
next
  case True
  then obtain r r1 s1 where r: "refunds_FindByID E k s = Inr r"
    and r1: "StartProcessing (env_now E) r = Inr r1" and s1: "refunds_Update E 0 r1 s = Inr s1" by blast
  have l: "look_refund k s = Some r" using r by (simp add: refunds_FindByID_def)
  have st: "rf_status r = RefundStatusApproved" "rf_id r1 = k" "rf_amount r1 = rf_amount r"
    "rf_intent_id r1 = rf_intent_id r" "rf_status r1 = RefundStatusProcessing"
    using r1 refunds.look_key[OF l] by (auto simp: StartProcessing_def split: if_splits)
  have ok1: "refunds_ok s1" and l1: "look_refund k s1 = Some (merge_refund (env_dbnow E) r r1)"
    using refund_apply_save_ok[OF ok l, of "env_now E" OpProcess r1 E 0 s1] r1 s1 by auto
  have inv1: "refund_inv r1" using refund_apply_inv[of r "env_now E" OpProcess r1] r1 look_refund_mem[OF ok l] by auto
  let ?s2 = "s1\<lparr>ext_refunds := ext_refunds s1 @ [(k, rf_amount r1)]\<rparr>"
  let ?m = "merge_refund (env_dbnow E) r r1"
  have nosent: "k \<notin> fst ` set (ext_refunds s1)"
    using approved_not_sent[OF ok l st(1)] refund_writes(2)[OF s1] by simp
  have m: "rf_status ?m = RefundStatusProcessing" "rf_amount ?m = rf_amount r1" "rf_id ?m = k"
    "rf_intent_id ?m = rf_intent_id r1"
    using st refunds.look_key[OF l] by (simp_all add: merge_refund_def)
  have ok2: "refunds_ok ?s2" using refunds_ok_call[OF ok1 l1 m(1) nosent] m(2) by simp
  have l2: "look_refund k ?s2 = Some ?m" using l1 by (simp add: look_refund_def)
  have failed: "refunds_ok (after ?s2 (refunds_Update E 1 (after r1 (refund_MarkFailed n msg r1)) ?s2))" for n msg
  proof (cases "refunds_Update E 1 (after r1 (refund_MarkFailed n msg r1)) ?s2")
    case (Inr s3)
    obtain r2 where r2: "refund_MarkFailed n msg r1 = Inr r2" using st by (auto simp: refund_MarkFailed_def)
    have "refund_moves r1 r2" using refund_apply_moves[of n "OpRefundFail msg" r1 r2] r2 by simp
    then have "refund_moves ?m r2" "rf_id r2 = k" using m st by (auto simp: refund_moves_def)
    moreover have "refund_inv r2" using refund_apply_inv[of r1 n "OpRefundFail msg" r2] inv1 r2 by simp
    ultimately show ?thesis using refunds_Update_ok(1)[OF ok2, of E 1 r2 s3 ?m] Inr r2 l2 by simp
  qed (use ok2 in simp)
  have refsaved: "refunds_ok s3" if "refunds_Update E 2 (r1\<lparr>rf_external_ref := Some ref\<rparr>) ?s2 = Inr s3" for ref s3
  proof (rule refunds_Update_ok(1)[OF ok2 that])
    show "look_refund (rf_id (r1\<lparr>rf_external_ref := Some ref\<rparr>)) ?s2 = Some ?m" using l2 st by simp
    show "refund_moves ?m (r1\<lparr>rf_external_ref := Some ref\<rparr>)" using m st by (simp add: refund_moves_def)
    show "refund_inv (r1\<lparr>rf_external_ref := Some ref\<rparr>)" using inv1 by (auto simp: refund_inv_def)
  qed
  show ?thesis
    using p ok ok2 failed refsaved
    by (auto simp: ProcessRefund_def r r1 s1 st Let_def split: sum.splits option.splits if_splits)
qed

lemma settle_intent_refunds [simp]:
  "db_refunds (settle_intent E iid s) = db_refunds s" "ext_refunds (settle_intent E iid s) = ext_refunds s"
proof -
  have "db_refunds (after s (intents_Update E c j s)) = db_refunds s
      \<and> ext_refunds (after s (intents_Update E c j s)) = ext_refunds s" for c j s
    by (cases "intents_Update E c j s"; clarsimp) (auto simp: intents_Update_def save_intent_def)
  then show "db_refunds (settle_intent E iid s) = db_refunds s" "ext_refunds (settle_intent E iid s) = ext_refunds s"
    by (auto simp: settle_intent_def split: sum.splits)
qed

lemma MarkRefundCompleted_ok:
  assumes "refunds_ok s" "MarkRefundCompleted E k ref s = (s', x)"
  shows "refunds_ok s'"
proof (cases "\<exists>r r'. refunds_FindByID E k s = Inr r \<and> refund_MarkCompleted (env_now E) ref r = Inr r'")
  case True
  then obtain r r' where r: "refunds_FindByID E k s = Inr r" "refund_MarkCompleted (env_now E) ref r = Inr r'" by blast
  have st: "refunds_ok (settle_intent E iid s1) = refunds_ok s1" for iid s1 by (rule refunds_ok_same) simp_all
  from r assms refund_apply_save_ok(1)[OF assms(1), of k r "env_now E" "OpComplete ref" r' E 0]
  show ?thesis by (auto simp: MarkRefundCompleted_def refunds_FindByID_def Let_def st split: sum.splits)
next
  case False
  with assms show ?thesis by (auto simp: MarkRefundCompleted_def split: sum.splits)
qed

section \<open>What completion writes to the intent\<close>

text \<open>Whole amounts add up exactly, whatever the order of the rows.\<close>

definition whole_refunds :: "refund list \<Rightarrow> (uuid \<Rightarrow> int) \<Rightarrow> bool" where
  "whole_refunds rs n \<longleftrightarrow> (\<forall>r \<in> set rs. rf_amount r = Whole (n (rf_id r)))"

lemma sum_amounts_whole:
  assumes "whole_refunds rs n" "\<bar>\<Sum>r\<leftarrow>rs. n (rf_id r)\<bar> \<le> 2 ^ 53"
  shows "sum_amounts (map rf_amount rs) = Whole (\<Sum>r\<leftarrow>rs. n (rf_id r))"
proof -
  have "map fin_val (map rf_amount rs) = map (\<lambda>r. of_int (n (rf_id r))) rs"
    using assms(1) by (simp add: whole_refunds_def)
  then have "sum_list (map fin_val (map rf_amount rs)) = (of_int (\<Sum>r\<leftarrow>rs. n (rf_id r)) :: rat)"
    by (simp add: o_def) (induction rs; simp)
  moreover have "NaN \<notin> set (map rf_amount rs)" using assms(1) by (auto simp: whole_refunds_def)
  ultimately show ?thesis using rnd_int[OF assms(2)] by (simp add: sum_amounts_def)
qed

lemma milli_bounds: "\<exists>q. milli = Fin q \<and> 0 < q \<and> q < 1"
proof -
  have "milli = Fin (rndq (1 / 1000))" by (simp add: milli_def rnd_small)
  moreover have "representable (1 / 1024)" unfolding representable_def
    by (intro exI[of _ 1] exI[of _ "- 10"]) (simp add: p2_def power_int_minus)
  then have "1 / 1024 \<le> rndq (1 / 1000)" using rndq_mono[of "1 / 1024" "1 / 1000"] by (simp add: rndq_exact)
  moreover have "representable (1 / 2)" unfolding representable_def
    by (intro exI[of _ 1] exI[of _ "- 1"]) (simp add: p2_def power_int_minus)
  then have "rndq (1 / 1000) \<le> 1 / 2" using rndq_mono[of "1 / 1000" "1 / 2"] by (simp add: rndq_exact)
  ultimately show ?thesis by (intro exI[of _ "rndq (1 / 1000)"]) auto
qed

text \<open>On whole amounts the tolerance is an equality test.\<close>

lemma near_whole:
  assumes "\<bar>a - b\<bar> \<le> 2 ^ 53"
  shows "flt (fabs (fsub (Whole a) (Whole b))) milli \<longleftrightarrow> a = b"
proof -
  obtain q where q: "milli = Fin q" "0 < q" "q < 1" using milli_bounds by blast
  have f: "fsub (Whole a) (Whole b) = Whole (a - b)" by (rule fsub_whole[OF assms])
  show ?thesis
  proof (cases "a = b")
    case True
    then show ?thesis using q f by (simp add: q(1))
  next
    case False
    then have "1 \<le> \<bar>a - b\<bar>" by linarith
    then have "(of_int 1 :: rat) \<le> of_int \<bar>a - b\<bar>" by (simp only: of_int_le_iff)
    then have "(1::rat) \<le> \<bar>of_int (a - b)\<bar>" by simp
    then show ?thesis using q f False by (simp add: q(1) not_less)
  qed
qed

lemma settle_intent_whole:
  assumes nofail: "env_fail E = (\<lambda>_. None)"
    and i: "look_intent iid s = Some i" and st: "pi_status i \<in> {PaymentStatusSucceeded, PaymentStatusPartiallyRefunded}"
    and amt: "pi_amount i = Whole a" "0 < a" "a \<le> 2 ^ 52"
    and wh: "whole_refunds (completed_for iid s) n"
    and tot: "tot_n = (\<Sum>r\<leftarrow>completed_for iid s. n (rf_id r))" "0 < tot_n" "tot_n \<le> 2 ^ 52"
    and res: "look_intent iid (settle_intent E iid s) = Some j"
  shows "if tot_n < a then pi_status j = PaymentStatusPartiallyRefunded \<and> pi_refunded_amount j = Whole tot_n
         else if tot_n = a then pi_status j = PaymentStatusRefunded \<and> pi_refunded_amount j = Whole a
         else j = i"
proof -
  have b: "\<bar>tot_n - a\<bar> \<le> 2 ^ 53" "\<bar>tot_n\<bar> \<le> 2 ^ 53" using amt tot by auto
  have f: "intents_FindByID E iid s = Inr i" by (simp add: intents_FindByID_def guard_def nofail i found_def)
  have c: "SumCompletedForIntent E iid s = Inr (Whole tot_n)"
    using sum_amounts_whole[OF wh] tot b by (simp add: SumCompletedForIntent_def guard_def nofail)
  have near: "flt (fabs (fsub (Whole tot_n) (Whole a))) milli \<longleftrightarrow> tot_n = a"
    by (rule near_whole[OF b(1)])
  have sv: "look_intent iid (after s (intents_Update E IntentsUpdate k s)) = Some (merge_intent (env_dbnow E) i k)"
    if "pi_id k = iid" for k
  proof -
    obtain s' where s': "save_intent (env_dbnow E) k s = Some s'"
      using intents.save_found[of k s i "env_dbnow E"] i \<open>pi_id k = iid\<close> by (simp only:) blast
    then show ?thesis using intents.look_save_same[OF s'] i that
      by (simp add: intents_Update_def guard_def nofail found_def)
  qed
  have sw: "look_intent k (SafeWrite E x t) = look_intent k t" for k x t by (simp add: look_intent_def)
  have id: "pi_id i = iid" using i by (rule intents.look_key)
  consider "tot_n = a" | "tot_n < a" | "a < tot_n" by linarith
  then show ?thesis
  proof cases
    case 1
    let ?j = "i\<lparr>pi_refunded_amount := Whole a, pi_status := PaymentStatusRefunded, pi_updated_at := env_now E\<rparr>"
    have "MarkFullyRefunded (env_now E) i = Inr ?j" using st amt by (auto simp: MarkFullyRefunded_def)
    then have "look_intent iid (settle_intent E iid s) = look_intent iid (after s (intents_Update E IntentsUpdate ?j s))"
      by (simp add: settle_intent_def f c amt(1) near[unfolded 1] 1 sw)
    also have "\<dots> = Some (merge_intent (env_dbnow E) i ?j)" using id by (intro sv) simp
    finally show ?thesis using 1 res by (auto simp: merge_intent_def)
  next
    case 2
    let ?j = "i\<lparr>pi_refunded_amount := Whole tot_n, pi_status := PaymentStatusPartiallyRefunded, pi_updated_at := env_now E\<rparr>"
    have ne: "\<not> flt (fabs (fsub (Whole tot_n) (Whole a))) milli" using near 2 by simp
    have "MarkPartiallyRefunded (env_now E) (Whole tot_n) i = Inr ?j"
      using st amt tot 2 by (auto simp: MarkPartiallyRefunded_def)
    then have "look_intent iid (settle_intent E iid s) = look_intent iid (after s (intents_Update E IntentsUpdate ?j s))"
      using tot(2) by (simp add: settle_intent_def f c amt(1) ne sw)
    also have "\<dots> = Some (merge_intent (env_dbnow E) i ?j)" using id by (intro sv) simp
    finally show ?thesis using 2 res by (auto simp: merge_intent_def)
  next
    case 3
    have ne: "\<not> flt (fabs (fsub (Whole tot_n) (Whole a))) milli" using near 3 by simp
    have "\<exists>e. MarkPartiallyRefunded (env_now E) (Whole tot_n) i = Inl e"
      using st amt tot 3 by (auto simp: MarkPartiallyRefunded_def)
    then have "settle_intent E iid s = s" by (auto simp: settle_intent_def f c amt(1) ne)
    with 3 res i show ?thesis by simp
  qed
qed

end
