(* ===== verification/PaymentWebhookSvc.thy ===== *)
theory PaymentWebhookSvc
  imports PaymentRefundSvc
begin

text \<open>
  The webhook service (\<^verbatim>\<open>internal/payment/usecase/webhook.go\<close>): one delivery from a gateway
  is recorded once per event, its signature is checked, and the status it carries drives the
  linked intent. The second part shows that a delivery without a valid signature changes no
  intent, that an event takes effect at most once, and what that costs when the first
  delivery fails half-way.
\<close>

section \<open>Operations\<close>

definition applyParsedStatus :: "env \<Rightarrow> payment_intent \<Rightarrow> parsed_webhook \<Rightarrow> pay_db \<Rightarrow> pay_db res" where
  "applyParsedStatus E i parsed s =
    (let finish = (\<lambda>j. case intents_Update E IntentsUpdate j s of Inl e \<Rightarrow> Inl e
          | Inr s' \<Rightarrow> Inr (SafeWrite E (intent_audit j ''status''
              (payment_status_text (pi_status i)) (payment_status_text (pi_status j))
              ''intent_status_from_webhook'') s'))
     in case pw_new_status parsed of
          Some PaymentStatusSucceeded \<Rightarrow>
            (let paid_time = (case pw_paid_at parsed of Some t \<Rightarrow> t | None \<Rightarrow> env_now E) in
             case MarkSucceeded (env_now E) paid_time i of Inl e \<Rightarrow> Inl e | Inr j \<Rightarrow> finish j)
        | Some PaymentStatusFailed \<Rightarrow>
            (case MarkFailed (env_now E) (pw_failure_code parsed) (pw_failure_reason parsed) i of
               Inl e \<Rightarrow> Inl e | Inr j \<Rightarrow> finish j)
        | Some PaymentStatusExpired \<Rightarrow>
            (case MarkExpired (env_now E) i of Inl e \<Rightarrow> Inl e | Inr j \<Rightarrow> finish j)
        | _ \<Rightarrow> Inr s)"

definition webhook_audit :: "payment_webhook \<Rightarrow> string \<Rightarrow> string \<Rightarrow> audit_entry" where
  "webhook_audit w after_text reason =
     \<lparr>ae_user = Nil_uuid, ae_record_type = ''payment.webhook'', ae_record_id = wh_id w,
      ae_field = [], ae_before = [], ae_after = after_text, ae_reason = reason\<rparr>"

text \<open>A final write whose error the code discards.\<close>

definition webhooks_Update_quiet :: "env \<Rightarrow> payment_webhook \<Rightarrow> pay_db \<Rightarrow> pay_db" where
  "webhooks_Update_quiet E w s = after s (webhooks_Update E w s)"

text \<open>The part of \<^verbatim>\<open>Ingest\<close> that runs after the signature was accepted.\<close>

definition process_verified ::
    "env \<Rightarrow> gateway_client \<Rightarrow> string \<Rightarrow> payment_webhook \<Rightarrow> pay_db \<Rightarrow> pay_db \<times> payment_webhook res" where
  "process_verified E client payload w s =
    (case cl_parse_webhook client payload of
       Inl msg \<Rightarrow> (let w' = webhook_MarkFailed (''parse_error:'' @ msg) w
                   in (webhooks_Update_quiet E w' s, Inr w'))
     | Inr parsed \<Rightarrow>
      (let link = (if pw_external_payment_ref parsed \<noteq> [] then
               (case intents_FindByExternalRef E (pw_external_payment_ref parsed) s of
                  Inl _ \<Rightarrow> Inr (s, None)
                | Inr i \<Rightarrow> (case applyParsedStatus E i parsed s of
                     Inl e \<Rightarrow> Inl e | Inr s' \<Rightarrow> Inr (s', Some (pi_id i))))
             else Inr (s, None))
       in case link of
         Inl e \<Rightarrow> (let w' = webhook_MarkFailed (''intent_apply_error:'' @ error_text e) w
                   in (webhooks_Update_quiet E w' s, Inr w'))
       | Inr (s1, iid) \<Rightarrow>
          (case MarkProcessed (env_now E) iid w of Inl e \<Rightarrow> (s1, Inl e)
           | Inr w' \<Rightarrow>
            (case webhooks_Update E w' s1 of Inl e \<Rightarrow> (s1, Inl e)
             | Inr s2 \<Rightarrow> (SafeWrite E (webhook_audit w' ''processed'' ''webhook_processed'') s2,
                         Inr w')))))"

definition Ingest ::
    "env \<Rightarrow> string \<Rightarrow> string \<Rightarrow> string \<Rightarrow> string \<Rightarrow> pay_db \<Rightarrow> pay_db \<times> payment_webhook res" where
  "Ingest E code signature payload event_id s =
    (case gateways_FindByCode E code s of Inl e \<Rightarrow> (s, Inl e)
     | Inr gw \<Rightarrow>
    (case env_client E code of
       Inl c \<Rightarrow> (s, Inl (Wrap KindInternal ''webhook.gateway_client_missing''
         ''gateway client not registered'' c))
     | Inr client \<Rightarrow>
      (let ev = (if event_id = [] then env_sha256 E payload else event_id) in
       case NewPaymentWebhook (env_fresh E) (env_now E) (gw_id gw) ev payload of
         Inl e \<Rightarrow> (s, Inl e)
       | Inr wh \<Rightarrow>
      (case CreateOrFetchByDedup E wh s of
         (s1, Inl e) \<Rightarrow> (s1, Inl e)
       | (s1, Inr (isfresh, persisted)) \<Rightarrow>
          if \<not> isfresh then (s1, Inr (MarkDuplicate persisted))
          else if \<not> cl_verify_signature client payload signature then
            (let w' = MarkSuspect ''signature_invalid'' persisted in
             case webhooks_Update E w' s1 of Inl e \<Rightarrow> (s1, Inl e)
             | Inr s2 \<Rightarrow> (SafeWrite E (webhook_audit w' ''suspect'' ''webhook_signature_invalid'') s2,
                         Inr w'))
          else (case MarkVerified persisted of Inl e \<Rightarrow> (s1, Inl e)
            | Inr w' \<Rightarrow> process_verified E client payload w' s1)))))"

section \<open>The shape of a delivery\<close>

text \<open>
  A step that touches the webhooks table (and the audit log) only, in rows that are there.
\<close>

definition wh_touch :: "env \<Rightarrow> pay_db \<Rightarrow> pay_db \<Rightarrow> bool" where
  "wh_touch E s s' \<longleftrightarrow> s' = s \<or> (\<exists>w s1 a. webhooks_Update E w s = Inr s1 \<and> (s' = s1 \<or> s' = SafeWrite E a s1))"

lemma wh_touch_intros [intro]:
  "wh_touch E s s" "webhooks_Update E w s = Inr s1 \<Longrightarrow> wh_touch E s s1"
  "webhooks_Update E w s = Inr s1 \<Longrightarrow> wh_touch E s (SafeWrite E a s1)"
  "wh_touch E s (webhooks_Update_quiet E w s)"
proof -
  show "wh_touch E s (webhooks_Update_quiet E w s)"
    by (cases "webhooks_Update E w s") (auto simp: webhooks_Update_quiet_def wh_touch_def)
qed (auto simp: wh_touch_def)

text \<open>The tables other than the webhooks.\<close>

definition other_tables :: "pay_db \<Rightarrow> payment_intent list \<times> refund list \<times> (uuid \<times> f64) list
    \<times> payment_gateway list \<times> h2h_statement list \<times> h2h_line list" where
  "other_tables s = (db_intents s, db_refunds s, ext_refunds s, db_gateways s, db_statements s, db_lines s)"

lemma webhooks_Update_other: "webhooks_Update E w s = Inr s' \<Longrightarrow> other_tables s' = other_tables s"
  by (auto simp: webhooks_Update_def save_webhook_def other_tables_def)

lemma SafeWrite_other [simp]: "other_tables (SafeWrite E a s) = other_tables s"
  by (simp add: other_tables_def)

lemma wh_touch_other: "wh_touch E s s' \<Longrightarrow> other_tables s' = other_tables s"
  by (auto simp: wh_touch_def dest: webhooks_Update_other)

lemma intents_Update_frame:
  "intents_Update E c j s = Inr s' \<Longrightarrow> db_refunds s' = db_refunds s \<and> ext_refunds s' = ext_refunds s
     \<and> db_webhooks s' = db_webhooks s \<and> db_gateways s' = db_gateways s
     \<and> db_statements s' = db_statements s \<and> db_lines s' = db_lines s \<and> ext_payments s' = ext_payments s"
  by (auto simp: intents_Update_def save_intent_def)

text \<open>The linked intent is left alone or moved by one domain method and saved.\<close>

definition intent_touch :: "env \<Rightarrow> payment_intent \<Rightarrow> pay_db \<Rightarrow> pay_db \<Rightarrow> bool" where
  "intent_touch E i s s' \<longleftrightarrow> s' = s \<or> (\<exists>x j a s1. intent_apply (env_now E) x i = Inr j
     \<and> intents_Update E IntentsUpdate j s = Inr s1 \<and> s' = SafeWrite E a s1)"

lemma applyParsedStatus_touch:
  assumes "applyParsedStatus E i parsed s = Inr s'"
  shows "intent_touch E i s s'"
proof -
  have fin: "intent_touch E i s s'"
    if "intent_apply (env_now E) x i = Inr j"
      "(case intents_Update E IntentsUpdate j s of Inl e \<Rightarrow> Inl e
          | Inr s1 \<Rightarrow> Inr (SafeWrite E (a j) s1)) = Inr s'" for x j a
    using that by (cases "intents_Update E IntentsUpdate j s") (auto simp: intent_touch_def)
  show ?thesis
  proof (cases "pw_new_status parsed")
    case (Some st)
    show ?thesis
    proof (cases st)
      case PaymentStatusSucceeded
      let ?t = "case pw_paid_at parsed of Some t \<Rightarrow> t | None \<Rightarrow> env_now E"
      show ?thesis using assms Some PaymentStatusSucceeded fin[of "OpSucceeded ?t"]
        by (cases "MarkSucceeded (env_now E) ?t i") (auto simp: applyParsedStatus_def Let_def)
    next
      case PaymentStatusFailed
      then show ?thesis using assms Some fin[of "OpFailed (pw_failure_code parsed) (pw_failure_reason parsed)"]
        by (cases "MarkFailed (env_now E) (pw_failure_code parsed) (pw_failure_reason parsed) i")
           (auto simp: applyParsedStatus_def Let_def)
    next
      case PaymentStatusExpired
      then show ?thesis using assms Some fin[of OpExpired]
        by (cases "MarkExpired (env_now E) i") (auto simp: applyParsedStatus_def Let_def)
    qed (use assms Some in \<open>auto simp: applyParsedStatus_def Let_def intent_touch_def\<close>)
  qed (use assms in \<open>auto simp: applyParsedStatus_def Let_def intent_touch_def\<close>)
qed

lemma FindByExternalRef_mem:
  "intents_FindByExternalRef E ref s = Inr i \<Longrightarrow> i \<in> set (db_intents s) \<and> pi_external_ref i = Some ref"
  by (auto simp: intents_FindByExternalRef_def dest: find_SomeD)

lemma process_verified_shape:
  assumes "process_verified E client payload w s = (s', x)"
  shows "wh_touch E s s' \<or> (\<exists>i s1. i \<in> set (db_intents s) \<and> intent_touch E i s s1 \<and> wh_touch E s1 s')"
proof (cases "cl_parse_webhook client payload")
  case (Inl msg)
  with assms show ?thesis by (auto simp: process_verified_def Let_def)
next
  case (Inr parsed)
  have fin_shape: "wh_touch E s1 s'"
    if "(case MarkProcessed (env_now E) iid w of Inl e \<Rightarrow> (s1, Inl e)
         | Inr w' \<Rightarrow> (case webhooks_Update E w' s1 of Inl e \<Rightarrow> (s1, Inl e)
             | Inr s2 \<Rightarrow> (SafeWrite E (webhook_audit w' ''processed'' ''webhook_processed'') s2, Inr w')))
        = (s', x)" for iid s1
  proof (cases "MarkProcessed (env_now E) iid w")
    case (Inr w')
    with that show ?thesis by (cases "webhooks_Update E w' s1") auto
  qed (use that in auto)
  show ?thesis
  proof (cases "pw_external_payment_ref parsed = [] \<or> (\<exists>e. intents_FindByExternalRef E (pw_external_payment_ref parsed) s = Inl e)")
    case True
    then have "(if pw_external_payment_ref parsed \<noteq> [] then
               (case intents_FindByExternalRef E (pw_external_payment_ref parsed) s of
                  Inl _ \<Rightarrow> Inr (s, None)
                | Inr i \<Rightarrow> (case applyParsedStatus E i parsed s of
                     Inl e \<Rightarrow> Inl e | Inr s' \<Rightarrow> Inr (s', Some (pi_id i))))
             else Inr (s, None)) = Inr (s, None)" by auto
    then show ?thesis using assms Inr fin_shape[of s None] by (simp add: process_verified_def)
  next
    case False
    then obtain i where i: "intents_FindByExternalRef E (pw_external_payment_ref parsed) s = Inr i"
      by (cases "intents_FindByExternalRef E (pw_external_payment_ref parsed) s") auto
    show ?thesis
    proof (cases "applyParsedStatus E i parsed s")
      case (Inl e)
      with assms Inr i False show ?thesis by (auto simp: process_verified_def Let_def)
    next
      case ap: (Inr s1)
      have "wh_touch E s1 s'"
        using assms Inr i False ap fin_shape[of s1 "Some (pi_id i)"] by (simp add: process_verified_def)
      then show ?thesis using applyParsedStatus_touch[OF ap] FindByExternalRef_mem[OF i] by blast
    qed
  qed
qed

definition event_key :: "env \<Rightarrow> string \<Rightarrow> string \<Rightarrow> string" where
  "event_key E payload ev = TrimSpace (if ev = [] then env_sha256 E payload else ev)"

definition event_recorded :: "pay_db \<Rightarrow> uuid \<Rightarrow> string \<Rightarrow> bool" where
  "event_recorded s gid key \<longleftrightarrow>
     (\<exists>w \<in> set (db_webhooks s). wh_gateway_id w = gid \<and> wh_event_id w = key)"

lemma NewPaymentWebhook_key:
  "NewPaymentWebhook f n gid ev payload = Inr w \<Longrightarrow> wh_gateway_id w = gid \<and> wh_event_id w = TrimSpace ev
     \<and> wh_status w = WebhookStatusReceived"
  by (auto simp: NewPaymentWebhook_def Let_def split: if_splits)

lemma CreateOrFetchByDedup_shape:
  assumes "CreateOrFetchByDedup E w s = (s1, r)"
  shows "(s1 = s \<and> (\<forall>p. r \<noteq> Inr (True, p)))
    \<or> (r = Inr (True, w) \<and> s1 = s\<lparr>db_webhooks := db_webhooks s @ [w]\<rparr>
       \<and> \<not> event_recorded s (wh_gateway_id w) (wh_event_id w))"
proof (cases "env_fail E WebhooksCreate")
  case None
  show ?thesis
  proof (cases "find (\<lambda>r. wh_gateway_id r = wh_gateway_id w \<and> wh_event_id r = wh_event_id w) (db_webhooks s)")
    case new: None
    then have "\<not> event_recorded s (wh_gateway_id w) (wh_event_id w)"
      by (simp add: event_recorded_def find_None_all)
    moreover have "tinsert wh_id w (db_webhooks s) = None \<or> tinsert wh_id w (db_webhooks s) = Some (db_webhooks s @ [w])"
      by (simp add: tinsert_def)
    ultimately show ?thesis using assms None new by (auto simp: CreateOrFetchByDedup_def)
  next
    case (Some q)
    with assms None show ?thesis by (auto simp: CreateOrFetchByDedup_def)
  qed
qed (use assms in \<open>auto simp: CreateOrFetchByDedup_def\<close>)

text \<open>
  A delivery changes nothing, or it records its event, which was not recorded, and then
  either only touches the webhooks table or runs the verified part.
\<close>

lemma Ingest_shape:
  assumes "Ingest E code sig payload ev s = (s', x)"
  shows "s' = s \<or> (\<exists>gw client w s1. gateways_FindByCode E code s = Inr gw \<and> env_client E code = Inr client
    \<and> wh_gateway_id w = gw_id gw \<and> wh_event_id w = event_key E payload ev
    \<and> \<not> event_recorded s (wh_gateway_id w) (wh_event_id w)
    \<and> s1 = s\<lparr>db_webhooks := db_webhooks s @ [w]\<rparr>
    \<and> (if cl_verify_signature client payload sig
       then (\<exists>v. MarkVerified w = Inr v \<and> process_verified E client payload v s1 = (s', x))
       else wh_touch E s1 s'))"
proof (cases "gateways_FindByCode E code s")
  case (Inl e)
  with assms show ?thesis by (simp add: Ingest_def)
next
  case gw: (Inr gw)
  show ?thesis
  proof (cases "env_client E code")
    case (Inl e)
    with assms gw show ?thesis by (simp add: Ingest_def)
  next
    case client: (Inr client)
    let ?new = "NewPaymentWebhook (env_fresh E) (env_now E) (gw_id gw) (if ev = [] then env_sha256 E payload else ev) payload"
    show ?thesis
    proof (cases ?new)
      case (Inl e)
      with assms gw client show ?thesis by (simp add: Ingest_def Let_def)
    next
      case w: (Inr w)
      note key = NewPaymentWebhook_key[OF w, folded event_key_def]
      obtain s1 r where c: "CreateOrFetchByDedup E w s = (s1, r)" by (cases "CreateOrFetchByDedup E w s")
      from CreateOrFetchByDedup_shape[OF c] show ?thesis
      proof
        assume "s1 = s \<and> (\<forall>p. r \<noteq> Inr (True, p))"
        with assms gw client w c show ?thesis
          by (cases r) (auto simp: Ingest_def Let_def split: if_splits)
      next
        assume f: "r = Inr (True, w) \<and> s1 = s\<lparr>db_webhooks := db_webhooks s @ [w]\<rparr>
          \<and> \<not> event_recorded s (wh_gateway_id w) (wh_event_id w)"
        obtain v where v: "MarkVerified w = Inr v" using key by (auto simp: MarkVerified_def)
        have "if cl_verify_signature client payload sig
          then process_verified E client payload v s1 = (s', x) else wh_touch E s1 s'"
          using assms gw client w c f v
          by (cases "webhooks_Update E (MarkSuspect ''signature_invalid'' w) s1")
             (auto simp: Ingest_def Let_def split: if_splits)
        then have "if cl_verify_signature client payload sig
          then (\<exists>v. MarkVerified w = Inr v \<and> process_verified E client payload v s1 = (s', x))
          else wh_touch E s1 s'" using v by simp
        with gw client key f show ?thesis by blast
      qed
    qed
  qed
qed

section \<open>Effect on the intents\<close>

lemma good_step_other: "other_tables s' = other_tables s \<Longrightarrow> good_step s s'"
  by (rule good_step_same) (simp add: other_tables_def)

lemma intent_touch_good:
  assumes "intent_touch E i s s'" "i \<in> set (db_intents s)"
  shows "good_step s s'"
proof -
  have "good_step s s'" if ok: "intents_ok s"
    using assms(1) apply_save_good[OF intents_ok_mem_look[OF ok assms(2)]]
    by (auto simp: intent_touch_def intro: good_step_SafeWrite)
  then show ?thesis by (auto simp: good_step_def)
qed

lemma process_verified_good:
  assumes "process_verified E client payload w s = (s', x)"
  shows "good_step s s'"
  using process_verified_shape[OF assms] intent_touch_good good_step_other[OF wh_touch_other]
  by (meson good_step_trans)

lemma Ingest_good:
  assumes "Ingest E code sig payload ev s = (s', x)"
  shows "good_step s s'"
proof -
  have a: "good_step s (s\<lparr>db_webhooks := l\<rparr>)" for l by (rule good_step_same) simp
  from Ingest_shape[OF assms] show ?thesis
    using good_step_trans[OF a] process_verified_good good_step_other[OF wh_touch_other]
    by (metis good_step_refl)
qed

text \<open>Without a valid signature no intent changes.\<close>

lemma Ingest_unverified_intents:
  assumes "Ingest E code sig payload ev s = (s', x)"
    and "\<And>client. env_client E code = Inr client \<Longrightarrow> \<not> cl_verify_signature client payload sig"
  shows "db_intents s' = db_intents s"
  using Ingest_shape[OF assms(1)] assms(2)
  by (auto simp: other_tables_def dest!: wh_touch_other)

section \<open>Once per event\<close>

text \<open>A recorded event is a duplicate: the whole database stays as it is.\<close>

lemma Ingest_recorded:
  assumes "Ingest E code sig payload ev s = (s', x)"
    and "tfind gw_code code (db_gateways s) = Some gw"
    and "event_recorded s (gw_id gw) (event_key E payload ev)"
  shows "s' = s"
  using Ingest_shape[OF assms(1)] assms(2,3) by (auto simp: gateways_FindByCode_def)

lemma event_recorded_same: "db_webhooks s' = db_webhooks s \<Longrightarrow> event_recorded s' g k = event_recorded s g k"
  by (simp add: event_recorded_def)

lemma webhooks_Update_keys:
  assumes "webhooks_Update E w s = Inr s'" "event_recorded s gid key"
  shows "event_recorded s' gid key"
proof -
  from assms(1) have "save_webhook (env_dbnow E) w s = Some s'" by (simp add: webhooks_Update_def)
  then have m: "db_webhooks s' = map (\<lambda>r. if wh_id r = wh_id w then merge_webhook (env_dbnow E) r w else r) (db_webhooks s)"
    by (auto simp: save_webhook_def tupdate_def split: if_splits)
  from assms(2) obtain r where r: "r \<in> set (db_webhooks s)" "wh_gateway_id r = gid" "wh_event_id r = key"
    by (auto simp: event_recorded_def)
  let ?r = "if wh_id r = wh_id w then merge_webhook (env_dbnow E) r w else r"
  have "?r \<in> set (db_webhooks s')" "wh_gateway_id ?r = gid" "wh_event_id ?r = key"
    using r by (auto simp: m merge_webhook_def)
  then show ?thesis unfolding event_recorded_def by blast
qed

lemma wh_touch_keys: "wh_touch E s s' \<Longrightarrow> event_recorded s g k \<Longrightarrow> event_recorded s' g k"
  unfolding wh_touch_def using webhooks_Update_keys event_recorded_same[of "SafeWrite E _ _"] by (metis SafeWrite_tables(3))

lemma intent_touch_keys: "intent_touch E i s s' \<Longrightarrow> event_recorded s g k \<Longrightarrow> event_recorded s' g k"
proof -
  assume t: "intent_touch E i s s'" and r: "event_recorded s g k"
  have "db_webhooks s' = db_webhooks s"
    using t by (auto simp: intent_touch_def dest!: intents_Update_frame)
  then show ?thesis using r event_recorded_same by blast
qed

lemma process_verified_keys:
  assumes "process_verified E client payload w s = (s', x)" "event_recorded s g k"
  shows "event_recorded s' g k"
  using process_verified_shape[OF assms(1)]
proof
  assume "wh_touch E s s'"
  then show ?thesis using assms(2) by (rule wh_touch_keys)
next
  assume "\<exists>i s1. i \<in> set (db_intents s) \<and> intent_touch E i s s1 \<and> wh_touch E s1 s'"
  then obtain i s1 where "intent_touch E i s s1" "wh_touch E s1 s'" by blast
  then show ?thesis using assms(2) by (blast intro: wh_touch_keys intent_touch_keys)
qed

text \<open>
  A delivery either changes nothing or passes through the database with the event appended.
\<close>

lemma Ingest_steps:
  assumes "Ingest E code sig payload ev s = (s', x)" "s' \<noteq> s"
  obtains gw w where "gateways_FindByCode E code s = Inr gw" "wh_gateway_id w = gw_id gw"
    "wh_event_id w = event_key E payload ev"
    "\<And>g k. event_recorded (s\<lparr>db_webhooks := db_webhooks s @ [w]\<rparr>) g k \<Longrightarrow> event_recorded s' g k"
proof -
  from Ingest_shape[OF assms(1)] assms(2) obtain gw client w s1
    where w: "gateways_FindByCode E code s = Inr gw" "wh_gateway_id w = gw_id gw"
      "wh_event_id w = event_key E payload ev" "s1 = s\<lparr>db_webhooks := db_webhooks s @ [w]\<rparr>"
    and r: "if cl_verify_signature client payload sig
       then (\<exists>v. MarkVerified w = Inr v \<and> process_verified E client payload v s1 = (s', x))
       else wh_touch E s1 s'" by blast
  have "event_recorded s' g k" if "event_recorded s1 g k" for g k
    using r wh_touch_keys[OF _ that] process_verified_keys[OF _ that] by (auto split: if_splits)
  with w that show ?thesis by blast
qed

text \<open>A recorded event stays recorded, and a delivery that changes the database records its event.\<close>

lemma Ingest_keeps:
  assumes "Ingest E code sig payload ev s = (s', x)" "event_recorded s g k"
  shows "event_recorded s' g k"
proof (cases "s' = s")
  case False
  obtain w where "\<And>g k. event_recorded (s\<lparr>db_webhooks := db_webhooks s @ [w]\<rparr>) g k \<Longrightarrow> event_recorded s' g k"
    using Ingest_steps[OF assms(1) False] by metis
  then show ?thesis using assms(2) by (simp add: event_recorded_def)
qed (use assms in simp)

lemma Ingest_records:
  assumes "Ingest E code sig payload ev s = (s', x)"
    and "tfind gw_code code (db_gateways s) = Some gw"
    and "s' \<noteq> s"
  shows "event_recorded s' (gw_id gw) (event_key E payload ev)"
proof -
  obtain g w where w: "gateways_FindByCode E code s = Inr g" "wh_gateway_id w = gw_id g"
      "wh_event_id w = event_key E payload ev"
    and k: "\<And>g k. event_recorded (s\<lparr>db_webhooks := db_webhooks s @ [w]\<rparr>) g k \<Longrightarrow> event_recorded s' g k"
    using Ingest_steps[OF assms(1,3)] by metis
  have "g = gw" using w(1) assms(2) by (simp add: gateways_FindByCode_def split: if_splits option.splits)
  then show ?thesis using w by (intro k) (simp add: event_recorded_def)
qed

lemma Ingest_gateways: "Ingest E code sig payload ev s = (s', x) \<Longrightarrow> db_gateways s' = db_gateways s"
proof -
  assume i: "Ingest E code sig payload ev s = (s', x)"
  have w: "wh_touch E t t' \<Longrightarrow> db_gateways t' = db_gateways t" for t t'
    by (drule wh_touch_other) (simp add: other_tables_def)
  have m: "intent_touch E j t t' \<Longrightarrow> db_gateways t' = db_gateways t" for j t t'
    by (auto simp: intent_touch_def dest: intents_Update_frame)
  have p: "db_gateways t' = db_gateways t"
    if pv: "process_verified E c q v t = (t', y)" for c q v t t' y
    using process_verified_shape[OF pv] by (auto dest!: w m)
  from Ingest_shape[OF i] show ?thesis
  proof
    assume "\<exists>gw client w s1. gateways_FindByCode E code s = Inr gw \<and> env_client E code = Inr client
    \<and> wh_gateway_id w = gw_id gw \<and> wh_event_id w = event_key E payload ev
    \<and> \<not> event_recorded s (wh_gateway_id w) (wh_event_id w)
    \<and> s1 = s\<lparr>db_webhooks := db_webhooks s @ [w]\<rparr>
    \<and> (if cl_verify_signature client payload sig
       then (\<exists>v. MarkVerified w = Inr v \<and> process_verified E client payload v s1 = (s', x))
       else wh_touch E s1 s')"
    then show ?thesis by (auto split: if_splits dest!: w p)
  qed simp
qed

end
