(* ===== verification/PaymentH2H.thy ===== *)
theory PaymentH2H
  imports PaymentWebhookSvc
begin

text \<open>
  Bank statements (\<^verbatim>\<open>internal/payment/domain/h2h_statement.go\<close>, the repository
  \<^verbatim>\<open>h2h_repo.go\<close> and the service \<^verbatim>\<open>internal/payment/usecase/h2h.go\<close>): upload with content
  deduplication, parsing, and the matcher that binds a statement line to a payment intent.
  The matcher is modelled with its paging loop; the lemmas show that the pages add up to
  the pending intents and that the decision for a line depends only on which intents there
  are, not on the order in which they are scanned.
\<close>

section \<open>The domain (h2h\_statement.go)\<close>

definition NewH2HBankStatement ::
    "(string \<Rightarrow> string) \<Rightarrow> uuid \<Rightarrow> time \<Rightarrow> uuid \<Rightarrow> string \<Rightarrow> string \<Rightarrow> h2h_statement res" where
  "NewH2HBankStatement sha256 fresh now gid filename raw =
    (if gid = Nil_uuid then Inl (Validation ''h2h.gateway_required'' ''gateway_id is required'')
     else let name = TrimSpace filename in
       if name = [] then Inl (Validation ''h2h.filename_required'' ''raw_filename is required'')
       else if raw = [] then Inl (Validation ''h2h.content_empty'' ''statement content is empty'')
       else Inr \<lparr>st_id = fresh, st_gateway_id = gid, st_date = None, st_raw_filename = name,
         st_raw_hash = sha256 raw, st_line_count = 0, st_matched_count = 0,
         st_unmatched_count = 0, st_status = StatementParsing, st_created_at = now,
         st_completed_at = None\<rparr>)"

definition MarkParsed :: "int \<Rightarrow> h2h_statement \<Rightarrow> h2h_statement res" where
  "MarkParsed n t =
    (if st_status t \<noteq> StatementParsing
     then Inl (Conflict ''h2h.cannot_mark_parsed'' ''only parsing statements can be marked parsed'')
     else if n < 0 then Inl (Validation ''h2h.line_count_invalid'' ''line_count must be >= 0'')
     else Inr (t\<lparr>st_line_count := n, st_status := StatementParsed\<rparr>))"

definition StartMatching :: "h2h_statement \<Rightarrow> h2h_statement res" where
  "StartMatching t =
    (if st_status t \<in> {StatementParsed, StatementMatched, StatementPartial}
     then Inr (t\<lparr>st_status := StatementMatching\<rparr>)
     else Inl (Conflict ''h2h.cannot_start_matching''
       ''only parsed (or already-matched) statements can be matched''))"

definition CompleteMatching :: "time \<Rightarrow> int \<Rightarrow> int \<Rightarrow> h2h_statement \<Rightarrow> h2h_statement res" where
  "CompleteMatching now matched unmatched t =
    (if st_status t \<noteq> StatementMatching
     then Inl (Conflict ''h2h.cannot_complete_matching''
       ''only matching statements can be marked complete'')
     else Inr (t\<lparr>st_matched_count := matched, st_unmatched_count := unmatched,
       st_completed_at := Some now,
       st_status := (if unmatched = 0 then StatementMatched else StatementPartial)\<rparr>))"

definition statement_MarkFailed :: "time \<Rightarrow> h2h_statement \<Rightarrow> h2h_statement" where
  "statement_MarkFailed now t = t\<lparr>st_status := StatementFailed, st_completed_at := Some now\<rparr>"

definition NewH2HBankLine :: "uuid \<Rightarrow> time \<Rightarrow> uuid \<Rightarrow> string \<Rightarrow> h2h_line" where
  "NewH2HBankLine fresh now sid raw = \<lparr>ln_id = fresh, ln_statement_id = sid, ln_raw_line = raw,
     ln_amount = None, ln_value_date = None, ln_reference_text = [], ln_intent_id = None,
     ln_confidence = None, ln_method = [], ln_created_at = now\<rparr>"

definition AttachMatch :: "uuid \<Rightarrow> f64 \<Rightarrow> string \<Rightarrow> h2h_line \<Rightarrow> h2h_line" where
  "AttachMatch iid confidence meth l = l\<lparr>ln_intent_id := Some iid,
     ln_confidence := Some (fdiv (fround (fmul confidence (Fin 100))) (Fin 100)),
     ln_method := TrimSpace meth\<rparr>"

text \<open>The constants \<open>0.95\<close>, \<open>0.85\<close>, \<open>0.50\<close> and \<open>0.01\<close> are the doubles nearest to them.\<close>

definition conf_exact :: f64 where "conf_exact = rnd (95 / 100)"
definition conf_substring :: f64 where "conf_substring = rnd (85 / 100)"
definition conf_window :: f64 where "conf_window = rnd (50 / 100)"
definition hour :: duration where "hour = 3600000000000"

definition MatchByReference ::
    "(string \<Rightarrow> string) \<Rightarrow> string \<Rightarrow> f64 \<Rightarrow> time \<Rightarrow> string \<Rightarrow> f64 \<Rightarrow> time option \<Rightarrow> f64 \<times> string" where
  "MatchByReference ulower line_ref line_amount value_date intent_ref intent_amount paid_at =
    (let lr = TrimSpace (ToLower ulower line_ref);
         ir = TrimSpace (ToLower ulower intent_ref);
         amount_equal = flt (fabs (fsub line_amount intent_amount)) (rnd (1 / 100))
     in if lr \<noteq> [] \<and> lr = ir then (conf_exact, ''reference_exact'')
        else if amount_equal \<and> lr \<noteq> [] \<and> ir \<noteq> [] \<and> (Contains lr ir \<or> Contains ir lr)
        then (conf_substring, ''reference_substring_amount'')
        else case (if amount_equal then paid_at else None) of
            Some t \<Rightarrow> (let d = value_date - t; delta = (if d < 0 then - d else d)
                      in if delta \<le> 48 * hour then (conf_window, ''amount_date_window'')
                         else (Fin 0, ''no_match''))
          | None \<Rightarrow> (Fin 0, ''no_match''))"

section \<open>The repository (h2h\_repo.go)\<close>

definition statement_not_found :: derr where
  "statement_not_found = NotFound ''h2h_statement.not_found'' ''h2h statement not found''"

definition line_not_found :: derr where
  "line_not_found = NotFound ''h2h_line.not_found'' ''h2h line not found''"

definition look_statement :: "uuid \<Rightarrow> pay_db \<Rightarrow> h2h_statement option" where
  "look_statement k s = tfind st_id k (db_statements s)"

definition same_file :: "uuid \<Rightarrow> string \<Rightarrow> h2h_statement \<Rightarrow> bool" where
  "same_file gid hash r \<longleftrightarrow> st_gateway_id r = gid \<and> st_raw_hash r = hash"

text \<open>The unique index on \<open>(gateway_id, raw_hash)\<close> rejects a second row of one file.\<close>

definition CreateStatement :: "env \<Rightarrow> h2h_statement \<Rightarrow> pay_db \<Rightarrow> pay_db res" where
  "CreateStatement E t s = guard E StatementsCreate
    (if find (same_file (st_gateway_id t) (st_raw_hash t)) (db_statements s) \<noteq> None
     then Inl (duplicate ''h2h_statement'' ''insert h2h statement'')
     else case tinsert st_id t (db_statements s) of
       None \<Rightarrow> Inl (duplicate ''h2h_statement'' ''insert h2h statement'')
     | Some rows \<Rightarrow> Inr (s\<lparr>db_statements := rows\<rparr>))"

definition FindStatementByID :: "env \<Rightarrow> uuid \<Rightarrow> pay_db \<Rightarrow> h2h_statement res" where
  "FindStatementByID E k s = guard E StatementsFindByID (found statement_not_found (look_statement k s))"

definition FindStatementByHash :: "env \<Rightarrow> uuid \<Rightarrow> string \<Rightarrow> pay_db \<Rightarrow> h2h_statement res" where
  "FindStatementByHash E gid hash s = guard E StatementsFindByHash
     (found statement_not_found (find (same_file gid hash) (db_statements s)))"

definition ListStatements :: "int \<Rightarrow> int \<Rightarrow> pay_db \<Rightarrow> h2h_statement list \<times> nat" where
  "ListStatements limit offset s =
    (page (nat (if limit \<le> 0 then 50 else limit)) (nat (if offset < 0 then 0 else offset))
       (order_by (\<lambda>t. - st_created_at t) (db_statements s)), length (db_statements s))"

definition merge_statement :: "time \<Rightarrow> h2h_statement \<Rightarrow> h2h_statement \<Rightarrow> h2h_statement" where
  "merge_statement t old n = old\<lparr>st_date := st_date n, st_line_count := st_line_count n,
     st_matched_count := st_matched_count n, st_unmatched_count := st_unmatched_count n,
     st_status := st_status n, st_completed_at := st_completed_at n\<rparr>"

definition save_statement :: "time \<Rightarrow> h2h_statement \<Rightarrow> pay_db \<Rightarrow> pay_db option" where
  "save_statement t n s = map_option (\<lambda>rows. s\<lparr>db_statements := rows\<rparr>)
     (tupdate st_id (\<lambda>old. merge_statement t old n) (st_id n) (db_statements s))"

definition UpdateStatement :: "env \<Rightarrow> nat \<Rightarrow> h2h_statement \<Rightarrow> pay_db \<Rightarrow> pay_db res" where
  "UpdateStatement E n t s = guard E (StatementsUpdate n)
     (found statement_not_found (save_statement (env_dbnow E) t s))"

text \<open>
  The lines are inserted in one transaction: all of them, or none on any error. The column
  \<open>value_date\<close> is a DATE and keeps the day only.
\<close>

definition day :: duration where "day = 24 * hour"

definition date_of :: "time \<Rightarrow> time" where
  "date_of t = t - t mod day"

fun insert_lines :: "uuid \<Rightarrow> h2h_line list \<Rightarrow> h2h_line list \<Rightarrow> h2h_line list option" where
  "insert_lines sid [] rows = Some rows"
| "insert_lines sid (l # ls) rows =
    (case tinsert ln_id (l\<lparr>ln_statement_id := sid,
        ln_value_date := map_option date_of (ln_value_date l)\<rparr>) rows of
       None \<Rightarrow> None | Some rows' \<Rightarrow> insert_lines sid ls rows')"

definition InsertLines :: "env \<Rightarrow> uuid \<Rightarrow> h2h_line list \<Rightarrow> pay_db \<Rightarrow> pay_db res" where
  "InsertLines E sid lines s =
    (if lines = [] then Inr s
     else guard E LinesInsert
       (case insert_lines sid lines (db_lines s) of
          None \<Rightarrow> Inl (duplicate ''h2h_line'' ''insert h2h line'')
        | Some rows \<Rightarrow> Inr (s\<lparr>db_lines := rows\<rparr>)))"

text \<open>
  \<open>ORDER BY value_date ASC, id ASC\<close>; a missing date sorts last.
\<close>

definition by_date_id :: "h2h_line list \<Rightarrow> h2h_line list" where
  "by_date_id rows = (let r = order_by (\<lambda>l. uint (ln_id l)) rows
     in order_by (\<lambda>l. case ln_value_date l of Some d \<Rightarrow> d | None \<Rightarrow> 0)
          (filter (\<lambda>l. ln_value_date l \<noteq> None) r) @ filter (\<lambda>l. ln_value_date l = None) r)"

definition ListLinesForStatement :: "uuid \<Rightarrow> pay_db \<Rightarrow> h2h_line list" where
  "ListLinesForStatement sid s = by_date_id (filter (\<lambda>l. ln_statement_id l = sid) (db_lines s))"

definition ListUnmatchedLines :: "env \<Rightarrow> uuid \<Rightarrow> pay_db \<Rightarrow> h2h_line list res" where
  "ListUnmatchedLines E sid s = guard E LinesListUnmatched
     (Inr (by_date_id (filter (\<lambda>l. ln_statement_id l = sid \<and> ln_intent_id l = None) (db_lines s))))"

definition look_line :: "uuid \<Rightarrow> pay_db \<Rightarrow> h2h_line option" where
  "look_line k s = tfind ln_id k (db_lines s)"

definition merge_line :: "time \<Rightarrow> h2h_line \<Rightarrow> h2h_line \<Rightarrow> h2h_line" where
  "merge_line t old l = old\<lparr>ln_intent_id := ln_intent_id l, ln_confidence := ln_confidence l,
     ln_method := ln_method l\<rparr>"

definition save_line :: "time \<Rightarrow> h2h_line \<Rightarrow> pay_db \<Rightarrow> pay_db option" where
  "save_line t l s = map_option (\<lambda>rows. s\<lparr>db_lines := rows\<rparr>)
     (tupdate ln_id (\<lambda>old. merge_line t old l) (ln_id l) (db_lines s))"

definition UpdateLineMatch :: "env \<Rightarrow> h2h_line \<Rightarrow> pay_db \<Rightarrow> pay_db res" where
  "UpdateLineMatch E l s = guard E (LinesUpdate (ln_id l))
     (found line_not_found (save_line (env_dbnow E) l s))"

lemma merge_h2h_ids [simp]:
  "st_id (merge_statement t a b) = st_id a" "ln_id (merge_line t c d) = ln_id c"
  by (simp_all add: merge_statement_def merge_line_def)

interpretation statements: repository st_id merge_statement look_statement save_statement
  by (rule table_repository[where rows = db_statements and put = "\<lambda>s rs. s\<lparr>db_statements := rs\<rparr>"])
     (simp_all add: look_statement_def save_statement_def)

interpretation lines: repository ln_id merge_line look_line save_line
  by (rule table_repository[where rows = db_lines and put = "\<lambda>s rs. s\<lparr>db_lines := rs\<rparr>"])
     (simp_all add: look_line_def save_line_def)

section \<open>The service (usecase/h2h.go)\<close>

definition statement_audit :: "h2h_statement \<Rightarrow> string \<Rightarrow> audit_entry" where
  "statement_audit t reason = \<lparr>ae_user = Nil_uuid, ae_record_type = ''payment.h2h_statement'',
     ae_record_id = st_id t, ae_field = [], ae_before = [],
     ae_after = (case st_status t of StatementParsing \<Rightarrow> ''parsing'' | StatementParsed \<Rightarrow> ''parsed''
       | StatementMatching \<Rightarrow> ''matching'' | StatementMatched \<Rightarrow> ''matched''
       | StatementPartial \<Rightarrow> ''partial'' | StatementFailed \<Rightarrow> ''failed''),
     ae_reason = reason\<rparr>"

definition UploadStatement ::
    "env \<Rightarrow> string \<Rightarrow> string \<Rightarrow> string \<Rightarrow> pay_db \<Rightarrow> pay_db \<times> h2h_statement res" where
  "UploadStatement E code filename content s =
    (case gateways_FindByCode E code s of Inl e \<Rightarrow> (s, Inl e)
     | Inr gw \<Rightarrow>
       if gw_kind gw \<noteq> GatewayKindH2HBank
       then (s, Inl (Validation ''h2h.gateway_kind_mismatch''
              ''only H2H bank gateways accept statement uploads''))
       else case NewH2HBankStatement (env_sha256 E) (env_fresh E) (env_now E) (gw_id gw) filename content of
         Inl e \<Rightarrow> (s, Inl e)
       | Inr t \<Rightarrow>
         (case FindStatementByHash E (gw_id gw) (st_raw_hash t) s of
            Inr existing \<Rightarrow> (s, Inr existing)
          | Inl _ \<Rightarrow>
            (case CreateStatement E t s of Inl e \<Rightarrow> (s, Inl e)
             | Inr s' \<Rightarrow> (SafeWrite E (statement_audit t ''h2h_statement_uploaded'') s', Inr t))))"

text \<open>
  The stand-alone parse always fails: it marks its own copy failed and stores nothing. The
  result is the statement and the error, as the method returns both.
\<close>

definition client_missing :: "string \<Rightarrow> string \<Rightarrow> derr" where
  "client_missing code cause = Wrap KindInternal ''h2h.gateway_client_missing''
     (''gateway client not registered for code '' @ code) cause"

definition ParseStatement ::
    "env \<Rightarrow> uuid \<Rightarrow> pay_db \<Rightarrow> h2h_statement option \<times> derr option" where
  "ParseStatement E k s =
    (case FindStatementByID E k s of Inl e \<Rightarrow> (None, Some e)
     | Inr t \<Rightarrow>
       if st_status t \<noteq> StatementParsing then (Some t, None)
       else case gateways_FindByID E (st_gateway_id t) s of Inl e \<Rightarrow> (None, Some e)
       | Inr gw \<Rightarrow>
         (case env_client E (gw_code gw) of
            Inl c \<Rightarrow> (None, Some (client_missing (gw_code gw) c))
          | Inr client \<Rightarrow>
              (Some (statement_MarkFailed (env_now E) (statement_MarkFailed (env_now E) t)),
               Some (Validation ''h2h.standalone_parse_unsupported''
                 (''standalone parse is only supported through UploadAndParse '' @ dash
                  @ '' Wave 111 keeps the raw file off the DB'')))))"

definition parsed_line :: "uuid \<Rightarrow> time \<Rightarrow> uuid \<Rightarrow> parsed_h2h_line \<Rightarrow> h2h_line" where
  "parsed_line fresh now sid p = (NewH2HBankLine fresh now sid (pl_raw_json p))
     \<lparr>ln_amount := Some (pl_amount p), ln_value_date := Some (pl_value_date p),
      ln_reference_text := pl_reference_text p\<rparr>"

text \<open>\<open>fresh_line n\<close> is the identifier made for the \<open>n\<close>th line.\<close>

definition parsed_lines :: "(nat \<Rightarrow> uuid) \<Rightarrow> time \<Rightarrow> uuid \<Rightarrow> parsed_h2h_line list \<Rightarrow> h2h_line list" where
  "parsed_lines fresh_line now sid ps =
     map (\<lambda>(n, p). parsed_line (fresh_line n) now sid p) (zip [0..<length ps] ps)"

definition UploadAndParse ::
    "env \<Rightarrow> (nat \<Rightarrow> uuid) \<Rightarrow> string \<Rightarrow> string \<Rightarrow> string \<Rightarrow> pay_db
      \<Rightarrow> pay_db \<times> h2h_statement option \<times> derr option" where
  "UploadAndParse E fresh_line code filename content s =
    (case UploadStatement E code filename content s of
       (s1, Inl e) \<Rightarrow> (s1, None, Some e)
     | (s1, Inr t) \<Rightarrow>
       if st_status t \<noteq> StatementParsing then (s1, Some t, None)
       else case gateways_FindByID E (st_gateway_id t) s1 of Inl e \<Rightarrow> (s1, None, Some e)
       | Inr gw \<Rightarrow>
       (case env_client E (gw_code gw) of
          Inl c \<Rightarrow> (s1, None, Some (client_missing (gw_code gw) c))
        | Inr client \<Rightarrow>
        (case cl_parse_h2h client content of
           Inl msg \<Rightarrow> (let t' = statement_MarkFailed (env_now E) t
             in (after s1 (UpdateStatement E 0 t' s1), Some t',
                 Some (Wrap KindValidation ''h2h.parse_failed'' ''failed to parse H2H statement'' msg)))
         | Inr parsed \<Rightarrow>
           (let ls = parsed_lines fresh_line (env_now E) (st_id t) parsed
            in case InsertLines E (st_id t) ls s1 of Inl e \<Rightarrow> (s1, None, Some e)
            | Inr s2 \<Rightarrow>
             (case MarkParsed (int (length ls)) t of Inl e \<Rightarrow> (s2, None, Some e)
              | Inr t' \<Rightarrow>
               (case UpdateStatement E 0 t' s2 of Inl e \<Rightarrow> (s2, None, Some e)
                | Inr s3 \<Rightarrow> (SafeWrite E (statement_audit t' ''h2h_statement_parsed'') s3,
                            Some t', None)))))))"

text \<open>
  The candidate scan. \<open>best\<close> is the running best: the score, the intent that has it, its
  method and the number of candidates that share the score. \<open>short_ref\<close> is the first
  twelve characters of the intent's identifier.
\<close>

record best =
  bs_conf :: f64
  bs_intent :: "payment_intent option"
  bs_method :: string
  bs_tied :: nat

definition best0 :: best where
  "best0 = \<lparr>bs_conf = Fin 0, bs_intent = None, bs_method = ''no_match'', bs_tied = 0\<rparr>"

definition short_ref :: "payment_intent \<Rightarrow> string" where
  "short_ref i = take 12 (uuid_text (pi_id i))"

definition in_window :: "time \<Rightarrow> payment_intent \<Rightarrow> bool" where
  "in_window vd i \<longleftrightarrow> \<not> pi_created_at i < vd - 2 * day \<and> \<not> (vd + 2 * day) + 24 * hour < pi_created_at i"

definition score :: "env \<Rightarrow> string \<Rightarrow> f64 \<Rightarrow> time \<Rightarrow> payment_intent \<Rightarrow> f64 \<times> string" where
  "score E ref amt vd i =
     MatchByReference (env_lower E) ref amt vd (short_ref i) (pi_amount i) (pi_paid_at i)"

definition scan_step :: "env \<Rightarrow> string \<Rightarrow> f64 \<Rightarrow> time \<Rightarrow> best \<Rightarrow> payment_intent \<Rightarrow> best" where
  "scan_step E ref amt vd b i =
    (if \<not> in_window vd i then b
     else let (conf, meth) = score E ref amt vd i
       in if flt (bs_conf b) conf
          then \<lparr>bs_conf = conf, bs_intent = Some i, bs_method = meth, bs_tied = 1\<rparr>
          else if feq conf (bs_conf b) \<and> flt (Fin 0) conf
          then b\<lparr>bs_tied := Suc (bs_tied b)\<rparr>
          else b)"

definition pending_filter :: "int \<Rightarrow> intent_filter" where
  "pending_filter offset = \<lparr>if_invoice = None, if_customer = None, if_status = ''pending'',
     if_limit = 100, if_offset = offset\<rparr>"

definition pending_rows :: "pay_db \<Rightarrow> payment_intent list" where
  "pending_rows s = order_by (\<lambda>i. - pi_created_at i) (filter (\<lambda>i. pi_status i = PaymentStatusPending) (db_intents s))"

text \<open>The page loop: it ends when the offset has reached the total, or a page fails.\<close>

function page_loop :: "env \<Rightarrow> uuid \<Rightarrow> string \<Rightarrow> f64 \<Rightarrow> time \<Rightarrow> nat \<Rightarrow> best \<Rightarrow> pay_db \<Rightarrow> best" where
  "page_loop E lid ref amt vd offset b s =
    (case intents_List E (IntentsList lid offset) (pending_filter (int offset)) s of
       Inl e \<Rightarrow> b
     | Inr (intents, total_rows) \<Rightarrow>
         (let b' = foldl (scan_step E ref amt vd) b intents
          in if offset + 100 \<ge> total_rows then b'
             else page_loop E lid ref amt vd (offset + 100) b' s))"
  by pat_completeness auto

lemma pending_filter_matches: "intent_matches (pending_filter n) = (\<lambda>i. pi_status i = PaymentStatusPending)"
proof
  fix i show "intent_matches (pending_filter n) i = (pi_status i = PaymentStatusPending)"
    by (cases "pi_status i") (simp_all add: intent_matches_def pending_filter_def)
qed

lemma intents_List_pending:
  "intents_List E c (pending_filter (int n)) s = guard E c (Inr (page 100 n (pending_rows s), length (pending_rows s)))"
proof -
  have "if_limit (pending_filter (int n)) = 100" "if_offset (pending_filter (int n)) = int n"
    by (simp_all add: pending_filter_def)
  then show ?thesis
    by (simp only: intents_List_def Let_def pending_rows_def length_order_by pending_filter_matches) simp
qed

termination page_loop
  by (relation "measure (\<lambda>(E, lid, ref, amt, vd, offset, b, s). length (pending_rows s) - offset)")
     (auto simp: intents_List_pending guard_def split: option.splits)

declare page_loop.simps [simp del]

text \<open>What becomes of one line: the line to store, or nothing, and whether it counts as matched.\<close>

definition decide_line :: "best \<Rightarrow> h2h_line \<Rightarrow> h2h_line option \<times> bool" where
  "decide_line b l =
    (case bs_intent b of
       Some i \<Rightarrow>
         if fle (rnd (50 / 100)) (bs_conf b) \<and> 2 \<le> bs_tied b
         then (Some (l\<lparr>ln_intent_id := None, ln_confidence := Some (bs_conf b),
                 ln_method := ''ambiguous''\<rparr>), False)
         else if fle (rnd (50 / 100)) (bs_conf b)
         then (Some (AttachMatch (pi_id i) (bs_conf b) (bs_method b) l), True)
         else (None, False)
     | None \<Rightarrow> (None, False))"

definition match_line :: "env \<Rightarrow> h2h_line \<Rightarrow> pay_db \<Rightarrow> pay_db \<times> bool" where
  "match_line E l s =
    (case (ln_amount l, ln_value_date l) of
       (Some a, Some vd) \<Rightarrow>
         (case decide_line (page_loop E (ln_id l) (ln_reference_text l) a vd 0 best0 s) l of
            (None, m) \<Rightarrow> (s, m)
          | (Some l', m) \<Rightarrow> (case UpdateLineMatch E l' s of Inl e \<Rightarrow> (s, False) | Inr s' \<Rightarrow> (s', m)))
     | _ \<Rightarrow> (s, False))"

fun match_lines :: "env \<Rightarrow> h2h_line list \<Rightarrow> int \<Rightarrow> int \<Rightarrow> pay_db \<Rightarrow> pay_db \<times> int \<times> int" where
  "match_lines E [] m u s = (s, m, u)"
| "match_lines E (l # ls) m u s =
    (let (s', ok) = match_line E l s
     in if ok then match_lines E ls (m + 1) u s' else match_lines E ls m (u + 1) s')"

definition MatchStatement :: "env \<Rightarrow> uuid \<Rightarrow> pay_db \<Rightarrow> pay_db \<times> h2h_statement res" where
  "MatchStatement E k s =
    (case FindStatementByID E k s of Inl e \<Rightarrow> (s, Inl e)
     | Inr t0 \<Rightarrow>
    (case StartMatching t0 of Inl e \<Rightarrow> (s, Inl e)
     | Inr t \<Rightarrow>
    (case UpdateStatement E 0 t s of Inl e \<Rightarrow> (s, Inl e)
     | Inr s1 \<Rightarrow>
    (case ListUnmatchedLines E (st_id t) s1 of Inl e \<Rightarrow> (s1, Inl e)
     | Inr ls \<Rightarrow>
       (let m0 = (if st_matched_count t < 0 then 0 else st_matched_count t);
            u0 = (if st_unmatched_count t < 0 then 0 else st_unmatched_count t);
            (s2, m, u) = match_lines E ls m0 u0 s1
        in case CompleteMatching (env_now E) m u t of Inl e \<Rightarrow> (s2, Inl e)
           | Inr t' \<Rightarrow>
             (case UpdateStatement E 1 t' s2 of Inl e \<Rightarrow> (s2, Inl e)
              | Inr s3 \<Rightarrow> (SafeWrite E (statement_audit t' ''h2h_statement_matched'') s3, Inr t')))))))"

section \<open>The score has four values\<close>

definition tier_conf :: "nat \<Rightarrow> f64" where
  "tier_conf n = (if n = 3 then conf_exact else if n = 2 then conf_substring
     else if n = 1 then conf_window else Fin 0)"

definition tier :: "env \<Rightarrow> string \<Rightarrow> f64 \<Rightarrow> time \<Rightarrow> payment_intent \<Rightarrow> nat" where
  "tier E ref amt vd i = (let c = fst (score E ref amt vd i) in
     if c = conf_exact then 3 else if c = conf_substring then 2 else if c = conf_window then 1 else 0)"

lemma conf_distinct: "conf_exact \<noteq> conf_substring" "conf_exact \<noteq> conf_window" "conf_substring \<noteq> conf_window"
  "conf_exact \<noteq> Fin 0" "conf_substring \<noteq> Fin 0" "conf_window \<noteq> Fin 0"
  by code_simp+

lemma tier_conf_flt:
  "a \<le> 3 \<Longrightarrow> b \<le> 3 \<Longrightarrow> flt (tier_conf a) (tier_conf b) \<longleftrightarrow> a < b"
proof -
  have f: "\<forall>a \<in> set [0..<4]. \<forall>b \<in> set [0..<4]. flt (tier_conf a) (tier_conf b) = (a < b)" by code_simp
  show "a \<le> 3 \<Longrightarrow> b \<le> 3 \<Longrightarrow> ?thesis" using f by simp
qed

lemma tier_conf_feq:
  "a \<le> 3 \<Longrightarrow> b \<le> 3 \<Longrightarrow> feq (tier_conf a) (tier_conf b) \<longleftrightarrow> a = b"
proof -
  have f: "\<forall>a \<in> set [0..<4]. \<forall>b \<in> set [0..<4]. feq (tier_conf a) (tier_conf b) = (a = b)" by code_simp
  show "a \<le> 3 \<Longrightarrow> b \<le> 3 \<Longrightarrow> ?thesis" using f by simp
qed

lemma tier_conf_threshold: "a \<le> 3 \<Longrightarrow> fle (rnd (50 / 100)) (tier_conf a) \<longleftrightarrow> 0 < a"
proof -
  have f: "\<forall>a \<in> set [0..<4]. fle (rnd (50 / 100)) (tier_conf a) = (0 < a)" by code_simp
  show "a \<le> 3 \<Longrightarrow> ?thesis" using f by simp
qed

lemma tier_le: "tier E ref amt vd i \<le> 3"
  by (simp add: tier_def Let_def)

lemma MatchByReference_values:
  "fst (MatchByReference u a b c d e f) \<in> {conf_exact, conf_substring, conf_window, Fin 0}"
  by (simp add: MatchByReference_def Let_def split: option.split)

lemma score_tier: "fst (score E ref amt vd i) = tier_conf (tier E ref amt vd i)"
  using MatchByReference_values[of "env_lower E" ref amt vd "short_ref i" "pi_amount i" "pi_paid_at i"] conf_distinct
  by (auto simp: tier_def score_def tier_conf_def Let_def)

section \<open>The scan computes the unique leader\<close>

definition window_tier :: "env \<Rightarrow> string \<Rightarrow> f64 \<Rightarrow> time \<Rightarrow> payment_intent \<Rightarrow> nat" where
  "window_tier E ref amt vd i = (if in_window vd i then tier E ref amt vd i else 0)"

definition top_tier :: "env \<Rightarrow> string \<Rightarrow> f64 \<Rightarrow> time \<Rightarrow> payment_intent list \<Rightarrow> nat" where
  "top_tier E ref amt vd xs = foldr (\<lambda>i n. max (window_tier E ref amt vd i) n) xs 0"

definition leaders :: "env \<Rightarrow> string \<Rightarrow> f64 \<Rightarrow> time \<Rightarrow> payment_intent list \<Rightarrow> payment_intent list" where
  "leaders E ref amt vd xs = (let n = top_tier E ref amt vd xs
     in if n = 0 then [] else filter (\<lambda>i. window_tier E ref amt vd i = n) xs)"

lemma top_tier_snoc: "top_tier E ref amt vd (xs @ [x]) = max (top_tier E ref amt vd xs) (window_tier E ref amt vd x)"
  unfolding top_tier_def by (induction xs) auto

lemma top_tier_Max: "top_tier E ref amt vd xs = Max (insert 0 (window_tier E ref amt vd ` set xs))"
  unfolding top_tier_def
proof (induction xs)
  case (Cons x xs)
  have "Max (insert 0 (window_tier E ref amt vd ` set (x # xs)))
    = Max (insert (window_tier E ref amt vd x) (insert 0 (window_tier E ref amt vd ` set xs)))"
    by (simp add: insert_commute)
  also have "\<dots> = max (window_tier E ref amt vd x) (Max (insert 0 (window_tier E ref amt vd ` set xs)))"
    by (rule Max_insert) auto
  finally show ?case using Cons by simp
qed simp

lemma window_tier_le_top: "x \<in> set xs \<Longrightarrow> window_tier E ref amt vd x \<le> top_tier E ref amt vd xs"
  by (simp add: top_tier_Max)

lemma top_tier_le: "top_tier E ref amt vd xs \<le> 3"
  by (auto simp: top_tier_Max window_tier_def tier_le)

definition scan_result :: "env \<Rightarrow> string \<Rightarrow> f64 \<Rightarrow> time \<Rightarrow> payment_intent list \<Rightarrow> best" where
  "scan_result E ref amt vd xs = (case leaders E ref amt vd xs of
     [] \<Rightarrow> best0
   | i # is \<Rightarrow> \<lparr>bs_conf = tier_conf (top_tier E ref amt vd xs), bs_intent = Some i,
       bs_method = snd (score E ref amt vd i), bs_tied = Suc (length is)\<rparr>)"

lemma leaders_Nil_iff: "leaders E ref amt vd xs = [] \<longleftrightarrow> top_tier E ref amt vd xs = 0"
proof
  assume "leaders E ref amt vd xs = []"
  then have "\<not> (\<exists>x \<in> set xs. window_tier E ref amt vd x = top_tier E ref amt vd xs) \<or> top_tier E ref amt vd xs = 0"
    by (auto simp: leaders_def Let_def filter_empty_conv split: if_splits)
  moreover have "top_tier E ref amt vd xs \<in> insert 0 (window_tier E ref amt vd ` set xs)"
    unfolding top_tier_Max by (rule Max_in) auto
  ultimately show "top_tier E ref amt vd xs = 0" by auto
qed (simp add: leaders_def)

lemma scan_result_conf: "bs_conf (scan_result E ref amt vd xs) = tier_conf (top_tier E ref amt vd xs)"
proof (cases "leaders E ref amt vd xs")
  case Nil
  then have "top_tier E ref amt vd xs = 0" by (simp only: leaders_Nil_iff)
  then show ?thesis using Nil by (simp add: scan_result_def best0_def tier_conf_def)
qed (simp add: scan_result_def)

lemma scan_step_cases:
  assumes "bs_conf b = tier_conf n" "n \<le> 3"
  shows "scan_step E ref amt vd b i =
    (let k = window_tier E ref amt vd i in
     if n < k then \<lparr>bs_conf = tier_conf k, bs_intent = Some i,
         bs_method = snd (score E ref amt vd i), bs_tied = 1\<rparr>
     else if k = n \<and> 0 < k then b\<lparr>bs_tied := Suc (bs_tied b)\<rparr> else b)"
proof (cases "in_window vd i")
  case True
  have z: "flt (Fin 0) (tier_conf k) \<longleftrightarrow> 0 < k" if "k \<le> 3" for k
    using tier_conf_flt[of 0 k] that by (simp add: tier_conf_def)
  show ?thesis
    using True assms tier_le[of E ref amt vd i]
    by (simp add: scan_step_def window_tier_def case_prod_beta score_tier tier_conf_flt tier_conf_feq z Let_def)
qed (simp add: scan_step_def window_tier_def)

lemma leaders_snoc:
  "leaders E ref amt vd (xs @ [x]) =
    (let k = window_tier E ref amt vd x; n = top_tier E ref amt vd xs in
     if n < k then [x] else if k = n \<and> 0 < k then leaders E ref amt vd xs @ [x] else leaders E ref amt vd xs)"
proof -
  have "filter (\<lambda>i. window_tier E ref amt vd i = window_tier E ref amt vd x) xs = []"
    if "top_tier E ref amt vd xs < window_tier E ref amt vd x"
    using that by (auto simp: filter_empty_conv dest!: window_tier_le_top[where E = E and ref = ref and amt = amt and vd = vd])
  then show ?thesis by (auto simp: leaders_def top_tier_snoc max_def Let_def)
qed

lemma foldl_scan: "foldl (scan_step E ref amt vd) best0 xs = scan_result E ref amt vd xs"
proof (induction xs rule: rev_induct)
  case Nil
  show ?case by (simp add: scan_result_def leaders_def top_tier_def)
next
  case (snoc x xs)
  let ?k = "window_tier E ref amt vd x" and ?n = "top_tier E ref amt vd xs"
  have step: "foldl (scan_step E ref amt vd) best0 (xs @ [x]) = scan_step E ref amt vd (scan_result E ref amt vd xs) x"
    by (simp add: snoc)
  show ?case
  proof (cases "?n < ?k")
    case True
    then show ?thesis unfolding step
      by (simp add: scan_step_cases[OF scan_result_conf top_tier_le] scan_result_def[of _ _ _ _ "xs @ [x]"]
        leaders_snoc top_tier_snoc Let_def)
  next
    case False
    then have top: "top_tier E ref amt vd (xs @ [x]) = ?n" by (simp add: top_tier_snoc)
    show ?thesis
    proof (cases "?k = ?n \<and> 0 < ?k")
      case True
      then have "leaders E ref amt vd xs \<noteq> []" by (simp add: leaders_Nil_iff)
      then obtain i l where "leaders E ref amt vd xs = i # l" by (cases "leaders E ref amt vd xs") auto
      then show ?thesis using True False top unfolding step
        by (simp add: scan_step_cases[OF scan_result_conf top_tier_le])
           (simp add: scan_result_def leaders_snoc)
    next
      case no: False
      with False have l: "leaders E ref amt vd (xs @ [x]) = leaders E ref amt vd xs"
        by (auto simp: leaders_snoc Let_def)
      show ?thesis using no False unfolding step
        by (simp add: scan_step_cases[OF scan_result_conf top_tier_le])
           (cases "leaders E ref amt vd xs"; auto simp: scan_result_def l top Let_def)
    qed
  qed
qed

text \<open>With no failing page the loop is the fold over all pending intents.\<close>

lemma page_loop_from:
  assumes ok: "\<And>n. env_fail E (IntentsList lid n) = None"
  shows "page_loop E lid ref amt vd n b s = foldl (scan_step E ref amt vd) b (drop n (pending_rows s))"
proof (induction "length (pending_rows s) - n" arbitrary: n b rule: less_induct)
  case less
  let ?rows = "pending_rows s"
  have eq: "page_loop E lid ref amt vd n b s =
    (let b' = foldl (scan_step E ref amt vd) b (take 100 (drop n ?rows))
     in if length ?rows \<le> n + 100 then b' else page_loop E lid ref amt vd (n + 100) b' s)"
    by (subst page_loop.simps) (simp add: intents_List_pending guard_def ok page_def)
  show ?case
  proof (cases "length ?rows \<le> n + 100")
    case True
    then show ?thesis by (simp add: eq)
  next
    case False
    have "drop n ?rows = take 100 (drop n ?rows) @ drop (n + 100) ?rows"
      by (metis append_take_drop_id drop_drop add.commute)
    then have "foldl (scan_step E ref amt vd) b (drop n ?rows)
      = foldl (scan_step E ref amt vd) (foldl (scan_step E ref amt vd) b (take 100 (drop n ?rows))) (drop (n + 100) ?rows)"
      by (metis foldl_append)
    then show ?thesis using False less[of "n + 100"] by (simp add: eq)
  qed
qed

lemma page_loop_scan:
  assumes "\<And>n. env_fail E (IntentsList lid n) = None"
  shows "page_loop E lid ref amt vd 0 best0 s = scan_result E ref amt vd (pending_rows s)"
  using page_loop_from[OF assms, of ref amt vd 0 best0 s] by (simp add: foldl_scan)

lemma decide_scan_result:
  "decide_line (scan_result E ref amt vd xs) l =
    (case leaders E ref amt vd xs of
       [] \<Rightarrow> (None, False)
     | [i] \<Rightarrow> (Some (AttachMatch (pi_id i) (tier_conf (top_tier E ref amt vd xs)) (snd (score E ref amt vd i)) l), True)
     | _ \<Rightarrow> (Some (l\<lparr>ln_intent_id := None, ln_confidence := Some (tier_conf (top_tier E ref amt vd xs)),
              ln_method := ''ambiguous''\<rparr>), False))"
proof (cases "leaders E ref amt vd xs")
  case Nil
  then show ?thesis by (simp add: decide_line_def scan_result_def best0_def)
next
  case (Cons i rest)
  then have "0 < top_tier E ref amt vd xs" using leaders_Nil_iff[of E ref amt vd xs] by (cases "top_tier E ref amt vd xs") auto
  then have "fle (rnd (50 / 100)) (tier_conf (top_tier E ref amt vd xs))"
    using tier_conf_threshold[OF top_tier_le] by blast
  then show ?thesis using Cons by (cases rest) (simp_all add: decide_line_def scan_result_def)
qed

section \<open>The decision does not depend on the scan order\<close>

lemma leaders_perm:
  assumes "mset xs = mset ys"
  shows "top_tier E ref amt vd xs = top_tier E ref amt vd ys"
    and "mset (leaders E ref amt vd xs) = mset (leaders E ref amt vd ys)"
proof -
  have "set xs = set ys" by (rule mset_eq_setD[OF assms])
  then show t: "top_tier E ref amt vd xs = top_tier E ref amt vd ys" by (simp add: top_tier_Max)
  have "mset (filter P xs) = mset (filter P ys)" for P using assms by simp
  with t show "mset (leaders E ref amt vd xs) = mset (leaders E ref amt vd ys)"
    unfolding leaders_def Let_def by simp
qed

lemma decide_perm:
  assumes "mset xs = mset ys"
  shows "decide_line (scan_result E ref amt vd xs) l = decide_line (scan_result E ref amt vd ys) l"
proof -
  note p = leaders_perm[OF assms, of E ref amt vd]
  then have len: "length (leaders E ref amt vd xs) = length (leaders E ref amt vd ys)" by (metis size_mset)
  show ?thesis
  proof (cases "leaders E ref amt vd xs")
    case Nil
    with len have "leaders E ref amt vd ys = []" by simp
    with Nil show ?thesis by (simp add: decide_scan_result)
  next
    case (Cons i is')
    show ?thesis
    proof (cases is')
      case Nil
      then have "leaders E ref amt vd ys = [i]" using p(2) Cons by (metis mset_single_iff_right mset.simps)
      then show ?thesis using Cons Nil p(1) by (simp add: decide_scan_result)
    next
      case (Cons j r)
      then obtain a b c where "leaders E ref amt vd ys = a # b # c"
        using len \<open>leaders E ref amt vd xs = i # is'\<close>
        by (cases "leaders E ref amt vd ys"; cases "tl (leaders E ref amt vd ys)") auto
      then show ?thesis using Cons \<open>leaders E ref amt vd xs = i # is'\<close> p(1) by (simp add: decide_scan_result)
    qed
  qed
qed

lemma mset_pending_rows:
  "mset (pending_rows s) = filter_mset (\<lambda>i. pi_status i = PaymentStatusPending) (mset (db_intents s))"
  by (simp add: pending_rows_def)

text \<open>What a decision that binds a line rests on.\<close>

definition unique_leader :: "env \<Rightarrow> h2h_line \<Rightarrow> pay_db \<Rightarrow> payment_intent \<Rightarrow> bool" where
  "unique_leader E l s i \<longleftrightarrow> (\<exists>a vd. ln_amount l = Some a \<and> ln_value_date l = Some vd
     \<and> leaders E (ln_reference_text l) a vd (pending_rows s) = [i])"

lemma leaders_sub: "i \<in> set (leaders E ref amt vd xs) \<Longrightarrow>
  i \<in> set xs \<and> in_window vd i \<and> 0 < tier E ref amt vd i \<and> tier E ref amt vd i = top_tier E ref amt vd xs"
  by (auto simp: leaders_def window_tier_def Let_def split: if_splits)

text \<open>The best tier an intent that was never paid can reach needs the reference.\<close>

lemma unpaid_tier: "pi_paid_at i = None \<Longrightarrow> tier E ref amt vd i \<noteq> 1"
proof -
  assume "pi_paid_at i = None"
  then have "fst (score E ref amt vd i) \<in> {conf_exact, conf_substring, Fin 0}"
    by (simp add: score_def MatchByReference_def Let_def)
  then show ?thesis using conf_distinct by (auto simp: tier_def Let_def)
qed

lemma AttachMatch_conf:
  assumes "n \<le> 3"
  shows "ln_confidence (AttachMatch k (tier_conf n) m l) = Some (tier_conf n)"
proof -
  have "\<forall>n \<in> set [0..<4]. fdiv (fround (fmul (tier_conf n) (Fin 100))) (Fin 100) = tier_conf n" by code_simp
  with assms show ?thesis by (simp add: AttachMatch_def)
qed

section \<open>Frames of the operations\<close>

text \<open>The tables the statement service reads only.\<close>

definition pay_tables :: "pay_db \<Rightarrow> payment_intent list \<times> refund list \<times> payment_webhook list
    \<times> payment_gateway list \<times> (uuid \<times> f64) list \<times> (uuid \<times> f64) list" where
  "pay_tables s = (db_intents s, db_refunds s, db_webhooks s, db_gateways s, ext_payments s, ext_refunds s)"

lemma UpdateStatement_frame:
  "UpdateStatement E n t s = Inr s' \<Longrightarrow> pay_tables s' = pay_tables s \<and> db_lines s' = db_lines s"
  by (auto simp: UpdateStatement_def save_statement_def pay_tables_def)

lemma UpdateLineMatch_frame:
  "UpdateLineMatch E l s = Inr s' \<Longrightarrow> pay_tables s' = pay_tables s \<and> db_statements s' = db_statements s"
  by (auto simp: UpdateLineMatch_def save_line_def pay_tables_def)

lemma SafeWrite_frame [simp]: "pay_tables (SafeWrite E a s) = pay_tables s"
  by (simp add: pay_tables_def)

lemma UpdateLineMatch_other:
  assumes "UpdateLineMatch E l s = Inr s'" "r \<in> set (db_lines s)" "ln_id r \<noteq> ln_id l"
  shows "r \<in> set (db_lines s')"
proof -
  have "save_line (env_dbnow E) l s = Some s'" using assms(1) by (simp add: UpdateLineMatch_def)
  then have "db_lines s' = map (\<lambda>q. if ln_id q = ln_id l then merge_line (env_dbnow E) q l else q) (db_lines s)"
    by (auto simp: save_line_def tupdate_def split: if_splits)
  then show ?thesis using assms(2,3) by (force simp: image_iff)
qed

lemma match_line_shape:
  assumes "match_line E l s = (s', ok)"
  shows "s' = s \<and> \<not> ok \<or> (\<exists>l'. ln_id l' = ln_id l \<and> UpdateLineMatch E l' s = Inr s')"
proof (cases "ln_amount l")
  case am: (Some a)
  show ?thesis
  proof (cases "ln_value_date l")
    case vd: (Some vd)
    let ?d = "decide_line (page_loop E (ln_id l) (ln_reference_text l) a vd 0 best0 s) l"
    have d: "(\<exists>m. ?d = (None, m) \<and> \<not> m) \<or> (\<exists>l' m. ?d = (Some l', m) \<and> ln_id l' = ln_id l)"
      by (auto simp: decide_line_def AttachMatch_def split: option.split)
    then show ?thesis
    proof
      assume "\<exists>m. ?d = (None, m) \<and> \<not> m"
      with assms am vd show ?thesis by (auto simp: match_line_def)
    next
      assume "\<exists>l' m. ?d = (Some l', m) \<and> ln_id l' = ln_id l"
      then obtain l' m where "?d = (Some l', m)" "ln_id l' = ln_id l" by blast
      with assms am vd show ?thesis
        by (cases "UpdateLineMatch E l' s") (auto simp: match_line_def)
    qed
  qed (use assms am in \<open>simp add: match_line_def\<close>)
qed (use assms in \<open>simp add: match_line_def\<close>)

lemma match_line_frame:
  assumes "match_line E l s = (s', ok)"
  shows "pay_tables s' = pay_tables s \<and> db_statements s' = db_statements s"
  using match_line_shape[OF assms] UpdateLineMatch_frame by blast

lemma match_lines_frame:
  "match_lines E ls m u s = (s', m', u') \<Longrightarrow> pay_tables s' = pay_tables s \<and> db_statements s' = db_statements s"
proof (induction ls arbitrary: m u s)
  case (Cons l ls)
  obtain s1 ok where l: "match_line E l s = (s1, ok)" by (cases "match_line E l s")
  have "pay_tables s' = pay_tables s1 \<and> db_statements s' = db_statements s1"
    using Cons.prems Cons.IH l by (cases ok) simp_all
  then show ?case using match_line_frame[OF l] by simp
qed simp

text \<open>Every listed line is counted once, on one side or the other.\<close>

lemma match_lines_counts:
  "match_lines E ls m u s = (s', m', u') \<Longrightarrow> m' + u' = m + u + int (length ls) \<and> m \<le> m' \<and> u \<le> u'"
proof (induction ls arbitrary: m u s)
  case (Cons l ls)
  obtain s1 ok where l: "match_line E l s = (s1, ok)" by (cases "match_line E l s")
  show ?case
  proof (cases ok)
    case True
    then have "match_lines E ls (m + 1) u s1 = (s', m', u')" using Cons.prems l by simp
    from Cons.IH[OF this] show ?thesis by simp
  next
    case False
    then have "match_lines E ls m (u + 1) s1 = (s', m', u')" using Cons.prems l by simp
    from Cons.IH[OF this] show ?thesis by simp
  qed
qed simp

lemma match_lines_keeps:
  "match_lines E ls m u s = (s', m', u') \<Longrightarrow> r \<in> set (db_lines s) \<Longrightarrow> ln_id r \<notin> ln_id ` set ls
    \<Longrightarrow> r \<in> set (db_lines s')"
proof (induction ls arbitrary: m u s)
  case (Cons l ls)
  obtain s1 ok where l: "match_line E l s = (s1, ok)" by (cases "match_line E l s")
  have "r \<in> set (db_lines s1)"
    using match_line_shape[OF l] Cons.prems(2,3) UpdateLineMatch_other[of E _ s s1 r] by auto
  then show ?case using Cons.prems Cons.IH l by (cases ok) simp_all
qed simp

lemma set_by_date_id [simp]: "set (by_date_id rows) = set rows"
  by (auto simp: by_date_id_def Let_def)

lemma length_by_date_id [simp]: "length (by_date_id rows) = length rows"
  using sum_length_filter_compl[of "\<lambda>l. ln_value_date l \<noteq> None" "order_by (\<lambda>l. uint (ln_id l)) rows"]
  by (simp add: by_date_id_def Let_def)

lemma MatchStatement_run:
  assumes "MatchStatement E k s = (s', r)"
  shows "s' = s \<or> (\<exists>t0 t s1. look_statement k s = Some t0 \<and> StartMatching t0 = Inr t
    \<and> UpdateStatement E 0 t s = Inr s1
    \<and> (s' = s1 \<or> (\<exists>ls m u s2. ListUnmatchedLines E (st_id t) s1 = Inr ls
        \<and> match_lines E ls (max 0 (st_matched_count t)) (max 0 (st_unmatched_count t)) s1 = (s2, m, u)
        \<and> (s' = s2 \<or> (\<exists>t' s3 a. CompleteMatching (env_now E) m u t = Inr t'
            \<and> UpdateStatement E 1 t' s2 = Inr s3 \<and> s' = SafeWrite E a s3 \<and> r = Inr t')))))"
proof (cases "FindStatementByID E k s")
  case (Inl e)
  with assms show ?thesis by (simp add: MatchStatement_def)
next
  case f: (Inr t0)
  then have lk: "look_statement k s = Some t0" by (simp add: FindStatementByID_def)
  show ?thesis
  proof (cases "StartMatching t0")
    case (Inl e)
    with assms f show ?thesis by (simp add: MatchStatement_def)
  next
    case t: (Inr t)
    show ?thesis
    proof (cases "UpdateStatement E 0 t s")
      case (Inl e)
      with assms f t show ?thesis by (simp add: MatchStatement_def)
    next
      case s1: (Inr s1)
      have "s' = s1 \<or> (\<exists>ls m u s2. ListUnmatchedLines E (st_id t) s1 = Inr ls
        \<and> match_lines E ls (max 0 (st_matched_count t)) (max 0 (st_unmatched_count t)) s1 = (s2, m, u)
        \<and> (s' = s2 \<or> (\<exists>t' s3 a. CompleteMatching (env_now E) m u t = Inr t'
            \<and> UpdateStatement E 1 t' s2 = Inr s3 \<and> s' = SafeWrite E a s3 \<and> r = Inr t')))"
      proof (cases "ListUnmatchedLines E (st_id t) s1")
        case (Inl e)
        with assms f t s1 show ?thesis by (simp add: MatchStatement_def)
      next
        case ls: (Inr ls)
        let ?m = "max 0 (st_matched_count t)" and ?u = "max 0 (st_unmatched_count t)"
        obtain s2 m u where ml: "match_lines E ls ?m ?u s1 = (s2, m, u)"
          by (cases "match_lines E ls ?m ?u s1")
        then have ml': "match_lines E ls (if st_matched_count t < 0 then 0 else st_matched_count t)
            (if st_unmatched_count t < 0 then 0 else st_unmatched_count t) s1 = (s2, m, u)"
          by (simp add: max_def split: if_splits)
        have run: "MatchStatement E k s = (case CompleteMatching (env_now E) m u t of Inl e \<Rightarrow> (s2, Inl e)
           | Inr t' \<Rightarrow> (case UpdateStatement E 1 t' s2 of Inl e \<Rightarrow> (s2, Inl e)
              | Inr s3 \<Rightarrow> (SafeWrite E (statement_audit t' ''h2h_statement_matched'') s3, Inr t')))"
          using f t s1 ls ml' by (simp add: MatchStatement_def)
        have "s' = s2 \<or> (\<exists>t' s3 a. CompleteMatching (env_now E) m u t = Inr t'
            \<and> UpdateStatement E 1 t' s2 = Inr s3 \<and> s' = SafeWrite E a s3 \<and> r = Inr t')"
        proof (cases "CompleteMatching (env_now E) m u t")
          case (Inl e)
          with run assms show ?thesis by simp
        next
          case (Inr t')
          with run assms show ?thesis by (cases "UpdateStatement E 1 t' s2") auto
        qed
        with ls ml show ?thesis by blast
      qed
      with lk t s1 show ?thesis by blast
    qed
  qed
qed

text \<open>A completed run returns its statement.\<close>

lemma MatchStatement_ok:
  assumes "MatchStatement E k s = (s', Inr t')"
  obtains t0 t s1 ls m u s2 s3 a where "look_statement k s = Some t0" "StartMatching t0 = Inr t"
    "UpdateStatement E 0 t s = Inr s1" "ListUnmatchedLines E (st_id t) s1 = Inr ls"
    "match_lines E ls (max 0 (st_matched_count t)) (max 0 (st_unmatched_count t)) s1 = (s2, m, u)"
    "CompleteMatching (env_now E) m u t = Inr t'"
proof -
  obtain t0 where f: "FindStatementByID E k s = Inr t0"
    using assms by (cases "FindStatementByID E k s") (auto simp: MatchStatement_def)
  obtain t where t: "StartMatching t0 = Inr t"
    using assms f by (cases "StartMatching t0") (auto simp: MatchStatement_def)
  obtain s1 where s1: "UpdateStatement E 0 t s = Inr s1"
    using assms f t by (cases "UpdateStatement E 0 t s") (auto simp: MatchStatement_def)
  obtain ls where ls: "ListUnmatchedLines E (st_id t) s1 = Inr ls"
    using assms f t s1 by (cases "ListUnmatchedLines E (st_id t) s1") (auto simp: MatchStatement_def)
  let ?m = "max 0 (st_matched_count t)" and ?u = "max 0 (st_unmatched_count t)"
  obtain s2 m u where ml: "match_lines E ls ?m ?u s1 = (s2, m, u)"
    by (cases "match_lines E ls ?m ?u s1")
  then have ml': "match_lines E ls (if st_matched_count t < 0 then 0 else st_matched_count t)
      (if st_unmatched_count t < 0 then 0 else st_unmatched_count t) s1 = (s2, m, u)"
    by (simp add: max_def split: if_splits)
  obtain t'' where c: "CompleteMatching (env_now E) m u t = Inr t''"
    using assms f t s1 ls ml' by (cases "CompleteMatching (env_now E) m u t") (auto simp: MatchStatement_def)
  have "t'' = t'"
    using assms f t s1 ls ml' c by (cases "UpdateStatement E 1 t'' s2") (auto simp: MatchStatement_def)
  with f t s1 ls ml c that show ?thesis by (simp add: FindStatementByID_def)
qed

lemma StartMatching_counts:
  "StartMatching t0 = Inr t \<Longrightarrow> st_status t = StatementMatching \<and> st_id t = st_id t0
    \<and> st_matched_count t = st_matched_count t0 \<and> st_unmatched_count t = st_unmatched_count t0"
  by (auto simp: StartMatching_def split: if_splits)

lemma CompleteMatching_result:
  "CompleteMatching now m u t = Inr t' \<Longrightarrow> st_matched_count t' = m \<and> st_unmatched_count t' = u
    \<and> st_status t' = (if u = 0 then StatementMatched else StatementPartial)"
  by (auto simp: CompleteMatching_def split: if_splits)

lemma ListUnmatchedLines_set:
  "ListUnmatchedLines E sid s = Inr ls \<Longrightarrow>
    set ls = {l \<in> set (db_lines s). ln_statement_id l = sid \<and> ln_intent_id l = None}
    \<and> length ls = length (filter (\<lambda>l. ln_statement_id l = sid \<and> ln_intent_id l = None) (db_lines s))"
  by (auto simp: ListUnmatchedLines_def)

lemma MatchStatement_tables:
  assumes "MatchStatement E k s = (s', r)"
  shows "pay_tables s' = pay_tables s"
  using MatchStatement_run[OF assms]
  by (metis UpdateStatement_frame match_lines_frame SafeWrite_frame)

lemma MatchStatement_keeps:
  assumes "MatchStatement E k s = (s', r)" "distinct (map ln_id (db_lines s))"
    and "l \<in> set (db_lines s)" "ln_intent_id l \<noteq> None"
  shows "l \<in> set (db_lines s')"
proof -
  have ml: "l \<in> set (db_lines s2)"
    if u: "UpdateStatement E n t s = Inr s1" and li: "ListUnmatchedLines E sid s1 = Inr ls"
      and m: "match_lines E ls a b s1 = (s2, c, d)" for n t s1 sid ls a b s2 c d
  proof -
    have lines: "db_lines s1 = db_lines s" using UpdateStatement_frame[OF u] by simp
    have "ln_id l \<notin> ln_id ` set ls"
    proof
      assume "ln_id l \<in> ln_id ` set ls"
      then obtain q where "q \<in> set ls" "ln_id q = ln_id l" by auto
      moreover from this have "q \<in> set (db_lines s)" "ln_intent_id q = None"
        using ListUnmatchedLines_set[OF li] lines by auto
      ultimately show False using assms(2-4) by (metis distinct_map_fst_unique)
    qed
    then show ?thesis using match_lines_keeps[OF m] assms(3) lines by simp
  qed
  from MatchStatement_run[OF assms(1)] show ?thesis
    using assms(3) ml by (metis UpdateStatement_frame SafeWrite_tables(6))
qed

section \<open>Uploads\<close>

definition statement_keys :: "pay_db \<Rightarrow> (uuid \<times> string) list" where
  "statement_keys s = map (\<lambda>t. (st_gateway_id t, st_raw_hash t)) (db_statements s)"

lemma UpdateStatement_keys:
  assumes "UpdateStatement E n t s = Inr s'"
  shows "statement_keys s' = statement_keys s"
proof -
  have "save_statement (env_dbnow E) t s = Some s'" using assms by (simp add: UpdateStatement_def)
  then show ?thesis
    by (auto simp: save_statement_def tupdate_def statement_keys_def merge_statement_def comp_def split: if_splits)
qed

lemma statement_keys_frame: "db_statements s' = db_statements s \<Longrightarrow> statement_keys s' = statement_keys s"
  by (simp add: statement_keys_def)

lemma MatchStatement_keys:
  assumes "MatchStatement E k s = (s', r)"
  shows "statement_keys s' = statement_keys s"
  using MatchStatement_run[OF assms]
  by (metis UpdateStatement_keys match_lines_frame statement_keys_frame SafeWrite_tables(5))

lemma CreateStatement_keys:
  assumes "CreateStatement E t s = Inr s'"
  shows "statement_keys s' = statement_keys s @ [(st_gateway_id t, st_raw_hash t)]"
    and "(st_gateway_id t, st_raw_hash t) \<notin> set (statement_keys s)"
    and "pay_tables s' = pay_tables s \<and> db_lines s' = db_lines s"
proof -
  have n: "find (same_file (st_gateway_id t) (st_raw_hash t)) (db_statements s) = None"
    and i: "tinsert st_id t (db_statements s) = Some (db_statements s') \<and> s' = s\<lparr>db_statements := db_statements s'\<rparr>"
    using assms by (auto simp: CreateStatement_def split: if_splits option.splits)
  show "statement_keys s' = statement_keys s @ [(st_gateway_id t, st_raw_hash t)]"
  proof -
    have "db_statements s' = db_statements s @ [t]" using i by (auto simp: tinsert_def split: if_splits)
    then show ?thesis by (simp only: statement_keys_def map_append list.map)
  qed
  show "(st_gateway_id t, st_raw_hash t) \<notin> set (statement_keys s)"
    using n by (auto simp: statement_keys_def find_None_all same_file_def)
  show "pay_tables s' = pay_tables s \<and> db_lines s' = db_lines s"
    using i by (metis (no_types, lifting) pay_tables_def pay_db.simps(1-9) pay_db.ext_inject pay_db.surjective pay_db.update_convs(5))
qed

text \<open>An upload returns a stored row and changes nothing, or adds a row for a new file.\<close>

lemma UploadStatement_shape:
  assumes "UploadStatement E code filename content s = (s', r)"
  shows "s' = s \<or> (\<exists>t s1 a. CreateStatement E t s = Inr s1 \<and> s' = SafeWrite E a s1)"
proof (cases "gateways_FindByCode E code s")
  case gw: (Inr gw)
  show ?thesis
  proof (cases "gw_kind gw = GatewayKindH2HBank")
    case kd: True
    let ?new = "NewH2HBankStatement (env_sha256 E) (env_fresh E) (env_now E) (gw_id gw) filename content"
    show ?thesis
    proof (cases ?new)
      case t: (Inr t)
      show ?thesis
      proof (cases "FindStatementByHash E (gw_id gw) (st_raw_hash t) s")
        case (Inl e)
        with assms gw kd t show ?thesis
          by (cases "CreateStatement E t s") (auto simp: UploadStatement_def)
      qed (use assms gw kd t in \<open>simp add: UploadStatement_def\<close>)
    qed (use assms gw kd in \<open>simp add: UploadStatement_def\<close>)
  qed (use assms gw in \<open>simp add: UploadStatement_def\<close>)
qed (use assms in \<open>simp add: UploadStatement_def\<close>)

lemma InsertLines_frame:
  "InsertLines E sid ls s = Inr s' \<Longrightarrow> pay_tables s' = pay_tables s \<and> db_statements s' = db_statements s"
  by (auto simp: InsertLines_def pay_tables_def split: if_splits option.splits)

lemma UploadAndParse_shape:
  assumes "UploadAndParse E fl code filename content s = (s', ot, oe)"
  shows "\<exists>r s1. UploadStatement E code filename content s = (s1, r)
    \<and> (s' = s1 \<or> (\<exists>t'. UpdateStatement E 0 t' s1 = Inr s')
       \<or> (\<exists>sid ls s2. InsertLines E sid ls s1 = Inr s2 \<and>
           (s' = s2 \<or> (\<exists>t' s3 a. UpdateStatement E 0 t' s2 = Inr s3 \<and> s' = SafeWrite E a s3))))"
proof -
  obtain s1 r where up: "UploadStatement E code filename content s = (s1, r)"
    by (cases "UploadStatement E code filename content s")
  have "s' = s1 \<or> (\<exists>t'. UpdateStatement E 0 t' s1 = Inr s')
       \<or> (\<exists>sid ls s2. InsertLines E sid ls s1 = Inr s2 \<and>
           (s' = s2 \<or> (\<exists>t' s3 a. UpdateStatement E 0 t' s2 = Inr s3 \<and> s' = SafeWrite E a s3)))"
  proof (cases r)
    case (Inl e)
    with assms up show ?thesis by (simp add: UploadAndParse_def)
  next
    case t: (Inr t)
    show ?thesis
    proof (cases "st_status t = StatementParsing")
      case False
      with assms up t show ?thesis by (simp add: UploadAndParse_def)
    next
      case ps: True
      show ?thesis
      proof (cases "gateways_FindByID E (st_gateway_id t) s1")
        case (Inl e)
        with assms up t ps show ?thesis by (simp add: UploadAndParse_def)
      next
        case gw: (Inr gw)
        show ?thesis
        proof (cases "env_client E (gw_code gw)")
          case (Inl e)
          with assms up t ps gw show ?thesis by (simp add: UploadAndParse_def)
        next
          case cl: (Inr client)
          show ?thesis
          proof (cases "cl_parse_h2h client content")
            case (Inl msg)
            with assms up t ps gw cl show ?thesis
              by (cases "UpdateStatement E 0 (statement_MarkFailed (env_now E) t) s1")
                 (auto simp: UploadAndParse_def Let_def)
          next
            case pa: (Inr parsed)
            let ?ls = "parsed_lines fl (env_now E) (st_id t) parsed"
            have run: "UploadAndParse E fl code filename content s =
              (case InsertLines E (st_id t) ?ls s1 of Inl e \<Rightarrow> (s1, None, Some e)
               | Inr s2 \<Rightarrow> (case MarkParsed (int (length ?ls)) t of Inl e \<Rightarrow> (s2, None, Some e)
                | Inr t' \<Rightarrow> (case UpdateStatement E 0 t' s2 of Inl e \<Rightarrow> (s2, None, Some e)
                  | Inr s3 \<Rightarrow> (SafeWrite E (statement_audit t' ''h2h_statement_parsed'') s3, Some t', None))))"
              using up t ps gw cl pa by (simp add: UploadAndParse_def Let_def)
            show ?thesis
            proof (cases "InsertLines E (st_id t) ?ls s1")
              case (Inl e)
              with run assms show ?thesis by simp
            next
              case s2: (Inr s2)
              have "s' = s2 \<or> (\<exists>t' s3 a. UpdateStatement E 0 t' s2 = Inr s3 \<and> s' = SafeWrite E a s3)"
              proof (cases "MarkParsed (int (length ?ls)) t")
                case (Inl e)
                with run assms s2 show ?thesis by simp
              next
                case (Inr t')
                with run assms s2 show ?thesis by (cases "UpdateStatement E 0 t' s2") auto
              qed
              with s2 show ?thesis by blast
            qed
          qed
        qed
      qed
    qed
  qed
  with up show ?thesis by blast
qed

lemma UploadStatement_tables:
  "UploadStatement E code filename content s = (s', r) \<Longrightarrow> pay_tables s' = pay_tables s"
  using UploadStatement_shape CreateStatement_keys(3) by (metis SafeWrite_frame)

lemma UploadAndParse_tables:
  assumes "UploadAndParse E fl code filename content s = (s', ot, oe)"
  shows "pay_tables s' = pay_tables s"
proof -
  from UploadAndParse_shape[OF assms] obtain r s1
    where up: "UploadStatement E code filename content s = (s1, r)"
    and sh: "s' = s1 \<or> (\<exists>t'. UpdateStatement E 0 t' s1 = Inr s')
       \<or> (\<exists>sid ls s2. InsertLines E sid ls s1 = Inr s2 \<and>
           (s' = s2 \<or> (\<exists>t' s3 a. UpdateStatement E 0 t' s2 = Inr s3 \<and> s' = SafeWrite E a s3)))"
    by (elim exE conjE) (rule that)
  have "pay_tables s' = pay_tables s1" using sh by (auto dest!: UpdateStatement_frame InsertLines_frame)
  then show ?thesis using UploadStatement_tables[OF up] by simp
qed

lemma UploadStatement_unique:
  assumes "UploadStatement E code filename content s = (s', r)" "distinct (statement_keys s)"
  shows "distinct (statement_keys s')"
  using UploadStatement_shape[OF assms(1)]
proof
  assume "\<exists>t s1 a. CreateStatement E t s = Inr s1 \<and> s' = SafeWrite E a s1"
  then obtain t s1 a where c: "CreateStatement E t s = Inr s1" "s' = SafeWrite E a s1" by blast
  have "statement_keys s' = statement_keys s1" unfolding c(2) by (rule statement_keys_frame) simp
  then show ?thesis using CreateStatement_keys(1,2)[OF c(1)] assms(2) by simp
qed (use assms in simp)

lemma UploadAndParse_unique:
  assumes "UploadAndParse E fl code filename content s = (s', ot, oe)" "distinct (statement_keys s)"
  shows "distinct (statement_keys s')"
proof -
  from UploadAndParse_shape[OF assms(1)] obtain r s1
    where up: "UploadStatement E code filename content s = (s1, r)"
    and sh: "s' = s1 \<or> (\<exists>t'. UpdateStatement E 0 t' s1 = Inr s')
       \<or> (\<exists>sid ls s2. InsertLines E sid ls s1 = Inr s2 \<and>
           (s' = s2 \<or> (\<exists>t' s3 a. UpdateStatement E 0 t' s2 = Inr s3 \<and> s' = SafeWrite E a s3)))"
    by (elim exE conjE) (rule that)
  have "statement_keys s' = statement_keys s1"
    using sh by (auto dest!: UpdateStatement_keys InsertLines_frame simp: statement_keys_def)
  then show ?thesis using UploadStatement_unique[OF up assms(2)] by simp
qed

text \<open>A known file that is past parsing is answered with the stored statement; nothing changes.\<close>

lemma UploadAndParse_again:
  assumes "UploadAndParse E fl code filename content s = (s', ot, oe)"
    and gw: "tfind gw_code code (db_gateways s) = Some gw"
    and t: "find (same_file (gw_id gw) (env_sha256 E content)) (db_statements s) = Some t"
    and st: "st_status t \<noteq> StatementParsing"
    and ok: "env_fail E StatementsFindByHash = None"
  shows "s' = s \<and> (oe = None \<longrightarrow> ot = Some t)"
proof -
  have "UploadStatement E code filename content s = (s, Inr t)
    \<or> (\<exists>e. UploadStatement E code filename content s = (s, Inl e))"
  proof (cases "gateways_FindByCode E code s")
    case g: (Inr gw')
    then have [simp]: "gw' = gw" using gw by (simp add: gateways_FindByCode_def)
    show ?thesis
    proof (cases "NewH2HBankStatement (env_sha256 E) (env_fresh E) (env_now E) (gw_id gw) filename content")
      case (Inr n)
      then have "st_raw_hash n = env_sha256 E content"
        by (auto simp: NewH2HBankStatement_def Let_def split: if_splits)
      then have "FindStatementByHash E (gw_id gw) (st_raw_hash n) s = Inr t"
        using t ok by (simp add: FindStatementByHash_def)
      then show ?thesis using g Inr by (simp add: UploadStatement_def)
    qed (use g in \<open>simp add: UploadStatement_def\<close>)
  qed (simp add: UploadStatement_def)
  then show ?thesis using assms(1) st by (auto simp: UploadAndParse_def)
qed

end
