(* ===== verification/PaymentSystem.thy ===== *)
theory PaymentSystem
  imports PaymentH2H
begin

text \<open>
  The payment context as one state machine: an event is a call of one of the service
  operations (from an HTTP handler, a webhook delivery or the cron jobs), each under an
  environment of its own, with its clock, its failures and its gateway answers. Rule
  induction over the reachable databases gives the invariants that hold after any sequence
  of calls. Calls are atomic here: two requests that interleave inside an operation are not
  modelled.
\<close>

section \<open>The step relation\<close>

datatype pay_event =
    EvCreateIntent create_intent_input
  | EvRouteAndPay uuid
  | EvCancelIntent uuid
  | EvExpireStale duration
  | EvRequestRefund request_refund_input
  | EvApproveRefund uuid uuid
  | EvRejectRefund uuid string
  | EvProcessRefund uuid
  | EvRefundCompleted uuid string
  | EvIngest string string string string
  | EvUploadAndParse "nat \<Rightarrow> uuid" string string string
  | EvMatchStatement uuid

fun pay_apply :: "env \<Rightarrow> pay_event \<Rightarrow> pay_db \<Rightarrow> pay_db" where
  "pay_apply E (EvCreateIntent inp) s = fst (CreateIntent E inp s)"
| "pay_apply E (EvRouteAndPay k) s = fst (RouteAndPay E k s)"
| "pay_apply E (EvCancelIntent k) s = fst (CancelIntent E k s)"
| "pay_apply E (EvExpireStale d) s = fst (ExpireStaleIntents E d s)"
| "pay_apply E (EvRequestRefund inp) s = fst (RequestRefund E inp s)"
| "pay_apply E (EvApproveRefund k u) s = fst (ApproveRefund E k u s)"
| "pay_apply E (EvRejectRefund k r) s = fst (RejectRefund E k r s)"
| "pay_apply E (EvProcessRefund k) s = fst (ProcessRefund E k s)"
| "pay_apply E (EvRefundCompleted k ref) s = fst (MarkRefundCompleted E k ref s)"
| "pay_apply E (EvIngest code sig payload ev) s = fst (Ingest E code sig payload ev s)"
| "pay_apply E (EvUploadAndParse fl code name content) s = fst (UploadAndParse E fl code name content s)"
| "pay_apply E (EvMatchStatement k) s = fst (MatchStatement E k s)"

inductive pay_step :: "pay_db \<Rightarrow> pay_db \<Rightarrow> bool" where
  step: "pay_step s (pay_apply E ev s)"

text \<open>The first state has gateways and nothing else.\<close>

definition pay_initial :: "payment_gateway list \<Rightarrow> pay_db" where
  "pay_initial gws = \<lparr>db_intents = [], db_refunds = [], db_webhooks = [], db_gateways = gws,
     db_statements = [], db_lines = [], db_audit = [], ext_payments = [], ext_refunds = []\<rparr>"

inductive pay_reachable :: "pay_db \<Rightarrow> bool" where
  start: "pay_reachable (pay_initial gws)"
| next_step: "pay_reachable s \<Longrightarrow> pay_step s s' \<Longrightarrow> pay_reachable s'"

inductive_cases pay_step_elim: "pay_step s s'"

fun pay_run :: "(env \<times> pay_event) list \<Rightarrow> pay_db \<Rightarrow> pay_db" where
  "pay_run [] s = s"
| "pay_run ((E, ev) # evs) s = pay_run evs (pay_apply E ev s)"

lemma pay_run_reachable: "pay_reachable s \<Longrightarrow> pay_reachable (pay_run evs s)"
  by (induction evs s rule: pay_run.induct) (auto intro: pay_reachable.intros pay_step.intros)

section \<open>Frames\<close>

definition refund_part :: "pay_db \<Rightarrow> refund list \<times> (uuid \<times> f64) list" where
  "refund_part s = (db_refunds s, ext_refunds s)"

definition webhook_part :: "pay_db \<Rightarrow> payment_webhook list \<times> payment_gateway list" where
  "webhook_part s = (db_webhooks s, db_gateways s)"

lemma refund_part_ok: "refund_part s' = refund_part s \<Longrightarrow> refunds_ok s' = refunds_ok s"
  by (rule refunds_ok_same) (simp_all add: refund_part_def)

lemma parts_SafeWrite [simp]:
  "refund_part (SafeWrite E a s) = refund_part s" "webhook_part (SafeWrite E a s) = webhook_part s"
  by (simp_all add: refund_part_def webhook_part_def)

lemma parts_intents_Update:
  "intents_Update E c i s = Inr s' \<Longrightarrow> refund_part s' = refund_part s \<and> webhook_part s' = webhook_part s"
  by (auto simp: refund_part_def webhook_part_def dest: intents_Update_frame)

lemma parts_ext [simp]:
  "refund_part (s\<lparr>ext_payments := l\<rparr>) = refund_part s" "webhook_part (s\<lparr>ext_payments := l\<rparr>) = webhook_part s"
  by (simp_all add: refund_part_def webhook_part_def)

lemma parts_pay_tables:
  "pay_tables s' = pay_tables s \<Longrightarrow> refund_part s' = refund_part s \<and> webhook_part s' = webhook_part s"
  by (simp add: refund_part_def webhook_part_def pay_tables_def)

lemma refund_part_other: "other_tables s' = other_tables s \<Longrightarrow> refund_part s' = refund_part s"
  by (simp add: refund_part_def other_tables_def)

lemma routeAndProvision_parts:
  assumes "routeAndProvision E i m s = (s', r)"
  shows "refund_part s' = refund_part s \<and> webhook_part s' = webhook_part s"
  using assms
  by (auto simp: routeAndProvision_def Let_def case_prod_beta dest!: parts_intents_Update
      split: sum.splits option.splits)

lemma CreateIntent_parts:
  assumes c: "CreateIntent E inp s = (s', r)"
  shows "refund_part s' = refund_part s \<and> webhook_part s' = webhook_part s"
proof (cases "NewPaymentIntent (env_fresh E) (env_now E) (ci_invoice_id inp) (ci_amount inp) (ci_idempotency_key inp)")
  case (Inl e)
  with c show ?thesis by (simp add: CreateIntent_def)
next
  case i: (Inr i0)
  obtain s1 q where f: "CreateOrFetchByIdempotency E (new_row inp i0) s = (s1, q)"
    by (cases "CreateOrFetchByIdempotency E (new_row inp i0) s")
  have s1: "refund_part s1 = refund_part s \<and> webhook_part s1 = webhook_part s"
    using f by (auto simp: CreateOrFetchByIdempotency_def Let_def refund_part_def webhook_part_def
        split: option.splits if_splits)
  show ?thesis
  proof (cases q)
    case (Inl e)
    with c i f s1 show ?thesis by (simp add: CreateIntent_def)
  next
    case q: (Inr p)
    obtain fr row where p: "p = (fr, row)" by (cases p)
    show ?thesis
    proof (cases fr)
      case False
      with c i f q p s1 show ?thesis by (simp add: CreateIntent_def)
    next
      case True
      obtain s2 p' v e where rp: "routeAndProvision E row (ci_preferred_method inp) s1 = (s2, p', v, e)"
        by (cases "routeAndProvision E row (ci_preferred_method inp) s1")
      show ?thesis using c i f q p True rp s1 routeAndProvision_parts[OF rp]
        by (cases e) (auto simp: CreateIntent_def)
    qed
  qed
qed

lemma RouteAndPay_parts: "RouteAndPay E k s = (s', r) \<Longrightarrow> refund_part s' = refund_part s \<and> webhook_part s' = webhook_part s"
  by (auto simp: RouteAndPay_def dest: routeAndProvision_parts split: sum.splits if_splits prod.splits)

lemma CancelIntent_parts: "CancelIntent E k s = (s', r) \<Longrightarrow> refund_part s' = refund_part s \<and> webhook_part s' = webhook_part s"
  by (auto simp: CancelIntent_def dest: parts_intents_Update split: sum.splits)

lemma expire_loop_parts: "expire_loop E is s n = (s', m) \<Longrightarrow> refund_part s' = refund_part s \<and> webhook_part s' = webhook_part s"
proof (induction "is" arbitrary: s n)
  case (Cons i "is")
  show ?case
  proof (cases "MarkExpired (env_now E) i")
    case (Inl e)
    with Cons show ?thesis by simp
  next
    case (Inr i')
    with Cons show ?thesis
      by (cases "intents_Update E (IntentsUpdateRow (pi_id i)) i' s") (auto dest!: parts_intents_Update)
  qed
qed simp

lemma ExpireStaleIntents_parts: "ExpireStaleIntents E d s = (s', r) \<Longrightarrow> refund_part s' = refund_part s \<and> webhook_part s' = webhook_part s"
  by (auto simp: ExpireStaleIntents_def Let_def dest: expire_loop_parts split: sum.splits prod.splits)

lemma webhook_part_refunds_Update: "refunds_Update E n r s = Inr s' \<Longrightarrow> webhook_part s' = webhook_part s"
proof -
  assume "refunds_Update E n r s = Inr s'"
  then have "save_refund (env_dbnow E) r s = Some s'" by (simp only: refunds_Update_def guard_Inr_iff found_Inr_iff)
  then obtain rows where "s' = s\<lparr>db_refunds := rows\<rparr>" unfolding save_refund_def by blast
  then show ?thesis by (simp add: webhook_part_def)
qed

lemma webhook_part_refunds_Create: "refunds_Create E r s = Inr s' \<Longrightarrow> webhook_part s' = webhook_part s"
proof -
  assume c: "refunds_Create E r s = Inr s'"
  show ?thesis
  proof (cases "tinsert rf_id r (db_refunds s)")
    case None
    with c show ?thesis by (simp only: refunds_Create_def guard_Inr_iff option.case) simp
  next
    case (Some rows)
    with c have "s' = s\<lparr>db_refunds := rows\<rparr>" by (simp only: refunds_Create_def guard_Inr_iff option.case) simp
    then show ?thesis by (simp add: webhook_part_def)
  qed
qed

lemma webhook_part_ext [simp]: "webhook_part (s\<lparr>ext_refunds := l\<rparr>) = webhook_part s"
  by (simp add: webhook_part_def)

lemma webhook_part_after [simp]:
  "webhook_part (after s (refunds_Update E n r s)) = webhook_part s"
  "webhook_part (after s (intents_Update E c i s)) = webhook_part s"
  by (cases "refunds_Update E n r s"; simp add: webhook_part_refunds_Update)
     (cases "intents_Update E c i s"; simp add: parts_intents_Update)

lemma settle_intent_webhooks: "webhook_part (settle_intent E iid s) = webhook_part s"
  by (simp add: settle_intent_def split: sum.split)

lemma refund_ops_webhooks:
  "RequestRefund E inp s = (s', x) \<Longrightarrow> webhook_part s' = webhook_part s"
  "ApproveRefund E k u s = (s', y) \<Longrightarrow> webhook_part s' = webhook_part s"
  "RejectRefund E k reason s = (s', y) \<Longrightarrow> webhook_part s' = webhook_part s"
  "ProcessRefund E k s = (s', z) \<Longrightarrow> webhook_part s' = webhook_part s"
  "MarkRefundCompleted E k ref s = (s', y) \<Longrightarrow> webhook_part s' = webhook_part s"
  by (auto simp: RequestRefund_def ApproveRefund_def RejectRefund_def ProcessRefund_def
      MarkRefundCompleted_def settle_intent_webhooks Let_def
      dest!: webhook_part_refunds_Update webhook_part_refunds_Create split: sum.splits option.splits if_splits)

lemma wh_touch_refunds: "wh_touch E s s' \<Longrightarrow> refund_part s' = refund_part s"
  by (rule refund_part_other) (rule wh_touch_other)

lemma intent_touch_refunds: "intent_touch E i s s' \<Longrightarrow> refund_part s' = refund_part s"
  by (auto simp: intent_touch_def dest: parts_intents_Update)

lemma process_verified_refunds:
  assumes "process_verified E c p w s = (s', r)"
  shows "refund_part s' = refund_part s"
  using process_verified_shape[OF assms] by (auto dest!: wh_touch_refunds intent_touch_refunds)

lemma Ingest_refunds:
  assumes "Ingest E code sig payload ev s = (s', r)"
  shows "refund_part s' = refund_part s"
proof -
  have a: "refund_part (s\<lparr>db_webhooks := l\<rparr>) = refund_part s" for l by (simp add: refund_part_def)
  from Ingest_shape[OF assms] show ?thesis
    by (elim disjE exE conjE) (auto simp: a split: if_splits dest!: wh_touch_refunds process_verified_refunds)
qed

section \<open>One call keeps the invariants\<close>

lemma pay_apply_good: "good_step s (pay_apply E ev s)"
proof (cases ev)
  case (EvCreateIntent inp)
  then show ?thesis using CreateIntent_good[of E inp s] by (cases "CreateIntent E inp s") simp
next
  case (EvRouteAndPay k)
  then show ?thesis using RouteAndPay_good[of E k s] by (cases "RouteAndPay E k s") simp
next
  case (EvCancelIntent k)
  then show ?thesis using CancelIntent_good[of E k s] by (cases "CancelIntent E k s") simp
next
  case (EvExpireStale d)
  then show ?thesis using ExpireStaleIntents_good[of E d s] by (cases "ExpireStaleIntents E d s") simp
next
  case (EvRequestRefund inp)
  then show ?thesis using good_step_same[OF refund_ops_intents(1)[of E inp s]] by (cases "RequestRefund E inp s") simp
next
  case (EvApproveRefund k u)
  then show ?thesis using good_step_same[OF refund_ops_intents(2)[of E k u s]] by (cases "ApproveRefund E k u s") simp
next
  case (EvRejectRefund k r)
  then show ?thesis using good_step_same[OF refund_ops_intents(3)[of E k r s]] by (cases "RejectRefund E k r s") simp
next
  case (EvProcessRefund k)
  then show ?thesis using good_step_same[OF ProcessRefund_intents[of E k s]] by (cases "ProcessRefund E k s") simp
next
  case (EvRefundCompleted k ref)
  then show ?thesis using MarkRefundCompleted_good[of E k ref s] by (cases "MarkRefundCompleted E k ref s") simp
next
  case (EvIngest code sig p e)
  then show ?thesis using Ingest_good[of E code sig p e s] by (cases "Ingest E code sig p e s") simp
next
  case (EvUploadAndParse fl code name content)
  obtain s' ot oe where u: "UploadAndParse E fl code name content s = (s', ot, oe)"
    by (cases "UploadAndParse E fl code name content s")
  have "db_intents s' = db_intents s" using UploadAndParse_tables[OF u] by (simp add: pay_tables_def)
  then show ?thesis using EvUploadAndParse u good_step_same by simp
next
  case (EvMatchStatement k)
  obtain s' r where m: "MatchStatement E k s = (s', r)" by (cases "MatchStatement E k s")
  have "db_intents s' = db_intents s" using MatchStatement_tables[OF m] by (simp add: pay_tables_def)
  then show ?thesis using EvMatchStatement m good_step_same by simp
qed

lemma pay_apply_refunds_ok:
  assumes "refunds_ok s"
  shows "refunds_ok (pay_apply E ev s)"
proof (cases ev)
  case (EvCreateIntent inp)
  then show ?thesis using assms refund_part_ok[OF conjunct1[OF CreateIntent_parts[of E inp s]]] by (cases "CreateIntent E inp s") simp
next
  case (EvRouteAndPay k)
  then show ?thesis using assms refund_part_ok[OF conjunct1[OF RouteAndPay_parts[of E k s]]] by (cases "RouteAndPay E k s") simp
next
  case (EvCancelIntent k)
  then show ?thesis using assms refund_part_ok[OF conjunct1[OF CancelIntent_parts[of E k s]]] by (cases "CancelIntent E k s") simp
next
  case (EvExpireStale d)
  then show ?thesis using assms refund_part_ok[OF conjunct1[OF ExpireStaleIntents_parts[of E d s]]] by (cases "ExpireStaleIntents E d s") simp
next
  case (EvRequestRefund inp)
  then show ?thesis using RequestRefund_ok[OF assms, of E inp] by (cases "RequestRefund E inp s") simp
next
  case (EvApproveRefund k u)
  then show ?thesis using ApproveRefund_ok[OF assms, of E k u] by (cases "ApproveRefund E k u s") simp
next
  case (EvRejectRefund k r)
  then show ?thesis using RejectRefund_ok[OF assms, of E k r] by (cases "RejectRefund E k r s") simp
next
  case (EvProcessRefund k)
  then show ?thesis using ProcessRefund_ok[OF assms, of E k] by (cases "ProcessRefund E k s") simp
next
  case (EvRefundCompleted k ref)
  then show ?thesis using MarkRefundCompleted_ok[OF assms, of E k ref] by (cases "MarkRefundCompleted E k ref s") simp
next
  case (EvIngest code sig p e)
  then show ?thesis using assms refund_part_ok[OF Ingest_refunds[of E code sig p e s]] by (cases "Ingest E code sig p e s") simp
next
  case (EvUploadAndParse fl code name content)
  obtain s' ot oe where u: "UploadAndParse E fl code name content s = (s', ot, oe)"
    by (cases "UploadAndParse E fl code name content s")
  then show ?thesis using EvUploadAndParse assms
      refund_part_ok[OF conjunct1[OF parts_pay_tables[OF UploadAndParse_tables[OF u]]]] by simp
next
  case (EvMatchStatement k)
  obtain s' r where m: "MatchStatement E k s = (s', r)" by (cases "MatchStatement E k s")
  then show ?thesis using EvMatchStatement assms
      refund_part_ok[OF conjunct1[OF parts_pay_tables[OF MatchStatement_tables[OF m]]]] by simp
qed

text \<open>A recorded event stays recorded whatever happens, and the gateways stay as they are.\<close>

lemma event_recorded_part: "webhook_part s' = webhook_part s \<Longrightarrow> event_recorded s' g k = event_recorded s g k"
  by (simp add: webhook_part_def event_recorded_def)

lemma pay_apply_events:
  "db_gateways (pay_apply E ev s) = db_gateways s
   \<and> (event_recorded s g k \<longrightarrow> event_recorded (pay_apply E ev s) g k)"
proof (cases "\<exists>code sig p e. ev = EvIngest code sig p e")
  case True
  then obtain code sig p e where ev: "ev = EvIngest code sig p e" by blast
  obtain s' r where i: "Ingest E code sig p e s = (s', r)" by (cases "Ingest E code sig p e s")
  show ?thesis using Ingest_keeps[OF i] Ingest_gateways[OF i] ev i by simp
next
  case False
  have "webhook_part (pay_apply E ev s) = webhook_part s"
  proof (cases ev)
    case (EvCreateIntent inp)
    then show ?thesis using CreateIntent_parts[of E inp s] by (cases "CreateIntent E inp s") simp
  next
    case (EvRouteAndPay k)
    then show ?thesis using RouteAndPay_parts[of E k s] by (cases "RouteAndPay E k s") simp
  next
    case (EvCancelIntent k)
    then show ?thesis using CancelIntent_parts[of E k s] by (cases "CancelIntent E k s") simp
  next
    case (EvExpireStale d)
    then show ?thesis using ExpireStaleIntents_parts[of E d s] by (cases "ExpireStaleIntents E d s") simp
  next
    case (EvRequestRefund inp)
    then show ?thesis using refund_ops_webhooks(1)[of E inp s] by (cases "RequestRefund E inp s") simp
  next
    case (EvApproveRefund k u)
    then show ?thesis using refund_ops_webhooks(2)[of E k u s] by (cases "ApproveRefund E k u s") simp
  next
    case (EvRejectRefund k r)
    then show ?thesis using refund_ops_webhooks(3)[of E k r s] by (cases "RejectRefund E k r s") simp
  next
    case (EvProcessRefund k)
    then show ?thesis using refund_ops_webhooks(4)[of E k s] by (cases "ProcessRefund E k s") simp
  next
    case (EvRefundCompleted k ref)
    then show ?thesis using refund_ops_webhooks(5)[of E k ref s] by (cases "MarkRefundCompleted E k ref s") simp
  next
    case (EvIngest code sig p e)
    with False show ?thesis by blast
  next
    case (EvUploadAndParse fl code name content)
    obtain s' ot oe where u: "UploadAndParse E fl code name content s = (s', ot, oe)"
      by (cases "UploadAndParse E fl code name content s")
    then show ?thesis using EvUploadAndParse parts_pay_tables[OF UploadAndParse_tables[OF u]] by simp
  next
    case (EvMatchStatement k)
    obtain s' r where m: "MatchStatement E k s = (s', r)" by (cases "MatchStatement E k s")
    then show ?thesis using EvMatchStatement parts_pay_tables[OF MatchStatement_tables[OF m]] by simp
  qed
  then show ?thesis using event_recorded_part[of "pay_apply E ev s" s] by (simp add: webhook_part_def)
qed

lemma pay_run_events:
  "db_gateways (pay_run evs s) = db_gateways s
   \<and> (event_recorded s g k \<longrightarrow> event_recorded (pay_run evs s) g k)"
  by (induction evs s rule: pay_run.induct) (simp_all add: pay_apply_events)

section \<open>Reachable databases\<close>

lemma pay_initial_ok: "intents_ok (pay_initial gws) \<and> keys_unique (pay_initial gws) \<and> refunds_ok (pay_initial gws)"
  by (simp add: pay_initial_def intents_ok_def keys_unique_def refunds_ok_def tkeyed_def)

lemma pay_invariant:
  assumes "pay_reachable s"
  shows "intents_ok s \<and> keys_unique s \<and> refunds_ok s"
  using assms
proof (induction rule: pay_reachable.induct)
  case (start gws)
  show ?case by (rule pay_initial_ok)
next
  case (next_step s s')
  from next_step.hyps(2) obtain E ev where "s' = pay_apply E ev s" by (rule pay_step_elim)
  then show ?case using next_step.IH pay_apply_good[of s E ev] pay_apply_refunds_ok[of s E ev]
    by (auto simp: good_step_def)
qed

lemma pay_run_evolve: "intents_ok s \<Longrightarrow> intents_ok (pay_run evs s) \<and> intents_evolve s (pay_run evs s)"
proof (induction evs s rule: pay_run.induct)
  case (1 s)
  then show ?case by (simp add: same_intents(3))
next
  case (2 E ev evs s)
  from 2(2) pay_apply_good[of s E ev] have a: "intents_ok (pay_apply E ev s)" "intents_evolve s (pay_apply E ev s)"
    by (simp_all add: good_step_def)
  from 2(1)[OF a(1)] have b: "intents_ok (pay_run evs (pay_apply E ev s))"
    "intents_evolve (pay_apply E ev s) (pay_run evs (pay_apply E ev s))" by simp_all
  from b(1) intents_evolve_trans[OF a(2) b(2)] show ?case by simp
qed

end
