(* ===== verification/PaymentFacts.thy ===== *)
theory PaymentFacts
  imports PaymentSystem
begin

text \<open>
  Facts about whole operations of the payment context that several theories quote: which
  candidate a statement line is bound to, what the expiry job does to every stored intent,
  what a repeated creation returns, and concrete traces of the system.
\<close>

section \<open>The unique leader\<close>

lemma filter_eq_single: "distinct xs \<Longrightarrow> i \<in> set xs \<Longrightarrow> filter (\<lambda>j. j = i) xs = [i]"
proof (induction xs)
  case (Cons x xs)
  show ?case
  proof (cases "x = i")
    case True
    then have "filter (\<lambda>j. j = i) xs = []" using Cons.prems(1) by (auto simp: filter_empty_conv)
    with True show ?thesis by simp
  next
    case False
    with Cons show ?thesis by simp
  qed
qed simp

lemma leaders_single:
  assumes "distinct xs"
  shows "leaders E ref amt vd xs = [i] \<longleftrightarrow> i \<in> set xs \<and> 0 < window_tier E ref amt vd i
    \<and> (\<forall>j \<in> set xs. j \<noteq> i \<longrightarrow> window_tier E ref amt vd j < window_tier E ref amt vd i)"
    (is "?L = [i] \<longleftrightarrow> ?R")
proof
  let ?w = "window_tier E ref amt vd" and ?t = "top_tier E ref amt vd xs"
  assume l: "?L = [i]"
  then have t0: "?t \<noteq> 0" and f: "filter (\<lambda>j. ?w j = ?t) xs = [i]"
    by (auto simp: leaders_def Let_def split: if_splits)
  have "i \<in> set (filter (\<lambda>j. ?w j = ?t) xs)" unfolding f by simp
  then have i: "i \<in> set xs" "?w i = ?t" by simp_all
  have "?w j < ?w i" if j: "j \<in> set xs" "j \<noteq> i" for j
  proof -
    have "?w j \<noteq> ?t" using filter_eq_singleton_unique[OF f j(1)] j(2) by blast
    then show ?thesis using window_tier_le_top[OF j(1), of E ref amt vd] i by simp
  qed
  then show ?R using i t0 by simp
next
  let ?w = "window_tier E ref amt vd" and ?t = "top_tier E ref amt vd xs"
  assume r: ?R
  have t: "?t = ?w i"
  proof (rule antisym)
    show "?w i \<le> ?t" using r by (blast intro: window_tier_le_top)
    show "?t \<le> ?w i" using r unfolding top_tier_Max by (subst Max_le_iff) (auto intro: less_imp_le)
  qed
  have "filter (\<lambda>j. ?w j = ?t) xs = filter (\<lambda>j. j = i) xs"
    using r t by (intro filter_cong) auto
  then show "?L = [i]" using r t filter_eq_single[OF assms, of i] by (simp add: leaders_def)
qed

lemma pending_rows_set: "set (pending_rows s) = {i \<in> set (db_intents s). pi_status i = PaymentStatusPending}"
  by (auto simp: pending_rows_def)

lemma pending_rows_distinct: "intents_ok s \<Longrightarrow> distinct (pending_rows s)"
proof -
  assume "intents_ok s"
  then have "distinct (db_intents s)" by (simp add: intents_ok_def tkeyed_def distinct_map)
  then show ?thesis by (simp add: pending_rows_def order_by_def)
qed

text \<open>No pending intent of a consistent database has been paid, so none scores by date.\<close>

lemma pending_tier:
  assumes "intents_ok s" "i \<in> set (db_intents s)" "pi_status i = PaymentStatusPending"
  shows "tier E ref amt vd i \<in> {0, 2, 3}"
proof -
  have "pi_paid_at i = None"
  proof -
    have "intent_inv i" using assms(1,2) by (simp add: intents_ok_def)
    then have "pi_paid_at i \<noteq> None \<longleftrightarrow> pi_status i \<in> paid_status" by (simp only: intent_inv_def)
    then show ?thesis by (simp add: assms(3) paid_status_def)
  qed
  then have "tier E ref amt vd i \<noteq> 1" by (rule unpaid_tier)
  then show ?thesis using tier_le[of E ref amt vd i] by (simp only: insert_iff empty_iff) arith
qed

lemma leaders_pending_iff:
  assumes "intents_ok s"
  shows "leaders E ref amt vd (pending_rows s) = [i] \<longleftrightarrow> i \<in> set (db_intents s)
      \<and> pi_status i = PaymentStatusPending \<and> in_window vd i \<and> tier E ref amt vd i \<in> {2, 3}
      \<and> (\<forall>j \<in> set (db_intents s). pi_status j = PaymentStatusPending \<longrightarrow> in_window vd j \<longrightarrow> j \<noteq> i
           \<longrightarrow> tier E ref amt vd j < tier E ref amt vd i)"
    (is "?L \<longleftrightarrow> ?R")
proof -
  let ?w = "window_tier E ref amt vd"
  have mem: "j \<in> set (pending_rows s) \<longleftrightarrow> j \<in> set (db_intents s) \<and> pi_status j = PaymentStatusPending" for j
    unfolding pending_rows_set by blast
  have win: "in_window vd j \<Longrightarrow> ?w j = tier E ref amt vd j" "\<not> in_window vd j \<Longrightarrow> ?w j = 0" for j
    by (simp_all add: window_tier_def)
  note single = leaders_single[OF pending_rows_distinct[OF assms], of E ref amt vd i]
  show ?thesis
  proof
    assume ?L
    then have i: "i \<in> set (pending_rows s)" "0 < ?w i"
      and best: "\<forall>j \<in> set (pending_rows s). j \<noteq> i \<longrightarrow> ?w j < ?w i" using single by blast+
    have iw: "in_window vd i" using i(2) win(2)[of i] by (cases "in_window vd i") simp_all
    have it: "i \<in> set (db_intents s)" "pi_status i = PaymentStatusPending" using i(1) mem by blast+
    have "tier E ref amt vd i \<noteq> 0" using i(2) win(1)[OF iw] by simp
    then have "tier E ref amt vd i \<in> {2, 3}" using pending_tier[OF assms it, of E ref amt vd] by simp
    moreover have "tier E ref amt vd j < tier E ref amt vd i"
      if "j \<in> set (db_intents s)" "pi_status j = PaymentStatusPending" "in_window vd j" "j \<noteq> i" for j
      using best mem that win(1)[OF iw] win(1)[OF that(3)] by metis
    ultimately show ?R using it iw by blast
  next
    assume r: ?R
    then have "?w i = tier E ref amt vd i" using win(1) by blast
    moreover have "0 < tier E ref amt vd i" using r by (elim conjE insertE) simp_all
    moreover have "?w j < ?w i" if "j \<in> set (pending_rows s)" "j \<noteq> i" for j
      using r that mem win[of j] calculation by (cases "in_window vd j") simp_all
    ultimately show ?L using single r mem by simp
  qed
qed

section \<open>The expiry job\<close>

definition is_stale :: "time \<Rightarrow> payment_intent \<Rightarrow> bool" where
  "is_stale cutoff i \<longleftrightarrow> pi_status i = PaymentStatusPending \<and> pi_created_at i < cutoff"

definition expired_row :: "env \<Rightarrow> payment_intent \<Rightarrow> payment_intent" where
  "expired_row E i = i\<lparr>pi_expired_at := Some (env_now E), pi_status := PaymentStatusExpired,
     pi_updated_at := env_dbnow E\<rparr>"

lemma expire_loop_spec:
  assumes nofail: "env_fail E = (\<lambda>_. None)"
  shows "distinct (map pi_id is) \<Longrightarrow>
    (\<And>i. i \<in> set is \<Longrightarrow> look_intent (pi_id i) s = Some i \<and> pi_status i = PaymentStatusPending) \<Longrightarrow>
    expire_loop E is s n = (s', m) \<Longrightarrow> m = n + int (length is)
      \<and> (\<forall>k. look_intent k s' = map_option (\<lambda>i. if i \<in> set is then expired_row E i else i) (look_intent k s))"
proof (induction "is" arbitrary: s n)
  case Nil
  then show ?case by (simp add: option.map_ident)
next
  case (Cons i "is")
  let ?i = "i\<lparr>pi_expired_at := Some (env_now E), pi_status := PaymentStatusExpired, pi_updated_at := env_now E\<rparr>"
  have l: "look_intent (pi_id i) s = Some i" "pi_status i = PaymentStatusPending"
    using Cons.prems(2)[of i] by auto
  then have e: "MarkExpired (env_now E) i = Inr ?i" by (simp add: MarkExpired_def)
  obtain s1 where s1: "save_intent (env_dbnow E) ?i s = Some s1"
    using intents.save_found[of ?i s i "env_dbnow E"] l by auto
  have m: "merge_intent (env_dbnow E) i ?i = expired_row E i"
    by (cases "pi_routing i") (simp_all add: merge_intent_def expired_row_def)
  let ?s2 = "SafeWrite E (intent_audit ?i ''status'' ''pending'' ''expired'' ''intent_expired_by_cron'') s1"
  have look: "look_intent k ?s2 = (if k = pi_id i then Some (expired_row E i) else look_intent k s)" for k
  proof -
    have "look_intent k ?s2 = look_intent k s1" by (simp add: look_intent_def)
    moreover have "look_intent (pi_id i) s1 = Some (expired_row E i)"
      using intents.look_save_same[OF s1] l m by simp
    moreover have "k \<noteq> pi_id i \<Longrightarrow> look_intent k s1 = look_intent k s"
      using intents.look_save_other[OF s1, of k] by simp
    ultimately show ?thesis by simp
  qed
  have run: "expire_loop E is ?s2 (n + 1) = (s', m)"
    using Cons.prems(3) e s1 by (simp add: intents_Update_def guard_def nofail found_def)
  have "look_intent (pi_id j) ?s2 = Some j \<and> pi_status j = PaymentStatusPending" if "j \<in> set is" for j
  proof -
    have "pi_id j \<in> pi_id ` set is" using that by (rule imageI)
    then have "pi_id j \<noteq> pi_id i" using Cons.prems(1) by auto
    then show ?thesis using Cons.prems(2)[of j] that look by auto
  qed
  with Cons.IH[OF _ _ run] Cons.prems(1) have ih: "m = n + 1 + int (length is)"
    "\<And>k. look_intent k s' = map_option (\<lambda>j. if j \<in> set is then expired_row E j else j) (look_intent k ?s2)"
    by auto
  have "look_intent k s' = map_option (\<lambda>j. if j \<in> set (i # is) then expired_row E j else j) (look_intent k s)" for k
  proof (cases "k = pi_id i")
    case True
    have "expired_row E i \<notin> set is"
    proof
      assume "expired_row E i \<in> set is"
      then have "pi_id (expired_row E i) \<in> pi_id ` set is" by (rule imageI)
      then show False using Cons.prems(1) by (simp add: expired_row_def)
    qed
    with True show ?thesis by (simp add: ih(2) look l)
  next
    case False
    show ?thesis
    proof (cases "look_intent k s")
      case (Some j)
      then have "pi_id j = k" by (rule intents.look_key)
      then have "j \<noteq> i" using False by blast
      then show ?thesis using Some False by (simp add: ih(2) look)
    qed (simp add: ih(2) look False)
  qed
  with ih(1) show ?case by simp
qed

lemma page_all: "length rows \<le> n \<Longrightarrow> page n 0 rows = rows"
  by (simp add: page_def)

lemma ExpireStaleIntents_spec:
  assumes "intents_ok s" and nofail: "env_fail E = (\<lambda>_. None)"
    and cut: "cutoff = env_now E - (if d \<le> 0 then 24 * 3600 * 10 ^ 9 else d)"
    and few: "length (filter (is_stale cutoff) (db_intents s)) \<le> 500"
    and run: "ExpireStaleIntents E d s = (s', r)"
  shows "r = Inr (int (length (filter (is_stale cutoff) (db_intents s))))"
    and "look_intent k s' = map_option (\<lambda>i. if is_stale cutoff i then expired_row E i else i) (look_intent k s)"
proof -
  let ?st = "filter (is_stale cutoff) (db_intents s)"
  have key: "tkeyed pi_id (db_intents s)" using assms(1) by (simp add: intents_ok_def)
  have li: "ListPendingOlderThan E cutoff 500 s = Inr (order_by pi_created_at ?st)"
    using few by (simp add: ListPendingOlderThan_def guard_def nofail page_all is_stale_def[abs_def])
  obtain s1 m where lo: "expire_loop E (order_by pi_created_at ?st) s 0 = (s1, m)"
    by (cases "expire_loop E (order_by pi_created_at ?st) s 0")
  have run': "s' = s1 \<and> r = Inr m" using run li lo by (simp add: ExpireStaleIntents_def cut[symmetric])
  have d: "distinct (map pi_id (order_by pi_created_at ?st))"
    using key distinct_map_order_by[of pi_id ?st pi_created_at] by (simp add: tkeyed_def distinct_map_filter)
  have mem: "look_intent (pi_id i) s = Some i \<and> pi_status i = PaymentStatusPending"
    if "i \<in> set (order_by pi_created_at ?st)" for i
    using that key by (auto simp: is_stale_def look_intent_def tfind_mem)
  note sp = expire_loop_spec[OF nofail d mem lo]
  show "r = Inr (int (length ?st))" using sp run' by simp
  show "look_intent k s' = map_option (\<lambda>i. if is_stale cutoff i then expired_row E i else i) (look_intent k s)"
  proof (cases "look_intent k s")
    case (Some i)
    then have "i \<in> set (db_intents s)" by (auto simp: look_intent_def dest: tfind_SomeD)
    then show ?thesis using sp run' Some by simp
  qed (use sp run' in simp)
qed

section \<open>A repeated creation\<close>

lemma CreateIntent_replay:
  assumes ok: "keys_unique s" "tkeyed pi_id (db_intents s)"
    and r: "r \<in> set (db_intents s)" "pi_idempotency_key r = Some key" "key \<noteq> []"
    and inp: "TrimSpace (ci_idempotency_key inp) = key" "ci_invoice_id inp \<noteq> Nil_uuid"
      "\<not> fle (ci_amount inp) (Fin 0)"
    and nofail: "env_fail E IntentsCreate = None"
  shows "CreateIntent E inp s = (s, Inr r)"
proof -
  obtain i0 where i0: "NewPaymentIntent (env_fresh E) (env_now E) (ci_invoice_id inp) (ci_amount inp)
      (ci_idempotency_key inp) = Inr i0" "pi_idempotency_key i0 = Some key"
    using inp r(3) by (simp add: NewPaymentIntent_def Let_def)
  then have key: "pi_idempotency_key (new_row inp i0) = Some key" by (simp add: new_row_def Let_def)
  have "find (\<lambda>q. pi_idempotency_key q = Some key) (db_intents s) \<noteq> None"
    using r by (auto simp: find_None_iff)
  then obtain q where q: "find (\<lambda>q. pi_idempotency_key q = Some key) (db_intents s) = Some q" by blast
  then have "q \<in> set (db_intents s)" "pi_idempotency_key q = Some key" by (auto dest: find_SomeD)
  then have "q = r" using ok r unfolding keys_unique_def tkeyed_def by (metis distinct_map_fst_unique option.distinct(1))
  then have "CreateOrFetchByIdempotency E (new_row inp i0) s = (s, Inr (False, r))"
    using key q r(3) by (simp add: CreateOrFetchByIdempotency_def nofail)
  with i0 show ?thesis by (simp add: CreateIntent_def)
qed

section \<open>Concrete traces\<close>

text \<open>
  One gateway that accepts every call, one intent of 100, and three histories: the payment
  is confirmed by a webhook; two refunds of the full amount are requested before either is
  paid out; the first delivery of the webhook hits a database failure and is repeated.
\<close>

definition demo_gateway :: payment_gateway where
  "demo_gateway = \<lparr>gw_id = 7, gw_code = ''xendit'', gw_name = ''Xendit'', gw_kind = GatewayKindVAAggregator,
     gw_is_active = True, gw_priority = 10, gw_supported_methods = [], gw_min_amount = None,
     gw_max_amount = None, gw_config_encrypted = [], gw_config_key_version = 1, gw_created_at = 0,
     gw_updated_at = 0\<rparr>"

definition demo_parsed :: parsed_webhook where
  "demo_parsed = \<lparr>pw_external_event_id = ''evt'', pw_external_payment_ref = ''ref-1'',
     pw_new_status = Some PaymentStatusSucceeded, pw_paid_at = None, pw_failure_code = [],
     pw_failure_reason = [], pw_refund_external_ref = []\<rparr>"

definition demo_client :: gateway_client where
  "demo_client = \<lparr>cl_create_payment = (\<lambda>i m. Inr ''ref-1''), cl_refund_payment = (\<lambda>i a r. Inr ''rf''),
     cl_verify_signature = (\<lambda>p sg. sg = ''good''), cl_parse_webhook = (\<lambda>p. Inr demo_parsed),
     cl_parse_h2h = (\<lambda>c. Inl ''no statements'')\<rparr>"

definition demo_env :: "uuid \<Rightarrow> time \<Rightarrow> (call \<Rightarrow> derr option) \<Rightarrow> env" where
  "demo_env u t faults = \<lparr>env_now = t, env_dbnow = t, env_fresh = u, env_fail = faults,
     env_client = (\<lambda>c. Inr demo_client), env_sha256 = (\<lambda>s. s), env_lower = (\<lambda>s. s),
     env_collate = (\<lambda>s. int (length s))\<rparr>"

definition ok_env :: "uuid \<Rightarrow> time \<Rightarrow> env" where
  "ok_env u t = demo_env u t (\<lambda>_. None)"

lemma env_fail_ok_env [simp]: "env_fail (ok_env u t) = (\<lambda>_. None)"
  by (simp add: ok_env_def demo_env_def)

definition demo_order :: create_intent_input where
  "demo_order = \<lparr>ci_invoice_id = 5, ci_customer_id = None, ci_amount = Fin 100, ci_currency = [],
     ci_idempotency_key = ''order-1'', ci_preferred_method = []\<rparr>"

definition demo_refund :: "f64 \<Rightarrow> request_refund_input" where
  "demo_refund a = \<lparr>rr_intent_id = 11, rr_amount = a, rr_reason = [], rr_requested_by = None\<rparr>"

definition paid_trace :: "(env \<times> pay_event) list" where
  "paid_trace = [(ok_env 11 1, EvCreateIntent demo_order),
     (ok_env 12 2, EvIngest ''xendit'' ''good'' ''body'' ''evt'')]"

definition refund_trace :: "(env \<times> pay_event) list" where
  "refund_trace = paid_trace @ [(ok_env 21 3, EvRequestRefund (demo_refund (Fin 100))),
     (ok_env 22 4, EvRequestRefund (demo_refund (Fin 100))),
     (ok_env 0 5, EvApproveRefund 21 99), (ok_env 0 6, EvApproveRefund 22 99),
     (ok_env 0 7, EvProcessRefund 21), (ok_env 0 8, EvProcessRefund 22),
     (ok_env 0 9, EvRefundCompleted 21 ''x''), (ok_env 0 10, EvRefundCompleted 22 ''y'')]"

definition lost_trace :: "(env \<times> pay_event) list" where
  "lost_trace = [(ok_env 11 1, EvCreateIntent demo_order),
     (demo_env 12 2 (\<lambda>c. if c = IntentsUpdate then Some (New KindInternal ''db'' ''connection lost'') else None),
      EvIngest ''xendit'' ''good'' ''body'' ''evt''),
     (ok_env 13 3, EvIngest ''xendit'' ''good'' ''body'' ''evt'')]"

definition demo_start :: pay_db where
  "demo_start = pay_initial [demo_gateway]"

lemma demo_reachable: "pay_reachable (pay_run evs demo_start)"
  unfolding demo_start_def by (intro pay_run_reachable pay_reachable.start)

end
