(* ===== verification/PaymentClaims.thy ===== *)
theory PaymentClaims
  imports PaymentFacts
begin

text \<open>
  The properties of the payment context. Each is stated over the operations of the code and
  followed by an instance at a concrete history.
\<close>

section \<open>Intents in the system\<close>

text \<open>
  C1. Whatever sequence of service calls follows, under any failures, clock readings and
  gateway answers, a stored intent stays in the table with its invoice, amount, currency and
  key, its status moves along the transition graph of \<^verbatim>\<open>PaymentStatus\<close>, and once it is
  failed, expired, cancelled or fully refunded it never changes status again.
\<close>

theorem stored_intents_follow_graph:
  assumes "pay_reachable s" "look_intent k s = Some i"
  shows "\<exists>j. look_intent k (pay_run evs s) = Some j \<and> intent_frame i j
    \<and> intent_edge\<^sup>*\<^sup>* (pi_status i) (pi_status j)
    \<and> (payment_IsTerminal (pi_status i) \<longrightarrow> pi_status j = pi_status i)"
proof -
  from pay_invariant[OF assms(1)] have "intents_evolve s (pay_run evs s)" by (blast dest: pay_run_evolve)
  then obtain j where j: "look_intent k (pay_run evs s) = Some j" "intent_evolves i j"
    using assms(2) unfolding intents_evolve_def by blast
  have stay: "intent_edge\<^sup>*\<^sup>* a b \<Longrightarrow> payment_IsTerminal a \<Longrightarrow> b = a" for a b
    by (induction rule: rtranclp_induct) (auto simp: payment_IsTerminal_def split: payment_status.splits)
  from j stay show ?thesis unfolding intent_evolves_def by blast
qed

theorem stored_intents_follow_graph_witness:
  "\<exists>i j. look_intent 11 (pay_run paid_trace demo_start) = Some i \<and> pi_status i = PaymentStatusSucceeded
    \<and> look_intent 11 (pay_run (drop 2 refund_trace) (pay_run paid_trace demo_start)) = Some j
    \<and> intent_frame i j"
proof -
  have "map_option pi_status (look_intent 11 (pay_run paid_trace demo_start)) = Some PaymentStatusSucceeded"
    by code_simp
  then obtain i where i: "look_intent 11 (pay_run paid_trace demo_start) = Some i"
    "pi_status i = PaymentStatusSucceeded" by auto
  show ?thesis
    using stored_intents_follow_graph[OF demo_reachable i(1), of "drop 2 refund_trace"] i by blast
qed



section \<open>Refunds\<close>

text \<open>
  C3. A gateway is asked to pay a refund out at most once, for the amount of the refund's
  row, and only for a refund an approver has signed; no sequence of calls, retries and
  failures breaks that.
\<close>

theorem gateway_refund_once:
  assumes "pay_reachable s"
  shows "distinct (map fst (ext_refunds s)) \<and>
    (\<forall>(k, a) \<in> set (ext_refunds s). \<exists>r. look_refund k s = Some r \<and> rf_amount r = a
       \<and> rf_status r \<in> {RefundStatusProcessing, RefundStatusCompleted, RefundStatusFailed}
       \<and> rf_approved_by r \<noteq> None \<and> rf_approved_by r \<noteq> Some Nil_uuid)"
proof -
  from pay_invariant[OF assms] have ok: "refunds_ok s" by simp
  have "\<exists>r. look_refund k s = Some r \<and> rf_amount r = a
       \<and> rf_status r \<in> {RefundStatusProcessing, RefundStatusCompleted, RefundStatusFailed}
       \<and> rf_approved_by r \<noteq> None \<and> rf_approved_by r \<noteq> Some Nil_uuid" if "(k, a) \<in> set (ext_refunds s)" for k a
  proof -
    from ok that obtain r where r: "look_refund k s = Some r" "rf_amount r = a"
      "rf_status r \<in> {RefundStatusProcessing, RefundStatusCompleted, RefundStatusFailed}"
      by (force simp: refunds_ok_def call_ok_def)
    have "refund_inv r" using look_refund_mem[OF ok r(1)] by blast
    with r show ?thesis by (auto simp: refund_inv_def)
  qed
  with ok show ?thesis by (auto simp: refunds_ok_def)
qed

theorem gateway_refund_once_witness:
  "ext_refunds (pay_run refund_trace demo_start) = [(21, Fin 100), (22, Fin 100)]
   \<and> (\<exists>r. look_refund 22 (pay_run refund_trace demo_start) = Some r \<and> rf_approved_by r \<noteq> None)"
proof -
  have e: "ext_refunds (pay_run refund_trace demo_start) = [(21, Fin 100), (22, Fin 100)]" by code_simp
  show ?thesis using gateway_refund_once[OF demo_reachable, of refund_trace] unfolding e by auto
qed

text \<open>
  C4. On whole amounts, completing a refund writes the exact total of the completed refunds
  to the parent intent: partially refunded below the amount, refunded at the amount; a
  total above the amount leaves the intent as it was, without an error.
\<close>

theorem settle_writes_total:
  assumes "env_fail E = (\<lambda>_. None)"
    and "look_intent iid s = Some i" "pi_status i \<in> {PaymentStatusSucceeded, PaymentStatusPartiallyRefunded}"
    and "pi_amount i = Whole a" "0 < a" "a \<le> 2 ^ 52"
    and "whole_refunds (completed_for iid s) n"
    and "tot_n = (\<Sum>r\<leftarrow>completed_for iid s. n (rf_id r))" "0 < tot_n" "tot_n \<le> 2 ^ 52"
    and "look_intent iid (settle_intent E iid s) = Some j"
  shows "if tot_n < a then pi_status j = PaymentStatusPartiallyRefunded \<and> pi_refunded_amount j = Whole tot_n
         else if tot_n = a then pi_status j = PaymentStatusRefunded \<and> pi_refunded_amount j = Whole a
         else j = i"
  using settle_intent_whole[OF assms] .

definition settle_demo :: pay_db where
  "settle_demo = (let s = pay_run paid_trace demo_start in
     s\<lparr>db_refunds := [\<lparr>rf_id = 21, rf_intent_id = 11, rf_amount = Fin 40, rf_reason = [],
       rf_status = RefundStatusCompleted, rf_external_ref = None, rf_requested_by = None,
       rf_approved_by = Some 99, rf_approved_at = Some 5, rf_completed_at = Some 6,
       rf_created_at = 3, rf_updated_at = 6\<rparr>]\<rparr>)"

theorem settle_writes_total_witness:
  "\<exists>j. look_intent 11 (settle_intent (ok_env 0 9) 11 settle_demo) = Some j
     \<and> pi_status j = PaymentStatusPartiallyRefunded \<and> pi_refunded_amount j = Fin 40"
proof -
  have "map_option (\<lambda>i. (pi_status i, pi_amount i)) (look_intent 11 settle_demo)
    = Some (PaymentStatusSucceeded, Fin 100)" by code_simp
  then obtain i where i: "look_intent 11 settle_demo = Some i" "pi_status i = PaymentStatusSucceeded"
    "pi_amount i = Fin 100" by auto
  have "map_option pi_status (look_intent 11 (settle_intent (ok_env 0 9) 11 settle_demo))
    = Some PaymentStatusPartiallyRefunded" by code_simp
  then obtain j where j: "look_intent 11 (settle_intent (ok_env 0 9) 11 settle_demo) = Some j" by auto
  have c: "map (\<lambda>r. (rf_id r, rf_amount r)) (completed_for 11 settle_demo) = [(21, Fin 40)]" by code_simp
  then obtain r where r: "completed_for 11 settle_demo = [r]" "rf_id r = 21" "rf_amount r = Fin 40" by auto
  have "if (40::int) < 100 then pi_status j = PaymentStatusPartiallyRefunded \<and> pi_refunded_amount j = Whole 40
         else if (40::int) = 100 then pi_status j = PaymentStatusRefunded \<and> pi_refunded_amount j = Whole 100
         else j = i"
  proof (rule settle_writes_total[OF env_fail_ok_env i(1) _ _ _ _ _ _ _ _ j])
    show "pi_status i \<in> {PaymentStatusSucceeded, PaymentStatusPartiallyRefunded}" "pi_amount i = Whole 100"
      using i by simp_all
    show "whole_refunds (completed_for 11 settle_demo) (\<lambda>_. 40)"
      "40 = (\<Sum>r\<leftarrow>completed_for 11 settle_demo. (40::int))" by (simp_all add: whole_refunds_def r)
  qed simp_all
  with j show ?thesis by simp
qed

text \<open>
  C5. The headroom check of \<^verbatim>\<open>RequestRefund\<close> counts completed refunds only. Two refunds of
  the full amount that are requested before either completes both pass it, and both are paid
  out: a reachable database has an intent of 100 for which the gateway was asked to return
  200, while the intent reports a refunded amount of 100.
\<close>

theorem double_refund_reachable:
  "\<exists>s i. pay_reachable s \<and> look_intent 11 s = Some i \<and> pi_amount i = Fin 100
     \<and> pi_refunded_amount i = Fin 100 \<and> map rf_amount (completed_for 11 s) = [Fin 100, Fin 100]
     \<and> map snd (ext_refunds s) = [Fin 100, Fin 100]"
proof -
  let ?s = "pay_run refund_trace demo_start"
  have "map_option (\<lambda>i. (pi_amount i, pi_refunded_amount i)) (look_intent 11 ?s) = Some (Fin 100, Fin 100)"
    by code_simp
  then obtain i where i: "look_intent 11 ?s = Some i" "pi_amount i = Fin 100" "pi_refunded_amount i = Fin 100"
    by auto
  have "map rf_amount (completed_for 11 ?s) = [Fin 100, Fin 100]" by code_simp
  moreover have "map snd (ext_refunds ?s) = [Fin 100, Fin 100]" by code_simp
  ultimately show ?thesis using demo_reachable[of refund_trace] i
    by (intro exI[of _ ?s] exI[of _ i]) simp
qed

section \<open>Webhooks\<close>

text \<open>
  C6. One event of a gateway takes effect at most once. After a delivery that changed the
  database, and after any further calls, a delivery of the same event (the same event id, or
  the same body when there is no id) leaves the whole database as it is.
\<close>

theorem webhook_once:
  assumes "Ingest E code sig payload ev s = (s1, x)" "s1 \<noteq> s"
    and "tfind gw_code code (db_gateways s) = Some gw"
    and "event_key E2 payload2 ev2 = event_key E payload ev"
  shows "fst (Ingest E2 code sig2 payload2 ev2 (pay_run evs s1)) = pay_run evs s1"
proof -
  have "event_recorded s1 (gw_id gw) (event_key E payload ev)"
    by (rule Ingest_records[OF assms(1,3,2)])
  then have rec: "event_recorded (pay_run evs s1) (gw_id gw) (event_key E2 payload2 ev2)"
    using pay_run_events[of evs s1] assms(4) by simp
  have "db_gateways (pay_run evs s1) = db_gateways s"
    using pay_run_events[of evs s1] Ingest_gateways[OF assms(1)] by simp
  then have gw: "tfind gw_code code (db_gateways (pay_run evs s1)) = Some gw" using assms(3) by simp
  obtain s2 y where i: "Ingest E2 code sig2 payload2 ev2 (pay_run evs s1) = (s2, y)"
    by (cases "Ingest E2 code sig2 payload2 ev2 (pay_run evs s1)")
  show ?thesis using Ingest_recorded[OF i gw rec] i by simp
qed

theorem webhook_once_witness:
  "fst (Ingest (ok_env 13 3) ''xendit'' ''good'' ''body'' ''evt''
      (pay_run [] (fst (Ingest (ok_env 12 2) ''xendit'' ''good'' ''body'' ''evt'' (pay_run (take 1 paid_trace) demo_start)))))
   = pay_run [] (fst (Ingest (ok_env 12 2) ''xendit'' ''good'' ''body'' ''evt'' (pay_run (take 1 paid_trace) demo_start)))"
proof -
  let ?s = "pay_run (take 1 paid_trace) demo_start"
  let ?i = "Ingest (ok_env 12 2) ''xendit'' ''good'' ''body'' ''evt'' ?s"
  obtain s1 x where i: "?i = (s1, x)" by (cases ?i)
  have "length (db_webhooks ?s) = 0" "length (db_webhooks (fst ?i)) = 1" by code_simp+
  then have ne: "s1 \<noteq> ?s" using i by auto
  have "map_option gw_id (tfind gw_code ''xendit'' (db_gateways ?s)) = Some 7" by code_simp
  then obtain gw where gw: "tfind gw_code ''xendit'' (db_gateways ?s) = Some gw" by auto
  show ?thesis using webhook_once[OF i ne gw, of "ok_env 13 3" "''body''" "''evt''" "''good''" "[]"] i
    by (simp add: event_key_def)
qed





section \<open>Creation, routing and expiry\<close>

text \<open>
  Creating an intent again with a key that is taken returns the stored intent as it is
  now, whatever the other fields of the request say, and changes nothing: no second row, no
  second payment at the gateway.
\<close>

theorem create_replay:
  assumes "pay_reachable s" "r \<in> set (db_intents s)" "pi_idempotency_key r = Some key" "key \<noteq> []"
    and "TrimSpace (ci_idempotency_key inp) = key" "ci_invoice_id inp \<noteq> Nil_uuid"
      "\<not> fle (ci_amount inp) (Fin 0)" "env_fail E IntentsCreate = None"
  shows "CreateIntent E inp s = (s, Inr r)"
  using pay_invariant[OF assms(1)] CreateIntent_replay[OF _ _ assms(2-8)] by (simp add: intents_ok_def)

theorem create_replay_witness:
  "fst (CreateIntent (ok_env 77 8) (demo_order\<lparr>ci_amount := Fin 5\<rparr>) (pay_run paid_trace demo_start))
     = pay_run paid_trace demo_start"
proof -
  have "map pi_idempotency_key (db_intents (pay_run paid_trace demo_start)) = [Some ''order-1'']" by code_simp
  then obtain r where r: "r \<in> set (db_intents (pay_run paid_trace demo_start))"
    "pi_idempotency_key r = Some ''order-1''" by auto
  have "TrimSpace ''order-1'' = ''order-1''" by code_simp
  then have "CreateIntent (ok_env 77 8) (demo_order\<lparr>ci_amount := Fin 5\<rparr>) (pay_run paid_trace demo_start)
      = (pay_run paid_trace demo_start, Inr r)"
    by (intro create_replay[OF demo_reachable r]) (simp_all add: demo_order_def)
  then show ?thesis by simp
qed

text \<open>
  C10. The routing policy refuses exactly when no available gateway is active, takes the
  amount and supports the method; otherwise it returns such a gateway of least priority
  number, the first of them in the listed order, and records it in the decision.
\<close>

theorem routing_choice:
  assumes "ChooseGateway now i m av = (c, d)"
  shows "case c of
      None \<Rightarrow> filter (eligible (pi_amount i) m) av = []
    | Some g \<Rightarrow> g \<in> set av \<and> eligible (pi_amount i) m g
        \<and> (\<forall>h \<in> set av. eligible (pi_amount i) m h \<longrightarrow> gw_priority g \<le> gw_priority h)
        \<and> g = hd (filter (\<lambda>h. eligible (pi_amount i) m h \<and> gw_priority h = gw_priority g) av)
        \<and> chosen_gateway_id d = gw_id g \<and> considered_codes d = map gw_code av"
proof (cases c)
  case None
  then have "fst (ChooseGateway now i m av) = None" using assms by simp
  then show ?thesis using None by (simp add: ChooseGateway_None_iff filter_empty_conv)
next
  case (Some g)
  let ?c = "filter (eligible (pi_amount i) m) av"
  have run: "ChooseGateway now i m av = (Some g, d)" using assms Some by simp
  then have ne: "?c \<noteq> []" and g: "g = hd (sort_key gw_priority ?c)" and codes: "considered_codes d = map gw_code av"
    by (auto simp: ChooseGateway_def candidate_loop_eq Let_def insertion_sort_eq split: if_splits)
  have "sort_key gw_priority ?c \<noteq> []" using ne by (metis length_0_conv length_sort)
  then obtain rest where s: "sort_key gw_priority ?c = g # rest" using g by (cases "sort_key gw_priority ?c") auto
  have "filter (\<lambda>h. gw_priority h = gw_priority g) ?c
    = filter (\<lambda>h. gw_priority h = gw_priority g) (sort_key gw_priority ?c)"
    by (rule sort_key_stable[symmetric])
  then have "hd (filter (\<lambda>h. gw_priority h = gw_priority g) ?c) = g" by (simp add: s)
  then have first: "g = hd (filter (\<lambda>h. eligible (pi_amount i) m h \<and> gw_priority h = gw_priority g) av)"
    by (simp add: conj_commute)
  show ?thesis using ChooseGateway_Some[OF run] first codes Some by auto
qed

theorem routing_choice_witness:
  "\<exists>d. ChooseGateway 0 (hd (db_intents (pay_run paid_trace demo_start))) [] [demo_gateway\<lparr>gw_priority := 20\<rparr>, demo_gateway]
     = (Some demo_gateway, d) \<and> chosen_gateway_id d = 7"
proof -
  let ?c = "ChooseGateway 0 (hd (db_intents (pay_run paid_trace demo_start))) [] [demo_gateway\<lparr>gw_priority := 20\<rparr>, demo_gateway]"
  obtain d where d: "?c = (fst ?c, d)" by (cases ?c) auto
  have f: "fst ?c = Some demo_gateway" by code_simp
  have "chosen_gateway_id d = gw_id demo_gateway" using routing_choice[OF d] unfolding f by simp
  then show ?thesis using d f by (simp add: demo_gateway_def)
qed

text \<open>
  C11. The in-place insertion sort of the candidates is the stable sort by priority.
\<close>

theorem insertion_sort_stable_sort: "insertion_sort f xs = sort_key f xs"
  by (rule insertion_sort_eq)

text \<open>
  With a working database and at most 500 stale intents, the expiry job expires exactly
  the intents that are pending and older than the cutoff, changes nothing else about them,
  leaves every other intent alone, and reports how many it expired.
\<close>

theorem expiry_exact:
  assumes "pay_reachable s" "env_fail E = (\<lambda>_. None)"
    and "cutoff = env_now E - (if d \<le> 0 then 24 * 3600 * 10 ^ 9 else d)"
    and "length (filter (is_stale cutoff) (db_intents s)) \<le> 500"
    and "ExpireStaleIntents E d s = (s', r)"
  shows "r = Inr (int (length (filter (is_stale cutoff) (db_intents s))))
    \<and> (\<forall>k. look_intent k s' = map_option (\<lambda>i. if is_stale cutoff i then expired_row E i else i) (look_intent k s))"
  using pay_invariant[OF assms(1)] ExpireStaleIntents_spec[OF _ assms(2-5)] by blast

theorem expiry_exact_witness:
  "\<exists>s' i. ExpireStaleIntents (ok_env 0 90000000000000) 0 (pay_run (take 1 paid_trace) demo_start) = (s', Inr 1)
     \<and> look_intent 11 s' = Some i \<and> pi_status i = PaymentStatusExpired"
proof -
  let ?s = "pay_run (take 1 paid_trace) demo_start"
  let ?E = "ok_env 0 90000000000000"
  obtain s' r where run: "ExpireStaleIntents ?E 0 ?s = (s', r)" by (cases "ExpireStaleIntents ?E 0 ?s")
  have cut: "3600000000000 = env_now ?E - (if (0::int) \<le> 0 then 24 * 3600 * 10 ^ 9 else 0)"
    by (simp add: ok_env_def demo_env_def)
  have len: "length (filter (is_stale 3600000000000) (db_intents ?s)) = 1"
    and li: "map_option (is_stale 3600000000000) (look_intent 11 ?s) = Some True" by code_simp+
  note e = expiry_exact[OF demo_reachable, of ?E 3600000000000 0 "take 1 paid_trace" s' r, OF _ cut _ run]
  from li obtain i where i: "look_intent 11 ?s = Some i" "is_stale 3600000000000 i" by auto
  have "r = Inr 1" "look_intent 11 s' = Some (expired_row ?E i)" using e i len by simp_all
  then show ?thesis using run by (auto simp: expired_row_def)
qed

section \<open>The intent state machine\<close>

text \<open>
  C13. The transition methods realise the graph exactly: for an intent of a whole amount
  above one, some call moves it to a status \<open>t\<close> if and only if the graph has an edge to \<open>t\<close>;
  every other call is refused.
\<close>

theorem intent_graph_exact:
  assumes "pi_amount i = Whole a" "1 < a"
  shows "(\<exists>now x j. intent_apply now x i = Inr j \<and> pi_status j = t) \<longleftrightarrow> intent_edge (pi_status i) t"
proof
  assume "\<exists>now x j. intent_apply now x i = Inr j \<and> pi_status j = t"
  then show "intent_edge (pi_status i) t" using intent_apply_edge by blast
next
  assume e: "intent_edge (pi_status i) t"
  have ok: "\<exists>now x j. intent_apply now x i = Inr j \<and> pi_status j = t"
    if "is_ok (intent_apply now x i)" "\<And>j. intent_apply now x i = Inr j \<Longrightarrow> pi_status j = t" for now x
    using that by (auto simp: is_ok_iff)
  have r: "TrimSpace ''r'' = ''r''" by code_simp
  show "\<exists>now x j. intent_apply now x i = Inr j \<and> pi_status j = t"
    using e
  proof cases
    case created_routing
    then show ?thesis by (intro ok[of 0 "OpRoute 1 d" for d]) (auto simp: Route_def)
  next
    case routing_again
    then show ?thesis by (intro ok[of 0 "OpRoute 1 d" for d]) (auto simp: Route_def)
  next
    case routing_pending
    then show ?thesis by (intro ok[of 0 "OpPending ''r''"]) (auto simp: MarkPending_def r)
  next
    case routing_failed
    then show ?thesis by (intro ok[of 0 "OpFailed [] []"]) (auto simp: MarkFailed_def)
  next
    case pending_succeeded
    then show ?thesis by (intro ok[of 0 "OpSucceeded 0"]) (auto simp: MarkSucceeded_def)
  next
    case pending_failed
    then show ?thesis by (intro ok[of 0 "OpFailed [] []"]) (auto simp: MarkFailed_def)
  next
    case pending_expired
    then show ?thesis by (intro ok[of 0 OpExpired]) (auto simp: MarkExpired_def)
  next
    case created_cancelled
    then show ?thesis by (intro ok[of 0 OpCancelled]) (auto simp: MarkCancelled_def)
  next
    case routing_cancelled
    then show ?thesis by (intro ok[of 0 OpCancelled]) (auto simp: MarkCancelled_def)
  next
    case pending_cancelled
    then show ?thesis by (intro ok[of 0 OpCancelled]) (auto simp: MarkCancelled_def)
  next
    case succeeded_again
    then show ?thesis by (intro ok[of 0 "OpSucceeded 0"]) (auto simp: MarkSucceeded_def)
  next
    case cancelled_again
    then show ?thesis by (intro ok[of 0 OpCancelled]) (auto simp: MarkCancelled_def)
  next
    case succeeded_partial
    then show ?thesis using assms by (intro ok[of 0 "OpPartial (Fin 1)"]) (auto simp: MarkPartiallyRefunded_def)
  next
    case partial_again
    then show ?thesis using assms by (intro ok[of 0 "OpPartial (Fin 1)"]) (auto simp: MarkPartiallyRefunded_def)
  next
    case succeeded_refunded
    then show ?thesis by (intro ok[of 0 OpFull]) (auto simp: MarkFullyRefunded_def)
  next
    case partial_refunded
    then show ?thesis by (intro ok[of 0 OpFull]) (auto simp: MarkFullyRefunded_def)
  qed
qed

theorem intent_graph_exact_witness:
  "\<exists>i. pi_status i = PaymentStatusSucceeded
     \<and> (\<exists>now x j. intent_apply now x i = Inr j \<and> pi_status j = PaymentStatusPartiallyRefunded)
     \<and> \<not> (\<exists>now x j. intent_apply now x i = Inr j \<and> pi_status j = PaymentStatusCancelled)"
proof -
  have "map (\<lambda>i. (pi_status i, pi_amount i)) (db_intents (pay_run paid_trace demo_start))
    = [(PaymentStatusSucceeded, Fin 100)]" by code_simp
  then obtain i :: payment_intent where i: "pi_status i = PaymentStatusSucceeded" "pi_amount i = Fin 100" by auto
  then have w: "pi_amount i = Whole 100" by simp
  show ?thesis
    by (intro exI[of _ i] conjI i(1) intent_graph_exact[OF w, THEN iffD2])
       (simp_all add: i(1) intent_graph_exact[OF w])
qed

text \<open>
  C14. However often its methods are called, and whichever of the calls fail, an intent
  changes its status at most five times: no run of calls cycles.
\<close>

theorem intent_status_changes_bounded: "status_changes xs i \<le> 5"
proof -
  have "intent_rank st \<le> 5" for st by (cases st) simp_all
  then show ?thesis using status_changes_rank[of xs i] le_trans by blast
qed

section \<open>Bank statements\<close>



text \<open>
  C16. The decision for a line does not depend on the order in which the database lists the
  intents, nor on where the page boundaries fall: two databases with the same intents, as
  multisets, give the same result. Ties are refused instead of being broken by the order.
\<close>

theorem match_order_independent:
  assumes "mset (db_intents s) = mset (db_intents s')" "\<And>n. env_fail E (IntentsList lid n) = None"
  shows "decide_line (page_loop E lid ref amt vd 0 best0 s) l = decide_line (page_loop E lid ref amt vd 0 best0 s') l"
proof -
  have "mset (pending_rows s) = mset (pending_rows s')" by (simp add: mset_pending_rows assms(1))
  then show ?thesis unfolding page_loop_scan[OF assms(2)] by (rule decide_perm)
qed

theorem match_order_independent_witness:
  "\<forall>a b c l. decide_line (page_loop (ok_env 0 9) 31 ''x'' (Fin 100) 1 0 best0 (demo_start\<lparr>db_intents := [a, b, c]\<rparr>)) l
   = decide_line (page_loop (ok_env 0 9) 31 ''x'' (Fin 100) 1 0 best0 (demo_start\<lparr>db_intents := [c, a, b]\<rparr>)) l"
  by (intro allI match_order_independent) (simp_all add: ac_simps)

text \<open>
  C17. A completed matching run accounts for every line it listed: the new counts are the
  old ones plus the lines that were unmatched. So a run over a statement that already
  counts unmatched lines ends as \<^verbatim>\<open>partial\<close> even when it binds all of them: the stored
  count is added to instead of being recomputed.
\<close>

theorem match_run_counts:
  assumes "MatchStatement E k s = (s', Inr t')"
    and "look_statement k s = Some t" "0 \<le> st_matched_count t" "0 \<le> st_unmatched_count t"
  shows "st_matched_count t' + st_unmatched_count t' = st_matched_count t + st_unmatched_count t
      + int (length (filter (\<lambda>l. ln_statement_id l = k \<and> ln_intent_id l = None) (db_lines s)))
    \<and> st_status t' = (if st_unmatched_count t' = 0 then StatementMatched else StatementPartial)
    \<and> (0 < st_unmatched_count t \<longrightarrow> st_status t' = StatementPartial)"
proof -
  obtain t0 t1 s1 ls m u s2 s3 a where r: "look_statement k s = Some t0" "StartMatching t0 = Inr t1"
    "UpdateStatement E 0 t1 s = Inr s1" "ListUnmatchedLines E (st_id t1) s1 = Inr ls"
    "match_lines E ls (max 0 (st_matched_count t1)) (max 0 (st_unmatched_count t1)) s1 = (s2, m, u)"
    "CompleteMatching (env_now E) m u t1 = Inr t'"
    by (rule MatchStatement_ok[OF assms(1)])
  have t: "t0 = t" using r(1) assms(2) by simp
  note c = StartMatching_counts[OF r(2)] and e = CompleteMatching_result[OF r(6)]
  have id: "st_id t1 = k" using c statements.look_key[OF r(1)] by simp
  have "length ls = length (filter (\<lambda>l. ln_statement_id l = k \<and> ln_intent_id l = None) (db_lines s))"
    using ListUnmatchedLines_set[OF r(4)] UpdateStatement_frame[OF r(3)] id by simp
  moreover have "m + u = max 0 (st_matched_count t1) + max 0 (st_unmatched_count t1) + int (length ls)"
    "max 0 (st_unmatched_count t1) \<le> u" using match_lines_counts[OF r(5)] by simp_all
  ultimately show ?thesis using c e t assms(3,4) by auto
qed

definition statement_demo :: pay_db where
  "statement_demo = (pay_run (take 1 paid_trace) demo_start)
     \<lparr>db_statements := [\<lparr>st_id = 30, st_gateway_id = 7, st_date = None, st_raw_filename = ''f'',
        st_raw_hash = ''h'', st_line_count = 1, st_matched_count = 0, st_unmatched_count = 1,
        st_status = StatementPartial, st_created_at = 0, st_completed_at = None\<rparr>],
      db_lines := [\<lparr>ln_id = 31, ln_statement_id = 30, ln_raw_line = [], ln_amount = Some (Fin 100),
        ln_value_date = Some 0, ln_reference_text = ''00000000-000'', ln_intent_id = None,
        ln_confidence = None, ln_method = [], ln_created_at = 0\<rparr>]\<rparr>"

text \<open>The second run binds the one line, and the statement stays partial.\<close>

theorem match_run_counts_witness:
  "\<exists>s' t'. MatchStatement (ok_env 0 9) 30 statement_demo = (s', Inr t')
     \<and> map ln_intent_id (db_lines s') = [Some 11] \<and> st_matched_count t' = 1 \<and> st_status t' = StatementPartial"
proof -
  let ?m = "MatchStatement (ok_env 0 9) 30 statement_demo"
  have "map ln_intent_id (db_lines (fst ?m)) = [Some 11]"
    and "map_sum (\<lambda>_. ()) st_matched_count (snd ?m) = Inr 1" by code_simp+
  then obtain s' t' where r: "?m = (s', Inr t')" "map ln_intent_id (db_lines s') = [Some 11]"
    "st_matched_count t' = 1" by (cases ?m; cases "snd ?m") auto
  have "map_option (\<lambda>t. (st_matched_count t, st_unmatched_count t)) (look_statement 30 statement_demo) = Some (0, 1)"
    by code_simp
  then obtain t where t: "look_statement 30 statement_demo = Some t" "st_matched_count t = 0" "st_unmatched_count t = 1"
    by auto
  show ?thesis using match_run_counts[OF r(1) t(1)] t r by auto
qed

text \<open>
  A matching run never touches a line that is bound: re-running it can bind further
  lines but cannot move or release one, and it changes no intent and no refund.
\<close>

theorem match_run_keeps_bound_lines:
  assumes "MatchStatement E k s = (s', r)" "distinct (map ln_id (db_lines s))"
    and "l \<in> set (db_lines s)" "ln_intent_id l \<noteq> None"
  shows "l \<in> set (db_lines s') \<and> db_intents s' = db_intents s \<and> db_refunds s' = db_refunds s"
  using MatchStatement_keeps[OF assms] MatchStatement_tables[OF assms(1)] by (simp add: pay_tables_def)

theorem match_run_keeps_bound_lines_witness:
  "\<exists>l. ln_intent_id l = Some 11 \<and> l \<in> set (db_lines (fst (MatchStatement (ok_env 0 9) 30
      (fst (MatchStatement (ok_env 0 9) 30 statement_demo)))))"
proof -
  let ?s = "fst (MatchStatement (ok_env 0 9) 30 statement_demo)"
  have "map (\<lambda>l. (ln_id l, ln_intent_id l)) (db_lines ?s) = [(31, Some 11)]" by code_simp
  then obtain l where l: "db_lines ?s = [l]" "ln_intent_id l = Some 11" by auto
  obtain s' r where m: "MatchStatement (ok_env 0 9) 30 ?s = (s', r)" by (cases "MatchStatement (ok_env 0 9) 30 ?s")
  show ?thesis using match_run_keeps_bound_lines[OF m, of l] l m by auto
qed

text \<open>
  Uploading a file again changes nothing once its statement is past parsing: the stored
  statement is returned, whatever became of it, and no line is added.
\<close>

theorem upload_again_returns_stored:
  assumes "UploadAndParse E fl code filename content s = (s', ot, oe)"
    and "tfind gw_code code (db_gateways s) = Some gw"
    and "find (same_file (gw_id gw) (env_sha256 E content)) (db_statements s) = Some t"
    and "st_status t \<noteq> StatementParsing" "env_fail E StatementsFindByHash = None"
  shows "s' = s \<and> (oe = None \<longrightarrow> ot = Some t)"
  by (rule UploadAndParse_again[OF assms])

theorem upload_again_returns_stored_witness:
  "fst (UploadAndParse (ok_env 40 9) (\<lambda>n. 50) ''xendit'' ''f'' ''h'' statement_demo) = statement_demo"
proof -
  obtain s' ot oe where u: "UploadAndParse (ok_env 40 9) (\<lambda>n. 50) ''xendit'' ''f'' ''h'' statement_demo = (s', ot, oe)"
    by (cases "UploadAndParse (ok_env 40 9) (\<lambda>n. 50) ''xendit'' ''f'' ''h'' statement_demo")
  have "map_option gw_id (tfind gw_code ''xendit'' (db_gateways statement_demo)) = Some 7"
    and "map_option st_status (find (same_file 7 (env_sha256 (ok_env 40 9) ''h'')) (db_statements statement_demo))
      = Some StatementPartial" by code_simp+
  then obtain gw t where g: "tfind gw_code ''xendit'' (db_gateways statement_demo) = Some gw" "gw_id gw = 7"
    and t: "find (same_file 7 (env_sha256 (ok_env 40 9) ''h'')) (db_statements statement_demo) = Some t"
      "st_status t = StatementPartial" by auto
  have "s' = statement_demo"
    using upload_again_returns_stored[OF u g(1), of t] g(2) t by simp
  then show ?thesis using u by simp
qed

end
