(* ===== verification/Money.thy ===== *)
theory Money
  imports Float64
begin

text \<open>
  Amounts of money. Invoices, fees, commissions and rewards are \<^verbatim>\<open>float64\<close> values rounded to
  two decimals by copies of one helper (\<^verbatim>\<open>round2\<close> of \<^verbatim>\<open>internal/billing/domain/invoice.go\<close> and
  \<^verbatim>\<open>internal/billing/usecase/r2.go\<close>, \<open>round2LateFee\<close>, \<open>round2Commission\<close>): scale by 100, add or
  subtract a half, convert to \<^verbatim>\<open>int64\<close>, divide by 100. The theory states when that is what it
  means to be: on the nearest double of a number of cents it is the identity, so it is
  idempotent and keeps whole amounts, and it is monotone.
\<close>

section \<open>Rounding to cents\<close>

definition round2 :: "f64 \<Rightarrow> f64" where
  "round2 f =
    (if fle (Fin 0) f
     then fdiv (f_of_int (int64_of (fadd (fmul f (Fin 100)) (Fin (1 / 2))))) (Fin 100)
     else fdiv (f_of_int (int64_of (fsub (fmul f (Fin 100)) (Fin (1 / 2))))) (Fin 100))"

text \<open>The amount of \<open>c\<close> cents: the double nearest to \<open>c / 100\<close>.\<close>

definition cents :: "int \<Rightarrow> f64" where
  "cents c = rnd (of_int c / 100)"

text \<open>The number of cents \<open>round2\<close> settles on.\<close>

definition cents_of :: "f64 \<Rightarrow> int" where
  "cents_of f = (if fle (Fin 0) f then int64_of (fadd (fmul f (Fin 100)) (Fin (1 / 2)))
                 else int64_of (fsub (fmul f (Fin 100)) (Fin (1 / 2))))"

lemma round2_cents_of: "round2 f = fdiv (f_of_int (cents_of f)) (Fin 100)"
  by (simp add: round2_def cents_of_def)

lemma cents_whole: "\<bar>c\<bar> \<le> 2 ^ 53 \<Longrightarrow> fdiv (f_of_int c) (Fin 100) = cents c"
  by (simp add: f_of_int_whole cents_def)

section \<open>Fractions that are exact\<close>

lemma representable_half:
  assumes "\<bar>2 * n + 1\<bar> \<le> 2 ^ 53"
  shows "representable (of_int n + 1 / 2)"
proof -
  have "(of_int n + 1 / 2 :: rat) = of_int (2 * n + 1) * p2 (- 1)"
    by (simp add: p2_def power_int_minus)
  with assms show ?thesis unfolding representable_def by fastforce
qed

lemma representable_quarter:
  assumes "\<bar>m\<bar> \<le> 2 ^ 53"
  shows "representable (of_int m / 4)"
proof -
  have "(of_int m / 4 :: rat) = of_int m * p2 (- 2)"
    by (simp add: p2_def power_int_minus)
  with assms show ?thesis unfolding representable_def by fastforce
qed

lemma rndq_between:
  assumes "representable a" "representable b" "a \<le> x" "x \<le> b"
  shows "a \<le> rndq x" "rndq x \<le> b"
  using rndq_mono[OF assms(3)] rndq_mono[OF assms(4)] assms(1,2) by (simp_all add: rndq_exact)

lemma rnd_Fin_between:
  assumes "representable a" "representable b" "a \<le> x" "x \<le> b" "\<bar>x\<bar> \<le> 2 ^ 53"
  shows "\<exists>y. rnd x = Fin y \<and> a \<le> y \<and> y \<le> b"
  using rndq_between[OF assms(1-4)] rnd_small[OF assms(5)] by blast

section \<open>A number of cents survives rounding\<close>

text \<open>
  The double \<open>x\<close> nearest to \<open>c / 100\<close> is within a quarter of a cent of it as long as
  \<open>\<bar>c\<bar> \<le> 2 ^ 50\<close> (eleven trillion in units of money), so \<open>100 x\<close>, rounded again, is within a
  quarter of \<open>c\<close>, and adding a half cannot reach \<open>c + 1\<close>.
\<close>

lemma rndq_cent_error:
  assumes "x = 0 \<or> 1 / 100 \<le> \<bar>x\<bar>"
  shows "\<bar>rndq x * 100 - x * 100\<bar> \<le> \<bar>x * 100\<bar> * p2 (- 53)"
proof (cases "x = 0")
  case False
  have "p2 (- 1022) \<le> p2 (- 7)" by (rule p2_mono) simp
  also have "p2 (- 7) \<le> 1 / 100" by (simp add: p2_def power_int_minus)
  finally have "p2 (- 1022) \<le> \<bar>x\<bar>" using assms False by linarith
  then have e: "\<bar>rndq x - x\<bar> \<le> \<bar>x\<bar> * p2 (- 53)" by (rule rndq_rel_error)
  have "\<bar>rndq x * 100 - x * 100\<bar> = \<bar>rndq x - x\<bar> * 100"
    using abs_mult[of "rndq x - x" 100] by (simp add: algebra_simps)
  also have "\<dots> \<le> \<bar>x * 100\<bar> * p2 (- 53)" using e by (simp add: abs_mult mult_ac)
  finally show ?thesis .
qed simp

lemma cent_or_more: "(of_int c / 100 :: rat) = 0 \<or> 1 / 100 \<le> \<bar>of_int c / 100 :: rat\<bar>"
proof (cases "c = 0")
  case False
  then have "1 \<le> \<bar>c\<bar>" by simp
  then have "(1 :: rat) \<le> of_int \<bar>c\<bar>" by (metis of_int_1 of_int_le_iff)
  then show ?thesis by (simp add: abs_divide)
qed simp

lemma cents_rel_error: "\<bar>rndq (of_int c / 100) * 100 - of_int c\<bar> \<le> \<bar>of_int c\<bar> * p2 (- 53)"
  using rndq_cent_error[OF cent_or_more[of c]] by simp

lemma cents_error:
  assumes "\<bar>c\<bar> \<le> 2 ^ 50"
  shows "\<bar>rndq (of_int c / 100) * 100 - of_int c\<bar> \<le> 1 / 4"
proof -
  have "(of_int \<bar>c\<bar> :: rat) \<le> of_int (2 ^ 50)" using assms by (simp only: of_int_le_iff)
  then have "\<bar>of_int c\<bar> * p2 (- 53) \<le> 2 ^ 50 * p2 (- 53)" by (intro mult_right_mono) simp_all
  also have "\<dots> \<le> 1 / 4" by (simp add: p2_def power_int_minus)
  finally show ?thesis using cents_rel_error[of c] by linarith
qed

lemma trunc_between: "of_int c \<le> y \<Longrightarrow> y < of_int c + 1 \<Longrightarrow> 0 \<le> c \<Longrightarrow> trunc y = c"
proof -
  assume a: "of_int c \<le> y" "y < of_int c + 1" "0 \<le> c"
  then have "0 \<le> y" by (meson of_int_0_le_iff order_trans)
  moreover have "\<lfloor>y\<rfloor> = c" using a(1,2) by (simp add: floor_unique)
  ultimately show ?thesis by (simp add: trunc_def)
qed

lemma trunc_minus: "trunc (- y) = - trunc y"
  by (auto simp: trunc_def)

lemma int64_of_small: "\<bar>trunc y\<bar> \<le> 2 ^ 53 \<Longrightarrow> int64_of (Fin y) = trunc y"
  by (simp add: abs_le_iff)

lemma near_step:
  assumes "0 \<le> c" "c \<le> 2 ^ 50" "of_int c - 1 / 4 \<le> x * 100" "x * 100 \<le> of_int c + 1 / 4"
  obtains y z where "rnd (x * 100) = Fin y" "rnd (y + 1 / 2) = Fin z" "trunc z = c"
proof -
  have c: "(0 :: rat) \<le> of_int c" "(of_int c :: rat) \<le> 2 ^ 50"
    using assms(1) of_int_le_iff[of c "2 ^ 50", where 'a = rat] assms(2) by simp_all
  have lo: "representable (of_int c - 1 / 4)" and hi: "representable (of_int c + 1 / 4)"
    and hi': "representable (of_int c + 3 / 4)"
    using representable_quarter[of "4 * c - 1"] representable_quarter[of "4 * c + 1"]
      representable_quarter[of "4 * c + 3"] assms(1,2)
    by (simp_all add: add_divide_distrib diff_divide_distrib)
  obtain y where y: "rnd (x * 100) = Fin y" "of_int c - 1 / 4 \<le> y" "y \<le> of_int c + 1 / 4"
    using rnd_Fin_between[OF lo hi assms(3,4)] assms(3,4) c by (auto simp: abs_le_iff)
  obtain z where z: "rnd (y + 1 / 2) = Fin z" "of_int c + 1 / 4 \<le> z" "z \<le> of_int c + 3 / 4"
    using rnd_Fin_between[OF hi hi', of "y + 1 / 2"] y c by (auto simp: abs_le_iff)
  have "trunc z = c" by (rule trunc_between) (use z assms(1) in linarith)+
  then show thesis using that y(1) z(1) by blast
qed

text \<open>Any amount within a quarter of a cent of \<open>c\<close> cents settles on \<open>c\<close>.\<close>

lemma cents_of_near:
  assumes "0 \<le> c" "c \<le> 2 ^ 50" "0 \<le> x" "of_int c - 1 / 4 \<le> x * 100" "x * 100 \<le> of_int c + 1 / 4"
  shows "cents_of (Fin x) = c"
proof -
  obtain y z where "rnd (x * 100) = Fin y" "rnd (y + 1 / 2) = Fin z" "trunc z = c"
    using near_step[OF assms(1,2,4,5)] .
  moreover have "int64_of (Fin z) = c"
    using int64_of_small[of z] \<open>trunc z = c\<close> assms(1,2) by (simp del: int64_of.simps)
  ultimately show ?thesis using assms(3) by (simp add: cents_of_def del: int64_of.simps)
qed

lemma round2_near:
  assumes "0 \<le> c" "c \<le> 2 ^ 50" "0 \<le> x" "of_int c - 1 / 4 \<le> x * 100" "x * 100 \<le> of_int c + 1 / 4"
  shows "round2 (Fin x) = cents c"
  using cents_of_near[OF assms] cents_whole[of c] assms(1,2) by (simp add: round2_cents_of)

lemma cents_step:
  assumes "0 \<le> c" "c \<le> 2 ^ 50"
  obtains y z where "rnd (rndq (of_int c / 100) * 100) = Fin y" "rnd (y + 1 / 2) = Fin z" "trunc z = c"
proof (rule near_step[OF assms])
  show "of_int c - 1 / 4 \<le> rndq (of_int c / 100) * 100" "rndq (of_int c / 100) * 100 \<le> of_int c + 1 / 4"
    using cents_error[of c] assms unfolding abs_of_nonneg[OF assms(1)] abs_le_iff by linarith+
qed

lemma cents_Fin: "\<bar>c\<bar> \<le> 2 ^ 50 \<Longrightarrow> cents c = Fin (rndq (of_int c / 100))"
proof -
  assume c: "\<bar>c\<bar> \<le> 2 ^ 50"
  then have "(of_int \<bar>c\<bar> :: rat) \<le> of_int (2 ^ 50)" by (simp only: of_int_le_iff)
  then have "\<bar>of_int c / 100 :: rat\<bar> \<le> 2 ^ 53" by (simp add: abs_divide)
  then show ?thesis unfolding cents_def by (rule rnd_small)
qed

lemma rnd_minus: "rnd (- x) = fneg (rnd x)"
proof -
  have "\<not> (p2 1024 \<le> rndq x \<and> p2 1024 \<le> - rndq x)" using p2_pos[of 1024] by linarith
  then show ?thesis by (auto simp: rnd_def rndq_minus Let_def)
qed

lemma cents_of_cents: "\<bar>c\<bar> \<le> 2 ^ 50 \<Longrightarrow> cents_of (cents c) = c"
proof -
  assume c: "\<bar>c\<bar> \<le> 2 ^ 50"
  show ?thesis
  proof (cases "0 \<le> c")
    case True
    then have "0 \<le> rndq (of_int c / 100)" by (intro rndq_nonneg) simp
    moreover obtain y z where "rnd (rndq (of_int c / 100) * 100) = Fin y"
      "rnd (y + 1 / 2) = Fin z" "trunc z = c"
      using cents_step[of c] True c by auto
    moreover have "int64_of (Fin z) = c"
      using int64_of_small[of z] \<open>trunc z = c\<close> c by (simp del: int64_of.simps)
    ultimately show ?thesis using c by (simp add: cents_Fin cents_of_def del: int64_of.simps)
  next
    case False
    define x where "x = rndq (of_int (- c) / 100)"
    obtain y z where yz: "rnd (x * 100) = Fin y" "rnd (y + 1 / 2) = Fin z" "trunc z = - c"
      using cents_step[of "- c"] False c unfolding x_def by auto
    have neg: "rndq (of_int c / 100) = - x"
      using rndq_minus[of "of_int (- c) / 100"] by (simp add: x_def)
    have "0 \<le> x" unfolding x_def using False by (intro rndq_nonneg) simp
    moreover have "x \<noteq> 0"
    proof
      assume "x = 0"
      with yz(1) have "y = 0" by simp
      with yz(2) rnd_small[of "1 / 2"] rndq_exact[OF representable_half[of 0]] have "z = 1 / 2" by simp
      then have "trunc z = 0" by (simp add: trunc_def floor_unique)
      with yz(3) False show False by simp
    qed
    ultimately have "\<not> fle (Fin 0) (Fin (- x))" by simp
    moreover have "rnd (- x * 100) = Fin (- y)" using rnd_minus[of "x * 100"] yz(1) by simp
    moreover have "rnd (- y - 1 / 2) = Fin (- z)" using rnd_minus[of "y + 1 / 2"] yz(2) by simp
    moreover have "int64_of (Fin (- z)) = c"
      using int64_of_small[of "- z"] yz(3) c by (simp add: trunc_minus del: int64_of.simps)
    ultimately show ?thesis
      using c by (simp add: cents_Fin cents_of_def neg fsub_def del: int64_of.simps)
  qed
qed

theorem round2_cents: "\<bar>c\<bar> \<le> 2 ^ 50 \<Longrightarrow> round2 (cents c) = cents c"
  using cents_whole[of c] by (simp add: round2_cents_of cents_of_cents)

lemma cents_hundred: "\<bar>n\<bar> \<le> 2 ^ 53 \<Longrightarrow> cents (100 * n) = Whole n"
  by (simp add: cents_def)

corollary round2_whole: "\<bar>n\<bar> \<le> 2 ^ 43 \<Longrightarrow> round2 (Whole n) = Whole n"
  using round2_cents[of "100 * n"] cents_hundred[of n] by simp

text \<open>Rounding what was rounded changes nothing, as long as the first result is in range.\<close>

corollary round2_idem: "\<bar>cents_of f\<bar> \<le> 2 ^ 50 \<Longrightarrow> round2 (round2 f) = round2 f"
  using cents_whole[of "cents_of f"] round2_cents[of "cents_of f"] by (simp add: round2_cents_of)

text \<open>Adding cents to a whole amount and rounding gives the exact number of cents.\<close>

theorem round2_add_cents:
  assumes "0 \<le> n" "n \<le> 2 ^ 40" "0 \<le> c" "c \<le> 2 ^ 47"
  shows "round2 (fadd (Whole n) (cents c)) = cents (100 * n + c)"
proof -
  define q where "q = rndq (of_int c / 100)"
  define x where "x = of_int n + q"
  have n: "(0 :: rat) \<le> of_int n" "(of_int n :: rat) \<le> 2 ^ 40"
    using assms(1) of_int_le_iff[of n "2 ^ 40", where 'a = rat] assms(2) by simp_all
  have c: "(0 :: rat) \<le> of_int c" "(of_int c :: rat) \<le> 2 ^ 47"
    using assms(3) of_int_le_iff[of c "2 ^ 47", where 'a = rat] assms(4) by simp_all
  have q0: "0 \<le> q" unfolding q_def using c by (intro rndq_nonneg) simp
  have p: "p2 (- 53) = 1 / 2 ^ 53" by (simp add: p2_def power_int_minus inverse_eq_divide)
  have "of_int c * p2 (- 53) \<le> 2 ^ 47 * p2 (- 53)" using c by (intro mult_right_mono) simp_all
  also have "\<dots> \<le> 1 / 32" by (simp add: p)
  finally have e: "\<bar>q * 100 - of_int c\<bar> \<le> 1 / 32"
    using cents_rel_error[of c] c(1) unfolding q_def by linarith
  have x: "0 \<le> x" using n q0 by (simp add: x_def)
  have "x * 100 = of_int n * 100 + q * 100" by (simp add: x_def)
  then have xb: "x * 100 \<le> 2 ^ 40 * 100 + 2 ^ 47 + 1" using n c e by linarith
  have r: "\<bar>rndq x * 100 - x * 100\<bar> \<le> 1 / 8"
  proof (cases "n = 0")
    case True
    then have "rndq x = x" by (simp add: x_def q_def)
    then show ?thesis by simp
  next
    case False
    then have "1 \<le> n" using assms(1) by simp
    then have "(1 :: rat) \<le> of_int n" by (metis of_int_1 of_int_le_iff)
    then have "1 / 100 \<le> \<bar>x\<bar>" using q0 by (simp add: x_def)
    then have "\<bar>rndq x * 100 - x * 100\<bar> \<le> \<bar>x * 100\<bar> * p2 (- 53)" by (intro rndq_cent_error) simp
    also have "\<dots> \<le> (2 ^ 40 * 100 + 2 ^ 47 + 1) * p2 (- 53)"
      using xb x by (intro mult_right_mono) simp_all
    also have "\<dots> \<le> 1 / 8" by (simp add: p)
    finally show ?thesis .
  qed
  have "cents c = Fin q" unfolding q_def using assms(3,4) by (intro cents_Fin) simp
  moreover have "rnd x = Fin (rndq x)" using x xb by (intro rnd_small) simp
  ultimately have "fadd (Whole n) (cents c) = Fin (rndq x)" by (simp add: x_def)
  moreover have "round2 (Fin (rndq x)) = cents (100 * n + c)"
  proof (rule round2_near)
    show "0 \<le> 100 * n + c" "100 * n + c \<le> 2 ^ 50" using assms by simp_all
    show "0 \<le> rndq x" using x by (rule rndq_nonneg)
    show "of_int (100 * n + c) - 1 / 4 \<le> rndq x * 100" "rndq x * 100 \<le> of_int (100 * n + c) + 1 / 4"
      using r e \<open>x * 100 = of_int n * 100 + q * 100\<close> unfolding of_int_add of_int_mult of_int_numeral
      by linarith+
  qed
  ultimately show ?thesis by simp
qed

section \<open>Rounding is monotone\<close>

lemma trunc_mono: "a \<le> b \<Longrightarrow> trunc a \<le> trunc b"
proof -
  assume ab: "a \<le> b"
  consider "0 \<le> a" | "a < 0" "0 \<le> b" | "b < 0" by linarith
  then show ?thesis
  proof cases
    case 1
    with ab show ?thesis by (simp add: trunc_def floor_mono)
  next
    case 2
    then have "0 \<le> \<lfloor>- a\<rfloor>" "0 \<le> \<lfloor>b\<rfloor>" by simp_all
    then have "- \<lfloor>- a\<rfloor> \<le> \<lfloor>b\<rfloor>" by linarith
    with 2 show ?thesis by (simp only: trunc_def) simp
  next
    case 3
    then show ?thesis using ab floor_mono[of "- b" "- a"] by (simp add: trunc_def)
  qed
qed

lemma half_step_Fin:
  assumes "\<bar>a\<bar> \<le> 2 ^ 45"
  shows "\<exists>y. fmul (Fin a) (Fin 100) = Fin y \<and> \<bar>y\<bar> \<le> 2 ^ 52 \<and> y = rndq (a * 100)"
proof -
  have "\<bar>a * 100\<bar> \<le> 2 ^ 52" using assms by (simp add: abs_mult)
  then have b: "- (2 ^ 52) \<le> a * 100" "a * 100 \<le> 2 ^ 52" by (simp_all add: abs_le_iff)
  have r: "representable (- (2 ^ 52))" "representable (2 ^ 52)"
    using representable_int[of "- (2 ^ 52)"] representable_int[of "2 ^ 52"] by simp_all
  have "\<bar>rndq (a * 100)\<bar> \<le> 2 ^ 52" using rndq_between[OF r b] by (simp add: abs_le_iff)
  moreover have "rnd (a * 100) = Fin (rndq (a * 100))" using b by (intro rnd_small) (simp add: abs_le_iff)
  ultimately show ?thesis by simp
qed

lemma cents_of_Fin:
  assumes "\<bar>a\<bar> \<le> 2 ^ 45"
  shows "cents_of (Fin a) = (if 0 \<le> a then trunc (rndq (rndq (a * 100) + 1 / 2))
                                       else trunc (rndq (rndq (a * 100) - 1 / 2)))"
    and "\<bar>cents_of (Fin a)\<bar> \<le> 2 ^ 53"
proof -
  obtain y where y: "fmul (Fin a) (Fin 100) = Fin y" "\<bar>y\<bar> \<le> 2 ^ 52" "y = rndq (a * 100)"
    using half_step_Fin[OF assms] by blast
  have s: "rnd (y + d) = Fin (rndq (y + d)) \<and> int64_of (Fin (rndq (y + d))) = trunc (rndq (y + d))
      \<and> \<bar>trunc (rndq (y + d))\<bar> \<le> 2 ^ 53" if "\<bar>d\<bar> \<le> 1 / 2" for d
  proof -
    have "(2 :: rat) ^ 53 = 2 * 2 ^ 52" "(1 :: rat) \<le> 2 ^ 52" by simp_all
    then have b: "\<bar>y + d\<bar> \<le> 2 ^ 53" using y(2) that abs_triangle_ineq[of y d] by linarith
    then have b': "of_int (- (2 ^ 53)) \<le> y + d" "y + d \<le> of_int (2 ^ 53)" by (simp_all add: abs_le_iff)
    then have "of_int (- (2 ^ 53)) \<le> rndq (y + d)" "rndq (y + d) \<le> of_int (2 ^ 53)"
      using rndq_ge_int[OF b'(1)] rndq_le_int[OF b'(2)] by simp_all
    then have "trunc (of_int (- (2 ^ 53))) \<le> trunc (rndq (y + d))"
      "trunc (rndq (y + d)) \<le> trunc (of_int (2 ^ 53))" by (blast intro: trunc_mono)+
    moreover have "trunc (of_int (- (2 ^ 53))) = - (2 ^ 53)" "trunc (of_int (2 ^ 53)) = 2 ^ 53"
      by (simp_all add: trunc_def)
    ultimately have "\<bar>trunc (rndq (y + d))\<bar> \<le> 2 ^ 53" by simp
    then show ?thesis using rnd_small[OF b] int64_of_small by blast
  qed
  show "cents_of (Fin a) = (if 0 \<le> a then trunc (rndq (rndq (a * 100) + 1 / 2))
                                       else trunc (rndq (rndq (a * 100) - 1 / 2)))"
    and "\<bar>cents_of (Fin a)\<bar> \<le> 2 ^ 53"
    using s[of "1 / 2"] s[of "- (1 / 2)"] y(1)
    by (simp_all add: cents_of_def fsub_def y(3) del: int64_of.simps fmul.simps)
qed

lemma cents_of_mono:
  assumes "a \<le> b" "\<bar>a\<bar> \<le> 2 ^ 45" "\<bar>b\<bar> \<le> 2 ^ 45"
  shows "cents_of (Fin a) \<le> cents_of (Fin b)"
proof -
  have m: "rndq (a * 100) \<le> rndq (b * 100)" using assms(1) by (intro rndq_mono) simp
  have "rndq (rndq (a * 100) + d) \<le> rndq (rndq (b * 100) + e)" if "d \<le> e" for d e
    using m that by (intro rndq_mono) linarith
  then have "trunc (rndq (rndq (a * 100) + d)) \<le> trunc (rndq (rndq (b * 100) + e))" if "d \<le> e" for d e
    using that trunc_mono by blast
  from this[of "1 / 2" "1 / 2"] this[of "- (1 / 2)" "1 / 2"] this[of "- (1 / 2)" "- (1 / 2)"]
  show ?thesis using assms(1) by (simp add: cents_of_Fin(1)[OF assms(2)] cents_of_Fin(1)[OF assms(3)])
qed

theorem round2_mono:
  assumes "a \<le> b" "\<bar>a\<bar> \<le> 2 ^ 45" "\<bar>b\<bar> \<le> 2 ^ 45"
  shows "fle (round2 (Fin a)) (round2 (Fin b))"
proof -
  have "(of_int (cents_of (Fin a)) :: rat) / 100 \<le> of_int (cents_of (Fin b)) / 100"
    using cents_of_mono[OF assms] by simp
  then have "fle (cents (cents_of (Fin a))) (cents (cents_of (Fin b)))"
    unfolding cents_def by (rule rnd_mono)
  then show ?thesis
    using cents_whole[of "cents_of (Fin a)"] cents_whole[of "cents_of (Fin b)"]
      cents_of_Fin(2)[OF assms(2)] cents_of_Fin(2)[OF assms(3)]
    by (simp add: round2_cents_of)
qed

text \<open>Amounts of nothing, of a sign, and the numbers that are no amounts.\<close>

lemma round2_0 [simp]: "round2 (Fin 0) = Fin 0"
  using round2_whole[of 0] by simp

lemma round2_nonneg: "0 \<le> a \<Longrightarrow> a \<le> 2 ^ 45 \<Longrightarrow> fle (Fin 0) (round2 (Fin a))"
  using round2_mono[of 0 a] by simp

end
