(* ===== verification/Calendar.thy ===== *)
theory Calendar
  imports Prelude
begin

text \<open>
  Dates as Go's \<^verbatim>\<open>time\<close> package computes them in UTC: the proleptic Gregorian calendar over
  nanoseconds since the Unix epoch. Months are numbered consecutively (\<open>12 * year + month - 1\<close>),
  so that the normalisation of \<^verbatim>\<open>time.Date\<close> (month 0 is December of the year before, day 0 the
  last day of the month before) is the definition itself. The theory shows that every day lies
  in exactly one month and that a month has 28 to 31 days.
\<close>

section \<open>Units\<close>

abbreviation HOUR :: duration where "HOUR \<equiv> 3600000000000"
abbreviation DAY :: duration where "DAY \<equiv> 86400000000000"

section \<open>Years and months as day counts\<close>

definition leap :: "int \<Rightarrow> bool" where
  "leap y \<longleftrightarrow> y mod 4 = 0 \<and> (y mod 100 \<noteq> 0 \<or> y mod 400 = 0)"

text \<open>Days from 1 January of year 1 to 1 January of year \<open>y\<close>.\<close>

definition dby :: "int \<Rightarrow> int" where
  "dby y = 365 * (y - 1) + (y - 1) div 4 - (y - 1) div 100 + (y - 1) div 400"

text \<open>Days before the month with index \<open>m\<close> (January is 0) of a year.\<close>

definition dbm :: "bool \<Rightarrow> int \<Rightarrow> int" where
  "dbm lp m = (if m \<le> 0 then 0 else if m = 1 then 31 else
     (if lp then 1 else 0) +
     (if m = 2 then 59 else if m = 3 then 90 else if m = 4 then 120 else if m = 5 then 151
      else if m = 6 then 181 else if m = 7 then 212 else if m = 8 then 243 else if m = 9 then 273
      else if m = 10 then 304 else if m = 11 then 334 else 365))"

text \<open>The first day of month \<open>k\<close>, counted from 1 January 1970.\<close>

definition mstart :: "int \<Rightarrow> int" where
  "mstart k = dby (k div 12) + dbm (leap (k div 12)) (k mod 12) - 719162"

definition mlen :: "int \<Rightarrow> int" where
  "mlen k = mstart (k + 1) - mstart k"

lemma div_mod_sum: "0 \<le> r \<Longrightarrow> r < b \<Longrightarrow> (b * q + r) div b = q \<and> (b * q + r) mod b = r"
  for b q r :: int
  by (intro conjI int_div_pos_eq[where q = q and r = r] int_mod_pos_eq[where q = q and r = r]) auto

lemma div_step:
  fixes y n :: int
  assumes "0 < n"
  shows "y div n - (y - 1) div n = (if y mod n = 0 then 1 else 0)"
proof (cases "y mod n = 0")
  case True
  define q where "q = y div n"
  have y: "y = n * q" using True unfolding q_def by auto
  have "y - 1 = n * (q - 1) + (n - 1)" unfolding y right_diff_distrib by simp
  then have "(y - 1) div n = q - 1"
    using div_mod_sum[of "n - 1" n "q - 1", THEN conjunct1] assms by (metis diff_ge_0_iff_ge int_one_le_iff_zero_less less_diff_eq one_add_one pos2 diff_less_eq less_add_one)
  then show ?thesis using True by (simp add: q_def)
next
  case False
  define q r where "q = y div n" and "r = y mod n"
  have r: "0 \<le> r - 1" "r - 1 < n"
    using False assms pos_mod_bound[of n y] pos_mod_sign[of n y] unfolding r_def by linarith+
  have "y - 1 = n * q + (r - 1)" by (simp add: q_def r_def)
  then have "(y - 1) div n = q" using div_mod_sum[OF r, of q] by (simp only:)
  then show ?thesis using False by (simp add: q_def)
qed

lemma div_pred: "0 < n \<Longrightarrow> (y - 1) div n = y div n - (if y mod n = 0 then 1 else 0)" for y n :: int
  using div_step[of n y] by linarith

lemma dby_step: "dby (y + 1) - dby y = (if leap y then 366 else 365)"
proof -
  define a b c where "a = y div 4" and "b = y div 100" and "c = y div 400"
  define p q r where "p \<longleftrightarrow> y mod 4 = 0" and "q \<longleftrightarrow> y mod 100 = 0" and "r \<longleftrightarrow> y mod 400 = 0"
  have "dby (y + 1) = 365 * (y + 1 - 1) + a - b + c"
    by (simp only: dby_def add_diff_cancel_right' a_def b_def c_def)
  moreover have "dby y = 365 * (y - 1) + (a - (if p then 1 else 0)) - (b - (if q then 1 else 0))
      + (c - (if r then 1 else 0))"
    unfolding dby_def a_def b_def c_def p_def q_def r_def by (subst (1 2 3) div_pred) (rule zero_less_numeral | rule refl)+
  ultimately have "dby (y + 1) - dby y = 365 + (if p then 1 else 0) - (if q then 1 else 0) + (if r then 1 else 0)"
    by simp
  moreover have "q \<Longrightarrow> p" "r \<Longrightarrow> q"
    unfolding p_def q_def r_def by (auto simp: mod_eq_0_iff_dvd intro: dvd_trans)
  moreover have "leap y \<longleftrightarrow> p \<and> (\<not> q \<or> r)" by (simp only: leap_def p_def q_def r_def)
  ultimately show ?thesis by (cases p; cases q; cases r; simp)
qed

lemma next_month:
  fixes k :: int
  shows "(k + 1) mod 12 = (if k mod 12 = 11 then 0 else k mod 12 + 1)"
    and "(k + 1) div 12 = (if k mod 12 = 11 then k div 12 + 1 else k div 12)"
proof -
  define q r where "q = k div 12" and "r = k mod 12"
  have k: "k = 12 * q + r" by (simp add: q_def r_def)
  have r: "0 \<le> r" "r < 12" by (simp_all add: r_def)
  have "(k + 1) div 12 = (if r = 11 then q + 1 else q) \<and> (k + 1) mod 12 = (if r = 11 then 0 else r + 1)"
  proof (cases "r = 11")
    case True
    then have "k + 1 = 12 * (q + 1) + 0" using k by simp
    then show ?thesis using True div_mod_sum[of 0 12 "q + 1"] by simp
  next
    case False
    have "k + 1 = 12 * q + (r + 1)" using k by simp
    moreover have "(12 * q + (r + 1)) div 12 = q \<and> (12 * q + (r + 1)) mod 12 = r + 1"
      using r False by (intro div_mod_sum) linarith+
    ultimately show ?thesis using False by (simp only: if_False simp_thms)
  qed
  then show "(k + 1) mod 12 = (if k mod 12 = 11 then 0 else k mod 12 + 1)"
    and "(k + 1) div 12 = (if k mod 12 = 11 then k div 12 + 1 else k div 12)"
    by (simp_all add: q_def r_def)
qed

lemma dbm_12: "dbm lp 12 = (if lp then 366 else 365)"
  by (simp add: dbm_def)

lemma dbm_0 [simp]: "dbm lp 0 = 0"
  by (simp add: dbm_def)

lemma mlen_dbm: "mlen k = dbm (leap (k div 12)) (k mod 12 + 1) - dbm (leap (k div 12)) (k mod 12)"
proof (cases "k mod 12 = 11")
  case True
  then show ?thesis using dby_step[of "k div 12"] by (simp add: mlen_def mstart_def next_month dbm_12)
next
  case False
  then show ?thesis by (simp add: mlen_def mstart_def next_month)
qed

lemma dbm_step:
  assumes "0 \<le> m" "m < 12"
  shows "dbm lp (m + 1) - dbm lp m = (if m = 1 then (if lp then 29 else 28)
    else if m = 3 \<or> m = 5 \<or> m = 8 \<or> m = 10 then 30 else 31)"
proof -
  have "m \<in> set [0..11]" using assms by simp
  also have "set [0..11] = {0, 1, 2, 3, 4, 5, 6, 7, 8, 9, 10, 11 :: int}" by (simp add: upto_rec1)
  finally show ?thesis by (elim insertE emptyE) (simp_all add: dbm_def)
qed

text \<open>The number of days of a month, written out.\<close>

lemma mlen_eq: "mlen k = (if k mod 12 = 1 then (if leap (k div 12) then 29 else 28)
    else if k mod 12 = 3 \<or> k mod 12 = 5 \<or> k mod 12 = 8 \<or> k mod 12 = 10 then 30 else 31)"
  unfolding mlen_dbm by (rule dbm_step) simp_all

lemma mlen_bounds: "28 \<le> mlen k" "mlen k \<le> 31"
  by (simp_all add: mlen_eq)

lemma mstart_Suc: "mstart (k + 1) = mstart k + mlen k"
  by (simp add: mlen_def)

lemma mstart_add: "mstart k + 28 * int n \<le> mstart (k + int n)"
proof (induction n)
  case (Suc n)
  then show ?case using mstart_Suc[of "k + int n"] mlen_bounds[of "k + int n"] by (simp add: algebra_simps)
qed simp

lemma mstart_mono: "j \<le> k \<Longrightarrow> mstart j + 28 * (k - j) \<le> mstart k"
  using mstart_add[of j "nat (k - j)"] by simp

section \<open>The month a day lies in\<close>

definition year_of :: "int \<Rightarrow> int" where
  "year_of n = (let q = n + 719162; g = (400 * q) div 146097 + 1 in
     if q < dby g then g - 1 else if dby (g + 1) \<le> q then g + 1 else g)"

definition month_in :: "bool \<Rightarrow> int \<Rightarrow> int" where
  "month_in lp d = (if d < dbm lp 1 then 0 else if d < dbm lp 2 then 1 else if d < dbm lp 3 then 2
     else if d < dbm lp 4 then 3 else if d < dbm lp 5 then 4 else if d < dbm lp 6 then 5
     else if d < dbm lp 7 then 6 else if d < dbm lp 8 then 7 else if d < dbm lp 9 then 8
     else if d < dbm lp 10 then 9 else if d < dbm lp 11 then 10 else 11)"

definition month_of :: "int \<Rightarrow> int" where
  "month_of n = (let y = year_of n in 12 * y + month_in (leap y) (n + 719162 - dby y))"

lemma div_bounds: "0 < c \<Longrightarrow> c * (a div c) \<le> a \<and> a < c * (a div c) + c" for a c :: int
  using mult_div_mod_eq[of c a] pos_mod_bound[of c a] pos_mod_sign[of c a] by linarith

text \<open>The mean year has 146097 / 400 days, and no year starts more than two days off it.\<close>

lemma dby_mean: "146097 * (y - 1) - 700 < 400 * dby y" "400 * dby y < 146097 * (y - 1) + 400"
proof -
  define q where "q = y - 1"
  have "4 * (q div 4) \<le> q \<and> q < 4 * (q div 4) + 4" "100 * (q div 100) \<le> q \<and> q < 100 * (q div 100) + 100"
    "400 * (q div 400) \<le> q \<and> q < 400 * (q div 400) + 400" by (rule div_bounds; simp)+
  moreover have "dby y = 365 * q + q div 4 - q div 100 + q div 400" by (simp add: dby_def q_def)
  ultimately have "146097 * q - 700 < 400 * dby y \<and> 400 * dby y < 146097 * q + 400" by linarith
  then show "146097 * (y - 1) - 700 < 400 * dby y" "400 * dby y < 146097 * (y - 1) + 400"
    by (simp_all add: q_def)
qed

lemma year_of_bounds: "dby (year_of n) \<le> n + 719162 \<and> n + 719162 < dby (year_of n + 1)"
proof -
  define q where "q = n + 719162"
  define g where "g = (400 * q) div 146097 + 1"
  have "146097 * g - 146097 \<le> 400 * q" "400 * q < 146097 * g"
    using div_bounds[of 146097 "400 * q"] by (simp_all add: g_def)
  moreover have "400 * dby (g - 1) < 146097 * g - 2 * 146097 + 400"
    "146097 * g + 146097 - 700 < 400 * dby (g + 1 + 1)"
    using dby_mean[of "g - 1"] dby_mean[of "g + 1 + 1"] by simp_all
  ultimately have "dby (g - 1) \<le> q" "q < dby (g + 1 + 1)" by linarith+
  then show ?thesis by (simp add: year_of_def Let_def flip: q_def g_def)
qed

lemma month_in_bounds:
  assumes "0 \<le> d" "d < (if lp then 366 else 365)"
  shows "0 \<le> month_in lp d \<and> month_in lp d \<le> 11 \<and> dbm lp (month_in lp d) \<le> d
    \<and> d < dbm lp (month_in lp d + 1)"
  using assms by (simp add: month_in_def dbm_def split: if_splits)

theorem month_of_bounds: "mstart (month_of n) \<le> n" "n < mstart (month_of n + 1)"
proof -
  define y where "y = year_of n"
  define m where "m = month_in (leap y) (n + 719162 - dby y)"
  have d: "0 \<le> n + 719162 - dby y" "n + 719162 - dby y < (if leap y then 366 else 365)"
    using year_of_bounds[of n] dby_step[of y] by (simp_all add: y_def split: if_splits)
  have m: "0 \<le> m" "m \<le> 11" "dbm (leap y) m \<le> n + 719162 - dby y"
    "n + 719162 - dby y < dbm (leap y) (m + 1)"
    using month_in_bounds[OF d] by (simp_all add: m_def)
  have k: "month_of n = 12 * y + m" by (simp add: month_of_def Let_def y_def m_def)
  have k12: "(12 * y + m) div 12 = y" "(12 * y + m) mod 12 = m"
    using div_mod_sum[of m 12 y] m(1,2) by simp_all
  show "mstart (month_of n) \<le> n" using m(3) unfolding k mstart_def k12 by simp
  show "n < mstart (month_of n + 1)"
  proof (cases "m = 11")
    case True
    then have "(12 * y + m + 1) div 12 = y + 1" "(12 * y + m + 1) mod 12 = 0"
      using next_month[of "12 * y + m"] unfolding k12 by simp_all
    then have "mstart (month_of n + 1) = dby (y + 1) - 719162" unfolding k mstart_def by simp
    moreover have "dbm (leap y) (m + 1) = dby (y + 1) - dby y" using True dbm_12 dby_step[of y] by simp
    ultimately show ?thesis using m(4) by linarith
  next
    case False
    then have "(12 * y + m + 1) div 12 = y" "(12 * y + m + 1) mod 12 = m + 1"
      using next_month[of "12 * y + m"] unfolding k12 by simp_all
    then have "mstart (month_of n + 1) = dby y + dbm (leap y) (m + 1) - 719162"
      unfolding k mstart_def by simp
    then show ?thesis using m(4) by linarith
  qed
qed

theorem month_of_unique: "mstart k \<le> n \<Longrightarrow> n < mstart (k + 1) \<Longrightarrow> month_of n = k"
  using month_of_bounds[of n] mstart_mono[of "k + 1" "month_of n"] mstart_mono[of "month_of n + 1" k]
  by (cases "month_of n < k"; cases "k < month_of n") auto

lemma month_of_mono: "a \<le> b \<Longrightarrow> month_of a \<le> month_of b"
  using month_of_bounds(1)[of a] month_of_bounds(2)[of b] mstart_mono[of "month_of b + 1" "month_of a"]
  by (cases "month_of b < month_of a") auto

section \<open>Go's operations\<close>

definition day_of :: "time \<Rightarrow> int" where
  "day_of t = t div DAY"

definition Year :: "time \<Rightarrow> int" where
  "Year t = month_of (day_of t) div 12"

definition Month :: "time \<Rightarrow> int" where
  "Month t = month_of (day_of t) mod 12 + 1"

definition Day :: "time \<Rightarrow> int" where
  "Day t = day_of t - mstart (month_of (day_of t)) + 1"

definition Hour :: "time \<Rightarrow> int" where
  "Hour t = t mod DAY div HOUR"

text \<open>\<^verbatim>\<open>time.Date(y, m, d, 0, 0, 0, 0, time.UTC)\<close>.\<close>

definition Date :: "int \<Rightarrow> int \<Rightarrow> int \<Rightarrow> time" where
  "Date y m d = (mstart (12 * y + (m - 1)) + (d - 1)) * DAY"

definition AddDate :: "int \<Rightarrow> int \<Rightarrow> int \<Rightarrow> time \<Rightarrow> time" where
  "AddDate y m d t = Date (Year t + y) (Month t + m) (Day t + d) + t mod DAY"

definition IsZero :: "time \<Rightarrow> bool" where
  "IsZero t \<longleftrightarrow> t = Date 1 1 1"

text \<open>
  \<^verbatim>\<open>t.Sub(u)\<close> saturates at the bounds of a 64-bit count of nanoseconds, 292 years.
\<close>

definition Sub :: "time \<Rightarrow> time \<Rightarrow> duration" where
  "Sub t u = max (- (2 ^ 63)) (min (2 ^ 63 - 1) (t - u))"

text \<open>A DATE column keeps the day.\<close>

definition sql_date :: "time \<Rightarrow> time" where
  "sql_date t = day_of t * DAY"

lemma Year_Month: "12 * Year t + (Month t - 1) = month_of (day_of t)"
  unfolding Year_def Month_def using mult_div_mod_eq[of 12 "month_of (day_of t)"] by linarith

lemma Day_bounds: "1 \<le> Day t" "Day t \<le> mlen (month_of (day_of t))"
  using month_of_bounds[of "day_of t"] by (simp_all add: Day_def mlen_def)

lemma Day_bounds31: "1 \<le> Day t" "Day t \<le> 31"
  using Day_bounds[of t] mlen_bounds[of "month_of (day_of t)"] by auto

lemma day_of_bounds: "day_of t * DAY \<le> t" "t < day_of t * DAY + DAY"
  using div_bounds[of DAY t] by (simp_all add: day_of_def)

lemma day_of_mono: "a \<le> b \<Longrightarrow> day_of a \<le> day_of b"
  by (simp add: day_of_def zdiv_mono1)

lemma day_of_midnight [simp]: "day_of (n * DAY) = n"
  by (simp add: day_of_def)

lemma day_of_le_iff: "n * DAY \<le> t \<longleftrightarrow> n \<le> day_of t"
proof
  assume "n * DAY \<le> t"
  then have "day_of (n * DAY) \<le> day_of t" by (rule day_of_mono)
  then show "n \<le> day_of t" by (simp only: day_of_midnight)
next
  assume "n \<le> day_of t"
  then have "n * DAY \<le> day_of t * DAY" by (rule mult_right_mono) simp
  then show "n * DAY \<le> t" using day_of_bounds(1) by (rule order_trans)
qed

text \<open>Adding days only is adding that many times 24 hours.\<close>

lemma AddDate_months: "AddDate y m d t =
    (mstart (month_of (day_of t) + 12 * y + m) + (Day t + d - 1)) * DAY + t mod DAY"
proof -
  have "12 * (Year t + y) + (Month t + m - 1) = month_of (day_of t) + 12 * y + m"
    using Year_Month[of t] unfolding distrib_left by linarith
  then show ?thesis by (simp only: AddDate_def Date_def)
qed

lemma AddDate_days: "AddDate 0 0 d t = t + d * DAY"
proof -
  have "mstart (month_of (day_of t) + 12 * 0 + 0) + (Day t + d - 1) = day_of t + d"
    by (simp add: Day_def)
  then have "AddDate 0 0 d t = (day_of t + d) * DAY + t mod DAY" by (simp only: AddDate_months)
  also have "\<dots> = t div DAY * DAY + t mod DAY + d * DAY" by (simp only: day_of_def distrib_right)
  finally show ?thesis by (simp only: div_mult_mod_eq)
qed

text \<open>A date in its own month keeps its year, month and day.\<close>

lemma Date_parts:
  assumes "1 \<le> d" "d \<le> mlen (12 * y + (m - 1))"
  shows "day_of (Date y m d) = mstart (12 * y + (m - 1)) + (d - 1)"
    and "month_of (day_of (Date y m d)) = 12 * y + (m - 1)"
    and "Day (Date y m d) = d"
proof -
  show 1: "day_of (Date y m d) = mstart (12 * y + (m - 1)) + (d - 1)"
    unfolding Date_def by (rule day_of_midnight)
  show 2: "month_of (day_of (Date y m d)) = 12 * y + (m - 1)"
    unfolding 1 using assms unfolding mlen_def by (intro month_of_unique) linarith+
  show "Day (Date y m d) = d" unfolding Day_def 2 unfolding 1 by simp
qed

end
