(* ===== verification/BillingDomain.thy ===== *)
theory BillingDomain
  imports Money Calendar
begin

text \<open>
  The aggregates of the billing context (\<^verbatim>\<open>internal/billing/domain\<close>): invoices and their
  lines (\<^verbatim>\<open>invoice.go\<close>), payments (\<^verbatim>\<open>payment.go\<close>), the rows of cycles, commissions,
  terminations and rewards (\<^verbatim>\<open>r2.go\<close>, \<^verbatim>\<open>r3.go\<close>) and add-on purchases (\<^verbatim>\<open>addon.go\<close>). A method
  on a pointer receiver returns the updated record or its error. \<^verbatim>\<open>uuid.New\<close> is the argument
  \<open>fresh\<close>: the value of each call, in the order of the calls.
\<close>

section \<open>Decimal digits\<close>

definition digit_char :: "int \<Rightarrow> char" where
  "digit_char d = char_of (48 + nat d)"

lemma digit_char_code [code]:
  "digit_char d = (if 0 \<le> d \<and> d < 10 then ''0123456789'' ! nat d else char_of (48 + nat d))"
proof (cases "0 \<le> d \<and> d < 10")
  case True
  then have "d \<in> set [0..9]" by simp
  then show ?thesis by (auto simp: upto_rec1 digit_char_def char_of_def bit_iff_odd)
qed (auto simp: digit_char_def)

fun dec_nat :: "nat \<Rightarrow> string" where
  "dec_nat n = (if n < 10 then [digit_char (int n)] else dec_nat (n div 10) @ [digit_char (int n mod 10)])"

declare dec_nat.simps [simp del]

definition dec :: "int \<Rightarrow> string" where
  "dec n = (if n < 0 then CHR 0x2D # dec_nat (nat (- n)) else dec_nat (nat n))"

text \<open>The two and four digit fields of \<^verbatim>\<open>time.Format\<close>.\<close>

definition pad :: "nat \<Rightarrow> int \<Rightarrow> string" where
  "pad w n = (let s = dec n in replicate (w - length s) CHR 0x30 @ s)"

text \<open>\<^verbatim>\<open>t.Format("20060102")\<close> and \<^verbatim>\<open>t.Format("Jan 2006")\<close>.\<close>

definition format_ymd :: "time \<Rightarrow> string" where
  "format_ymd t = pad 4 (Year t) @ pad 2 (Month t) @ pad 2 (Day t)"

definition month_name :: "int \<Rightarrow> string" where
  "month_name m = [''Jan'', ''Feb'', ''Mar'', ''Apr'', ''May'', ''Jun'', ''Jul'', ''Aug'',
    ''Sep'', ''Oct'', ''Nov'', ''Dec''] ! nat (m - 1)"

definition format_my :: "time \<Rightarrow> string" where
  "format_my t = month_name (Month t) @ '' '' @ pad 4 (Year t)"

section \<open>Invoices (invoice.go)\<close>

datatype invoice_type =
    InvoiceTypeOTC | InvoiceTypeRecurring | InvoiceTypeExcessCable | InvoiceTypeAddon
  | InvoiceTypeMilestone
  | InvoiceTypeOther string \<comment> \<open>any other text a caller converts to \<^verbatim>\<open>InvoiceType\<close>\<close>

datatype invoice_status =
    InvoiceStatusDraft | InvoiceStatusIssued | InvoiceStatusPaid | InvoiceStatusOverdue
  | InvoiceStatusCancelled

record invoice =
  iv_id :: uuid
  iv_number :: string
  iv_customer_id :: uuid
  iv_order_id :: "uuid option"
  iv_type :: invoice_type
  iv_date :: time
  iv_due :: time
  iv_subtotal :: f64
  iv_ppn_rate :: f64
  iv_ppn_amount :: f64
  iv_total :: f64
  iv_status :: invoice_status
  iv_paid_at :: "time option"
  iv_notes :: string
  iv_created_by :: "uuid option"
  iv_created_at :: time
  iv_updated_at :: time

record line_item =
  li_id :: uuid
  li_invoice_id :: uuid
  li_order :: int
  li_description :: string
  li_item_type :: string
  li_quantity :: f64
  li_unit_price :: f64
  li_amount :: f64

definition GenerateInvoiceNumber :: "uuid \<Rightarrow> time \<Rightarrow> invoice_type \<Rightarrow> string" where
  "GenerateInvoiceNumber fresh t typ =
    (let prefix = (case typ of
         InvoiceTypeOTC \<Rightarrow> ''OTC'' | InvoiceTypeRecurring \<Rightarrow> ''INV''
       | InvoiceTypeExcessCable \<Rightarrow> ''EXC'' | InvoiceTypeAddon \<Rightarrow> ''ADD''
       | InvoiceTypeMilestone \<Rightarrow> ''MIL'' | InvoiceTypeOther _ \<Rightarrow> ''INV'')
     in prefix @ ''-'' @ format_ymd t @ ''-'' @ take 8 (uuid_text fresh))"

text \<open>The loop over the lines: what one line becomes, and the running subtotal.\<close>

definition fill_line :: "uuid \<Rightarrow> uuid \<Rightarrow> nat \<Rightarrow> line_item \<Rightarrow> line_item" where
  "fill_line fresh invoice_id i l =
    (let l1 = l\<lparr>li_id := fresh, li_invoice_id := invoice_id\<rparr>;
         l2 = (if li_order l1 = 0 then l1\<lparr>li_order := int i + 1\<rparr> else l1);
         l3 = (if feq (li_quantity l2) (Fin 0) then l2\<lparr>li_quantity := Fin 1\<rparr> else l2)
     in if feq (li_amount l3) (Fin 0)
        then l3\<lparr>li_amount := fmul (li_unit_price l3) (li_quantity l3)\<rparr> else l3)"

fun fill_lines :: "(nat \<Rightarrow> uuid) \<Rightarrow> uuid \<Rightarrow> nat \<Rightarrow> f64 \<Rightarrow> line_item list \<Rightarrow> line_item list \<times> f64" where
  "fill_lines fresh invoice_id i subtotal [] = ([], subtotal)"
| "fill_lines fresh invoice_id i subtotal (l # ls) =
    (let l' = fill_line (fresh i) invoice_id i l;
         r = fill_lines fresh invoice_id (Suc i) (fadd subtotal (li_amount l')) ls
     in (l' # fst r, snd r))"

text \<open>
  \<open>fresh 0\<close> is the invoice's identifier, \<open>fresh (1 + i)\<close> that of line \<open>i\<close>, and the last one
  goes into the invoice number.
\<close>

definition NewInvoice :: "(nat \<Rightarrow> uuid) \<Rightarrow> time \<Rightarrow> uuid \<Rightarrow> uuid option \<Rightarrow> invoice_type \<Rightarrow>
    line_item list \<Rightarrow> f64 \<Rightarrow> time \<Rightarrow> uuid option \<Rightarrow> string \<Rightarrow> (invoice \<times> line_item list) res" where
  "NewInvoice fresh now customer_id order_id typ lines ppn_rate due0 created_by notes =
    (if customer_id = Nil_uuid then
       Inl (Validation ''invoice.customer_required'' ''customer_id is required'')
     else if lines = [] then
       Inl (Validation ''invoice.empty'' ''invoice must have at least one line'')
     else if flt ppn_rate (Fin 0) \<or> flt (Fin 100) ppn_rate then
       Inl (Validation ''invoice.ppn_invalid'' ''ppn_rate must be 0..100'')
     else
       let due = (if IsZero due0 then AddDate 0 0 7 now else due0);
           iid = fresh 0;
           (out, subtotal) = fill_lines (\<lambda>i. fresh (Suc i)) iid 0 (Fin 0) lines;
           ppn = round2 (fdiv (fmul subtotal ppn_rate) (Fin 100));
           total = round2 (fadd subtotal ppn)
       in Inr (\<lparr>iv_id = iid,
            iv_number = GenerateInvoiceNumber (fresh (Suc (length lines))) now typ,
            iv_customer_id = customer_id, iv_order_id = order_id, iv_type = typ,
            iv_date = now, iv_due = due, iv_subtotal = round2 subtotal, iv_ppn_rate = ppn_rate,
            iv_ppn_amount = ppn, iv_total = total, iv_status = InvoiceStatusDraft,
            iv_paid_at = None, iv_notes = TrimSpace notes, iv_created_by = created_by,
            iv_created_at = now, iv_updated_at = now\<rparr>, out))"

definition Issue :: "time \<Rightarrow> invoice \<Rightarrow> invoice res" where
  "Issue now i =
    (if iv_status i = InvoiceStatusIssued then
       Inl (Conflict ''invoice.already_issued'' ''invoice already issued'')
     else if iv_status i \<noteq> InvoiceStatusDraft then
       Inl (Conflict ''invoice.bad_state'' ''only draft invoices can be issued'')
     else Inr (i\<lparr>iv_status := InvoiceStatusIssued, iv_updated_at := now\<rparr>))"

definition MarkPaid :: "time \<Rightarrow> time \<Rightarrow> invoice \<Rightarrow> invoice res" where
  "MarkPaid now paid_time i =
    (if iv_status i = InvoiceStatusPaid then
       Inl (Conflict ''invoice.already_paid'' ''invoice already paid'')
     else if iv_status i = InvoiceStatusCancelled then
       Inl (Conflict ''invoice.cancelled'' ''cannot pay a cancelled invoice'')
     else Inr (i\<lparr>iv_status := InvoiceStatusPaid, iv_paid_at := Some paid_time, iv_updated_at := now\<rparr>))"

definition Cancel :: "time \<Rightarrow> invoice \<Rightarrow> invoice res" where
  "Cancel now i =
    (if iv_status i = InvoiceStatusPaid then
       Inl (Conflict ''invoice.paid_uncancellable'' ''cannot cancel a paid invoice'')
     else if iv_status i = InvoiceStatusCancelled then
       Inl (Conflict ''invoice.already_cancelled'' ''invoice already cancelled'')
     else Inr (i\<lparr>iv_status := InvoiceStatusCancelled, iv_updated_at := now\<rparr>))"

section \<open>Payments (payment.go)\<close>

datatype bill_payment_status =
    BillPaymentPending | BillPaymentConfirmed | BillPaymentFailed | BillPaymentRefunded

record bill_payment =
  bp_id :: uuid
  bp_invoice_id :: uuid
  bp_customer_id :: uuid
  bp_amount :: f64
  bp_method :: string
  bp_gateway_txn :: string
  bp_date :: time
  bp_confirmed_by :: "uuid option"
  bp_status :: bill_payment_status
  bp_notes :: string
  bp_created_at :: time
  bp_updated_at :: time

definition NewPayment :: "uuid \<Rightarrow> time \<Rightarrow> uuid \<Rightarrow> uuid \<Rightarrow> f64 \<Rightarrow> string \<Rightarrow> uuid option \<Rightarrow> string \<Rightarrow>
    bill_payment res" where
  "NewPayment fresh now invoice_id customer_id amount method0 confirmed_by notes =
    (let method = TrimSpace method0 in
     if invoice_id = Nil_uuid then
       Inl (Validation ''payment.invoice_required'' ''invoice_id is required'')
     else if customer_id = Nil_uuid then
       Inl (Validation ''payment.customer_required'' ''customer_id is required'')
     else if fle amount (Fin 0) then
       Inl (Validation ''payment.amount_invalid'' ''amount must be > 0'')
     else if method = [] then
       Inl (Validation ''payment.method_required'' ''payment_method is required'')
     else Inr \<lparr>bp_id = fresh, bp_invoice_id = invoice_id, bp_customer_id = customer_id,
       bp_amount = amount, bp_method = method, bp_gateway_txn = [], bp_date = now,
       bp_confirmed_by = confirmed_by, bp_status = BillPaymentConfirmed, bp_notes = notes,
       bp_created_at = now, bp_updated_at = now\<rparr>)"

section \<open>Policy, cycles, commissions (r2.go)\<close>

record policy =
  po_late_fee_grace_days :: int
  po_late_fee_amount :: f64
  po_suspend_after_days :: int
  po_terminate_after_suspended_days :: int
  po_notify_customer_days_before :: int
  po_updated_by :: "uuid option"
  po_updated_at :: time
  po_cycle_anchor_day :: int
  po_due_offset_days :: int

datatype cycle_status = CycleStatusGenerated | CycleStatusSkipped | CycleStatusFailed

record billing_cycle =
  cy_id :: uuid
  cy_customer_id :: uuid
  cy_order_id :: uuid
  cy_start :: time
  cy_end :: time
  cy_invoice_id :: "uuid option"
  cy_status :: cycle_status
  cy_notes :: string
  cy_created_at :: time

datatype party_type =
    PartySalesPerson | PartySalesManager | PartySalesBranch | PartyInfrastructureBranch | PartyCompany

fun DefaultCommissionPercents :: "party_type \<Rightarrow> f64" where
  "DefaultCommissionPercents PartySalesPerson = Fin 15"
| "DefaultCommissionPercents PartySalesManager = Fin 5"
| "DefaultCommissionPercents PartySalesBranch = Fin 10"
| "DefaultCommissionPercents PartyInfrastructureBranch = Fin 10"
| "DefaultCommissionPercents PartyCompany = Fin 60"

record commission_record =
  cm_id :: uuid
  cm_order_id :: uuid
  cm_customer_id :: uuid
  cm_invoice_id :: "uuid option"
  cm_payment_id :: "uuid option"
  cm_party :: party_type
  cm_user_id :: "uuid option"
  cm_branch_id :: "uuid option"
  cm_amount :: f64
  cm_percentage :: f64
  cm_base :: f64
  cm_notes :: string
  cm_created_at :: time

section \<open>Terminations and referral rewards (r3.go)\<close>

datatype termination_kind = TerminationKindVoluntary | TerminationKindAuto

datatype termination_status =
    TerminationStatusRequested | TerminationStatusAwaitingPayment | TerminationStatusWOPending
  | TerminationStatusWOCreated | TerminationStatusCompleted | TerminationStatusCancelled

record termination_request =
  tr_id :: uuid
  tr_customer_id :: uuid
  tr_order_id :: "uuid option"
  tr_kind :: termination_kind
  tr_status :: termination_status
  tr_reason :: string
  tr_requested_by :: "uuid option"
  tr_final_invoice_id :: "uuid option"
  tr_penalty :: f64
  tr_outstanding :: f64
  tr_wo_id :: "uuid option"
  tr_requested_at :: time
  tr_completed_at :: "time option"
  tr_notes :: string

datatype reward_status = ReferralRewardAccrued | ReferralRewardPaid | ReferralRewardVoid

definition ReferralRewardPercentOfMonthly :: f64 where
  "ReferralRewardPercentOfMonthly = Fin 50"

record referral_reward =
  rr_id :: uuid
  rr_referral_id :: uuid
  rr_referrer :: "uuid option"
  rr_referee :: uuid
  rr_order_id :: "uuid option"
  rr_invoice_id :: "uuid option"
  rr_amount :: f64
  rr_status :: reward_status
  rr_created_at :: time

section \<open>Add-on purchases (addon.go)\<close>

datatype addon_category =
    AddOnCategoryDigital | AddOnCategoryPhysical | AddOnCategoryService | AddOnCategoryOther string

datatype addon_status =
    AddOnStatusPendingInstall | AddOnStatusActive | AddOnStatusExpired | AddOnStatusCancelled

record addon_purchase =
  ao_id :: uuid
  ao_customer_id :: uuid
  ao_sku :: string
  ao_name :: string
  ao_category :: addon_category
  ao_quantity :: int
  ao_unit_price :: f64
  ao_total :: f64
  ao_invoice_id :: "uuid option"
  ao_status :: addon_status
  ao_valid_from :: "time option"
  ao_valid_until :: "time option"
  ao_cancelled_at :: "time option"
  ao_cancel_reason :: string
  ao_created_at :: time
  ao_updated_at :: time

definition NewAddOnPurchase :: "uuid \<Rightarrow> time \<Rightarrow> uuid \<Rightarrow> string \<Rightarrow> string \<Rightarrow> addon_category \<Rightarrow> int \<Rightarrow>
    f64 \<Rightarrow> addon_purchase res" where
  "NewAddOnPurchase fresh now customer_id sku0 name category0 quantity0 unit_price =
    (if customer_id = Nil_uuid then
       Inl (Validation ''addon.customer_required'' ''customer_id is required'')
     else let sku = TrimSpace sku0 in
       if sku = [] then Inl (Validation ''addon.sku_required'' ''sku is required'')
       else let quantity = (if quantity0 \<le> 0 then 1 else quantity0) in
         if flt unit_price (Fin 0) then
           Inl (Validation ''addon.price_invalid'' ''unit_price must be >= 0'')
         else
           let category = (case category0 of AddOnCategoryOther _ \<Rightarrow> AddOnCategoryService | c \<Rightarrow> c);
               status = (if category = AddOnCategoryPhysical then AddOnStatusPendingInstall
                         else AddOnStatusActive)
           in Inr \<lparr>ao_id = fresh, ao_customer_id = customer_id, ao_sku = sku, ao_name = name,
             ao_category = category, ao_quantity = quantity, ao_unit_price = unit_price,
             ao_total = fmul unit_price (f_of_int quantity), ao_invoice_id = None,
             ao_status = status, ao_valid_from = Some now, ao_valid_until = None,
             ao_cancelled_at = None, ao_cancel_reason = [], ao_created_at = now,
             ao_updated_at = now\<rparr>)"

definition addon_Activate :: "time \<Rightarrow> addon_purchase \<Rightarrow> addon_purchase res" where
  "addon_Activate now a =
    (if ao_status a = AddOnStatusActive then
       Inl (Conflict ''addon.already_active'' ''add-on already active'')
     else if ao_status a \<noteq> AddOnStatusPendingInstall then
       Inl (Conflict ''addon.bad_state'' ''only pending_install add-ons can activate'')
     else Inr (a\<lparr>ao_status := AddOnStatusActive, ao_updated_at := now\<rparr>))"

definition addon_Cancel :: "time \<Rightarrow> string \<Rightarrow> addon_purchase \<Rightarrow> addon_purchase res" where
  "addon_Cancel now reason0 a =
    (if ao_status a = AddOnStatusCancelled then
       Inl (Conflict ''addon.already_cancelled'' ''add-on already cancelled'')
     else if ao_status a = AddOnStatusExpired then
       Inl (Conflict ''addon.expired'' ''cannot cancel an expired add-on'')
     else let reason = TrimSpace reason0 in
       if reason = [] then
         Inl (Validation ''addon.cancel_reason_required'' ''cancel reason is required'')
       else Inr (a\<lparr>ao_status := AddOnStatusCancelled, ao_cancelled_at := Some now,
                   ao_cancel_reason := reason, ao_updated_at := now\<rparr>))"

definition addon_Expire :: "time \<Rightarrow> addon_purchase \<Rightarrow> addon_purchase res" where
  "addon_Expire now a =
    (if ao_status a = AddOnStatusExpired then Inr a
     else if ao_status a = AddOnStatusCancelled then
       Inl (Conflict ''addon.cancelled'' ''cannot expire a cancelled add-on'')
     else Inr (a\<lparr>ao_status := AddOnStatusExpired, ao_updated_at := now\<rparr>))"

definition IsBillable :: "addon_purchase \<Rightarrow> bool" where
  "IsBillable a \<longleftrightarrow> ao_status a = AddOnStatusActive"

section \<open>What an invoice adds up to\<close>

lemma fill_lines_lengths: "length (fst (fill_lines fresh iid i sub ls)) = length ls"
  by (induction ls arbitrary: i sub) (simp_all add: Let_def)

text \<open>The subtotal is the left-to-right sum of the amounts the lines end up with.\<close>

lemma fill_lines_sum:
  "snd (fill_lines fresh iid i sub ls) = foldl fadd sub (map li_amount (fst (fill_lines fresh iid i sub ls)))"
  by (induction ls arbitrary: i sub) (simp_all add: Let_def)

lemma fill_lines_rows: "l \<in> set (fst (fill_lines fresh iid i sub ls)) \<Longrightarrow> li_invoice_id l = iid"
  by (induction ls arbitrary: i sub) (auto simp: Let_def fill_line_def)

lemma foldl_fadd_whole:
  assumes "\<forall>a \<in> set as. 0 \<le> a" "0 \<le> s" "s + sum_list as \<le> 2 ^ 53"
  shows "foldl fadd (Whole s) (map (\<lambda>a. Whole a) as) = Whole (s + sum_list as)"
  using assms
proof (induction as arbitrary: s)
  case (Cons a as)
  then have "0 \<le> sum_list as" by (intro sum_list_nonneg) simp
  with Cons.prems have "fadd (Whole s) (Whole a) = Whole (s + a)" by (intro fadd_whole) simp
  then show ?case using Cons.IH[of "s + a"] Cons.prems by (simp add: add.assoc del: fadd.simps of_int_add)
qed simp

text \<open>
  A line whose amount is a whole number other than zero keeps it, whatever its quantity and
  price say.
\<close>

lemma fill_line_amount: "li_amount l = Whole n \<Longrightarrow> n \<noteq> 0 \<Longrightarrow> li_amount (fill_line u iid i l) = Whole n"
  by (simp add: fill_line_def Let_def)

lemma fill_lines_whole:
  assumes "map li_amount ls = map (\<lambda>a. Whole a) as" "\<forall>a \<in> set as. 0 < a"
    "0 \<le> s" "s + sum_list as \<le> 2 ^ 53"
  shows "snd (fill_lines fresh iid i (Whole s) ls) = Whole (s + sum_list as)"
  using assms
proof (induction ls arbitrary: i s as)
  case (Cons l ls)
  then obtain a as' where as: "as = a # as'" "li_amount l = Whole a"
    "map li_amount ls = map (\<lambda>a. Whole a) as'" by (cases as) auto
  have "0 \<le> sum_list as'" using Cons.prems(2) as(1) by (intro sum_list_nonneg) auto
  then have add: "fadd (Whole s) (Whole a) = Whole (s + a)"
    using Cons.prems(2-4) as(1) by (intro fadd_whole) auto
  have amt: "li_amount (fill_line u iid j l) = Whole a" for u j
    using as(1,2) Cons.prems(2) by (intro fill_line_amount) auto
  have "snd (fill_lines fresh iid (Suc i) (Whole (s + a)) ls) = Whole (s + a + sum_list as')"
    using Cons.prems as by (intro Cons.IH) auto
  then show ?case by (simp add: Let_def amt add as(1) add.assoc del: fadd.simps of_int_add)
qed simp

theorem NewInvoice_whole:
  assumes "NewInvoice fresh now cust ord typ ls (Whole r) due by_user notes = Inr (iv, out)"
    and "map li_amount ls = map (\<lambda>a. Whole a) as" "\<forall>a \<in> set as. 0 < a" "sum_list as \<le> 2 ^ 40"
  shows "iv_subtotal iv = Whole (sum_list as)" "iv_ppn_amount iv = cents (r * sum_list as)"
    "iv_total iv = cents ((100 + r) * sum_list as)"
proof -
  define S where "S = sum_list as"
  have S: "0 \<le> S" "S \<le> 2 ^ 40"
    using assms(3,4) unfolding S_def by (auto intro!: sum_list_nonneg)
  have r: "0 \<le> r" "r \<le> 100" using assms(1) by (auto simp: NewInvoice_def split: if_splits)
  have rS: "0 \<le> r * S" "r * S \<le> 100 * 2 ^ 40"
    using r S mult_mono[of r 100 S "2 ^ 40"] by simp_all
  define F where "F = fill_lines (\<lambda>i. fresh (Suc i)) (fresh 0) 0 (Fin 0) ls"
  have sub: "snd F = Whole S"
    using fill_lines_whole[OF assms(2,3), of 0] S unfolding S_def F_def by simp
  have ppn: "round2 (fdiv (fmul (Whole S) (Whole r)) (Fin 100)) = cents (r * S)"
  proof -
    have "fmul (Whole S) (Whole r) = Whole (S * r)" using rS by (intro fmul_whole) (simp add: mult.commute)
    then have "fdiv (fmul (Whole S) (Whole r)) (Fin 100) = cents (r * S)"
      by (simp add: cents_def mult.commute del: fmul.simps)
    then show ?thesis using rS by (simp add: round2_cents del: fmul.simps)
  qed
  have "iv_subtotal iv = round2 (snd F)"
    "iv_ppn_amount iv = round2 (fdiv (fmul (snd F) (Whole r)) (Fin 100))"
    "iv_total iv = round2 (fadd (snd F) (round2 (fdiv (fmul (snd F) (Whole r)) (Fin 100))))"
    using assms(1) unfolding F_def
    by (auto simp: NewInvoice_def Let_def split: if_splits prod.splits simp del: fmul.simps fdiv.simps fadd.simps)
  moreover have "round2 (Whole S) = Whole S" using S by (intro round2_whole) simp
  moreover have "round2 (fadd (Whole S) (cents (r * S))) = cents (100 * S + r * S)"
    using S rS by (intro round2_add_cents) simp_all
  ultimately show "iv_subtotal iv = Whole (sum_list as)" "iv_ppn_amount iv = cents (r * sum_list as)"
    "iv_total iv = cents ((100 + r) * sum_list as)"
    by (simp_all only: sub ppn[unfolded S_def] S_def distrib_right)
qed

section \<open>The invoice state machine\<close>

text \<open>The graph of the comments, with the edges the methods allow.\<close>

definition invoice_edge :: "invoice_status \<Rightarrow> invoice_status \<Rightarrow> bool" where
  "invoice_edge a b \<longleftrightarrow>
     (a = InvoiceStatusDraft \<and> b = InvoiceStatusIssued)
   \<or> (a \<in> {InvoiceStatusDraft, InvoiceStatusIssued, InvoiceStatusOverdue}
      \<and> b \<in> {InvoiceStatusPaid, InvoiceStatusCancelled})"

lemma invoice_methods_edge:
  "Issue now i = Inr j \<Longrightarrow> invoice_edge (iv_status i) (iv_status j)"
  "MarkPaid now t i = Inr j \<Longrightarrow> invoice_edge (iv_status i) (iv_status j)"
  "Cancel now i = Inr j \<Longrightarrow> invoice_edge (iv_status i) (iv_status j)"
  by (cases "iv_status i"; auto simp: Issue_def MarkPaid_def Cancel_def invoice_edge_def split: if_splits)+

lemma addon_methods:
  "addon_Activate now a = Inr b \<Longrightarrow> ao_status a = AddOnStatusPendingInstall \<and> ao_status b = AddOnStatusActive"
  "addon_Cancel now reason a = Inr b \<Longrightarrow> ao_status a \<in> {AddOnStatusPendingInstall, AddOnStatusActive}
     \<and> ao_status b = AddOnStatusCancelled \<and> ao_cancel_reason b \<noteq> []"
  "addon_Expire now a = Inr b \<Longrightarrow> ao_status a \<noteq> AddOnStatusCancelled \<and> ao_status b = AddOnStatusExpired"
  by (cases "ao_status a"; auto simp: addon_Activate_def addon_Cancel_def addon_Expire_def Let_def split: if_splits)+

end
