(* ===== verification/BillingPolicies.thy ===== *)
theory BillingPolicies
  imports BillingDomain
begin

text \<open>
  The decisions of the billing context that are pure functions of a policy and a projection of
  the data: late fees (\<^verbatim>\<open>domain/late_fee.go\<close>), reminders (\<^verbatim>\<open>reminder.go\<close>), suspension
  (\<^verbatim>\<open>suspension.go\<close>), commission triggers (\<^verbatim>\<open>commission_trigger.go\<close>), and the reading of a
  policy from a schema body (\<^verbatim>\<open>usecase/schema_policy.go\<close>, the resolve functions of
  \<^verbatim>\<open>usecase/orchestration.go\<close>).
\<close>

section \<open>Late fees\<close>

record late_fee_policy =
  lf_flat :: f64
  lf_pct :: f64
  lf_cap :: f64
  lf_grace_days :: int
  lf_disabled :: bool

definition DefaultLateFeePolicy :: late_fee_policy where
  "DefaultLateFeePolicy = \<lparr>lf_flat = Fin 25000, lf_pct = Fin 0, lf_cap = Fin 0,
     lf_grace_days = 3, lf_disabled = False\<rparr>"

record late_fee_input =
  li_due :: time
  li_is_paid :: bool
  li_is_cancelled :: bool
  li_outstanding :: f64

definition IsEligible :: "late_fee_policy \<Rightarrow> late_fee_input \<Rightarrow> time \<Rightarrow> bool" where
  "IsEligible p x now =
    (if lf_disabled p then False
     else if li_is_paid x \<or> li_is_cancelled x then False
     else if fle (li_outstanding x) (Fin 0) then False
     else let grace = (if lf_grace_days p < 0 then 0 else lf_grace_days p);
              cutoff = AddDate 0 0 grace (li_due x)
          in \<not> now < cutoff)"

definition Compute :: "late_fee_policy \<Rightarrow> late_fee_input \<Rightarrow> time \<Rightarrow> f64" where
  "Compute p x now =
    (if \<not> IsEligible p x now then Fin 0
     else if flt (Fin 0) (lf_pct p) then
       let a = fdiv (fmul (li_outstanding x) (lf_pct p)) (Fin 100);
           a' = (if flt (Fin 0) (lf_cap p) \<and> flt (lf_cap p) a then lf_cap p else a)
       in round2 a'
     else if flt (Fin 0) (lf_flat p) then round2 (lf_flat p)
     else Fin 0)"

section \<open>Reminders\<close>

datatype reminder_kind =
    ReminderKindSoft | ReminderKindDueToday | ReminderKindOverdueD1 | ReminderKindOverdueD3
  | ReminderKindOverdueD7 | ReminderKindOverduePreSuspend
  | ReminderKindOther string \<comment> \<open>any other text of a schema\<close>

definition reminderOrder :: "reminder_kind list" where
  "reminderOrder = [ReminderKindSoft, ReminderKindDueToday, ReminderKindOverdueD1,
     ReminderKindOverdueD3, ReminderKindOverdueD7, ReminderKindOverduePreSuspend]"

fun index_from :: "int \<Rightarrow> 'a list \<Rightarrow> 'a \<Rightarrow> int" where
  "index_from i [] k = - 1"
| "index_from i (r # rs) k = (if r = k then i else index_from (i + 1) rs k)"

definition reminderIndex :: "reminder_kind \<Rightarrow> int" where
  "reminderIndex k = index_from 0 reminderOrder k"

text \<open>The last kind sent; \<^verbatim>\<open>""\<close> (nothing sent) is \<open>None\<close> and has index -1.\<close>

definition last_index :: "reminder_kind option \<Rightarrow> int" where
  "last_index l = (case l of None \<Rightarrow> - 1 | Some k \<Rightarrow> reminderIndex k)"

record overdue_step =
  os_days :: int
  os_kind :: reminder_kind
  os_channel :: string

record reminder_policy =
  rp_soft_days :: int
  rp_due_hour :: int
  rp_steps :: "overdue_step list"
  rp_pre_offset :: int
  rp_channel :: string

definition DefaultReminderPolicy :: reminder_policy where
  "DefaultReminderPolicy = \<lparr>rp_soft_days = 3, rp_due_hour = 9,
     rp_steps = [\<lparr>os_days = 1, os_kind = ReminderKindOverdueD1, os_channel = []\<rparr>,
                 \<lparr>os_days = 3, os_kind = ReminderKindOverdueD3, os_channel = []\<rparr>,
                 \<lparr>os_days = 7, os_kind = ReminderKindOverdueD7, os_channel = []\<rparr>],
     rp_pre_offset = 1, rp_channel = ''whatsapp''\<rparr>"

record reminder_input =
  ri_due :: time
  ri_is_paid :: bool
  ri_is_cancelled :: bool
  ri_last :: "reminder_kind option"
  ri_suspend_days :: int

text \<open>The loop over the overdue steps: the candidate so far and its index.\<close>

fun best_step :: "time \<Rightarrow> time \<Rightarrow> overdue_step list \<Rightarrow> reminder_kind option \<times> int \<Rightarrow> reminder_kind option \<times> int" where
  "best_step now due [] c = c"
| "best_step now due (st # sts) c =
    (let stepAt = AddDate 0 0 (os_days st) due in
     best_step now due sts
       (if \<not> now < stepAt \<and> reminderIndex (os_kind st) > snd c
        then (Some (os_kind st), reminderIndex (os_kind st)) else c))"

definition NextReminderKindForInvoice :: "reminder_policy \<Rightarrow> reminder_input \<Rightarrow> time \<Rightarrow> reminder_kind option" where
  "NextReminderKindForInvoice p x now =
    (if ri_is_paid x \<or> ri_is_cancelled x then None
     else
       let lastIdx = last_index (ri_last x); due = ri_due x;
           preOffset = (if rp_pre_offset p \<le> 0 then 1 else rp_pre_offset p);
           preSuspendAt = AddDate 0 0 (ri_suspend_days x - preOffset) due
       in if ri_suspend_days x > 0 \<and> \<not> now < preSuspendAt
             \<and> lastIdx < reminderIndex ReminderKindOverduePreSuspend
          then Some ReminderKindOverduePreSuspend
          else let (candidate, candidateIdx) = best_step now due (rp_steps p) (None, - 1) in
            if candidate \<noteq> None \<and> candidateIdx > lastIdx then candidate
            else if \<not> now < due \<and> now < AddDate 0 0 1 due \<and> lastIdx < reminderIndex ReminderKindDueToday
              then Some ReminderKindDueToday
            else if rp_soft_days p > 0 \<and> \<not> now < AddDate 0 0 (- rp_soft_days p) due \<and> now < due
                 \<and> lastIdx < reminderIndex ReminderKindSoft
              then Some ReminderKindSoft
            else None)"

fun step_channel :: "overdue_step list \<Rightarrow> reminder_kind \<Rightarrow> string option" where
  "step_channel [] k = None"
| "step_channel (st # sts) k =
    (if os_kind st = k \<and> os_channel st \<noteq> [] then Some (os_channel st) else step_channel sts k)"

definition ChannelFor :: "reminder_policy \<Rightarrow> reminder_kind \<Rightarrow> string" where
  "ChannelFor p k = (case step_channel (rp_steps p) k of
      Some c \<Rightarrow> c | None \<Rightarrow> (if rp_channel p \<noteq> [] then rp_channel p else ''whatsapp''))"

section \<open>Suspension\<close>

datatype suspension_state =
    CustomerSuspensionStateActive | CustomerSuspensionStateSoftSuspend
  | CustomerSuspensionStateHardSuspend

datatype suspension_action =
    SuspensionActionWarn | SuspensionActionSoftSuspend | SuspensionActionHardSuspend
  | SuspensionActionRestore

definition suspensionEscalationOrder :: "suspension_action list" where
  "suspensionEscalationOrder =
     [SuspensionActionWarn, SuspensionActionSoftSuspend, SuspensionActionHardSuspend]"

definition suspensionEscalationIndex :: "suspension_action option \<Rightarrow> int" where
  "suspensionEscalationIndex l = (case l of None \<Rightarrow> - 1
     | Some k \<Rightarrow> index_from 0 suspensionEscalationOrder k)"

record suspension_policy =
  sp_warn :: int
  sp_soft :: int
  sp_hard :: int
  sp_supervisor :: bool

definition DefaultSuspensionPolicy :: suspension_policy where
  "DefaultSuspensionPolicy = \<lparr>sp_warn = 7, sp_soft = 14, sp_hard = 21, sp_supervisor = False\<rparr>"

record suspension_input =
  si_oldest_due :: time
  si_has_overdue :: bool
  si_last :: "suspension_action option"

text \<open>\<^verbatim>\<open>time.Duration.Hours\<close>, and the number of days the evaluator computes from it.\<close>

definition quot :: "int \<Rightarrow> int \<Rightarrow> int" where
  "quot a b = sgn a * sgn b * (\<bar>a\<bar> div \<bar>b\<bar>)"

definition Hours :: "duration \<Rightarrow> f64" where
  "Hours d = (let h = quot d HOUR; ns = d - h * HOUR
              in fadd (f_of_int h) (fdiv (f_of_int ns) (Fin (of_int HOUR))))"

definition daysPast :: "time \<Rightarrow> time \<Rightarrow> int" where
  "daysPast now due = int64_of (fdiv (Hours (Sub now due)) (Fin 24))"

fun first_stage :: "int \<Rightarrow> int \<Rightarrow> (suspension_action \<times> int) list \<Rightarrow> suspension_action option" where
  "first_stage days lastIdx [] = None"
| "first_stage days lastIdx ((kind, grace) # rest) =
    (if grace \<le> 0 \<and> kind \<noteq> SuspensionActionWarn then first_stage days lastIdx rest
     else if days \<ge> grace then
       (if suspensionEscalationIndex (Some kind) > lastIdx then Some kind else None)
     else first_stage days lastIdx rest)"

definition NextActionFor :: "suspension_policy \<Rightarrow> suspension_input \<Rightarrow> time \<Rightarrow> suspension_action option" where
  "NextActionFor p x now =
    (if \<not> si_has_overdue x then None
     else if si_last x = Some SuspensionActionHardSuspend then None
     else first_stage (daysPast now (si_oldest_due x)) (suspensionEscalationIndex (si_last x))
       [(SuspensionActionHardSuspend, sp_hard p), (SuspensionActionSoftSuspend, sp_soft p),
        (SuspensionActionWarn, sp_warn p)])"

definition ShouldRestore :: "suspension_state \<Rightarrow> bool \<Rightarrow> bool" where
  "ShouldRestore current has_unpaid = (case current of
      CustomerSuspensionStateSoftSuspend \<Rightarrow> \<not> has_unpaid
    | CustomerSuspensionStateHardSuspend \<Rightarrow> \<not> has_unpaid
    | CustomerSuspensionStateActive \<Rightarrow> False)"

section \<open>Commission triggers\<close>

datatype trigger_kind =
    CommissionTriggerOnPaid | CommissionTriggerOnActivated | CommissionTriggerOnAnniversary
  | CommissionTriggerManual | CommissionTriggerOther string

datatype recipient_kind =
    CommissionRecipientSales | CommissionRecipientSalesLead | CommissionRecipientSalesBranch
  | CommissionRecipientOther string

record trigger_policy =
  tp_trigger :: trigger_kind
  tp_recipient :: recipient_kind
  tp_clawback_days :: int
  tp_pct :: f64
  tp_flat :: f64

definition DefaultCommissionTriggerPolicy :: trigger_policy where
  "DefaultCommissionTriggerPolicy = \<lparr>tp_trigger = CommissionTriggerOnPaid,
     tp_recipient = CommissionRecipientSales, tp_clawback_days = 90, tp_pct = Fin 15, tp_flat = Fin 0\<rparr>"

record trigger_input =
  ti_invoice_id :: uuid
  ti_customer_id :: uuid
  ti_plan_change_id :: "uuid option"
  ti_sales_user_id :: uuid
  ti_basis :: f64
  ti_paid_at :: "time option"
  ti_activated_at :: "time option"
  ti_anniversary_at :: "time option"

record evaluated_trigger =
  et_plan_change_id :: "uuid option"
  et_customer_id :: uuid
  et_sales_user_id :: uuid
  et_kind :: trigger_kind
  et_invoice_id :: "uuid option"
  et_basis :: f64
  et_amount :: f64
  et_recipient :: recipient_kind

definition reached :: "time option \<Rightarrow> time \<Rightarrow> bool" where
  "reached t now = (case t of None \<Rightarrow> False | Some u \<Rightarrow> \<not> u > now)"

definition EvaluateTrigger :: "trigger_policy \<Rightarrow> trigger_input \<Rightarrow> time \<Rightarrow> evaluated_trigger option" where
  "EvaluateTrigger p x now =
    (if tp_trigger p = CommissionTriggerManual then None
     else if ti_sales_user_id x = Nil_uuid then None
     else
       let fire = (case tp_trigger p of
           CommissionTriggerOnPaid \<Rightarrow> reached (ti_paid_at x) now
         | CommissionTriggerOnActivated \<Rightarrow> reached (ti_activated_at x) now
         | CommissionTriggerOnAnniversary \<Rightarrow> reached (ti_anniversary_at x) now
         | _ \<Rightarrow> False)
       in if \<not> fire then None
          else
            let amount = (if flt (Fin 0) (tp_pct p)
                            then round2 (fdiv (fmul (ti_basis x) (tp_pct p)) (Fin 100))
                          else if flt (Fin 0) (tp_flat p) then round2 (tp_flat p) else Fin 0)
            in Some \<lparr>et_plan_change_id = ti_plan_change_id x, et_customer_id = ti_customer_id x,
                 et_sales_user_id = ti_sales_user_id x, et_kind = tp_trigger p,
                 et_invoice_id = (if ti_invoice_id x \<noteq> Nil_uuid then Some (ti_invoice_id x) else None),
                 et_basis = ti_basis x, et_amount = amount, et_recipient = tp_recipient p\<rparr>)"

section \<open>Schema bodies (schema_policy.go)\<close>

text \<open>
  A decoded JSON document (\<^verbatim>\<open>map[string]any\<close>). \<open>JNumber\<close> is a \<^verbatim>\<open>json.Number\<close> with what its
  \<^verbatim>\<open>Int64\<close> and \<^verbatim>\<open>Float64\<close> return. A nil body is the empty map: every reader treats them alike.
\<close>

datatype jval =
    JFloat f64 | JInt int | JInt64 int | JNumber "int option" "f64 option" | JStr string
  | JBool bool | JNull | JMap "(string \<times> jval) list" | JList "jval list"

type_synonym body = "(string \<times> jval) list"

definition readInt :: "body \<Rightarrow> string \<Rightarrow> int \<Rightarrow> int" where
  "readInt b key fallback = (case map_of b key of
      None \<Rightarrow> fallback
    | Some (JFloat n) \<Rightarrow> int64_of n
    | Some (JInt n) \<Rightarrow> n
    | Some (JInt64 n) \<Rightarrow> n
    | Some (JNumber i f) \<Rightarrow> (case i of Some n \<Rightarrow> n
        | None \<Rightarrow> (case f of Some x \<Rightarrow> int64_of x | None \<Rightarrow> fallback))
    | Some _ \<Rightarrow> fallback)"

definition readFloat :: "body \<Rightarrow> string \<Rightarrow> f64 \<Rightarrow> f64" where
  "readFloat b key fallback = (case map_of b key of
      None \<Rightarrow> fallback
    | Some (JFloat n) \<Rightarrow> n
    | Some (JInt n) \<Rightarrow> f_of_int n
    | Some (JInt64 n) \<Rightarrow> f_of_int n
    | Some (JNumber i f) \<Rightarrow> (case f of Some x \<Rightarrow> x | None \<Rightarrow> fallback)
    | Some _ \<Rightarrow> fallback)"

text \<open>The body a resolver's answer counts as: an error or an empty body is no body.\<close>

definition load_body :: "derr + body \<Rightarrow> body option" where
  "load_body r = (case r of Inl _ \<Rightarrow> None | Inr b \<Rightarrow> if b = [] then None else Some b)"

definition resolvedPolicyFor :: "body option \<Rightarrow> policy \<Rightarrow> policy" where
  "resolvedPolicyFor b legacy = (case b of None \<Rightarrow> legacy | Some body \<Rightarrow>
     legacy\<lparr>
       po_late_fee_grace_days := readInt body ''late_fee_grace_days''
         (readInt body ''grace_days'' (po_late_fee_grace_days legacy)),
       po_late_fee_amount := readFloat body ''late_fee_amount'' (po_late_fee_amount legacy),
       po_suspend_after_days := readInt body ''suspend_after_days'' (po_suspend_after_days legacy),
       po_terminate_after_suspended_days := readInt body ''terminate_after_suspended_days''
         (po_terminate_after_suspended_days legacy),
       po_notify_customer_days_before := readInt body ''notify_customer_days_before''
         (po_notify_customer_days_before legacy),
       po_cycle_anchor_day := readInt body ''cycle_anchor_day'' (po_cycle_anchor_day legacy),
       po_due_offset_days := readInt body ''due_offset_days'' (po_due_offset_days legacy)\<rparr>)"

record commission_split =
  cs_rep :: f64
  cs_mgr :: f64
  cs_branch_sales :: f64
  cs_branch_infra :: f64
  cs_holding :: f64

definition default_split :: commission_split where
  "default_split = \<lparr>cs_rep = DefaultCommissionPercents PartySalesPerson,
     cs_mgr = DefaultCommissionPercents PartySalesManager,
     cs_branch_sales = DefaultCommissionPercents PartySalesBranch,
     cs_branch_infra = DefaultCommissionPercents PartyInfrastructureBranch,
     cs_holding = DefaultCommissionPercents PartyCompany\<rparr>"

definition split_total :: "commission_split \<Rightarrow> f64" where
  "split_total s = fadd (fadd (fadd (fadd (cs_rep s) (cs_mgr s)) (cs_branch_sales s))
     (cs_branch_infra s)) (cs_holding s)"

definition resolvedCommissionFor :: "body option \<Rightarrow> commission_split" where
  "resolvedCommissionFor b = (case b of None \<Rightarrow> default_split | Some body \<Rightarrow>
     let out = \<lparr>cs_rep = readFloat body ''rep_pct'' (cs_rep default_split),
                cs_mgr = readFloat body ''mgr_pct'' (cs_mgr default_split),
                cs_branch_sales = readFloat body ''branch_sales_pct'' (cs_branch_sales default_split),
                cs_branch_infra = readFloat body ''branch_infra_pct'' (cs_branch_infra default_split),
                cs_holding = readFloat body ''holding_pct'' (cs_holding default_split)\<rparr>;
         total = split_total out
     in if flt (Fin 0) total \<and> fle total (Fin (3 / 2)) then
          \<lparr>cs_rep = fmul (cs_rep out) (Fin 100), cs_mgr = fmul (cs_mgr out) (Fin 100),
           cs_branch_sales = fmul (cs_branch_sales out) (Fin 100),
           cs_branch_infra = fmul (cs_branch_infra out) (Fin 100),
           cs_holding = fmul (cs_holding out) (Fin 100)\<rparr>
        else out)"

section \<open>Policies of the orchestration (orchestration.go)\<close>

definition kind_of_text :: "string \<Rightarrow> reminder_kind" where
  "kind_of_text s =
    (if s = ''soft_reminder'' then ReminderKindSoft
     else if s = ''due_today'' then ReminderKindDueToday
     else if s = ''overdue_d1'' then ReminderKindOverdueD1
     else if s = ''overdue_d3'' then ReminderKindOverdueD3
     else if s = ''overdue_d7'' then ReminderKindOverdueD7
     else if s = ''overdue_pre_suspend'' then ReminderKindOverduePreSuspend
     else ReminderKindOther s)"

text \<open>One entry of \<^verbatim>\<open>overdue_steps\<close>: skipped unless a map with a kind and a positive offset.\<close>

definition read_step :: "jval \<Rightarrow> overdue_step list" where
  "read_step item = (case item of
      JMap m \<Rightarrow>
        let kind = (case map_of m ''kind'' of Some (JStr k) \<Rightarrow> k | _ \<Rightarrow> []);
            channel = (case map_of m ''channel'' of Some (JStr c) \<Rightarrow> c | _ \<Rightarrow> []);
            days = readInt m ''days_after_due'' 0
        in if kind \<noteq> [] \<and> days > 0
           then [\<lparr>os_days = days, os_kind = kind_of_text kind, os_channel = channel\<rparr>] else []
    | _ \<Rightarrow> [])"

definition resolveReminderPolicy :: "body option \<Rightarrow> reminder_policy" where
  "resolveReminderPolicy b = (let def = DefaultReminderPolicy in case b of None \<Rightarrow> def
    | Some body \<Rightarrow> (case map_of body ''reminders'' of
        Some (JMap v) \<Rightarrow>
          def\<lparr>rp_soft_days := readInt v ''soft_offset_days_before_due'' (rp_soft_days def),
              rp_due_hour := readInt v ''due_today_at_hour'' (rp_due_hour def),
              rp_pre_offset := readInt v ''pre_suspend_offset_days'' (rp_pre_offset def),
              rp_channel := (case map_of v ''default_channel'' of
                 Some (JStr ch) \<Rightarrow> if ch \<noteq> [] then ch else rp_channel def | _ \<Rightarrow> rp_channel def),
              rp_steps := (case map_of v ''overdue_steps'' of
                 Some (JList raw) \<Rightarrow> if raw \<noteq> [] then concat (map read_step raw) else rp_steps def
               | _ \<Rightarrow> rp_steps def)\<rparr>
      | _ \<Rightarrow> def))"

definition resolveLateFeePolicy :: "body option \<Rightarrow> late_fee_policy" where
  "resolveLateFeePolicy b = (let def = DefaultLateFeePolicy in case b of None \<Rightarrow> def
    | Some body \<Rightarrow> (case map_of body ''late_fee'' of
        Some (JMap v) \<Rightarrow>
          \<lparr>lf_flat = readFloat v ''flat_amount'' (lf_flat def),
           lf_pct = readFloat v ''percentage_of_outstanding'' (lf_pct def),
           lf_cap = readFloat v ''cap_amount'' (lf_cap def),
           lf_grace_days = readInt v ''grace_days'' (lf_grace_days def),
           lf_disabled = (case map_of v ''disabled'' of Some (JBool d) \<Rightarrow> d | _ \<Rightarrow> lf_disabled def)\<rparr>
      | _ \<Rightarrow>
          def\<lparr>lf_flat := readFloat body ''late_fee_amount'' (lf_flat def),
              lf_grace_days := readInt body ''late_fee_grace_days'' (lf_grace_days def),
              lf_disabled := (case map_of body ''late_fee_disabled'' of
                 Some (JBool d) \<Rightarrow> d | _ \<Rightarrow> lf_disabled def)\<rparr>))"

text \<open>The suspension body first, then the legacy key of the billing body.\<close>

definition resolveSuspensionPolicy :: "body option \<Rightarrow> body option \<Rightarrow> suspension_policy" where
  "resolveSuspensionPolicy susp bill = (let def = DefaultSuspensionPolicy in case susp of
      None \<Rightarrow> (case bill of None \<Rightarrow> def
        | Some bb \<Rightarrow> def\<lparr>sp_hard := readInt bb ''suspend_after_days'' (sp_hard def)\<rparr>)
    | Some body \<Rightarrow>
        \<lparr>sp_warn = readInt body ''grace_days_before_warn'' (sp_warn def),
         sp_soft = readInt body ''grace_days_before_soft_suspend'' (sp_soft def),
         sp_hard = readInt body ''grace_days_before_hard_suspend'' (sp_hard def),
         sp_supervisor = (case map_of body ''requires_supervisor_for_hard_suspend'' of
            Some (JBool v) \<Rightarrow> v | _ \<Rightarrow> sp_supervisor def)\<rparr>)"

definition trigger_of_text :: "string \<Rightarrow> trigger_kind" where
  "trigger_of_text s =
    (if s = ''on_paid'' then CommissionTriggerOnPaid
     else if s = ''on_activated'' then CommissionTriggerOnActivated
     else if s = ''on_anniversary'' then CommissionTriggerOnAnniversary
     else if s = ''manual'' then CommissionTriggerManual else CommissionTriggerOther s)"

definition recipient_of_text :: "string \<Rightarrow> recipient_kind" where
  "recipient_of_text s =
    (if s = ''sales'' then CommissionRecipientSales
     else if s = ''sales_lead'' then CommissionRecipientSalesLead
     else if s = ''sales_branch'' then CommissionRecipientSalesBranch
     else CommissionRecipientOther s)"

definition resolveCommissionTriggerPolicy :: "body option \<Rightarrow> trigger_policy" where
  "resolveCommissionTriggerPolicy b = (let def = DefaultCommissionTriggerPolicy in case b of
      None \<Rightarrow> def
    | Some body \<Rightarrow>
        \<lparr>tp_trigger = (case map_of body ''trigger'' of
            Some (JStr v) \<Rightarrow> if v \<noteq> [] then trigger_of_text v else tp_trigger def | _ \<Rightarrow> tp_trigger def),
         tp_recipient = (case map_of body ''recipient'' of
            Some (JStr v) \<Rightarrow> if v \<noteq> [] then recipient_of_text v else tp_recipient def
          | _ \<Rightarrow> tp_recipient def),
         tp_clawback_days = readInt body ''clawback_days'' (tp_clawback_days def),
         tp_pct = readFloat body ''percentage_of_basis'' (tp_pct def),
         tp_flat = readFloat body ''flat_amount'' (tp_flat def)\<rparr>)"

section \<open>Stringification (formatAmount)\<close>

text \<open>
  The digits are written by hand in the code: the whole part by repeated division, the cents
  as two digits. An amount outside \<open>int64\<close> cents (beyond 92 quadrillion) is not modelled.
\<close>

definition formatFloat2 :: "f64 \<Rightarrow> string" where
  "formatFloat2 f =
    (let c = (if flt f (Fin 0) then int64_of (fsub (fmul f (Fin 100)) (Fin (1 / 2)))
              else int64_of (fadd (fmul f (Fin 100)) (Fin (1 / 2))));
         neg = c < 0; c' = (if neg then - c else c);
         whole = c' div 100; frac = c' mod 100
     in (if neg then [CHR 0x2D] else []) @ dec whole @ [CHR 0x2E]
        @ [digit_char (frac div 10), digit_char (frac mod 10)])"

definition formatAmount :: "f64 \<Rightarrow> string" where
  "formatAmount f = (if feq f (Fin 0) then ''0'' else formatFloat2 f)"

end
