(* ===== verification/BillingRepo.thy ===== *)
theory BillingRepo
  imports BillingPolicies Table
begin

text \<open>
  The storage of the billing context (\<^verbatim>\<open>internal/billing/adapter/postgres\<close>) and its CRM gateway
  (\<^verbatim>\<open>adapter/crm/gateway.go\<close>). The state \<open>bill_db\<close> holds the tables, each a list of rows in
  insertion order, and what left the context: RADIUS commands, termination work orders and
  reminders. The constraints of \<^verbatim>\<open>migrations/0009\<close>, \<open>0014\<close>, \<open>0015\<close> and \<open>0077\<close> the operations
  depend on (primary and unique keys, CHECKs on amounts and texts) are part of the writes. A
  NUMERIC column keeps two (quantities: three) decimals, a DATE column the day.
\<close>

section \<open>The environment\<close>

record invoice_filter =
  fl_status :: "invoice_status option"
  fl_type :: "invoice_type option"
  fl_customer :: "uuid option"
  fl_order :: "uuid option"
  fl_limit :: int
  fl_offset :: int

definition no_filter :: invoice_filter where
  "no_filter = \<lparr>fl_status = None, fl_type = None, fl_customer = None, fl_order = None,
     fl_limit = 0, fl_offset = 0\<rparr>"

text \<open>The call sites that can fail, each with the key of the row it is about.\<close>

datatype bcall =
    InvCreate uuid | InvFind uuid nat | InvUpdateStatus uuid | InvList invoice_filter | InvFindOTC uuid
  | PayCreate uuid | PaySum uuid
  | PolicyGet | CycleExists uuid time | CycleCreate uuid time
  | CommExists uuid | CommCreate uuid party_type
  | TermCreate uuid | TermUpdate uuid | TermFind uuid | TermFindByWO uuid | TermOpen uuid
  | RewardExists uuid | RewardCreate uuid
  | CrmActiveOrders nat | CrmOrder uuid | CrmSetStatus uuid string | CrmSuspended nat
  | CrmSummary uuid | CrmReferral uuid | CrmAddons uuid
  | RadiusSuspend uuid | RadiusRestore uuid | RadiusDeactivate uuid | FieldCreateWO uuid
  | RemFindLast uuid | RemCreate uuid | RemSend uuid | LfCreate uuid
  | SusCandidates | SusFindLast uuid | SusCreate uuid | RestoreCandidates
  | TrigList | TrigCreate uuid
  | AddonCreate uuid | AddonFind uuid | AddonUpdate uuid | AddonExpiring | AddonMirror uuid | BillAudit

record catalog_item =
  ct_id :: uuid
  ct_sku :: string
  ct_name :: string
  ct_category :: addon_category
  ct_one_time_fee :: f64
  ct_monthly_fee :: f64
  ct_active :: bool

text \<open>
  \<open>be_now\<close> is the service's clock, \<open>be_dbnow\<close> the database's \<^verbatim>\<open>NOW()\<close>, \<open>be_fresh\<close> the values of
  \<^verbatim>\<open>uuid.New\<close> in the order of its calls, \<open>be_schema\<close> the answer of the platform's schema
  resolver for a customer and a kind; the identity and field contexts answer the questions
  about the manager and branch of a sales user, the NOC verification of an order and the
  resignation of a sales user; the catalog and the product names belong to CRM.
\<close>

record benv =
  be_now :: time
  be_dbnow :: time
  be_fresh :: "nat \<Rightarrow> uuid"
  be_fail :: "bcall \<Rightarrow> derr option"
  be_schema :: "uuid \<Rightarrow> string \<Rightarrow> derr + body"
  be_manager :: "uuid \<Rightarrow> uuid option"
  be_branch :: "uuid \<Rightarrow> uuid option"
  be_verified :: "uuid \<Rightarrow> time option"
  be_resigned :: "uuid \<Rightarrow> time \<Rightarrow> bool"
  be_catalog :: "string \<Rightarrow> derr + catalog_item option"
  be_product_name :: "uuid \<Rightarrow> string"

section \<open>The tables\<close>

record crm_customer =
  cc_id :: uuid
  cc_status :: string
  cc_suspended_at :: "time option"
  cc_suspend_reason :: "string option"
  cc_terminated_at :: "time option"
  cc_address :: string
  cc_branch_id :: "uuid option"
  cc_activated_at :: "time option"
  cc_lock_in_until :: "time option"
  cc_type :: string
  cc_created_at :: time

record crm_order =
  co_id :: uuid
  co_customer_id :: uuid
  co_monthly_price :: f64
  co_otc_price :: f64
  co_sales_id :: "uuid option"
  co_branch_id :: "uuid option"
  co_created_at :: time

record crm_referral =
  rf_ref_id :: uuid
  rf_referrer :: "uuid option"
  rf_referee :: uuid
  rf_ref_status :: string

record crm_addon =
  ca_id :: uuid
  ca_customer_id :: uuid
  ca_addon_id :: uuid
  ca_monthly_fee :: f64
  ca_status :: string

record plan_change =
  pc_id :: uuid
  pc_customer_id :: uuid
  pc_sales_rep_id :: "uuid option"
  pc_status :: string

record reminder_row =
  rl_id :: uuid
  rl_invoice_id :: uuid
  rl_kind :: reminder_kind
  rl_sent_at :: time
  rl_channel :: string
  rl_delivered :: bool
  rl_error_msg :: string

record late_fee_row =
  la_id :: uuid
  la_invoice_id :: uuid
  la_amount :: f64
  la_applied_at :: time
  la_basis :: string

record suspension_row =
  sa_id :: uuid
  sa_customer_id :: uuid
  sa_invoice_id :: "uuid option"
  sa_action :: suspension_action
  sa_executed_at :: time
  sa_executed_by :: string

record trigger_row =
  tg_id :: uuid
  tg_plan_change_id :: "uuid option"
  tg_customer_id :: uuid
  tg_sales_user_id :: uuid
  tg_kind :: trigger_kind
  tg_invoice_id :: "uuid option"
  tg_basis :: f64
  tg_fired_at :: time
  tg_amount :: f64

datatype radius_command = RadiusSuspended uuid | RadiusRestored uuid | RadiusDeactivated uuid

record bill_audit =
  ba_record_type :: string
  ba_record_id :: uuid
  ba_field :: string
  ba_after :: string
  ba_reason :: string

record bill_db =
  bd_next :: nat \<comment> \<open>how many identifiers \<^verbatim>\<open>uuid.New\<close> has handed out\<close>
  bd_invoices :: "invoice list"
  bd_items :: "line_item list"
  bd_payments :: "bill_payment list"
  bd_policy :: "policy option"
  bd_cycles :: "billing_cycle list"
  bd_commissions :: "commission_record list"
  bd_terms :: "termination_request list"
  bd_rewards :: "referral_reward list"
  bd_purchases :: "addon_purchase list"
  bd_reminders :: "reminder_row list"
  bd_latefees :: "late_fee_row list"
  bd_suspensions :: "suspension_row list"
  bd_triggers :: "trigger_row list"
  bd_customers :: "crm_customer list"
  bd_orders :: "crm_order list"
  bd_referrals :: "crm_referral list"
  bd_addons :: "crm_addon list"
  bd_plan_changes :: "plan_change list"
  bd_audit :: "bill_audit list"
  bd_radius :: "radius_command list"
  bd_workorders :: "(uuid \<times> uuid) list" \<comment> \<open>termination work order, customer\<close>
  bd_sent :: "(uuid \<times> reminder_kind) list" \<comment> \<open>reminders handed to the dispatcher\<close>

definition bguard :: "benv \<Rightarrow> bcall \<Rightarrow> 'a res \<Rightarrow> 'a res" where
  "bguard E c r = (case be_fail E c of Some e \<Rightarrow> Inl e | None \<Rightarrow> r)"

lemma bguard_Inr_iff [simp]: "bguard E c r = Inr x \<longleftrightarrow> be_fail E c = None \<and> r = Inr x"
  by (cases "be_fail E c") (auto simp: bguard_def)

text \<open>\<^verbatim>\<open>mapDBError\<close> of \<^verbatim>\<open>shared.go\<close>.\<close>

definition duplicate_err :: "string \<Rightarrow> string \<Rightarrow> derr" where
  "duplicate_err code msg = Conflict (code @ ''.duplicate'') (msg @ '' '' @ dash @ '' already exists'')"

definition check_err :: "string \<Rightarrow> string \<Rightarrow> derr" where
  "check_err code msg =
     Validation (code @ ''.invalid'') (msg @ '' '' @ dash @ '' violates a database constraint'')"

definition fresh_id :: "benv \<Rightarrow> bill_db \<Rightarrow> uuid" where
  "fresh_id E s = be_fresh E (bd_next s)"

definition took :: "nat \<Rightarrow> bill_db \<Rightarrow> bill_db" where
  "took n s = s\<lparr>bd_next := bd_next s + n\<rparr>"

section \<open>NUMERIC columns\<close>

text \<open>Rounding half away from zero to \<open>k\<close> decimals, and the double read back.\<close>

definition round_away :: "rat \<Rightarrow> int" where
  "round_away a = (if 0 \<le> a then \<lfloor>a + 1 / 2\<rfloor> else - \<lfloor>1 / 2 - a\<rfloor>)"

definition dec_value :: "nat \<Rightarrow> f64 \<Rightarrow> rat" where
  "dec_value k x = (case x of Fin a \<Rightarrow> of_int (round_away (a * 10 ^ k)) / 10 ^ k | _ \<Rightarrow> 0)"

definition num :: "nat \<Rightarrow> f64 \<Rightarrow> f64" where
  "num k x = (case x of Fin a \<Rightarrow> rnd (dec_value k x) | _ \<Rightarrow> x)"

section \<open>Invoices (invoice\_repo.go)\<close>

record invoice_view =
  vw_invoice :: invoice
  vw_lines :: "line_item list"
  vw_payments :: "bill_payment list"
  vw_paid :: f64
  vw_outstanding :: f64

definition sumConfirmed :: "bill_payment list \<Rightarrow> f64" where
  "sumConfirmed ps = foldl (\<lambda>t p. if bp_status p = BillPaymentConfirmed then fadd t (bp_amount p) else t)
     (Fin 0) ps"

definition clampZero :: "f64 \<Rightarrow> f64" where
  "clampZero f = (if flt f (Fin 0) then Fin 0 else f)"

text \<open>\<^verbatim>\<open>SUM(amount)\<close> over the confirmed payments of an invoice is exact decimal arithmetic.\<close>

definition sql_paid :: "uuid \<Rightarrow> bill_db \<Rightarrow> f64" where
  "sql_paid k s = rnd (sum_list (map (\<lambda>p. dec_value 2 (bp_amount p))
     (filter (\<lambda>p. bp_invoice_id p = k \<and> bp_status p = BillPaymentConfirmed) (bd_payments s))))"

definition stored_invoice :: "invoice \<Rightarrow> invoice" where
  "stored_invoice i = i\<lparr>iv_date := sql_date (iv_date i), iv_due := sql_date (iv_due i),
     iv_subtotal := num 2 (iv_subtotal i), iv_ppn_rate := num 2 (iv_ppn_rate i),
     iv_ppn_amount := num 2 (iv_ppn_amount i), iv_total := num 2 (iv_total i),
     iv_updated_at := iv_created_at i\<rparr>"

definition stored_line :: "line_item \<Rightarrow> line_item" where
  "stored_line l = l\<lparr>li_quantity := num 3 (li_quantity l), li_unit_price := num 2 (li_unit_price l),
     li_amount := num 2 (li_amount l)\<rparr>"

definition item_types :: "string list" where
  "item_types = [''mrc'', ''otc'', ''excess_cable'', ''addon'', ''penalty'', ''credit'', ''milestone'']"

definition invoice_check :: "invoice \<Rightarrow> bool" where
  "invoice_check i \<longleftrightarrow> (case iv_type i of InvoiceTypeOther _ \<Rightarrow> False | _ \<Rightarrow> True)
     \<and> fle (Fin 0) (iv_subtotal i) \<and> fle (Fin 0) (iv_ppn_amount i) \<and> fle (Fin 0) (iv_total i)"

definition line_check :: "line_item \<Rightarrow> bool" where
  "line_check l \<longleftrightarrow> li_item_type l \<in> set item_types \<and> flt (Fin 0) (li_quantity l)"

definition invoice_conflict :: "invoice \<Rightarrow> bill_db \<Rightarrow> bool" where
  "invoice_conflict i s \<longleftrightarrow> (\<exists>q \<in> set (bd_invoices s). iv_id q = iv_id i \<or> iv_number q = iv_number i
     \<or> (iv_type i = InvoiceTypeOTC \<and> iv_type q = InvoiceTypeOTC
        \<and> iv_order_id i \<noteq> None \<and> iv_order_id q = iv_order_id i))"

definition invoices_Create :: "benv \<Rightarrow> invoice \<Rightarrow> line_item list \<Rightarrow> bill_db \<Rightarrow> bill_db res" where
  "invoices_Create E i ls s = bguard E (InvCreate (iv_id i))
    (let si = stored_invoice i; sls = map stored_line ls in
     if \<not> invoice_check si then Inl (check_err ''invoice.create'' ''create invoice'')
     else if invoice_conflict si s then Inl (duplicate_err ''invoice.create'' ''create invoice'')
     else if \<exists>l \<in> set sls. \<not> line_check l then
       Inl (check_err ''invoice.line'' ''create invoice line'')
     else Inr (s\<lparr>bd_invoices := bd_invoices s @ [si], bd_items := bd_items s @ sls\<rparr>))"

definition invoices_UpdateStatus ::
    "benv \<Rightarrow> uuid \<Rightarrow> invoice_status \<Rightarrow> time option \<Rightarrow> bill_db \<Rightarrow> bill_db res" where
  "invoices_UpdateStatus E k st paid s = bguard E (InvUpdateStatus k)
    (case tupdate iv_id (\<lambda>i. i\<lparr>iv_status := st, iv_paid_at := paid, iv_updated_at := be_dbnow E\<rparr>)
       k (bd_invoices s) of
       None \<Rightarrow> Inl (NotFound ''invoice.not_found'' ''invoice not found'')
     | Some rows \<Rightarrow> Inr (s\<lparr>bd_invoices := rows\<rparr>))"

definition linesForInvoice :: "uuid \<Rightarrow> bill_db \<Rightarrow> line_item list" where
  "linesForInvoice k s = order_by li_order (filter (\<lambda>l. li_invoice_id l = k) (bd_items s))"

definition paymentsForInvoice :: "uuid \<Rightarrow> bill_db \<Rightarrow> bill_payment list" where
  "paymentsForInvoice k s = order_by (\<lambda>p. - bp_date p) (filter (\<lambda>p. bp_invoice_id p = k) (bd_payments s))"

definition full_view :: "invoice \<Rightarrow> bill_db \<Rightarrow> invoice_view" where
  "full_view i s =
    (let pays = paymentsForInvoice (iv_id i) s; paid = sumConfirmed pays in
     \<lparr>vw_invoice = i, vw_lines = linesForInvoice (iv_id i) s, vw_payments = pays, vw_paid = paid,
      vw_outstanding = clampZero (fsub (iv_total i) paid)\<rparr>)"

definition invoices_FindByID :: "benv \<Rightarrow> nat \<Rightarrow> uuid \<Rightarrow> bill_db \<Rightarrow> invoice_view res" where
  "invoices_FindByID E n k s = bguard E (InvFind k n)
    (case tfind iv_id k (bd_invoices s) of
       None \<Rightarrow> Inl (NotFound ''invoice.not_found'' ''invoice not found'')
     | Some i \<Rightarrow> Inr (full_view i s))"

text \<open>The view of \<open>FindOTCForOrder\<close> has no lines.\<close>

definition invoices_FindOTCForOrder :: "benv \<Rightarrow> uuid \<Rightarrow> bill_db \<Rightarrow> invoice_view option res" where
  "invoices_FindOTCForOrder E oid s = bguard E (InvFindOTC oid)
    (Inr (case find (\<lambda>i. iv_order_id i = Some oid \<and> iv_type i = InvoiceTypeOTC) (bd_invoices s) of
       None \<Rightarrow> None | Some i \<Rightarrow> Some ((full_view i s)\<lparr>vw_lines := []\<rparr>)))"

definition filter_matches :: "invoice_filter \<Rightarrow> invoice \<Rightarrow> bool" where
  "filter_matches f i \<longleftrightarrow>
     (case fl_status f of None \<Rightarrow> True | Some x \<Rightarrow> iv_status i = x)
   \<and> (case fl_type f of None \<Rightarrow> True | Some x \<Rightarrow> iv_type i = x)
   \<and> (case fl_customer f of None \<Rightarrow> True | Some x \<Rightarrow> iv_customer_id i = x)
   \<and> (case fl_order f of None \<Rightarrow> True | Some x \<Rightarrow> iv_order_id i = Some x)"

text \<open>
  A listed view carries the sums but neither lines nor payments: \<^verbatim>\<open>List\<close> scans the invoice
  columns and backfills \<^verbatim>\<open>PaidAmount\<close> and \<^verbatim>\<open>OutstandingAmount\<close> only.
\<close>

definition list_view :: "bill_db \<Rightarrow> invoice \<Rightarrow> invoice_view" where
  "list_view s i = (let paid = sql_paid (iv_id i) s in
     \<lparr>vw_invoice = i, vw_lines = [], vw_payments = [], vw_paid = paid,
      vw_outstanding = clampZero (fsub (iv_total i) paid)\<rparr>)"

definition invoices_List :: "benv \<Rightarrow> invoice_filter \<Rightarrow> bill_db \<Rightarrow> (invoice_view list \<times> int) res" where
  "invoices_List E f s = bguard E (InvList f)
    (let hits = filter (filter_matches f) (bd_invoices s);
         limit = (if fl_limit f \<le> 0 then 50 else fl_limit f);
         rows = page (nat limit) (nat (fl_offset f)) (order_by (\<lambda>i. - iv_created_at i) hits)
     in Inr (map (list_view s) rows, int (length hits)))"

section \<open>Payments (payment\_repo.go)\<close>

definition payments_Create :: "benv \<Rightarrow> bill_payment \<Rightarrow> bill_db \<Rightarrow> bill_db res" where
  "payments_Create E p s = bguard E (PayCreate (bp_invoice_id p))
    (let sp = p\<lparr>bp_amount := num 2 (bp_amount p), bp_updated_at := bp_created_at p\<rparr> in
     if \<not> flt (Fin 0) (bp_amount sp) then Inl (check_err ''payment.create'' ''create payment'')
     else if \<exists>q \<in> set (bd_payments s). bp_id q = bp_id sp
        \<or> (bp_gateway_txn sp \<noteq> [] \<and> bp_gateway_txn q = bp_gateway_txn sp) then
       Inl (duplicate_err ''payment.create'' ''create payment'')
     else Inr (s\<lparr>bd_payments := bd_payments s @ [sp]\<rparr>))"

definition SumConfirmedForInvoice :: "benv \<Rightarrow> uuid \<Rightarrow> bill_db \<Rightarrow> f64 res" where
  "SumConfirmedForInvoice E k s = bguard E (PaySum k) (Inr (sql_paid k s))"

section \<open>Policy, cycles, commissions\<close>

definition policies_Get :: "benv \<Rightarrow> bill_db \<Rightarrow> policy res" where
  "policies_Get E s = bguard E PolicyGet (case bd_policy s of
      Some p \<Rightarrow> Inr (p\<lparr>po_cycle_anchor_day := 0, po_due_offset_days := 0\<rparr>)
    | None \<Rightarrow> Inr \<lparr>po_late_fee_grace_days = 3, po_late_fee_amount = Fin 25000,
        po_suspend_after_days = 14, po_terminate_after_suspended_days = 30,
        po_notify_customer_days_before = 7, po_updated_by = None, po_updated_at = Date 1 1 1,
        po_cycle_anchor_day = 0, po_due_offset_days = 0\<rparr>)"

definition cycles_ExistsForPeriod :: "benv \<Rightarrow> uuid \<Rightarrow> time \<Rightarrow> bill_db \<Rightarrow> bool res" where
  "cycles_ExistsForPeriod E c start s = bguard E (CycleExists c start)
    (Inr (\<exists>y \<in> set (bd_cycles s). cy_customer_id y = c \<and> cy_start y = sql_date start))"

definition cycles_Create :: "benv \<Rightarrow> billing_cycle \<Rightarrow> bill_db \<Rightarrow> bill_db res" where
  "cycles_Create E c s = bguard E (CycleCreate (cy_customer_id c) (cy_start c))
    (let sc = c\<lparr>cy_start := sql_date (cy_start c), cy_end := sql_date (cy_end c)\<rparr> in
     if \<exists>y \<in> set (bd_cycles s). cy_id y = cy_id sc
        \<or> (cy_customer_id y = cy_customer_id sc \<and> cy_start y = cy_start sc) then
       Inl (duplicate_err ''cycle.create'' ''create billing cycle'')
     else Inr (s\<lparr>bd_cycles := bd_cycles s @ [sc]\<rparr>))"

definition commissions_ExistsForOrder :: "benv \<Rightarrow> uuid \<Rightarrow> bill_db \<Rightarrow> bool res" where
  "commissions_ExistsForOrder E oid s = bguard E (CommExists oid)
    (Inr (\<exists>c \<in> set (bd_commissions s). cm_order_id c = oid))"

definition commissions_Create :: "benv \<Rightarrow> commission_record \<Rightarrow> bill_db \<Rightarrow> bill_db res" where
  "commissions_Create E c s = bguard E (CommCreate (cm_order_id c) (cm_party c))
    (let sc = c\<lparr>cm_amount := num 2 (cm_amount c), cm_percentage := num 2 (cm_percentage c),
               cm_base := num 2 (cm_base c)\<rparr> in
     if \<not> fle (Fin 0) (cm_amount sc) \<or> \<not> fle (Fin 0) (cm_percentage sc)
        \<or> \<not> fle (cm_percentage sc) (Fin 100) then
       Inl (check_err ''commission.create'' ''create commission record'')
     else if \<exists>q \<in> set (bd_commissions s). cm_id q = cm_id sc
        \<or> (cm_order_id q = cm_order_id sc \<and> cm_party q = cm_party sc) then
       Inl (duplicate_err ''commission.create'' ''create commission record'')
     else Inr (s\<lparr>bd_commissions := bd_commissions s @ [sc]\<rparr>))"

section \<open>Terminations and rewards\<close>

text \<open>\<^verbatim>\<open>UNIQUE (customer_id, kind, status)\<close> of \<^verbatim>\<open>migrations/0015_billing_r3.up.sql\<close>.\<close>

definition term_conflict :: "termination_request \<Rightarrow> bill_db \<Rightarrow> bool" where
  "term_conflict t s \<longleftrightarrow> (\<exists>q \<in> set (bd_terms s). tr_id q \<noteq> tr_id t \<and> tr_customer_id q = tr_customer_id t
     \<and> tr_kind q = tr_kind t \<and> tr_status q = tr_status t)"

definition terms_Create :: "benv \<Rightarrow> termination_request \<Rightarrow> bill_db \<Rightarrow> bill_db res" where
  "terms_Create E t s = bguard E (TermCreate (tr_customer_id t))
    (if (\<exists>q \<in> set (bd_terms s). tr_id q = tr_id t) \<or> term_conflict t s then
       Inl (duplicate_err ''termination.create'' ''create termination request'')
     else Inr (s\<lparr>bd_terms := bd_terms s @ [t\<lparr>tr_penalty := num 2 (tr_penalty t),
                  tr_outstanding := num 2 (tr_outstanding t)\<rparr>]\<rparr>))"

definition terms_Update :: "benv \<Rightarrow> termination_request \<Rightarrow> bill_db \<Rightarrow> bill_db res" where
  "terms_Update E t s = bguard E (TermUpdate (tr_id t))
    (case tfind tr_id (tr_id t) (bd_terms s) of
       None \<Rightarrow> Inl (NotFound ''termination.not_found'' ''termination request not found'')
     | Some old \<Rightarrow>
         if term_conflict (old\<lparr>tr_status := tr_status t\<rparr>) s then
           Inl (duplicate_err ''termination.update'' ''update termination request'')
         else Inr (s\<lparr>bd_terms := map (\<lambda>q. if tr_id q = tr_id t
             then q\<lparr>tr_status := tr_status t, tr_final_invoice_id := tr_final_invoice_id t,
                    tr_penalty := num 2 (tr_penalty t), tr_outstanding := num 2 (tr_outstanding t),
                    tr_wo_id := tr_wo_id t, tr_completed_at := tr_completed_at t,
                    tr_notes := tr_notes t\<rparr> else q) (bd_terms s)\<rparr>))"

definition terms_FindByID :: "benv \<Rightarrow> uuid \<Rightarrow> bill_db \<Rightarrow> termination_request res" where
  "terms_FindByID E k s = bguard E (TermFind k)
    (case tfind tr_id k (bd_terms s) of
       None \<Rightarrow> Inl (NotFound ''termination.not_found'' ''termination request not found'')
     | Some t \<Rightarrow> Inr t)"

definition terms_FindByWOID :: "benv \<Rightarrow> uuid \<Rightarrow> bill_db \<Rightarrow> termination_request option res" where
  "terms_FindByWOID E wo s = bguard E (TermFindByWO wo)
    (Inr (case order_by (\<lambda>t. - tr_requested_at t) (filter (\<lambda>t. tr_wo_id t = Some wo) (bd_terms s)) of
       [] \<Rightarrow> None | t # _ \<Rightarrow> Some t))"

definition term_open :: "termination_request \<Rightarrow> bool" where
  "term_open t \<longleftrightarrow> tr_status t \<notin> {TerminationStatusCompleted, TerminationStatusCancelled}"

definition terms_FindOpenForCustomer :: "benv \<Rightarrow> uuid \<Rightarrow> bill_db \<Rightarrow> termination_request option res" where
  "terms_FindOpenForCustomer E c s = bguard E (TermOpen c)
    (Inr (case order_by (\<lambda>t. - tr_requested_at t)
         (filter (\<lambda>t. tr_customer_id t = c \<and> term_open t) (bd_terms s)) of
       [] \<Rightarrow> None | t # _ \<Rightarrow> Some t))"

definition rewards_ExistsForReferral :: "benv \<Rightarrow> uuid \<Rightarrow> bill_db \<Rightarrow> bool res" where
  "rewards_ExistsForReferral E r s = bguard E (RewardExists r)
    (Inr (\<exists>x \<in> set (bd_rewards s). rr_referral_id x = r))"

definition rewards_Create :: "benv \<Rightarrow> referral_reward \<Rightarrow> bill_db \<Rightarrow> bill_db res" where
  "rewards_Create E x s = bguard E (RewardCreate (rr_referral_id x))
    (if \<exists>q \<in> set (bd_rewards s). rr_id q = rr_id x \<or> rr_referral_id q = rr_referral_id x then
       Inl (duplicate_err ''referral.create'' ''create referral reward'')
     else Inr (s\<lparr>bd_rewards := bd_rewards s @ [x\<lparr>rr_amount := num 2 (rr_amount x)\<rparr>]\<rparr>))"

section \<open>The CRM gateway (adapter/crm/gateway.go)\<close>

record recurring_order =
  ro_order_id :: uuid
  ro_customer_id :: uuid
  ro_customer_status :: string
  ro_monthly_price :: f64
  ro_activated_at :: "time option"
  ro_sales_id :: "uuid option"
  ro_branch_id :: "uuid option"

definition recurring_row :: "crm_order \<Rightarrow> crm_customer \<Rightarrow> time \<Rightarrow> recurring_order" where
  "recurring_row o1 c activated = \<lparr>ro_order_id = co_id o1, ro_customer_id = co_customer_id o1,
     ro_customer_status = cc_status c, ro_monthly_price = co_monthly_price o1,
     ro_activated_at = Some activated, ro_sales_id = co_sales_id o1, ro_branch_id = co_branch_id o1\<rparr>"

definition ActiveOrdersForRecurring :: "benv \<Rightarrow> nat \<Rightarrow> bill_db \<Rightarrow> recurring_order list res" where
  "ActiveOrdersForRecurring E n s = bguard E (CrmActiveOrders n)
    (Inr (concat (map (\<lambda>o1. case tfind cc_id (co_customer_id o1) (bd_customers s) of
        None \<Rightarrow> []
      | Some c \<Rightarrow> if cc_status c = ''active'' then
            [recurring_row o1 c (case be_verified E (co_id o1) of Some t \<Rightarrow> t | None \<Rightarrow> cc_created_at c)]
          else []) (bd_orders s))))"

definition OrderWithCustomer :: "benv \<Rightarrow> uuid \<Rightarrow> bill_db \<Rightarrow> recurring_order res" where
  "OrderWithCustomer E oid s = bguard E (CrmOrder oid)
    (case tfind co_id oid (bd_orders s) of
       None \<Rightarrow> Inl (NotFound ''order.not_found'' ''order not found'')
     | Some o1 \<Rightarrow> (case tfind cc_id (co_customer_id o1) (bd_customers s) of
         None \<Rightarrow> Inl (NotFound ''order.not_found'' ''order not found'')
       | Some c \<Rightarrow> Inr (recurring_row o1 c (cc_created_at c))))"

definition set_status :: "time \<Rightarrow> string \<Rightarrow> string \<Rightarrow> crm_customer \<Rightarrow> crm_customer" where
  "set_status dbnow status reason c =
    (if status = ''suspended'' then
       c\<lparr>cc_status := status, cc_suspended_at := Some dbnow, cc_suspend_reason := Some reason\<rparr>
     else if status = ''active'' then
       c\<lparr>cc_status := status, cc_suspended_at := None, cc_suspend_reason := None\<rparr>
     else if status = ''terminated'' then
       c\<lparr>cc_status := status, cc_terminated_at := Some dbnow, cc_suspend_reason := Some reason\<rparr>
     else c\<lparr>cc_status := status\<rparr>)"

definition SetCustomerStatus :: "benv \<Rightarrow> uuid \<Rightarrow> string \<Rightarrow> string \<Rightarrow> bill_db \<Rightarrow> bill_db res" where
  "SetCustomerStatus E k status reason s = bguard E (CrmSetStatus k status)
    (case tupdate cc_id (set_status (be_dbnow E) status reason) k (bd_customers s) of
       None \<Rightarrow> Inl (NotFound ''customer.not_found'' ''customer not found'')
     | Some rows \<Rightarrow> Inr (s\<lparr>bd_customers := rows\<rparr>))"

text \<open>The latest order of a customer (the LATERAL join).\<close>

definition latest_order :: "uuid \<Rightarrow> bill_db \<Rightarrow> crm_order option" where
  "latest_order k s = (case order_by (\<lambda>x. - co_created_at x)
       (filter (\<lambda>x. co_customer_id x = k) (bd_orders s)) of [] \<Rightarrow> None | x # _ \<Rightarrow> Some x)"

record suspended_customer =
  sc_customer_id :: uuid
  sc_suspended_at :: "time option"
  sc_order_id :: "uuid option"

definition SuspendedCustomers :: "benv \<Rightarrow> nat \<Rightarrow> bill_db \<Rightarrow> suspended_customer list res" where
  "SuspendedCustomers E n s = bguard E (CrmSuspended n)
    (Inr (map (\<lambda>c. \<lparr>sc_customer_id = cc_id c, sc_suspended_at = cc_suspended_at c,
        sc_order_id = map_option co_id (latest_order (cc_id c) s)\<rparr>)
      (filter (\<lambda>c. cc_status c = ''suspended'') (bd_customers s))))"

record customer_summary =
  sm_customer_id :: uuid
  sm_order_id :: "uuid option"
  sm_status :: string
  sm_address :: string
  sm_lock_in_until :: "time option"
  sm_monthly_price :: f64

definition CustomerSummary :: "benv \<Rightarrow> uuid \<Rightarrow> bill_db \<Rightarrow> customer_summary res" where
  "CustomerSummary E k s = bguard E (CrmSummary k)
    (case tfind cc_id k (bd_customers s) of
       None \<Rightarrow> Inl (NotFound ''customer.not_found'' ''customer not found'')
     | Some c \<Rightarrow> (let x = latest_order k s in
         Inr \<lparr>sm_customer_id = k, sm_order_id = map_option co_id x, sm_status = cc_status c,
              sm_address = cc_address c,              sm_lock_in_until = cc_lock_in_until c,
              sm_monthly_price = (case x of None \<Rightarrow> Fin 0 | Some y \<Rightarrow> co_monthly_price y)\<rparr>))"

definition ReferralForReferee :: "benv \<Rightarrow> uuid \<Rightarrow> bill_db \<Rightarrow> crm_referral option res" where
  "ReferralForReferee E k s = bguard E (CrmReferral k)
    (Inr (find (\<lambda>r. rf_referee r = k) (bd_referrals s)))"

definition ActiveAddonsForCustomer :: "benv \<Rightarrow> uuid \<Rightarrow> bill_db \<Rightarrow> crm_addon list res" where
  "ActiveAddonsForCustomer E k s = bguard E (CrmAddons k)
    (Inr (filter (\<lambda>a. ca_customer_id a = k \<and> ca_status a = ''active'') (bd_addons s)))"

end
