(* ===== verification/BillingPeriods.thy ===== *)
theory BillingPeriods
  imports Calendar
begin

text \<open>
  The billing periods of \<^verbatim>\<open>internal/billing/usecase/r2.go\<close> (\<open>cyclePeriod\<close>,
  \<open>anniversaryPeriod\<close>, \<open>anchor\<close>) and the month difference of \<^verbatim>\<open>r3.go\<close>. A period starts at
  the anchor of a month, the anchor day clamped to the length of the month. The periods of one
  anchor day are pairwise disjoint, cover the time line, and every instant of a period computes
  the same period.
\<close>

section \<open>The code\<close>

definition anchor :: "int \<Rightarrow> int \<Rightarrow> int \<Rightarrow> time" where
  "anchor year month d =
    (let t = Date year month 1;
         maxDay = Day (AddDate 0 1 (- 1) t);
         d1 = (if d > maxDay then maxDay else d);
         d2 = (if d1 < 1 then 1 else d1)
     in Date (Year t) (Month t) d2)"

definition cyclePeriod :: "time \<Rightarrow> time option \<Rightarrow> int \<Rightarrow> time \<times> time" where
  "cyclePeriod now activatedAt anchorDay =
    (if anchorDay \<le> 0 \<and> activatedAt = None then
       let start = Date (Year now) (Month now) 1 in (start, AddDate 0 1 0 start - 24 * HOUR)
     else
       let d = (if anchorDay \<le> 0 then Day (the activatedAt) else anchorDay);
           c0 = anchor (Year now) (Month now) d;
           candidate = (if c0 > now then anchor (Year now) (Month now - 1) d else c0);
           next = anchor (Year candidate) (Month candidate + 1) d
       in (candidate, next - 24 * HOUR))"

definition anniversaryPeriod :: "time \<Rightarrow> time option \<Rightarrow> time \<times> time" where
  "anniversaryPeriod now activatedAt = cyclePeriod now activatedAt 0"

definition monthsBetween :: "time \<Rightarrow> time \<Rightarrow> int" where
  "monthsBetween a b =
    (if \<not> b > a then 0
     else let years = Year b - Year a; months = Month b - Month a in years * 12 + months)"

section \<open>Anchors by month\<close>

definition anchor_at :: "int \<Rightarrow> int \<Rightarrow> time" where
  "anchor_at k d = (mstart k + (max 1 (min d (mlen k)) - 1)) * DAY"

lemma day_of_anchor_at: "day_of (anchor_at k d) = mstart k + (max 1 (min d (mlen k)) - 1)"
  unfolding anchor_at_def by (rule day_of_midnight)

lemma clamp_bounds: "1 \<le> max 1 (min d (mlen k))" "max 1 (min d (mlen k)) \<le> mlen k"
  using mlen_bounds(1)[of k] by auto

lemma month_of_anchor_at: "month_of (day_of (anchor_at k d)) = k"
  unfolding day_of_anchor_at using clamp_bounds[of d k]
  by (intro month_of_unique) (simp_all add: mstart_Suc)

lemma Day_anchor_at: "Day (anchor_at k d) = max 1 (min d (mlen k))"
  unfolding Day_def month_of_anchor_at unfolding day_of_anchor_at by simp

lemma anchor_eq: "anchor y m d = anchor_at (12 * y + (m - 1)) d"
proof -
  define k where "k = 12 * y + (m - 1)"
  define t where "t = Date y m 1"
  have "1 \<le> mlen (12 * y + (m - 1))" using mlen_bounds(1)[of "12 * y + (m - 1)"] by linarith
  then have D: "day_of t = mstart k + (1 - 1)" "month_of (day_of t) = k" "Day t = 1"
    using Date_parts[of 1 y m] unfolding t_def k_def by blast+
  then have t: "day_of t = mstart k" "month_of (day_of t) = k" "Day t = 1" by (simp_all only: diff_self add_0_right)
  have mid: "t mod DAY = 0" unfolding t_def Date_def by (rule mod_mult_self2_is_0)
  have "AddDate 0 1 (- 1) t = (mstart (k + 1) - 1) * DAY"
    using t(1,2) unfolding AddDate_months t mid by simp
  then have d: "day_of (AddDate 0 1 (- 1) t) = mstart (k + 1) - 1" by (simp only: day_of_midnight)
  have "month_of (mstart (k + 1) - 1) = k"
    by (rule month_of_unique) (use mlen_bounds(1)[of k] in \<open>simp_all add: mstart_Suc\<close>)
  then have "Day (AddDate 0 1 (- 1) t) = mlen k" unfolding Day_def d by (simp add: mstart_Suc)
  moreover have "(if (if d > L then L else d) < 1 then 1 else (if d > L then L else d)) = max 1 (min d L)"
    for L :: int by simp
  ultimately have "anchor y m d = Date (Year t) (Month t) (max 1 (min d (mlen k)))"
    unfolding anchor_def Let_def by (simp only: flip: t_def)
  also have "\<dots> = anchor_at k d"
    unfolding Date_def anchor_at_def using Year_Month[of t] unfolding t(2) by simp
  finally show ?thesis unfolding k_def .
qed

lemma clamp_step:
  fixes m n d :: int
  assumes "28 \<le> m" "m \<le> 31" "28 \<le> n" "n \<le> 31"
  shows "max 1 (min d m) + 28 \<le> m + max 1 (min d n) \<and> m + max 1 (min d n) \<le> max 1 (min d m) + 31"
  using assms unfolding max_def min_def by (cases "d \<le> m"; cases "d \<le> n"; cases "1 \<le> d") simp_all

lemma anchor_at_Suc: "anchor_at k d + 28 * DAY \<le> anchor_at (k + 1) d"
  "anchor_at (k + 1) d \<le> anchor_at k d + 31 * DAY"
proof -
  have "mstart k + max 1 (min d (mlen k)) + 28 \<le> mstart (k + 1) + max 1 (min d (mlen (k + 1)))
    \<and> mstart (k + 1) + max 1 (min d (mlen (k + 1))) \<le> mstart k + max 1 (min d (mlen k)) + 31"
    using clamp_step[OF mlen_bounds[of k] mlen_bounds[of "k + 1"], of d] unfolding mstart_Suc by linarith
  then show "anchor_at k d + 28 * DAY \<le> anchor_at (k + 1) d"
    "anchor_at (k + 1) d \<le> anchor_at k d + 31 * DAY"
    by (simp_all add: anchor_at_def)
qed

lemma anchor_at_add: "anchor_at k d \<le> anchor_at (k + int n) d"
proof (induction n)
  case (Suc n)
  then show ?case using anchor_at_Suc(1)[of "k + int n" d] by (simp add: add.assoc add.commute[of 1])
qed simp

lemma anchor_at_mono: "j \<le> k \<Longrightarrow> anchor_at j d \<le> anchor_at k d"
  using anchor_at_add[of j d "nat (k - j)"] by simp

section \<open>Periods by month\<close>

definition cycle_day :: "time option \<Rightarrow> int \<Rightarrow> int" where
  "cycle_day act a = (if a \<le> 0 then (case act of None \<Rightarrow> 1 | Some t \<Rightarrow> Day t) else a)"

definition cycle_month :: "time \<Rightarrow> int \<Rightarrow> int" where
  "cycle_month now d = (let k = month_of (day_of now) in if anchor_at k d > now then k - 1 else k)"

lemma cycle_month_bounds: "anchor_at (cycle_month now d) d \<le> now"
  "now < anchor_at (cycle_month now d + 1) d"
proof -
  define k where "k = month_of (day_of now)"
  have a: "mstart k \<le> day_of now" "day_of now < mstart (k + 1)"
    using month_of_bounds[of "day_of now"] by (simp_all add: k_def)
  have "(mstart (k + 1)) * DAY \<le> anchor_at (k + 1) d"
    unfolding anchor_at_def using clamp_bounds(1)[of d "k + 1"] by simp
  moreover have "(day_of now + 1) * DAY \<le> mstart (k + 1) * DAY"
    using a(2) by (intro mult_right_mono) simp_all
  moreover have "now < (day_of now + 1) * DAY" using day_of_bounds(2)[of now] by (simp only: distrib_right mult_1)
  ultimately have hi: "now < anchor_at (k + 1) d" by linarith
  have "anchor_at (k - 1) d \<le> (mstart k - 1) * DAY"
    unfolding anchor_at_def using clamp_bounds(2)[of d "k - 1"] mstart_Suc[of "k - 1"]
    by (intro mult_right_mono) simp_all
  moreover have "(mstart k - 1) * DAY \<le> day_of now * DAY" using a(1) by (intro mult_right_mono) simp_all
  ultimately have lo: "anchor_at (k - 1) d \<le> now" using day_of_bounds(1)[of now] by linarith
  show "anchor_at (cycle_month now d) d \<le> now" "now < anchor_at (cycle_month now d + 1) d"
    using lo hi by (simp_all add: cycle_month_def Let_def flip: k_def)
qed

lemma cycle_month_unique:
  assumes "anchor_at k d \<le> now" "now < anchor_at (k + 1) d"
  shows "cycle_month now d = k"
proof (rule ccontr)
  assume "cycle_month now d \<noteq> k"
  then consider "cycle_month now d + 1 \<le> k" | "k + 1 \<le> cycle_month now d" by linarith
  then show False
    by cases (use assms cycle_month_bounds[of now d] anchor_at_mono in \<open>meson leD order_trans less_le_trans\<close>)+
qed

lemma anchor_next: "anchor (Year (anchor_at k d)) (Month (anchor_at k d) + 1) d' = anchor_at (k + 1) d'"
  using Year_Month[of "anchor_at k d"] unfolding anchor_eq month_of_anchor_at
  by (intro arg_cong2[where f = anchor_at] refl) linarith

lemma cyclePeriod_eq: "cyclePeriod now act a =
    (let d = cycle_day act a; k = cycle_month now d in (anchor_at k d, anchor_at (k + 1) d - DAY))"
proof -
  define K where "K = month_of (day_of now)"
  have ym: "12 * Year now + (Month now - 1) = K" using Year_Month[of now] by (simp add: K_def)
  show ?thesis
  proof (cases "a \<le> 0 \<and> act = None")
    case True
    define start where "start = Date (Year now) (Month now) 1"
    have one: "max 1 (min 1 (mlen j)) = 1" for j using mlen_bounds(1)[of j] by simp
    have st: "start = anchor_at K 1" unfolding start_def Date_def anchor_at_def one ym ..
    have k: "cycle_month now 1 = K"
    proof -
      have "mstart K * DAY \<le> day_of now * DAY"
        using month_of_bounds(1)[of "day_of now"] by (intro mult_right_mono) (simp_all add: K_def)
      then have "anchor_at K 1 \<le> now" unfolding anchor_at_def one using day_of_bounds(1)[of now] by simp
      then show ?thesis by (simp add: cycle_month_def Let_def flip: K_def)
    qed
    have mid: "start mod DAY = 0" unfolding start_def Date_def by (rule mod_mult_self2_is_0)
    have "AddDate 0 1 0 start = anchor_at (K + 1) 1"
      unfolding AddDate_months mid unfolding st month_of_anchor_at Day_anchor_at one
      by (simp add: anchor_at_def one)
    then show ?thesis
      using True k st by (simp add: cyclePeriod_def cycle_day_def Let_def flip: start_def)
  next
    case False
    define d where "d = cycle_day act a"
    have d: "(if a \<le> 0 then Day (the act) else a) = d" using False by (auto simp: d_def cycle_day_def)
    have prev: "anchor (Year now) (Month now - 1) d = anchor_at (K - 1) d"
      unfolding anchor_eq using ym by (intro arg_cong2[where f = anchor_at] refl) linarith
    have cur: "anchor (Year now) (Month now) d = anchor_at K d" unfolding anchor_eq ym ..
    have cand: "(if anchor (Year now) (Month now) d > now then anchor (Year now) (Month now - 1) d
        else anchor (Year now) (Month now) d) = anchor_at (cycle_month now d) d"
      unfolding prev cur by (simp add: cycle_month_def Let_def flip: K_def)
    have "cyclePeriod now act a = (let candidate = anchor_at (cycle_month now d) d;
        next = anchor (Year candidate) (Month candidate + 1) d in (candidate, next - 24 * HOUR))"
      using False unfolding cyclePeriod_def Let_def d cand by (simp only: if_False)
    then show ?thesis by (simp add: Let_def anchor_next flip: d_def)
  qed
qed

lemma cyclePeriod_step:
  assumes "cyclePeriod now act a = (s, e)"
  obtains k where "s = anchor_at k (cycle_day act a)" "e + DAY = anchor_at (k + 1) (cycle_day act a)"
    "k = cycle_month now (cycle_day act a)"
  using assms that by (auto simp: cyclePeriod_eq Let_def)

lemma cyclePeriod_at:
  assumes "anchor_at k (cycle_day act a) \<le> t" "t < anchor_at (k + 1) (cycle_day act a)"
  shows "cyclePeriod t act a = (anchor_at k (cycle_day act a), anchor_at (k + 1) (cycle_day act a) - DAY)"
  using cycle_month_unique[OF assms] by (simp add: cyclePeriod_eq Let_def)

lemma cyclePeriod_contains: "cyclePeriod now act a = (s, e) \<Longrightarrow> s \<le> now \<and> now < e + DAY"
  using cycle_month_bounds[of now "cycle_day act a"] by (elim cyclePeriod_step) simp

lemma cyclePeriod_const:
  assumes "cyclePeriod now act a = (s, e)" "s \<le> t" "t < e + DAY"
  shows "cyclePeriod t act a = (s, e)"
proof -
  from assms(1) obtain k where k: "s = anchor_at k (cycle_day act a)"
    "e + DAY = anchor_at (k + 1) (cycle_day act a)" by (rule cyclePeriod_step)
  then have "cyclePeriod t act a = (anchor_at k (cycle_day act a), anchor_at (k + 1) (cycle_day act a) - DAY)"
    using assms(2,3) by (intro cyclePeriod_at) simp_all
  with k show ?thesis by (simp add: eq_diff_eq)
qed

lemma cyclePeriod_next:
  assumes "cyclePeriod now act a = (s, e)"
  shows "fst (cyclePeriod (e + DAY) act a) = e + DAY"
proof -
  from assms obtain k where k: "e + DAY = anchor_at (k + 1) (cycle_day act a)" by (rule cyclePeriod_step)
  have "cyclePeriod (e + DAY) act a =
      (anchor_at (k + 1) (cycle_day act a), anchor_at (k + 1 + 1) (cycle_day act a) - DAY)"
    unfolding k using anchor_at_Suc(1)[of "k + 1" "cycle_day act a"] by (intro cyclePeriod_at) simp_all
  then show ?thesis by (simp add: k)
qed

lemma cyclePeriod_length:
  assumes "cyclePeriod now act a = (s, e)"
  shows "28 * DAY \<le> e + DAY - s \<and> e + DAY - s \<le> 31 * DAY"
proof -
  from assms obtain k where k: "s = anchor_at k (cycle_day act a)"
    "e + DAY = anchor_at (k + 1) (cycle_day act a)" by (rule cyclePeriod_step)
  show ?thesis unfolding k using anchor_at_Suc[of k "cycle_day act a"] by simp
qed

text \<open>The first day of a period is the anchor day, clamped to the month.\<close>

lemma cyclePeriod_day:
  assumes "cyclePeriod now act a = (s, e)"
  shows "Day s = max 1 (min (cycle_day act a) (mlen (month_of (day_of s))))"
proof -
  from assms obtain k where k: "s = anchor_at k (cycle_day act a)" by (rule cyclePeriod_step)
  show ?thesis unfolding k month_of_anchor_at by (rule Day_anchor_at)
qed

lemma monthsBetween_eq: "monthsBetween a b = max 0 (month_of (day_of b) - month_of (day_of a))"
proof (cases "b > a")
  case True
  then have "month_of (day_of a) \<le> month_of (day_of b)" by (intro month_of_mono day_of_mono) simp
  moreover have "(Year b - Year a) * 12 + (Month b - Month a) = month_of (day_of b) - month_of (day_of a)"
    using Year_Month[of a] Year_Month[of b] unfolding left_diff_distrib by linarith
  ultimately show ?thesis using True by (simp add: monthsBetween_def Let_def)
next
  case False
  then have "month_of (day_of b) \<le> month_of (day_of a)" by (intro month_of_mono day_of_mono) simp
  with False show ?thesis by (simp add: monthsBetween_def)
qed

end
