(* ===== verification/BillingSvc.thy ===== *)
theory BillingSvc
  imports BillingRepo BillingPeriods
begin

text \<open>
  The billing service (\<^verbatim>\<open>internal/billing/usecase/service.go\<close>, \<^verbatim>\<open>r2.go\<close>, \<^verbatim>\<open>r3.go\<close>) outside the
  scheduler: invoices and payments, the commission split and the referral reward that hang off
  the payment of an installation invoice, and terminations. The service is the fully wired one
  of \<^verbatim>\<open>cmd/billing-svc/main.go\<close>, so the branches for absent repositories do not occur. An
  operation returns its result and the state it leaves, also when it fails.
\<close>

section \<open>Invoices (service.go)\<close>

record line_input =
  ln_description :: string
  ln_item_type :: string
  ln_quantity :: f64
  ln_unit_price :: f64

record create_invoice_input =
  ci_customer_id :: uuid
  ci_order_id :: "uuid option"
  ci_type :: invoice_type
  ci_lines :: "line_input list"
  ci_ppn_rate :: f64
  ci_due :: time
  ci_notes :: string
  ci_created_by :: "uuid option"
  ci_issue :: bool

definition input_line :: "line_input \<Rightarrow> line_item" where
  "input_line l =
    (let amt = fmul (ln_unit_price l) (ln_quantity l);
         amt' = (if feq (ln_quantity l) (Fin 0) then ln_unit_price l else amt)
     in \<lparr>li_id = Nil_uuid, li_invoice_id = Nil_uuid, li_order = 0,
         li_description = ln_description l, li_item_type = ln_item_type l,
         li_quantity = ln_quantity l, li_unit_price = ln_unit_price l, li_amount = amt'\<rparr>)"

definition CreateInvoice :: "benv \<Rightarrow> create_invoice_input \<Rightarrow> bill_db \<Rightarrow> invoice_view res \<times> bill_db" where
  "CreateInvoice E x s =
    (let lines = map input_line (ci_lines x) in
     case NewInvoice (\<lambda>i. be_fresh E (bd_next s + i)) (be_now E) (ci_customer_id x) (ci_order_id x)
         (ci_type x) lines (ci_ppn_rate x) (ci_due x) (ci_created_by x) (ci_notes x) of
       Inl e \<Rightarrow> (Inl e, s)
     | Inr (inv0, persist) \<Rightarrow>
         let s1 = took (length lines + 2) s in
         (case (if ci_issue x then Issue (be_now E) inv0 else Inr inv0) of
            Inl e \<Rightarrow> (Inl e, s1)
          | Inr iv \<Rightarrow> (case invoices_Create E iv persist s1 of
              Inl e \<Rightarrow> (Inl e, s1)
            | Inr s2 \<Rightarrow> (invoices_FindByID E 0 (iv_id iv) s2, s2))))"

definition IssueInvoice :: "benv \<Rightarrow> uuid \<Rightarrow> bill_db \<Rightarrow> invoice_view res \<times> bill_db" where
  "IssueInvoice E k s =
    (case invoices_FindByID E 0 k s of
       Inl e \<Rightarrow> (Inl e, s)
     | Inr v \<Rightarrow> (case Issue (be_now E) (vw_invoice v) of
         Inl e \<Rightarrow> (Inl e, s)
       | Inr iv \<Rightarrow> (case invoices_UpdateStatus E k (iv_status iv) None s of
           Inl e \<Rightarrow> (Inl e, s)
         | Inr s1 \<Rightarrow> (invoices_FindByID E 1 k s1, s1))))"

definition CancelInvoice :: "benv \<Rightarrow> uuid \<Rightarrow> bill_db \<Rightarrow> invoice_view res \<times> bill_db" where
  "CancelInvoice E k s =
    (case invoices_FindByID E 0 k s of
       Inl e \<Rightarrow> (Inl e, s)
     | Inr v \<Rightarrow> (case Cancel (be_now E) (vw_invoice v) of
         Inl e \<Rightarrow> (Inl e, s)
       | Inr iv \<Rightarrow> (case invoices_UpdateStatus E k (iv_status iv) None s of
           Inl e \<Rightarrow> (Inl e, s)
         | Inr s1 \<Rightarrow> (invoices_FindByID E 1 k s1, s1))))"

definition IsOrderOTCPaid :: "benv \<Rightarrow> uuid \<Rightarrow> bill_db \<Rightarrow> bool res" where
  "IsOrderOTCPaid E oid s =
    (case invoices_FindOTCForOrder E oid s of
       Inl e \<Rightarrow> Inl e
     | Inr None \<Rightarrow> Inr True
     | Inr (Some v) \<Rightarrow> Inr (iv_status (vw_invoice v) = InvoiceStatusPaid))"

section \<open>Commissions (r2.go)\<close>

definition schema_body :: "benv \<Rightarrow> uuid \<Rightarrow> string \<Rightarrow> body option" where
  "schema_body E k kind = load_body (be_schema E k kind)"

definition resolveCommissionSplit :: "benv \<Rightarrow> uuid \<Rightarrow> commission_split" where
  "resolveCommissionSplit E k = resolvedCommissionFor (schema_body E k ''commission'')"

definition mk_commission :: "uuid \<Rightarrow> time \<Rightarrow> recurring_order \<Rightarrow> uuid \<Rightarrow> uuid \<Rightarrow> party_type \<Rightarrow> f64 \<Rightarrow>
    uuid option \<Rightarrow> uuid option \<Rightarrow> string \<Rightarrow> commission_record" where
  "mk_commission fresh now ord payment_id invoice_id party pct user_id branch_id notes =
    (let base = ro_monthly_price ord in
     \<lparr>cm_id = fresh, cm_order_id = ro_order_id ord, cm_customer_id = ro_customer_id ord,
      cm_invoice_id = Some invoice_id, cm_payment_id = Some payment_id, cm_party = party,
      cm_user_id = user_id, cm_branch_id = branch_id,
      cm_amount = round2 (fdiv (fmul base pct) (Fin 100)), cm_percentage = pct, cm_base = base,
      cm_notes = notes, cm_created_at = now\<rparr>)"

text \<open>The shares in the order of the code; each row gets the next fresh identifier.\<close>

definition commission_shares :: "recurring_order \<Rightarrow> uuid option \<Rightarrow> uuid option \<Rightarrow> bool \<Rightarrow>
    commission_split \<Rightarrow> (party_type \<times> f64 \<times> uuid option \<times> uuid option \<times> string) list" where
  "commission_shares ord manager_id sales_branch cross split =
    (let infra0 = cs_branch_infra split; company0 = cs_holding split;
         company = (if \<not> cross then fadd company0 infra0 else company0);
         infra = (if \<not> cross then Fin 0 else infra0)
     in [(PartySalesPerson, cs_rep split, ro_sales_id ord, None, [])]
      @ (if manager_id \<noteq> None then
           [(PartySalesManager, cs_mgr split, manager_id, None, ''via reports_to walk'')] else [])
      @ (if sales_branch \<noteq> None then
           [(PartySalesBranch, cs_branch_sales split, None, sales_branch, [])] else [])
      @ (if cross \<and> ro_branch_id ord \<noteq> None then
           [(PartyInfrastructureBranch, infra, None, ro_branch_id ord, ''cross-branch installation'')]
         else [])
      @ [(PartyCompany, company, None, None,
           if \<not> cross then ''residual + infra (same-branch)'' else ''residual'')])"

fun commission_rows :: "(nat \<Rightarrow> uuid) \<Rightarrow> time \<Rightarrow> recurring_order \<Rightarrow> uuid \<Rightarrow> uuid \<Rightarrow> nat \<Rightarrow>
    (party_type \<times> f64 \<times> uuid option \<times> uuid option \<times> string) list \<Rightarrow> commission_record list" where
  "commission_rows fresh now ord pay_id inv_id i [] = []"
| "commission_rows fresh now ord pay_id inv_id i ((party, pct, user, branch, notes) # rest) =
     mk_commission (fresh i) now ord pay_id inv_id party pct user branch notes
     # commission_rows fresh now ord pay_id inv_id (Suc i) rest"

definition buildCommissionRowsWithSplit :: "(nat \<Rightarrow> uuid) \<Rightarrow> time \<Rightarrow> recurring_order \<Rightarrow> uuid \<Rightarrow> uuid \<Rightarrow>
    uuid option \<Rightarrow> uuid option \<Rightarrow> bool \<Rightarrow> commission_split \<Rightarrow> commission_record list" where
  "buildCommissionRowsWithSplit fresh now ord pay_id inv_id manager_id sales_branch cross split =
     commission_rows fresh now ord pay_id inv_id 0
       (commission_shares ord manager_id sales_branch cross split)"

text \<open>Each row is written on its own; a failing write is logged and the loop goes on.\<close>

fun create_commissions :: "benv \<Rightarrow> commission_record list \<Rightarrow> bill_db \<Rightarrow> bill_db" where
  "create_commissions E [] s = s"
| "create_commissions E (c # cs) s =
     create_commissions E cs (case commissions_Create E c s of Inl _ \<Rightarrow> s | Inr s1 \<Rightarrow> s1)"

definition maybeApplyCommission :: "benv \<Rightarrow> invoice_view \<Rightarrow> bill_payment \<Rightarrow> bill_db \<Rightarrow> bill_db" where
  "maybeApplyCommission E v p s =
    (case iv_order_id (vw_invoice v) of
       None \<Rightarrow> s
     | Some oid \<Rightarrow>
         if iv_type (vw_invoice v) \<noteq> InvoiceTypeOTC then s
         else if iv_status (vw_invoice v) \<noteq> InvoiceStatusPaid then s
         else if commissions_ExistsForOrder E oid s = Inr True then s
         else (case OrderWithCustomer E oid s of
             Inl _ \<Rightarrow> s
           | Inr ord \<Rightarrow>
               if fle (ro_monthly_price ord) (Fin 0) then s
               else (case ro_sales_id ord of
                   None \<Rightarrow> s
                 | Some sales \<Rightarrow>
                     let manager_id = be_manager E sales; sales_branch = be_branch E sales;
                         cross = (case (ro_branch_id ord, sales_branch) of
                             (Some a, Some b) \<Rightarrow> a \<noteq> b | _ \<Rightarrow> False);
                         split = resolveCommissionSplit E (iv_customer_id (vw_invoice v));
                         rows = buildCommissionRowsWithSplit (\<lambda>i. be_fresh E (bd_next s + i))
                           (be_now E) ord (bp_id p) (iv_id (vw_invoice v)) manager_id sales_branch
                           cross split
                     in create_commissions E rows (took (length rows) s))))"

section \<open>Referral reward (r3.go)\<close>

definition maybeApplyReferralReward :: "benv \<Rightarrow> invoice_view \<Rightarrow> bill_db \<Rightarrow> bill_db" where
  "maybeApplyReferralReward E v s =
    (if iv_status (vw_invoice v) \<noteq> InvoiceStatusPaid then s
     else if iv_type (vw_invoice v) \<noteq> InvoiceTypeOTC then s
     else (case ReferralForReferee E (iv_customer_id (vw_invoice v)) s of
         Inl _ \<Rightarrow> s
       | Inr None \<Rightarrow> s
       | Inr (Some ref) \<Rightarrow>
           if rf_ref_status ref \<noteq> ''pending'' then s
           else if rewards_ExistsForReferral E (rf_ref_id ref) s = Inr True then s
           else (case CustomerSummary E (iv_customer_id (vw_invoice v)) s of
               Inl _ \<Rightarrow> s
             | Inr sm \<Rightarrow>
                 if fle (sm_monthly_price sm) (Fin 0) then s
                 else
                   let amt = round2 (fdiv (fmul (sm_monthly_price sm) ReferralRewardPercentOfMonthly)
                               (Fin 100));
                       r = \<lparr>rr_id = fresh_id E s, rr_referral_id = rf_ref_id ref,
                            rr_referrer = rf_referrer ref, rr_referee = rf_referee ref,
                            rr_order_id = iv_order_id (vw_invoice v),
                            rr_invoice_id = Some (iv_id (vw_invoice v)), rr_amount = amt,
                            rr_status = ReferralRewardAccrued, rr_created_at = be_now E\<rparr>;
                       s1 = took 1 s
                   in (case rewards_Create E r s1 of Inl _ \<Rightarrow> s1 | Inr s2 \<Rightarrow> s2))))"

section \<open>Recording a payment (service.go)\<close>

record record_payment_input =
  rp_invoice_id :: uuid
  rp_amount :: f64
  rp_method :: string
  rp_gateway_txn :: string
  rp_notes :: string
  rp_confirmed_by :: uuid

definition covers :: "f64 \<Rightarrow> f64 \<Rightarrow> bool" where
  "covers paid due_total \<longleftrightarrow> fle due_total (fadd paid (rnd (1 / 1000000)))"

lemma covers_code [code]:
  "covers paid due_total \<longleftrightarrow> fle due_total (fadd paid (Fin (4722366482869645 / 4722366482869645213696)))"
proof -
  have "rnd (1 / 1000000) = Fin (4722366482869645 / 4722366482869645213696)" by code_simp
  then show ?thesis by (simp add: covers_def)
qed

definition RecordPayment :: "benv \<Rightarrow> record_payment_input \<Rightarrow> bill_db \<Rightarrow> invoice_view res \<times> bill_db" where
  "RecordPayment E x s =
    (case invoices_FindByID E 0 (rp_invoice_id x) s of
       Inl e \<Rightarrow> (Inl e, s)
     | Inr v \<Rightarrow>
         if iv_status (vw_invoice v) = InvoiceStatusCancelled then
           (Inl (Conflict ''invoice.cancelled'' ''cannot record payment on a cancelled invoice''), s)
         else if iv_status (vw_invoice v) = InvoiceStatusPaid then
           (Inl (Conflict ''invoice.already_paid'' ''invoice already fully paid''), s)
         else (case NewPayment (fresh_id E s) (be_now E) (rp_invoice_id x)
                 (iv_customer_id (vw_invoice v)) (rp_amount x) (rp_method x)
                 (Some (rp_confirmed_by x)) (rp_notes x) of
             Inl e \<Rightarrow> (Inl e, s)
           | Inr p0 \<Rightarrow>
               let p = p0\<lparr>bp_gateway_txn := rp_gateway_txn x\<rparr>; s1 = took 1 s in
               (case payments_Create E p s1 of
                  Inl e \<Rightarrow> (Inl e, s1)
                | Inr s2 \<Rightarrow> (case SumConfirmedForInvoice E (rp_invoice_id x) s2 of
                    Inl e \<Rightarrow> (Inl e, s2)
                  | Inr paid \<Rightarrow>
                      let flip = covers paid (iv_total (vw_invoice v)) in
                      (case (if flip then invoices_UpdateStatus E (rp_invoice_id x)
                                InvoiceStatusPaid (Some (be_now E)) s2 else Inr s2) of
                         Inl e \<Rightarrow> (Inl e, s2)
                       | Inr s3 \<Rightarrow> (case invoices_FindByID E 1 (rp_invoice_id x) s3 of
                           Inl e \<Rightarrow> (Inl e, s3)
                         | Inr updated \<Rightarrow>
                             if flip then
                               (Inr updated, maybeApplyReferralReward E updated
                                  (maybeApplyCommission E updated p s3))
                             else (Inr updated, s3)))))))"

section \<open>Terminations (r3.go)\<close>

definition outstandingFor :: "benv \<Rightarrow> uuid \<Rightarrow> bill_db \<Rightarrow> f64 res" where
  "outstandingFor E k s =
    (case invoices_List E (no_filter\<lparr>fl_customer := Some k, fl_limit := 500\<rparr>) s of
       Inl e \<Rightarrow> Inl e
     | Inr (views, _) \<Rightarrow> Inr (round2 (foldl (\<lambda>sum v.
         if iv_status (vw_invoice v) = InvoiceStatusCancelled
            \<or> iv_status (vw_invoice v) = InvoiceStatusPaid then sum
         else if flt (Fin 0) (vw_outstanding v) then fadd sum (vw_outstanding v) else sum)
         (Fin 0) views)))"

text \<open>The field gateway (\<^verbatim>\<open>adapter/field\<close>, \<^verbatim>\<open>NewTerminationWO\<close> of the field context) checks the
  address, inserts a termination work order and returns its identifier; a second fresh
  identifier goes into the work order's number.\<close>

definition CreateTerminationWO :: "benv \<Rightarrow> uuid \<Rightarrow> string \<Rightarrow> bill_db \<Rightarrow> (uuid \<times> bill_db) res" where
  "CreateTerminationWO E k address s =
    (if k = Nil_uuid then Inl (Validation ''wo.customer_required'' ''customer_id is required'')
     else if TrimSpace address = [] then Inl (Validation ''wo.address_required'' ''address is required'')
     else bguard E (FieldCreateWO k)
       (let wo = fresh_id E s in
        Inr (wo, took 2 (s\<lparr>bd_workorders := bd_workorders s @ [(wo, k)]\<rparr>))))"

definition mintTerminationWO ::
    "benv \<Rightarrow> termination_request \<Rightarrow> customer_summary \<Rightarrow> bill_db \<Rightarrow> derr option \<times> bill_db" where
  "mintTerminationWO E t sm s =
    (case CreateTerminationWO E (tr_customer_id t) (sm_address sm) s of
       Inl e \<Rightarrow> (Some e, s)
     | Inr (wo, s1) \<Rightarrow>
         (case terms_Update E (t\<lparr>tr_wo_id := Some wo, tr_status := TerminationStatusWOCreated\<rparr>) s1 of
            Inl e \<Rightarrow> (Some e, s1)
          | Inr s2 \<Rightarrow> (None, s2)))"

definition lock_in_penalty :: "time \<Rightarrow> customer_summary \<Rightarrow> f64" where
  "lock_in_penalty now sm =
    (case sm_lock_in_until sm of
       Some until \<Rightarrow>
         if until > now \<and> flt (Fin 0) (sm_monthly_price sm) then
           (let m0 = monthsBetween now until; m = (if m0 < 1 then 1 else m0)
            in round2 (fmul (fmul (f_of_int m) (sm_monthly_price sm)) (Fin 1)))
         else Fin 0
     | None \<Rightarrow> Fin 0)"

text \<open>\<^verbatim>\<open>%.0f\<close> of a finite amount.\<close>

definition fmt0 :: "f64 \<Rightarrow> string" where
  "fmt0 x = (case x of Fin a \<Rightarrow> dec (rne a) | PInf \<Rightarrow> ''+Inf'' | NInf \<Rightarrow> ''-Inf'' | NaN \<Rightarrow> ''NaN'')"

definition penalty_input :: "uuid \<Rightarrow> uuid option \<Rightarrow> time \<Rightarrow> f64 \<Rightarrow> create_invoice_input" where
  "penalty_input k oid now penalty =
     \<lparr>ci_customer_id = k, ci_order_id = oid, ci_type = InvoiceTypeAddon,
      ci_lines = [\<lparr>ln_description = ''Lock-in early termination penalty'', ln_item_type = ''penalty'',
                   ln_quantity = Fin 1, ln_unit_price = penalty\<rparr>],
      ci_ppn_rate = Fin 11, ci_due = AddDate 0 0 7 now,
      ci_notes = ''Voluntary termination final invoice'', ci_created_by = None, ci_issue = True\<rparr>"

text \<open>\<^verbatim>\<open>if open, _ := FindOpenForCustomer(...); open != nil\<close>: a failing lookup counts as none.\<close>

definition found_some :: "'a option res \<Rightarrow> bool" where
  "found_some r = (case r of Inr (Some _) \<Rightarrow> True | _ \<Rightarrow> False)"

lemma found_some_iff: "found_some r \<longleftrightarrow> (\<exists>t. r = Inr (Some t))"
  by (auto simp: found_some_def split: sum.splits option.splits)

definition RequestVoluntaryTermination ::
    "benv \<Rightarrow> uuid \<Rightarrow> string \<Rightarrow> uuid \<Rightarrow> bill_db \<Rightarrow> termination_request res \<times> bill_db" where
  "RequestVoluntaryTermination E k reason requested_by s =
    (if k = Nil_uuid then
       (Inl (Validation ''termination.customer_required'' ''customer_id is required''), s)
     else if found_some (terms_FindOpenForCustomer E k s) then
       (Inl (Conflict ''termination.open_exists''
         ''a termination request is already in progress for this customer''), s)
     else (case CustomerSummary E k s of
         Inl e \<Rightarrow> (Inl e, s)
       | Inr sm \<Rightarrow>
           if sm_status sm = ''terminated'' then
             (Inl (Conflict ''termination.already_terminated'' ''customer is already terminated''), s)
           else (case outstandingFor E k s of
               Inl e \<Rightarrow> (Inl e, s)
             | Inr outstanding \<Rightarrow>
                 let now = be_now E; penalty = lock_in_penalty now sm;
                     t = \<lparr>tr_id = fresh_id E s, tr_customer_id = k, tr_order_id = sm_order_id sm,
                       tr_kind = TerminationKindVoluntary, tr_status = TerminationStatusRequested,
                       tr_reason = reason,
                       tr_requested_by = (if requested_by = Nil_uuid then None else Some requested_by),
                       tr_final_invoice_id = None, tr_penalty = penalty, tr_outstanding = outstanding,
                       tr_wo_id = None, tr_requested_at = now, tr_completed_at = None, tr_notes = []\<rparr>;
                     s1 = took 1 s; owes = fadd outstanding penalty
                 in if flt owes (rnd (1 / 100)) then
                      (let t1 = t\<lparr>tr_status := TerminationStatusWOPending\<rparr> in
                       case terms_Create E t1 s1 of
                         Inl e \<Rightarrow> (Inl e, s1)
                       | Inr s2 \<Rightarrow> (let s3 = snd (mintTerminationWO E t1 sm s2)
                                   in (terms_FindByID E (tr_id t) s3, s3)))
                    else
                      let t2 = (if flt (Fin 0) outstanding then
                            t\<lparr>tr_notes := ''Outstanding open invoices total Rp '' @ fmt0 outstanding
                                @ '' at request time.''\<rparr> else t)
                      in (case (if flt (Fin 0) penalty
                            then (case CreateInvoice E (penalty_input k (sm_order_id sm) now penalty) s1 of
                                (Inl e, s') \<Rightarrow> (Inl e, s')
                              | (Inr v, s') \<Rightarrow> (Inr (t2\<lparr>tr_final_invoice_id := Some (iv_id (vw_invoice v))\<rparr>), s'))
                            else (Inr t2, s1)) of
                          (Inl e, s2) \<Rightarrow> (Inl e, s2)
                        | (Inr t3, s2) \<Rightarrow>
                            (case terms_Create E (t3\<lparr>tr_status := TerminationStatusAwaitingPayment\<rparr>) s2 of
                               Inl e \<Rightarrow> (Inl e, s2)
                             | Inr s3 \<Rightarrow> (terms_FindByID E (tr_id t) s3, s3))))))"

definition strJoin :: "string \<Rightarrow> string \<Rightarrow> string" where
  "strJoin a b = (if a = [] then b else if b = [] then a else a @ ''; '' @ b)"

definition CancelTerminationRequest ::
    "benv \<Rightarrow> uuid \<Rightarrow> uuid \<Rightarrow> string \<Rightarrow> bill_db \<Rightarrow> termination_request res \<times> bill_db" where
  "CancelTerminationRequest E k by_user reason s =
    (case terms_FindByID E k s of
       Inl e \<Rightarrow> (Inl e, s)
     | Inr t \<Rightarrow>
         if tr_status t = TerminationStatusCompleted \<or> tr_status t = TerminationStatusCancelled then
           (Inl (Conflict ''termination.terminal'' ''termination already terminal''), s)
         else (case terms_Update E (t\<lparr>tr_status := TerminationStatusCancelled,
                  tr_completed_at := Some (be_now E),
                  tr_notes := strJoin (tr_notes t)
                    (''cancelled by '' @ uuid_text by_user @ '': '' @ reason)\<rparr>) s of
             Inl e \<Rightarrow> (Inl e, s)
           | Inr s1 \<Rightarrow> (terms_FindByID E k s1, s1)))"

definition radius :: "benv \<Rightarrow> bcall \<Rightarrow> radius_command \<Rightarrow> bill_db \<Rightarrow> derr option \<times> bill_db" where
  "radius E c cmd s = (case be_fail E c of
      Some e \<Rightarrow> (Some e, s) | None \<Rightarrow> (None, s\<lparr>bd_radius := bd_radius s @ [cmd]\<rparr>))"

definition CompleteTerminationByWO :: "benv \<Rightarrow> uuid \<Rightarrow> bill_db \<Rightarrow> derr option \<times> bill_db" where
  "CompleteTerminationByWO E wo s =
    (case terms_FindByWOID E wo s of
       Inl e \<Rightarrow> (Some e, s)
     | Inr None \<Rightarrow> (None, s)
     | Inr (Some t) \<Rightarrow>
         if tr_status t = TerminationStatusCompleted \<or> tr_status t = TerminationStatusCancelled then
           (None, s)
         else (case terms_Update E (t\<lparr>tr_status := TerminationStatusCompleted,
                  tr_completed_at := Some (be_now E)\<rparr>) s of
             Inl e \<Rightarrow> (Some e, s)
           | Inr s1 \<Rightarrow>
               let reason = ''termination completed via wo '' @ uuid_text wo;
                   s2 = (case SetCustomerStatus E (tr_customer_id t) ''terminated'' reason s1 of
                           Inl _ \<Rightarrow> s1 | Inr s' \<Rightarrow> s')
               in (None, snd (radius E (RadiusDeactivate (tr_customer_id t))
                          (RadiusDeactivated (tr_customer_id t)) s2))))"

end
