(* ===== verification/BillingTick.thy ===== *)
theory BillingTick
  imports BillingSvc
begin

text \<open>
  The billing scheduler (\<^verbatim>\<open>RunBillingTick\<close> of \<^verbatim>\<open>internal/billing/usecase/r2.go\<close> and the
  auto-termination of \<^verbatim>\<open>r3.go\<close>): four passes over the orders, the issued invoices and the
  suspended customers. A pass threads a report and the state through its loop; an error of one
  row is reported and the loop goes on, an error before the loop ends the pass.
\<close>

section \<open>The report\<close>

record tick_report =
  trp_generated :: int
  trp_skipped :: int
  trp_latefees :: int
  trp_suspended :: int
  trp_restored :: int
  trp_terminations :: int
  trp_errors :: "string list"

definition empty_report :: tick_report where
  "empty_report = \<lparr>trp_generated = 0, trp_skipped = 0, trp_latefees = 0, trp_suspended = 0,
     trp_restored = 0, trp_terminations = 0, trp_errors = []\<rparr>"

definition note_error :: "string \<Rightarrow> tick_report \<Rightarrow> tick_report" where
  "note_error e r = r\<lparr>trp_errors := trp_errors r @ [e]\<rparr>"

definition about :: "string \<Rightarrow> uuid \<Rightarrow> derr \<Rightarrow> string" where
  "about what k e = what @ '' '' @ uuid_text k @ '': '' @ error_text e"

section \<open>Policies per customer\<close>

definition zero_policy :: policy where
  "zero_policy = \<lparr>po_late_fee_grace_days = 0, po_late_fee_amount = Fin 0, po_suspend_after_days = 0,
     po_terminate_after_suspended_days = 0, po_notify_customer_days_before = 0,
     po_updated_by = None, po_updated_at = Date 1 1 1, po_cycle_anchor_day = 0, po_due_offset_days = 0\<rparr>"

definition resolvedBillingPolicy :: "benv \<Rightarrow> uuid \<Rightarrow> policy \<Rightarrow> policy" where
  "resolvedBillingPolicy E k legacy = resolvedPolicyFor (schema_body E k ''billing'') legacy"

definition resolvedSuspensionPolicy :: "benv \<Rightarrow> uuid \<Rightarrow> policy \<Rightarrow> policy" where
  "resolvedSuspensionPolicy E k legacy =
    (case schema_body E k ''suspension'' of
       None \<Rightarrow> resolvedPolicyFor (schema_body E k ''billing'') legacy
     | Some b \<Rightarrow> legacy\<lparr>
         po_suspend_after_days := readInt b ''suspend_after_days'' (po_suspend_after_days legacy),
         po_terminate_after_suspended_days := readInt b ''terminate_after_suspended_days''
           (po_terminate_after_suspended_days legacy)\<rparr>)"

section \<open>Pass 1: recurring invoices\<close>

definition addon_line :: "benv \<Rightarrow> time \<Rightarrow> crm_addon \<Rightarrow> line_input" where
  "addon_line E start a =
    (let name = be_product_name E (ca_addon_id a);
         desc = (if name = [] then ''Add-on '' @ take 8 (uuid_text (ca_addon_id a)) else name)
     in \<lparr>ln_description = desc @ '' '' @ dash @ '' '' @ format_my start, ln_item_type = ''addon'',
         ln_quantity = Fin 1, ln_unit_price = ca_monthly_fee a\<rparr>)"

definition recurring_input :: "benv \<Rightarrow> recurring_order \<Rightarrow> time \<Rightarrow> time \<Rightarrow> crm_addon list \<Rightarrow> create_invoice_input" where
  "recurring_input E ord start due addons =
     \<lparr>ci_customer_id = ro_customer_id ord, ci_order_id = Some (ro_order_id ord),
      ci_type = InvoiceTypeRecurring,
      ci_lines = \<lparr>ln_description = ''Monthly service '' @ dash @ '' '' @ format_my start,
                  ln_item_type = ''mrc'', ln_quantity = Fin 1, ln_unit_price = ro_monthly_price ord\<rparr>
                 # map (addon_line E start) addons,
      ci_ppn_rate = Fin 11, ci_due = due, ci_notes = [], ci_created_by = None, ci_issue = True\<rparr>"

definition put_cycle :: "benv \<Rightarrow> time \<Rightarrow> recurring_order \<Rightarrow> time \<times> time \<Rightarrow> uuid option \<Rightarrow>
    cycle_status \<Rightarrow> string \<Rightarrow> bill_db \<Rightarrow> bill_db" where
  "put_cycle E now ord period invoice_id status notes s =
    (let c = \<lparr>cy_id = fresh_id E s, cy_customer_id = ro_customer_id ord, cy_order_id = ro_order_id ord,
              cy_start = fst period, cy_end = snd period, cy_invoice_id = invoice_id,
              cy_status = status, cy_notes = notes, cy_created_at = now\<rparr>;
         s1 = took 1 s
     in (case cycles_Create E c s1 of Inl _ \<Rightarrow> s1 | Inr s2 \<Rightarrow> s2))"

definition recurring_period :: "benv \<Rightarrow> time \<Rightarrow> recurring_order \<Rightarrow> time \<times> time" where
  "recurring_period E now ord = cyclePeriod now (ro_activated_at ord)
     (po_cycle_anchor_day (resolvedBillingPolicy E (ro_customer_id ord) zero_policy))"

definition not_yet_active :: "time \<Rightarrow> recurring_order \<Rightarrow> bool" where
  "not_yet_active now ord = (case ro_activated_at ord of None \<Rightarrow> False | Some t \<Rightarrow> t > now)"

definition bill_order :: "benv \<Rightarrow> time \<Rightarrow> recurring_order \<Rightarrow> tick_report \<times> bill_db \<Rightarrow> tick_report \<times> bill_db" where
  "bill_order E now ord st =
    (let (rep, s) = st; k = ro_customer_id ord;
         period = recurring_period E now ord; start = fst period;
         offset = po_due_offset_days (resolvedBillingPolicy E k zero_policy);
         dueDays = (if offset \<le> 0 then 7 else offset);
         due = AddDate 0 0 dueDays start;
         (addons, rep1) = (case ActiveAddonsForCustomer E k s of
             Inr as \<Rightarrow> (as, rep) | Inl e \<Rightarrow> ([], note_error (about ''addon lookup'' k e) rep))
     in (case CreateInvoice E (recurring_input E ord start due addons) s of
           (Inl e, s1) \<Rightarrow>
             (note_error (about ''create recurring inv'' (ro_order_id ord) e) rep1,
              put_cycle E now ord period None CycleStatusFailed (error_text e) s1)
         | (Inr v, s1) \<Rightarrow>
             (rep1\<lparr>trp_generated := trp_generated rep1 + 1\<rparr>,
              put_cycle E now ord period (Some (iv_id (vw_invoice v))) CycleStatusGenerated [] s1)))"

definition recurring_step :: "benv \<Rightarrow> time \<Rightarrow> recurring_order \<Rightarrow> tick_report \<times> bill_db \<Rightarrow> tick_report \<times> bill_db" where
  "recurring_step E now ord st =
    (let (rep, s) = st in
     if not_yet_active now ord then (rep\<lparr>trp_skipped := trp_skipped rep + 1\<rparr>, s)
     else (case cycles_ExistsForPeriod E (ro_customer_id ord) (fst (recurring_period E now ord)) s of
         Inl e \<Rightarrow> (note_error (about ''cycle exists check'' (ro_customer_id ord) e) rep, s)
       | Inr True \<Rightarrow> (rep, s)
       | Inr False \<Rightarrow> bill_order E now ord (rep, s)))"

fun each :: "('x \<Rightarrow> 'st \<Rightarrow> 'st) \<Rightarrow> 'x list \<Rightarrow> 'st \<Rightarrow> 'st" where
  "each f [] st = st"
| "each f (x # xs) st = each f xs (f x st)"

definition tickRecurring :: "benv \<Rightarrow> time \<Rightarrow> tick_report \<times> bill_db \<Rightarrow> derr option \<times> tick_report \<times> bill_db" where
  "tickRecurring E now st =
    (case ActiveOrdersForRecurring E 0 (snd st) of
       Inl e \<Rightarrow> (Some e, st)
     | Inr orders \<Rightarrow> (None, each (recurring_step E now) orders st))"

section \<open>Pass 2: late fees\<close>

text \<open>The text every penalty line of a late fee starts with, followed by the invoice number.\<close>

definition late_fee_text :: "string \<Rightarrow> string" where
  "late_fee_text number = ''Late fee '' @ dash @ '' '' @ number"

definition hasLateFeeForInvoice :: "benv \<Rightarrow> uuid option \<Rightarrow> string \<Rightarrow> bill_db \<Rightarrow> bool res" where
  "hasLateFeeForInvoice E oid number s =
    (case oid of None \<Rightarrow> Inr False
     | Some k \<Rightarrow> (case invoices_List E (no_filter\<lparr>fl_order := Some k, fl_type := Some InvoiceTypeAddon,
                    fl_limit := 50\<rparr>) s of
         Inl e \<Rightarrow> Inl e
       | Inr (views, _) \<Rightarrow> Inr (\<exists>v \<in> set views. \<exists>l \<in> set (vw_lines v).
           li_item_type l = ''penalty'' \<and> (number = [] \<or> li_description l = late_fee_text number))))"

definition late_fee_invoice :: "benv \<Rightarrow> time \<Rightarrow> policy \<Rightarrow> invoice \<Rightarrow> create_invoice_input" where
  "late_fee_invoice E now p i =
     \<lparr>ci_customer_id = iv_customer_id i, ci_order_id = iv_order_id i, ci_type = InvoiceTypeAddon,
      ci_lines = [\<lparr>ln_description = late_fee_text (iv_number i), ln_item_type = ''penalty'',
                   ln_quantity = Fin 1, ln_unit_price = po_late_fee_amount p\<rparr>],
      ci_ppn_rate = Fin 11, ci_due = AddDate 0 0 7 now,
      ci_notes = ''Late fee for '' @ iv_number i, ci_created_by = None, ci_issue = True\<rparr>"

definition late_fee_step :: "benv \<Rightarrow> time \<Rightarrow> policy \<Rightarrow> invoice_view \<Rightarrow> tick_report \<times> bill_db \<Rightarrow> tick_report \<times> bill_db" where
  "late_fee_step E now policy v st =
    (let (rep, s) = st; i = vw_invoice v;
         p = resolvedBillingPolicy E (iv_customer_id i) policy;
         cutoff = AddDate 0 0 (- po_late_fee_grace_days p) now
     in if \<not> iv_due i < cutoff then (rep, s)
        else (case hasLateFeeForInvoice E (iv_order_id i) (iv_number i) s of
            Inl e \<Rightarrow> (note_error (about ''late-fee check'' (iv_id i) e) rep, s)
          | Inr True \<Rightarrow> (rep, s)
          | Inr False \<Rightarrow> (case CreateInvoice E (late_fee_invoice E now p i) s of
              (Inl e, s1) \<Rightarrow> (note_error (about ''late-fee invoice'' (iv_id i) e) rep, s1)
            | (Inr _, s1) \<Rightarrow> (rep\<lparr>trp_latefees := trp_latefees rep + 1\<rparr>, s1))))"

definition issued_500 :: invoice_filter where
  "issued_500 = no_filter\<lparr>fl_status := Some InvoiceStatusIssued, fl_limit := 500\<rparr>"

definition tickLateFees :: "benv \<Rightarrow> time \<Rightarrow> policy \<Rightarrow> tick_report \<times> bill_db \<Rightarrow> derr option \<times> tick_report \<times> bill_db" where
  "tickLateFees E now policy st =
    (case invoices_List E issued_500 (snd st) of
       Inl e \<Rightarrow> (Some e, st)
     | Inr (views, _) \<Rightarrow> (None, each (late_fee_step E now policy) views st))"

section \<open>Pass 3: suspension and restoration\<close>

definition issued_of :: "uuid \<Rightarrow> invoice_filter" where
  "issued_of k = no_filter\<lparr>fl_customer := Some k, fl_status := Some InvoiceStatusIssued, fl_limit := 100\<rparr>"

definition overdue_view :: "time \<Rightarrow> invoice_view list \<Rightarrow> bool" where
  "overdue_view cutoff views \<longleftrightarrow> (\<exists>v \<in> set views. iv_due (vw_invoice v) < cutoff)"

definition suspend_step :: "benv \<Rightarrow> time \<Rightarrow> policy \<Rightarrow> recurring_order \<Rightarrow> tick_report \<times> bill_db \<Rightarrow> tick_report \<times> bill_db" where
  "suspend_step E now policy ord st =
    (let (rep, s) = st; k = ro_customer_id ord in
     if ro_customer_status ord \<noteq> ''active'' then (rep, s)
     else
       let p = resolvedSuspensionPolicy E k policy;
           cutoff = AddDate 0 0 (- po_suspend_after_days p) now
       in (case invoices_List E (issued_of k) s of
             Inl e \<Rightarrow> (note_error (about ''invoice scan'' k e) rep, s)
           | Inr (views, _) \<Rightarrow>
               if \<not> overdue_view cutoff views then (rep, s)
               else
                 let reason = ''auto-suspend: unpaid invoice past '' @ dec (po_suspend_after_days p) @ '' days''
                 in (case SetCustomerStatus E k ''suspended'' reason s of
                       Inl e \<Rightarrow> (note_error (about ''suspend'' k e) rep, s)
                     | Inr s1 \<Rightarrow>
                         let (err, s2) = radius E (RadiusSuspend k) (RadiusSuspended k) s1;
                             rep1 = (case err of None \<Rightarrow> rep
                                     | Some e \<Rightarrow> note_error (about ''radius suspend'' k e) rep)
                         in (rep1\<lparr>trp_suspended := trp_suspended rep1 + 1\<rparr>, s2))))"

definition restore_step :: "benv \<Rightarrow> time \<Rightarrow> suspended_customer \<Rightarrow> tick_report \<times> bill_db \<Rightarrow> tick_report \<times> bill_db" where
  "restore_step E now sc st =
    (let (rep, s) = st; k = sc_customer_id sc in
     case invoices_List E (issued_of k) s of
       Inl e \<Rightarrow> (note_error (about ''restore scan'' k e) rep, s)
     | Inr (views, _) \<Rightarrow>
         if overdue_view now views then (rep, s)
         else (case SetCustomerStatus E k ''active'' [] s of
             Inl e \<Rightarrow> (note_error (about ''restore'' k e) rep, s)
           | Inr s1 \<Rightarrow>
               let (err, s2) = radius E (RadiusRestore k) (RadiusRestored k) s1;
                   rep1 = (case err of None \<Rightarrow> rep
                           | Some e \<Rightarrow> note_error (about ''radius restore'' k e) rep)
               in (rep1\<lparr>trp_restored := trp_restored rep1 + 1\<rparr>, s2)))"

definition tickSuspendRestore :: "benv \<Rightarrow> time \<Rightarrow> policy \<Rightarrow> tick_report \<times> bill_db \<Rightarrow> derr option \<times> tick_report \<times> bill_db" where
  "tickSuspendRestore E now policy st =
    (case ActiveOrdersForRecurring E 1 (snd st) of
       Inl e \<Rightarrow> (Some e, st)
     | Inr orders \<Rightarrow>
         let st1 = each (suspend_step E now policy) orders st in
         (case SuspendedCustomers E 0 (snd st1) of
            Inl e \<Rightarrow> (Some e, st1)
          | Inr suspended \<Rightarrow> (None, each (restore_step E now) suspended st1)))"

section \<open>Pass 4: auto-termination (r3.go)\<close>

definition shouldAutoTerminate :: "time \<Rightarrow> time option \<Rightarrow> int \<Rightarrow> bool" where
  "shouldAutoTerminate now suspended_at thresholdDays =
    (case suspended_at of None \<Rightarrow> False
     | Some t \<Rightarrow> (let cutoff = AddDate 0 0 (- thresholdDays) now in \<not> t > cutoff))"

definition auto_term_step :: "benv \<Rightarrow> time \<Rightarrow> policy \<Rightarrow> suspended_customer \<Rightarrow> tick_report \<times> bill_db \<Rightarrow> tick_report \<times> bill_db" where
  "auto_term_step E now policy sc st =
    (let (rep, s) = st; k = sc_customer_id sc; p = resolvedSuspensionPolicy E k policy;
         days = po_terminate_after_suspended_days p
     in if \<not> shouldAutoTerminate now (sc_suspended_at sc) days then (rep, s)
        else if found_some (terms_FindOpenForCustomer E k s) then (rep, s)
        else
          let outstanding = (case outstandingFor E k s of Inl _ \<Rightarrow> Fin 0 | Inr x \<Rightarrow> x);
              t = \<lparr>tr_id = fresh_id E s, tr_customer_id = k, tr_order_id = sc_order_id sc,
                tr_kind = TerminationKindAuto, tr_status = TerminationStatusWOPending,
                tr_reason = ''auto-termination after '' @ dec days @ '' days suspended'',
                tr_requested_by = None, tr_final_invoice_id = None, tr_penalty = Fin 0,
                tr_outstanding = outstanding, tr_wo_id = None, tr_requested_at = now,
                tr_completed_at = None, tr_notes = []\<rparr>;
              s1 = took 1 s
          in (case terms_Create E t s1 of
                Inl e \<Rightarrow> (note_error (about ''auto-term'' k e) rep, s1)
              | Inr s2 \<Rightarrow> (case CustomerSummary E k s2 of
                  Inl e \<Rightarrow> (note_error (about ''auto-term summary'' k e) rep, s2)
                | Inr sm \<Rightarrow> (case mintTerminationWO E t sm s2 of
                    (Some e, s3) \<Rightarrow> (note_error (about ''auto-term wo'' k e) rep, s3)
                  | (None, s3) \<Rightarrow> (rep\<lparr>trp_terminations := trp_terminations rep + 1\<rparr>, s3)))))"

definition runAutoTermination :: "benv \<Rightarrow> time \<Rightarrow> policy \<Rightarrow> tick_report \<times> bill_db \<Rightarrow> derr option \<times> tick_report \<times> bill_db" where
  "runAutoTermination E now policy st =
    (case SuspendedCustomers E 1 (snd st) of
       Inl e \<Rightarrow> (Some e, st)
     | Inr suspended \<Rightarrow> (None, each (auto_term_step E now policy) suspended st))"

section \<open>The tick\<close>

text \<open>A pass that ends with an error adds it to the report; the next pass runs all the same.\<close>

definition run_pass :: "string \<Rightarrow> (tick_report \<times> bill_db \<Rightarrow> derr option \<times> tick_report \<times> bill_db) \<Rightarrow>
    tick_report \<times> bill_db \<Rightarrow> tick_report \<times> bill_db" where
  "run_pass name f st = (case f st of
      (None, rep, s) \<Rightarrow> (rep, s)
    | (Some e, rep, s) \<Rightarrow> (note_error (name @ '': '' @ error_text e) rep, s))"

definition RunBillingTick :: "benv \<Rightarrow> time \<Rightarrow> bill_db \<Rightarrow> tick_report res \<times> bill_db" where
  "RunBillingTick E now s =
    (case policies_Get E s of
       Inl e \<Rightarrow> (Inl e, s)
     | Inr policy \<Rightarrow>
         let (rep, s') = run_pass ''terminations'' (runAutoTermination E now policy)
               (run_pass ''suspend_restore'' (tickSuspendRestore E now policy)
                 (run_pass ''late_fees'' (tickLateFees E now policy)
                   (run_pass ''recurring'' (tickRecurring E now) (empty_report, s))))
         in (Inr rep, s'))"

end
