(* ===== verification/BillingOrch.thy ===== *)
theory BillingOrch
  imports BillingTick
begin

text \<open>
  The orchestration evaluators (\<^verbatim>\<open>internal/billing/usecase/orchestration.go\<close>), their log tables
  (\<^verbatim>\<open>adapter/postgres/orchestration_repos.go\<close>) and the bridges of \<^verbatim>\<open>cmd/billing-svc/main.go\<close>:
  reminders, late fees, suspension, restoration, commission triggers; and the add-on service
  (\<^verbatim>\<open>usecase/addon.go\<close>). Every repository and bridge is wired, as in \<^verbatim>\<open>main.go\<close>; the HRIS reader
  is the parameter \<open>be_resigned\<close>.
\<close>

definition audit_write :: "benv \<Rightarrow> bill_audit \<Rightarrow> bill_db \<Rightarrow> bill_db" where
  "audit_write E a s = (case be_fail E BillAudit of Some _ \<Rightarrow> s | None \<Rightarrow> s\<lparr>bd_audit := bd_audit s @ [a]\<rparr>)"

definition scan_error :: "string \<Rightarrow> string \<Rightarrow> derr \<Rightarrow> derr" where
  "scan_error code msg e = Wrap KindInternal code msg (error_text e)"

section \<open>Reminders\<close>

text \<open>\<^verbatim>\<open>ON CONFLICT (invoice_id, kind) DO NOTHING\<close>: a second row of a kind changes nothing.\<close>

definition reminders_Create :: "benv \<Rightarrow> reminder_row \<Rightarrow> bill_db \<Rightarrow> bill_db res" where
  "reminders_Create E r s = bguard E (RemCreate (rl_invoice_id r))
    (if (case rl_kind r of ReminderKindOther _ \<Rightarrow> True | _ \<Rightarrow> False) then
       Inl (check_err ''reminder_log.create'' ''create reminder log row'')
     else if \<exists>q \<in> set (bd_reminders s). rl_invoice_id q = rl_invoice_id r \<and> rl_kind q = rl_kind r then Inr s
     else Inr (s\<lparr>bd_reminders := bd_reminders s @ [r]\<rparr>))"

text \<open>
  The latest row by time. PostgreSQL leaves the order of equal times open; the model returns the
  row inserted last.
\<close>

definition reminders_FindLastByInvoice :: "benv \<Rightarrow> uuid \<Rightarrow> bill_db \<Rightarrow> reminder_row option res" where
  "reminders_FindLastByInvoice E k s = bguard E (RemFindLast k)
    (Inr (case order_by (\<lambda>r. - rl_sent_at r)
        (rev (filter (\<lambda>r. rl_invoice_id r = k) (bd_reminders s))) of
       [] \<Rightarrow> None | r # _ \<Rightarrow> Some r))"

definition suspension_policy_for :: "benv \<Rightarrow> uuid \<Rightarrow> suspension_policy" where
  "suspension_policy_for E k =
     resolveSuspensionPolicy (schema_body E k ''suspension'') (schema_body E k ''billing'')"

definition SendReminder :: "benv \<Rightarrow> uuid \<Rightarrow> reminder_kind \<Rightarrow> bill_db \<Rightarrow> derr option \<times> bill_db" where
  "SendReminder E k kind s = (case be_fail E (RemSend k) of
      Some e \<Rightarrow> (Some e, s) | None \<Rightarrow> (None, s\<lparr>bd_sent := bd_sent s @ [(k, kind)]\<rparr>))"

definition reminder_kind_text :: "reminder_kind \<Rightarrow> string" where
  "reminder_kind_text k = (case k of
      ReminderKindSoft \<Rightarrow> ''soft_reminder'' | ReminderKindDueToday \<Rightarrow> ''due_today''
    | ReminderKindOverdueD1 \<Rightarrow> ''overdue_d1'' | ReminderKindOverdueD3 \<Rightarrow> ''overdue_d3''
    | ReminderKindOverdueD7 \<Rightarrow> ''overdue_d7''
    | ReminderKindOverduePreSuspend \<Rightarrow> ''overdue_pre_suspend'' | ReminderKindOther t \<Rightarrow> t)"

text \<open>What the evaluator is given for an invoice; a failing lookup of the last row counts as none.\<close>

definition reminder_input_for :: "benv \<Rightarrow> invoice \<Rightarrow> bill_db \<Rightarrow> reminder_input" where
  "reminder_input_for E i s =
     \<lparr>ri_due = iv_due i, ri_is_paid = (iv_status i = InvoiceStatusPaid),
      ri_is_cancelled = (iv_status i = InvoiceStatusCancelled),
      ri_last = (case reminders_FindLastByInvoice E (iv_id i) s of
          Inr (Some r) \<Rightarrow> Some (rl_kind r) | _ \<Rightarrow> None),
      ri_suspend_days = sp_hard (suspension_policy_for E (iv_customer_id i))\<rparr>"

definition reminder_step :: "benv \<Rightarrow> invoice_view \<Rightarrow> nat \<times> bill_db \<Rightarrow> nat \<times> bill_db" where
  "reminder_step E v st =
    (let (sent, s) = st; i = vw_invoice v; now = be_now E;
         policy = resolveReminderPolicy (schema_body E (iv_customer_id i) ''billing'')
     in if iv_due i > AddDate 0 0 30 now then (sent, s)
        else (case NextReminderKindForInvoice policy (reminder_input_for E i s) now of
            None \<Rightarrow> (sent, s)
          | Some kind \<Rightarrow>
              let (err, s1) = SendReminder E (iv_id i) kind s;
                  row = \<lparr>rl_id = fresh_id E s1, rl_invoice_id = iv_id i, rl_kind = kind,
                    rl_sent_at = now, rl_channel = ChannelFor policy kind,
                    rl_delivered = (err = None),
                    rl_error_msg = (case err of None \<Rightarrow> [] | Some e \<Rightarrow> error_text e)\<rparr>;
                  s2 = took 1 s1
              in (case reminders_Create E row s2 of
                    Inl _ \<Rightarrow> (sent, s2)
                  | Inr s3 \<Rightarrow> (sent + 1, audit_write E \<lparr>ba_record_type = ''billing.invoice'',
                        ba_record_id = iv_id i, ba_field = ''reminder_sent'',
                        ba_after = reminder_kind_text kind, ba_reason = ''wave114.cron.reminder''\<rparr> s3))))"

definition RunReminderTick :: "benv \<Rightarrow> bill_db \<Rightarrow> nat res \<times> bill_db" where
  "RunReminderTick E s =
    (case invoices_List E issued_500 s of
       Inl e \<Rightarrow> (Inl (scan_error ''billing.cron.reminder'' ''list issued invoices'' e), s)
     | Inr (views, _) \<Rightarrow> (let (sent, s') = each (reminder_step E) views (0, s) in (Inr sent, s')))"

section \<open>Late fees\<close>

definition latefees_Create :: "benv \<Rightarrow> late_fee_row \<Rightarrow> bill_db \<Rightarrow> (bool \<times> bill_db) res" where
  "latefees_Create E r s = bguard E (LfCreate (la_invoice_id r))
    (if \<exists>q \<in> set (bd_latefees s). la_invoice_id q = la_invoice_id r then Inr (False, s)
     else Inr (True, s\<lparr>bd_latefees := bd_latefees s @ [r\<lparr>la_amount := num 2 (la_amount r)\<rparr>]\<rparr>))"

definition late_fee_input_for :: "invoice_view \<Rightarrow> late_fee_input" where
  "late_fee_input_for v = \<lparr>li_due = iv_due (vw_invoice v),
     li_is_paid = (iv_status (vw_invoice v) = InvoiceStatusPaid),
     li_is_cancelled = (iv_status (vw_invoice v) = InvoiceStatusCancelled),
     li_outstanding = vw_outstanding v\<rparr>"

definition fee_step :: "benv \<Rightarrow> invoice_view \<Rightarrow> nat \<times> bill_db \<Rightarrow> nat \<times> bill_db" where
  "fee_step E v st =
    (let (applied, s) = st; i = vw_invoice v;
         policy = resolveLateFeePolicy (schema_body E (iv_customer_id i) ''billing'');
         amt = Compute policy (late_fee_input_for v) (be_now E)
     in if fle amt (Fin 0) then (applied, s)
        else
          let row = \<lparr>la_id = fresh_id E s, la_invoice_id = iv_id i, la_amount = amt,
                     la_applied_at = be_now E, la_basis = ''overdue''\<rparr>;
              s1 = took 1 s
          in (case latefees_Create E row s1 of
                Inl _ \<Rightarrow> (applied, s1)
              | Inr (created, s2) \<Rightarrow>
                  if \<not> created then (applied, s2)
                  else (applied + 1, audit_write E \<lparr>ba_record_type = ''billing.invoice'',
                        ba_record_id = iv_id i, ba_field = ''late_fee_applied'',
                        ba_after = formatAmount amt, ba_reason = ''wave114.cron.late_fee''\<rparr> s2)))"

definition RunLateFeeTick :: "benv \<Rightarrow> bill_db \<Rightarrow> nat res \<times> bill_db" where
  "RunLateFeeTick E s =
    (case invoices_List E issued_500 s of
       Inl e \<Rightarrow> (Inl (scan_error ''billing.cron.late_fee'' ''list issued invoices'' e), s)
     | Inr (views, _) \<Rightarrow> (let (applied, s') = each (fee_step E) views (0, s) in (Inr applied, s')))"

section \<open>Suspension\<close>

record suspension_candidate =
  sd_customer_id :: uuid
  sd_oldest_due :: time
  sd_invoice_id :: "uuid option"

text \<open>The oldest past-due issued invoice of a customer (\<^verbatim>\<open>ListSuspensionCandidates\<close>).\<close>

definition past_due :: "benv \<Rightarrow> uuid \<Rightarrow> bill_db \<Rightarrow> invoice list" where
  "past_due E k s = order_by iv_due (filter (\<lambda>i. iv_customer_id i = k
     \<and> iv_status i = InvoiceStatusIssued \<and> iv_due i < be_dbnow E) (bd_invoices s))"

definition ListSuspensionCandidates :: "benv \<Rightarrow> bill_db \<Rightarrow> suspension_candidate list res" where
  "ListSuspensionCandidates E s = bguard E SusCandidates
    (Inr (page 500 0 (order_by sd_oldest_due (concat (map (\<lambda>c.
        if cc_status c = ''active'' \<or> cc_status c = ''suspended'' then
          (case past_due E (cc_id c) s of [] \<Rightarrow> []
           | i # _ \<Rightarrow> [\<lparr>sd_customer_id = cc_id c, sd_oldest_due = iv_due i, sd_invoice_id = Some (iv_id i)\<rparr>])
        else []) (bd_customers s))))))"

definition suspensions_Create :: "benv \<Rightarrow> suspension_row \<Rightarrow> bill_db \<Rightarrow> bill_db res" where
  "suspensions_Create E r s = bguard E (SusCreate (sa_customer_id r))
    (Inr (s\<lparr>bd_suspensions := bd_suspensions s @ [r]\<rparr>))"

definition suspensions_FindLast :: "benv \<Rightarrow> uuid \<Rightarrow> bill_db \<Rightarrow> suspension_row option res" where
  "suspensions_FindLast E k s = bguard E (SusFindLast k)
    (Inr (case order_by (\<lambda>r. - sa_executed_at r)
        (rev (filter (\<lambda>r. sa_customer_id r = k) (bd_suspensions s))) of
       [] \<Rightarrow> None | r # _ \<Rightarrow> Some r))"

text \<open>The bridge of \<^verbatim>\<open>main.go\<close>: CRM knows one suspended status only.\<close>

definition SetSuspensionState :: "benv \<Rightarrow> uuid \<Rightarrow> suspension_state \<Rightarrow> bill_db \<Rightarrow> bill_db res" where
  "SetSuspensionState E k st s = (case st of
      CustomerSuspensionStateActive \<Rightarrow> SetCustomerStatus E k ''active'' ''wave114.cron.restore'' s
    | CustomerSuspensionStateSoftSuspend \<Rightarrow> SetCustomerStatus E k ''suspended'' ''wave114.cron.soft_suspend'' s
    | CustomerSuspensionStateHardSuspend \<Rightarrow> SetCustomerStatus E k ''suspended'' ''wave114.cron.hard_suspend'' s)"

definition try_state :: "benv \<Rightarrow> uuid \<Rightarrow> suspension_state \<Rightarrow> bill_db \<Rightarrow> bill_db" where
  "try_state E k st s = (case SetSuspensionState E k st s of Inl _ \<Rightarrow> s | Inr s1 \<Rightarrow> s1)"

definition last_action :: "benv \<Rightarrow> uuid \<Rightarrow> bill_db \<Rightarrow> suspension_action option" where
  "last_action E k s = (case suspensions_FindLast E k s of
      Inr (Some r) \<Rightarrow> Some (sa_action r) | _ \<Rightarrow> None)"

definition action_text :: "suspension_action \<Rightarrow> string" where
  "action_text a = (case a of SuspensionActionWarn \<Rightarrow> ''warn'' | SuspensionActionSoftSuspend \<Rightarrow> ''soft_suspend''
     | SuspensionActionHardSuspend \<Rightarrow> ''hard_suspend'' | SuspensionActionRestore \<Rightarrow> ''restore'')"

definition suspension_step :: "benv \<Rightarrow> suspension_candidate \<Rightarrow> nat \<times> bill_db \<Rightarrow> nat \<times> bill_db" where
  "suspension_step E c st =
    (let (emitted, s) = st; k = sd_customer_id c; policy = suspension_policy_for E k;
         x = \<lparr>si_oldest_due = sd_oldest_due c, si_has_overdue = (\<not> IsZero (sd_oldest_due c)),
              si_last = last_action E k s\<rparr>
     in (case NextActionFor policy x (be_now E) of
           None \<Rightarrow> (emitted, s)
         | Some act \<Rightarrow>
             let s1 = (case act of
                 SuspensionActionSoftSuspend \<Rightarrow> try_state E k CustomerSuspensionStateSoftSuspend s
               | SuspensionActionHardSuspend \<Rightarrow>
                   if sp_supervisor policy then s else try_state E k CustomerSuspensionStateHardSuspend s
               | _ \<Rightarrow> s);
               row = \<lparr>sa_id = fresh_id E s1, sa_customer_id = k, sa_invoice_id = sd_invoice_id c,
                 sa_action = act, sa_executed_at = be_now E, sa_executed_by = ''cron''\<rparr>;
               s2 = took 1 s1
             in (case suspensions_Create E row s2 of
                   Inl _ \<Rightarrow> (emitted, s2)
                 | Inr s3 \<Rightarrow> (emitted + 1, audit_write E \<lparr>ba_record_type = ''billing.customer_suspension'',
                       ba_record_id = k, ba_field = ''action'', ba_after = action_text act,
                       ba_reason = ''wave114.cron.suspension''\<rparr> s3))))"

definition RunSuspensionTick :: "benv \<Rightarrow> bill_db \<Rightarrow> nat res \<times> bill_db" where
  "RunSuspensionTick E s =
    (case ListSuspensionCandidates E s of
       Inl e \<Rightarrow> (Inl (scan_error ''billing.cron.suspension'' ''list suspension candidates'' e), s)
     | Inr cs \<Rightarrow> (let (emitted, s') = each (suspension_step E) cs (0, s) in (Inr emitted, s')))"

section \<open>Restoration\<close>

definition mapCustomerState :: "string \<Rightarrow> suspension_state" where
  "mapCustomerState status = (if status = ''active'' then CustomerSuspensionStateActive
     else if status = ''suspended'' then CustomerSuspensionStateSoftSuspend
     else CustomerSuspensionStateActive)"

definition nulls_last :: "time option \<Rightarrow> int \<times> int" where
  "nulls_last t = (case t of Some x \<Rightarrow> (0, x) | None \<Rightarrow> (1, 0))"

definition ListRestoreCandidates :: "benv \<Rightarrow> bill_db \<Rightarrow> (uuid \<times> suspension_state) list res" where
  "ListRestoreCandidates E s = bguard E RestoreCandidates
    (Inr (let rows = filter (\<lambda>c. cc_status c = ''suspended''
              \<and> \<not> (\<exists>i \<in> set (bd_invoices s). iv_customer_id i = cc_id c \<and> iv_status i = InvoiceStatusIssued))
            (bd_customers s);
          timed = order_by (\<lambda>c. the (cc_suspended_at c)) (filter (\<lambda>c. cc_suspended_at c \<noteq> None) rows);
          untimed = filter (\<lambda>c. cc_suspended_at c = None) rows
      in map (\<lambda>c. (cc_id c, mapCustomerState (cc_status c))) (page 200 0 (timed @ untimed))))"

definition orch_restore_step :: "benv \<Rightarrow> uuid \<times> suspension_state \<Rightarrow> nat \<times> bill_db \<Rightarrow> nat \<times> bill_db" where
  "orch_restore_step E c st =
    (let (restored, s) = st; (k, current) = c in
     if \<not> ShouldRestore current False then (restored, s)
     else (case radius E (RadiusRestore k) (RadiusRestored k) s of
         (Some _, s1) \<Rightarrow> (restored, s1)
       | (None, s1) \<Rightarrow> (case SetSuspensionState E k CustomerSuspensionStateActive s1 of
           Inl _ \<Rightarrow> (restored, s1)
         | Inr s2 \<Rightarrow>
             let row = \<lparr>sa_id = fresh_id E s2, sa_customer_id = k, sa_invoice_id = None,
                   sa_action = SuspensionActionRestore, sa_executed_at = be_now E,
                   sa_executed_by = ''cron''\<rparr>;
                 s3 = took 1 s2
             in (case suspensions_Create E row s3 of
                   Inl _ \<Rightarrow> (restored, s3)
                 | Inr s4 \<Rightarrow> (restored + 1, audit_write E
                     \<lparr>ba_record_type = ''billing.customer_suspension'', ba_record_id = k,
                      ba_field = ''action'', ba_after = action_text SuspensionActionRestore,
                      ba_reason = ''wave114.cron.restore''\<rparr> s4)))))"

definition RunRestoreTick :: "benv \<Rightarrow> bill_db \<Rightarrow> nat res \<times> bill_db" where
  "RunRestoreTick E s =
    (case ListRestoreCandidates E s of
       Inl e \<Rightarrow> (Inl (scan_error ''billing.cron.restore'' ''list restore candidates'' e), s)
     | Inr cs \<Rightarrow> (let (restored, s') = each (orch_restore_step E) cs (0, s) in (Inr restored, s')))"

section \<open>Commission triggers\<close>

record paid_invoice =
  pd_invoice_id :: uuid
  pd_customer_id :: uuid
  pd_plan_change_id :: uuid
  pd_sales_user_id :: uuid
  pd_basis :: f64
  pd_paid_at :: time
  pd_activated_at :: "time option"

definition ListRecentlyPaidForCommission :: "benv \<Rightarrow> time \<Rightarrow> bill_db \<Rightarrow> paid_invoice list res" where
  "ListRecentlyPaidForCommission E since s = bguard E TrigList
    (Inr (page 500 0 (order_by (\<lambda>r. - pd_paid_at r) (concat (map (\<lambda>i. concat (map (\<lambda>pc.
        (case (iv_paid_at i, pc_sales_rep_id pc) of
           (Some paid, Some rep) \<Rightarrow>
             if iv_status i = InvoiceStatusPaid \<and> pc_customer_id pc = iv_customer_id i \<and> paid \<ge> since
                \<and> (pc_status pc = ''applied'' \<or> pc_status pc = ''approved'')
             then [\<lparr>pd_invoice_id = iv_id i, pd_customer_id = iv_customer_id i,
                    pd_plan_change_id = pc_id pc, pd_sales_user_id = rep, pd_basis = iv_total i,
                    pd_paid_at = paid,
                    pd_activated_at = (case tfind cc_id (iv_customer_id i) (bd_customers s) of
                        None \<Rightarrow> None | Some c \<Rightarrow> cc_activated_at c)\<rparr>]
             else []
         | _ \<Rightarrow> [])) (bd_plan_changes s))) (bd_invoices s))))))"

text \<open>A trigger without a plan change is never a conflict: NULLs are distinct.\<close>

definition triggers_Create :: "benv \<Rightarrow> trigger_row \<Rightarrow> bill_db \<Rightarrow> (bool \<times> bill_db) res" where
  "triggers_Create E r s = bguard E (TrigCreate (tg_id r))
    (if (case tg_kind r of CommissionTriggerOther _ \<Rightarrow> True | _ \<Rightarrow> False) then
       Inl (check_err ''commission_trigger.create'' ''create commission trigger'')
     else if tg_plan_change_id r \<noteq> None \<and> (\<exists>q \<in> set (bd_triggers s).
          tg_plan_change_id q = tg_plan_change_id r \<and> tg_kind q = tg_kind r) then Inr (False, s)
     else Inr (True, s\<lparr>bd_triggers := bd_triggers s @ [r\<lparr>tg_basis := num 2 (tg_basis r),
                 tg_amount := num 2 (tg_amount r)\<rparr>]\<rparr>))"

definition timePtr :: "time \<Rightarrow> time option" where
  "timePtr t = (if IsZero t then None else Some t)"

definition trigger_kind_text :: "trigger_kind \<Rightarrow> string" where
  "trigger_kind_text k = (case k of CommissionTriggerOnPaid \<Rightarrow> ''on_paid''
     | CommissionTriggerOnActivated \<Rightarrow> ''on_activated'' | CommissionTriggerOnAnniversary \<Rightarrow> ''on_anniversary''
     | CommissionTriggerManual \<Rightarrow> ''manual'' | CommissionTriggerOther t \<Rightarrow> t)"

definition trigger_input_for :: "paid_invoice \<Rightarrow> trigger_input" where
  "trigger_input_for r = \<lparr>ti_invoice_id = pd_invoice_id r, ti_customer_id = pd_customer_id r,
     ti_plan_change_id = (if pd_plan_change_id r \<noteq> Nil_uuid then Some (pd_plan_change_id r) else None),
     ti_sales_user_id = pd_sales_user_id r, ti_basis = pd_basis r, ti_paid_at = timePtr (pd_paid_at r),
     ti_activated_at = pd_activated_at r, ti_anniversary_at = None\<rparr>"

definition trigger_step :: "benv \<Rightarrow> paid_invoice \<Rightarrow> nat \<times> bill_db \<Rightarrow> nat \<times> bill_db" where
  "trigger_step E r st =
    (let (queued, s) = st in
     if be_resigned E (pd_sales_user_id r) (pd_paid_at r) then
       (queued, audit_write E \<lparr>ba_record_type = ''billing.commission_trigger'',
          ba_record_id = pd_invoice_id r, ba_field = ''skipped'',
          ba_after = ''commission.skipped_resigned'', ba_reason = ''wave118.hris.resigned''\<rparr> s)
     else
       let policy = resolveCommissionTriggerPolicy (schema_body E (pd_customer_id r) ''commission'') in
       (case EvaluateTrigger policy (trigger_input_for r) (be_now E) of
          None \<Rightarrow> (queued, s)
        | Some t \<Rightarrow>
            let row = \<lparr>tg_id = fresh_id E s, tg_plan_change_id = et_plan_change_id t,
                  tg_customer_id = pd_customer_id r, tg_sales_user_id = pd_sales_user_id r,
                  tg_kind = et_kind t, tg_invoice_id = et_invoice_id t, tg_basis = pd_basis r,
                  tg_fired_at = be_now E, tg_amount = et_amount t\<rparr>;
                s1 = took 1 s
            in (case triggers_Create E row s1 of
                  Inl _ \<Rightarrow> (queued, s1)
                | Inr (created, s2) \<Rightarrow>
                    if \<not> created then (queued, s2)
                    else (queued + 1, audit_write E \<lparr>ba_record_type = ''billing.commission_trigger'',
                          ba_record_id = tg_id row, ba_field = ''fired'',
                          ba_after = trigger_kind_text (et_kind t),
                          ba_reason = ''wave114.cron.commission_trigger''\<rparr> s2))))"

definition RunCommissionTriggerTick :: "benv \<Rightarrow> bill_db \<Rightarrow> nat res \<times> bill_db" where
  "RunCommissionTriggerTick E s =
    (case ListRecentlyPaidForCommission E (be_now E - 24 * HOUR) s of
       Inl e \<Rightarrow> (Inl (scan_error ''billing.cron.commission_trigger'' ''list recently paid'' e), s)
     | Inr rows \<Rightarrow> (let (queued, s') = each (trigger_step E) rows (0, s) in (Inr queued, s')))"

section \<open>Add-ons (usecase/addon.go)\<close>

definition purchases_Create :: "benv \<Rightarrow> addon_purchase \<Rightarrow> bill_db \<Rightarrow> bill_db res" where
  "purchases_Create E p s = bguard E (AddonCreate (ao_id p))
    (if \<exists>q \<in> set (bd_purchases s). ao_id q = ao_id p then
       Inl (duplicate_err ''addon'' ''insert add-on purchase'')
     else Inr (s\<lparr>bd_purchases := bd_purchases s @ [p\<lparr>ao_unit_price := num 2 (ao_unit_price p),
                 ao_total := num 2 (ao_total p)\<rparr>]\<rparr>))"

definition purchases_Update :: "benv \<Rightarrow> addon_purchase \<Rightarrow> bill_db \<Rightarrow> bill_db res" where
  "purchases_Update E p s = bguard E (AddonUpdate (ao_id p))
    (case tupdate ao_id (\<lambda>q. q\<lparr>ao_status := ao_status p, ao_invoice_id := ao_invoice_id p,
         ao_valid_from := ao_valid_from p, ao_valid_until := ao_valid_until p,
         ao_cancelled_at := ao_cancelled_at p, ao_cancel_reason := ao_cancel_reason p,
         ao_updated_at := be_dbnow E\<rparr>) (ao_id p) (bd_purchases s) of
       None \<Rightarrow> Inl (NotFound ''addon.not_found'' ''add-on purchase not found'')
     | Some rows \<Rightarrow> Inr (s\<lparr>bd_purchases := rows\<rparr>))"

text \<open>
  \<^verbatim>\<open>UpsertCustomerAddon\<close> inserts a row into \<^verbatim>\<open>crm.customer_addons\<close>, the table the recurring pass
  of the scheduler reads; its error is dropped.
\<close>

definition UpsertCustomerAddon :: "benv \<Rightarrow> uuid \<Rightarrow> uuid \<Rightarrow> int \<Rightarrow> f64 \<Rightarrow> string \<Rightarrow> bill_db \<Rightarrow> bill_db" where
  "UpsertCustomerAddon E k addon_id quantity monthly status s =
    (case be_fail E (AddonMirror addon_id) of
       Some _ \<Rightarrow> took 1 s
     | None \<Rightarrow> took 1 (s\<lparr>bd_addons := bd_addons s @ [\<lparr>ca_id = fresh_id E s, ca_customer_id = k,
         ca_addon_id = addon_id, ca_monthly_fee = num 2 (fmul monthly (f_of_int quantity)),
         ca_status = status\<rparr>]\<rparr>))"

definition Purchase :: "benv \<Rightarrow> uuid \<Rightarrow> string \<Rightarrow> int \<Rightarrow> bill_db \<Rightarrow> addon_purchase res \<times> bill_db" where
  "Purchase E k sku quantity s =
    (if k = Nil_uuid then
       (Inl (Validation ''addon.customer_required'' ''customer_id is required''), s)
     else (case be_catalog E sku of
         Inl e \<Rightarrow> (Inl e, s)
       | Inr None \<Rightarrow> (Inl (NotFound ''addon.not_found'' ''add-on sku not found''), s)
       | Inr (Some item) \<Rightarrow>
           if \<not> ct_active item then (Inl (Validation ''addon.inactive'' ''add-on is inactive''), s)
           else
             let qty = (if quantity \<le> 0 then 1 else quantity) in
             (case NewAddOnPurchase (fresh_id E s) (be_now E) k (ct_sku item) (ct_name item)
                 (ct_category item) qty (ct_monthly_fee item) of
                Inl e \<Rightarrow> (Inl e, s)
              | Inr p \<Rightarrow> (case purchases_Create E p (took 1 s) of
                  Inl e \<Rightarrow> (Inl e, took 1 s)
                | Inr s1 \<Rightarrow>
                    let status = (if ao_status p = AddOnStatusPendingInstall then ''pending_install''
                                  else ''active'')
                    in (Inr p, UpsertCustomerAddon E k (ct_id item) qty (ct_monthly_fee item) status s1)))))"

definition addon_Cancel_op :: "benv \<Rightarrow> uuid \<Rightarrow> uuid \<Rightarrow> string \<Rightarrow> bill_db \<Rightarrow> addon_purchase res \<times> bill_db" where
  "addon_Cancel_op E k addon_id reason s =
    (if k = Nil_uuid then
       (Inl (Validation ''addon.customer_required'' ''customer_id is required''), s)
     else if addon_id = Nil_uuid then
       (Inl (Validation ''addon.id_required'' ''add_on id is required''), s)
     else (case bguard E (AddonFind addon_id) (Inr (tfind ao_id addon_id (bd_purchases s))) of
         Inl e \<Rightarrow> (Inl e, s)
       | Inr None \<Rightarrow> (Inl (NotFound ''addon.not_found'' ''add-on not found''), s)
       | Inr (Some p) \<Rightarrow>
           if ao_customer_id p \<noteq> k then (Inl (NotFound ''addon.not_found'' ''add-on not found''), s)
           else (case addon_Cancel (be_now E) reason p of
               Inl e \<Rightarrow> (Inl e, s)
             | Inr p1 \<Rightarrow> (case purchases_Update E p1 s of
                 Inl e \<Rightarrow> (Inl e, s) | Inr s1 \<Rightarrow> (Inr p1, s1)))))"

definition ListExpiring :: "benv \<Rightarrow> time \<Rightarrow> int \<Rightarrow> bill_db \<Rightarrow> addon_purchase list res" where
  "ListExpiring E before limit s = bguard E AddonExpiring
    (Inr (page (nat (if limit \<le> 0 then 200 else limit)) 0 (order_by (\<lambda>p. the (ao_valid_until p))
      (filter (\<lambda>p. ao_status p = AddOnStatusActive
        \<and> (case ao_valid_until p of None \<Rightarrow> False | Some t \<Rightarrow> t \<le> before)) (bd_purchases s)))))"

definition expire_step :: "benv \<Rightarrow> addon_purchase \<Rightarrow> nat \<times> bill_db \<Rightarrow> nat \<times> bill_db" where
  "expire_step E p st =
    (let (expired, s) = st in
     case addon_Expire (be_now E) p of
       Inl _ \<Rightarrow> (expired, s)
     | Inr p1 \<Rightarrow> (case purchases_Update E p1 s of Inl _ \<Rightarrow> (expired, s) | Inr s1 \<Rightarrow> (expired + 1, s1)))"

definition MarkExpiredOlderThan :: "benv \<Rightarrow> time \<Rightarrow> int \<Rightarrow> bill_db \<Rightarrow> nat res \<times> bill_db" where
  "MarkExpiredOlderThan E cutoff limit0 s =
    (let limit = (if limit0 \<le> 0 then 200 else limit0) in
     case ListExpiring E cutoff limit s of
       Inl e \<Rightarrow> (Inl e, s)
     | Inr rows \<Rightarrow> (let (n, s') = each (expire_step E) rows (0, s) in (Inr n, s')))"

end
