(* ===== verification/BillingSystem.thy ===== *)
theory BillingSystem
  imports BillingOrch
begin

text \<open>
  The billing context as one state machine. An event is a call of one of its operations, from
  an HTTP handler, the scheduler or the orchestration cron, each under an environment of its
  own; an event \<open>EvCrm\<close> is any change the CRM context makes to the tables it shares. Every
  operation is a sequence of the writes \<open>bill_write\<close> lists, each with the guards the code has
  established by then, so an invariant is proved once per write. Calls are atomic here.
\<close>

section \<open>Updating the policy (policy\_repo.go)\<close>

record update_policy_input =
  up_late_fee_grace_days :: "int option"
  up_late_fee_amount :: "f64 option"
  up_suspend_after_days :: "int option"
  up_terminate_after_suspended_days :: "int option"
  up_notify_customer_days_before :: "int option"
  up_updated_by :: "uuid option"

definition given :: "'a option \<Rightarrow> 'a \<Rightarrow> 'a" where
  "given x old = (case x of None \<Rightarrow> old | Some y \<Rightarrow> y)"

definition policies_Update :: "benv \<Rightarrow> update_policy_input \<Rightarrow> bill_db \<Rightarrow> policy res \<times> bill_db" where
  "policies_Update E x s =
    (case policies_Get E s of
       Inl e \<Rightarrow> (Inl e, s)
     | Inr cur \<Rightarrow>
         let new = cur\<lparr>
               po_late_fee_grace_days := given (up_late_fee_grace_days x) (po_late_fee_grace_days cur),
               po_late_fee_amount := num 2 (given (up_late_fee_amount x) (po_late_fee_amount cur)),
               po_suspend_after_days := given (up_suspend_after_days x) (po_suspend_after_days cur),
               po_terminate_after_suspended_days :=
                 given (up_terminate_after_suspended_days x) (po_terminate_after_suspended_days cur),
               po_notify_customer_days_before :=
                 given (up_notify_customer_days_before x) (po_notify_customer_days_before cur),
               po_updated_by := up_updated_by x, po_updated_at := be_dbnow E\<rparr>;
             s1 = (case bd_policy s of None \<Rightarrow> s | Some _ \<Rightarrow> s\<lparr>bd_policy := Some new\<rparr>)
         in (policies_Get E s1, s1))"

section \<open>Events\<close>

datatype bill_event =
    EvCreateInvoice create_invoice_input
  | EvIssueInvoice uuid
  | EvCancelInvoice uuid
  | EvRecordPayment record_payment_input
  | EvRequestTermination uuid string uuid
  | EvCancelTermination uuid uuid string
  | EvCompleteTermination uuid
  | EvUpdatePolicy update_policy_input
  | EvBillingTick time
  | EvReminderTick
  | EvLateFeeTick
  | EvSuspensionTick
  | EvRestoreTick
  | EvCommissionTick
  | EvPurchaseAddon uuid string int
  | EvCancelAddon uuid uuid string
  | EvExpireAddons time int
  | EvCrm "crm_customer list" "crm_order list" "crm_referral list" "crm_addon list" "plan_change list"

fun bill_apply :: "benv \<Rightarrow> bill_event \<Rightarrow> bill_db \<Rightarrow> bill_db" where
  "bill_apply E (EvCreateInvoice x) s = snd (CreateInvoice E x s)"
| "bill_apply E (EvIssueInvoice k) s = snd (IssueInvoice E k s)"
| "bill_apply E (EvCancelInvoice k) s = snd (CancelInvoice E k s)"
| "bill_apply E (EvRecordPayment x) s = snd (RecordPayment E x s)"
| "bill_apply E (EvRequestTermination k reason u) s = snd (RequestVoluntaryTermination E k reason u s)"
| "bill_apply E (EvCancelTermination k u reason) s = snd (CancelTerminationRequest E k u reason s)"
| "bill_apply E (EvCompleteTermination wo) s = snd (CompleteTerminationByWO E wo s)"
| "bill_apply E (EvUpdatePolicy x) s = snd (policies_Update E x s)"
| "bill_apply E (EvBillingTick t) s = snd (RunBillingTick E t s)"
| "bill_apply E EvReminderTick s = snd (RunReminderTick E s)"
| "bill_apply E EvLateFeeTick s = snd (RunLateFeeTick E s)"
| "bill_apply E EvSuspensionTick s = snd (RunSuspensionTick E s)"
| "bill_apply E EvRestoreTick s = snd (RunRestoreTick E s)"
| "bill_apply E EvCommissionTick s = snd (RunCommissionTriggerTick E s)"
| "bill_apply E (EvPurchaseAddon k sku n) s = snd (Purchase E k sku n s)"
| "bill_apply E (EvCancelAddon k a reason) s = snd (addon_Cancel_op E k a reason s)"
| "bill_apply E (EvExpireAddons t n) s = snd (MarkExpiredOlderThan E t n s)"
| "bill_apply E (EvCrm cs os rs as ps) s = s\<lparr>bd_customers := cs, bd_orders := os,
     bd_referrals := rs, bd_addons := as, bd_plan_changes := ps\<rparr>"

definition bill_initial :: "policy option \<Rightarrow> bill_db" where
  "bill_initial p = \<lparr>bd_next = 0, bd_invoices = [], bd_items = [], bd_payments = [], bd_policy = p,
     bd_cycles = [], bd_commissions = [], bd_terms = [], bd_rewards = [], bd_purchases = [],
     bd_reminders = [], bd_latefees = [], bd_suspensions = [], bd_triggers = [], bd_customers = [],
     bd_orders = [], bd_referrals = [], bd_addons = [], bd_plan_changes = [], bd_audit = [],
     bd_radius = [], bd_workorders = [], bd_sent = []\<rparr>"

inductive bill_reachable :: "bill_db \<Rightarrow> bool" where
  start: "bill_reachable (bill_initial p)"
| event: "bill_reachable s \<Longrightarrow> bill_reachable (bill_apply E ev s)"

fun bill_run :: "(benv \<times> bill_event) list \<Rightarrow> bill_db \<Rightarrow> bill_db" where
  "bill_run [] s = s"
| "bill_run ((E, ev) # evs) s = bill_run evs (bill_apply E ev s)"

lemma bill_run_reachable: "bill_reachable s \<Longrightarrow> bill_reachable (bill_run evs s)"
  by (induction evs s rule: bill_run.induct) (auto intro: bill_reachable.intros)

section \<open>The writes\<close>

inductive bill_write :: "benv \<Rightarrow> bill_db \<Rightarrow> bill_db \<Rightarrow> bool" for E where
  w_took: "bill_write E s (took n s)"
| w_invoice: "invoices_Create E i ls s = Inr s' \<Longrightarrow>
    iv_status i = InvoiceStatusDraft \<or> iv_status i = InvoiceStatusIssued \<Longrightarrow> iv_paid_at i = None \<Longrightarrow>
    \<forall>l \<in> set ls. li_invoice_id l = iv_id i \<Longrightarrow> ls \<noteq> [] \<Longrightarrow> bill_write E s s'"
| w_status: "invoices_UpdateStatus E k st paid s = Inr s' \<Longrightarrow> tfind iv_id k (bd_invoices s) = Some i \<Longrightarrow>
    invoice_edge (iv_status i) st \<Longrightarrow> (st = InvoiceStatusPaid \<longleftrightarrow> paid \<noteq> None) \<Longrightarrow>
    (st = InvoiceStatusPaid \<Longrightarrow> covers (sql_paid k s) (iv_total i)) \<Longrightarrow> bill_write E s s'"
| w_payment: "payments_Create E p s = Inr s' \<Longrightarrow> bp_status p = BillPaymentConfirmed \<Longrightarrow>
    tfind iv_id (bp_invoice_id p) (bd_invoices s) = Some i \<Longrightarrow> iv_status i \<noteq> InvoiceStatusPaid \<Longrightarrow>
    iv_status i \<noteq> InvoiceStatusCancelled \<Longrightarrow> bill_write E s s'"
| w_policy: "bill_write E s (s\<lparr>bd_policy := p\<rparr>)"
| w_cycle: "cycles_Create E c s = Inr s' \<Longrightarrow> bill_write E s s'"
| w_commission: "commissions_Create E c s = Inr s' \<Longrightarrow> bill_write E s s'"
| w_reward: "rewards_Create E r s = Inr s' \<Longrightarrow> bill_write E s s'"
| w_term_new: "terms_Create E t s = Inr s' \<Longrightarrow> tr_wo_id t = None \<Longrightarrow>
    tr_status t = TerminationStatusWOPending \<or> tr_status t = TerminationStatusAwaitingPayment \<Longrightarrow>
    (be_fail E (TermOpen (tr_customer_id t)) = None \<Longrightarrow>
      \<forall>q \<in> set (bd_terms s). tr_customer_id q = tr_customer_id t \<longrightarrow> \<not> term_open q) \<Longrightarrow>
    bill_write E s s'"
| w_term_minted: "terms_Update E (t\<lparr>tr_wo_id := Some wo, tr_status := TerminationStatusWOCreated\<rparr>) s
      = Inr s' \<Longrightarrow> tfind tr_id (tr_id t) (bd_terms s) = Some q \<Longrightarrow>
    tr_status q = TerminationStatusWOPending \<Longrightarrow> bill_write E s s'"
| w_term_cancelled: "terms_Update E t s = Inr s' \<Longrightarrow> tfind tr_id (tr_id t) (bd_terms s) = Some q \<Longrightarrow>
    term_open q \<Longrightarrow> tr_status t = TerminationStatusCancelled \<Longrightarrow> tr_wo_id t = tr_wo_id q \<Longrightarrow>
    bill_write E s s'"
| w_term_completed: "terms_Update E t s = Inr s' \<Longrightarrow> old \<in> set (bd_terms s) \<Longrightarrow> tr_id t = tr_id old \<Longrightarrow>
    term_open old \<Longrightarrow> tr_wo_id old = Some wo \<Longrightarrow> tr_status t = TerminationStatusCompleted \<Longrightarrow>
    tr_wo_id t = tr_wo_id old \<Longrightarrow> bill_write E s s'"
| w_reminder: "reminders_Create E r s = Inr s' \<Longrightarrow> bill_write E s s'"
| w_sent: "bill_write E s (s\<lparr>bd_sent := l\<rparr>)"
| w_latefee: "latefees_Create E r s = Inr (b, s') \<Longrightarrow> bill_write E s s'"
| w_suspension: "suspensions_Create E r s = Inr s' \<Longrightarrow> bill_write E s s'"
| w_trigger: "triggers_Create E r s = Inr (b, s') \<Longrightarrow> bill_write E s s'"
| w_audit: "bill_write E s (s\<lparr>bd_audit := l\<rparr>)"
| w_customer: "SetCustomerStatus E k st reason s = Inr s' \<Longrightarrow> bill_write E s s'"
| w_radius: "bill_write E s (s\<lparr>bd_radius := l\<rparr>)"
| w_workorder: "bill_write E s (s\<lparr>bd_workorders := l\<rparr>)"
| w_purchase: "purchases_Create E p s = Inr s' \<Longrightarrow> bill_write E s s'"
| w_purchase_update: "purchases_Update E p s = Inr s' \<Longrightarrow> bill_write E s s'"
| w_addon: "bill_write E s (s\<lparr>bd_addons := l\<rparr>)"
| w_crm: "bill_write E s (s\<lparr>bd_customers := cs, bd_orders := os, bd_referrals := rs, bd_addons := as,
     bd_plan_changes := ps\<rparr>)"

definition bill_writes :: "benv \<Rightarrow> bill_db \<Rightarrow> bill_db \<Rightarrow> bool" where
  "bill_writes E = (bill_write E)\<^sup>*\<^sup>*"

named_theorems bws \<open>operations as sequences of writes\<close>

lemma bws_refl [simp, intro]: "bill_writes E s s"
  by (simp add: bill_writes_def)

lemma bws_one: "bill_write E s s' \<Longrightarrow> bill_writes E s s'"
  by (simp add: bill_writes_def r_into_rtranclp)

lemma bws_trans [trans]: "bill_writes E s s1 \<Longrightarrow> bill_writes E s1 s2 \<Longrightarrow> bill_writes E s s2"
  by (simp add: bill_writes_def)

lemma bws_snoc: "bill_writes E s s1 \<Longrightarrow> bill_write E s1 s2 \<Longrightarrow> bill_writes E s s2"
  by (simp add: bill_writes_def)

text \<open>A property every write keeps is kept by the sequence.\<close>

lemma bws_inv: "bill_writes E s s' \<Longrightarrow> (\<And>a b. bill_write E a b \<Longrightarrow> P a \<Longrightarrow> P b) \<Longrightarrow> P s \<Longrightarrow> P s'"
  unfolding bill_writes_def by (induction rule: rtranclp_induct) blast+

text \<open>A relation between states that is reflexive and transitive and holds of every write.\<close>

lemma bws_rel:
  assumes "bill_writes E s s'" "\<And>a b. bill_write E a b \<Longrightarrow> R a b" "\<And>a. R a a"
    "\<And>a b c. R a b \<Longrightarrow> R b c \<Longrightarrow> R a c"
  shows "R s s'"
  using assms(1) unfolding bill_writes_def
  by (induction rule: rtranclp_induct) (use assms in blast)+

lemma each_writes:
  assumes "\<And>x st. bill_writes E (snd st) (snd (f x st))"
  shows "bill_writes E (snd st) (snd (each f xs st))"
proof (induction xs arbitrary: st)
  case (Cons x xs)
  show ?case using bws_trans[OF assms Cons.IH] by simp
qed simp

lemma took_writes: "bill_writes E s (took n s)"
  by (rule bws_one) (rule w_took)

lemma audit_writes: "bill_writes E s (audit_write E a s)"
  by (cases "be_fail E BillAudit") (auto simp: audit_write_def intro: bws_one w_audit)

lemma radius_writes: "bill_writes E s (snd (radius E c cmd s))"
  by (cases "be_fail E c") (auto simp: radius_def intro: bws_one w_radius)

lemma send_writes: "bill_writes E s (snd (SendReminder E k kind s))"
  by (cases "be_fail E (RemSend k)") (auto simp: SendReminder_def intro: bws_one w_sent)

section \<open>Operations as sequences of writes: invoices and payments\<close>

lemma NewInvoice_shape:
  assumes "NewInvoice fresh now cust ord typ ls r due u notes = Inr (iv, out)"
  shows "iv_status iv = InvoiceStatusDraft" "iv_paid_at iv = None" "\<forall>l \<in> set out. li_invoice_id l = iv_id iv"
    "out \<noteq> []" "iv_id iv = fresh 0"
proof -
  have ne: "ls \<noteq> []" using assms by (auto simp: NewInvoice_def split: if_splits)
  have out: "out = fst (fill_lines (\<lambda>i. fresh (Suc i)) (fresh 0) 0 (Fin 0) ls)"
    using assms by (auto simp: NewInvoice_def Let_def split: if_splits prod.splits)
  have "length out = length ls" by (simp only: out fill_lines_lengths)
  with ne show "out \<noteq> []" by auto
  show "iv_status iv = InvoiceStatusDraft" "iv_paid_at iv = None" and id: "iv_id iv = fresh 0"
    using assms by (auto simp: NewInvoice_def Let_def split: if_splits prod.splits)
  show "\<forall>l \<in> set out. li_invoice_id l = iv_id iv"
    unfolding out id by (auto dest: fill_lines_rows)
qed

lemma CreateInvoice_writes [bws]: "bill_writes E s (snd (CreateInvoice E x s))"
proof (cases "NewInvoice (\<lambda>i. be_fresh E (bd_next s + i)) (be_now E) (ci_customer_id x) (ci_order_id x)
    (ci_type x) (map input_line (ci_lines x)) (ci_ppn_rate x) (ci_due x) (ci_created_by x) (ci_notes x)")
  case (Inl e)
  then show ?thesis by (simp add: CreateInvoice_def Let_def)
next
  case (Inr p)
  obtain i0 ls where p: "p = (i0, ls)" by (cases p)
  note sh = NewInvoice_shape[OF Inr[unfolded p]]
  let ?s1 = "took (length (map input_line (ci_lines x)) + 2) s"
  have tk: "bill_writes E s ?s1" by (rule took_writes)
  obtain r where r: "r = (if ci_issue x then Issue (be_now E) i0 else Inr i0)" by blast
  show ?thesis
  proof (cases r)
    case (Inl e)
    with Inr p tk show ?thesis by (simp add: CreateInvoice_def Let_def r[symmetric])
  next
    case i: (Inr i)
    have st: "iv_status i = InvoiceStatusDraft \<or> iv_status i = InvoiceStatusIssued" "iv_paid_at i = None"
      "iv_id i = iv_id i0"
      using i r sh by (auto simp: Issue_def split: if_splits)
    show ?thesis
    proof (cases "invoices_Create E i ls ?s1")
      case (Inl e)
      with Inr p tk show ?thesis using i by (simp add: CreateInvoice_def Let_def r[symmetric])
    next
      case c: (Inr s2)
      have "bill_write E ?s1 s2" using c st sh by (intro w_invoice[OF c]) auto
      with tk have "bill_writes E s s2" by (rule bws_snoc)
      with Inr p show ?thesis using i c by (simp add: CreateInvoice_def Let_def r[symmetric])
    qed
  qed
qed

lemma invoices_FindByID_view:
  "invoices_FindByID E n k s = Inr v \<Longrightarrow> tfind iv_id k (bd_invoices s) = Some (vw_invoice v)"
  by (auto simp: invoices_FindByID_def full_view_def Let_def split: option.splits)

lemma IssueInvoice_writes [bws]: "bill_writes E s (snd (IssueInvoice E k s))"
proof (cases "invoices_FindByID E 0 k s")
  case (Inr v)
  show ?thesis
  proof (cases "Issue (be_now E) (vw_invoice v)")
    case i: (Inr i)
    show ?thesis
    proof (cases "invoices_UpdateStatus E k (iv_status i) None s")
      case (Inr s1)
      have "iv_status i \<noteq> InvoiceStatusPaid" using i by (auto simp: Issue_def split: if_splits)
      then have "bill_write E s s1"
        using invoice_methods_edge(1)[OF i] invoices_FindByID_view[OF \<open>invoices_FindByID E 0 k s = Inr v\<close>]
        by (intro w_status[OF Inr]) auto
      then show ?thesis using \<open>invoices_FindByID E 0 k s = Inr v\<close> i Inr
        by (simp add: IssueInvoice_def bws_one)
    qed (use Inr i in \<open>simp add: IssueInvoice_def\<close>)
  qed (use Inr in \<open>simp add: IssueInvoice_def\<close>)
qed (simp add: IssueInvoice_def)

lemma CancelInvoice_writes [bws]: "bill_writes E s (snd (CancelInvoice E k s))"
proof (cases "invoices_FindByID E 0 k s")
  case (Inr v)
  show ?thesis
  proof (cases "Cancel (be_now E) (vw_invoice v)")
    case i: (Inr i)
    show ?thesis
    proof (cases "invoices_UpdateStatus E k (iv_status i) None s")
      case (Inr s1)
      have "iv_status i \<noteq> InvoiceStatusPaid" using i by (auto simp: Cancel_def split: if_splits)
      then have "bill_write E s s1"
        using invoice_methods_edge(3)[OF i] invoices_FindByID_view[OF \<open>invoices_FindByID E 0 k s = Inr v\<close>]
        by (intro w_status[OF Inr]) auto
      then show ?thesis using \<open>invoices_FindByID E 0 k s = Inr v\<close> i Inr
        by (simp add: CancelInvoice_def bws_one)
    qed (use Inr i in \<open>simp add: CancelInvoice_def\<close>)
  qed (use Inr in \<open>simp add: CancelInvoice_def\<close>)
qed (simp add: CancelInvoice_def)

lemma create_commissions_writes: "bill_writes E s (create_commissions E cs s)"
proof (induction cs arbitrary: s)
  case (Cons c cs)
  show ?case
  proof (cases "commissions_Create E c s")
    case (Inr s1)
    show ?thesis using bws_trans[OF bws_one[OF w_commission[OF Inr]] Cons.IH] Inr by simp
  qed (simp add: Cons.IH)
qed simp

lemma maybeApplyCommission_writes [bws]: "bill_writes E s (maybeApplyCommission E v p s)"
proof -
  have *: "bill_writes E s (create_commissions E rows (took n s))" for rows n
    by (rule bws_trans[OF took_writes create_commissions_writes])
  show ?thesis
    by (auto simp: maybeApplyCommission_def Let_def * split: option.splits sum.splits)
qed

lemma maybeApplyReferralReward_writes [bws]: "bill_writes E s (maybeApplyReferralReward E v s)"
proof -
  have *: "bill_writes E s s2" if "rewards_Create E r (took 1 s) = Inr s2" for r s2
    by (rule bws_snoc[OF took_writes w_reward[OF that]])
  show ?thesis
    by (auto simp: maybeApplyReferralReward_def Let_def * took_writes simp del: One_nat_def
        split: option.splits sum.splits)
qed

text \<open>The order of the effects of a payment: the row, the flip, then what hangs off the flip.\<close>

lemma RecordPayment_writes [bws]: "bill_writes E s (snd (RecordPayment E x s))"
proof (cases "invoices_FindByID E 0 (rp_invoice_id x) s")
  case f: (Inr v)
  let ?k = "rp_invoice_id x" and ?i = "vw_invoice v"
  have row: "tfind iv_id ?k (bd_invoices s) = Some ?i" by (rule invoices_FindByID_view[OF f])
  show ?thesis
  proof (cases "iv_status ?i = InvoiceStatusCancelled \<or> iv_status ?i = InvoiceStatusPaid")
    case True
    with f show ?thesis by (auto simp: RecordPayment_def)
  next
    case opn: False
    show ?thesis
    proof (cases "NewPayment (fresh_id E s) (be_now E) ?k (iv_customer_id ?i) (rp_amount x) (rp_method x)
        (Some (rp_confirmed_by x)) (rp_notes x)")
      case (Inl e)
      with f opn show ?thesis by (auto simp: RecordPayment_def)
    next
      case p0: (Inr p0)
      let ?p = "p0\<lparr>bp_gateway_txn := rp_gateway_txn x\<rparr>" and ?s1 = "took 1 s"
      have p: "bp_status ?p = BillPaymentConfirmed" "bp_invoice_id ?p = ?k"
        using p0 by (auto simp: NewPayment_def Let_def split: if_splits)
      have tk: "bill_writes E s ?s1" by (rule took_writes)
      show ?thesis
      proof (cases "payments_Create E ?p ?s1")
        case (Inl e)
        with f opn p0 tk show ?thesis by (auto simp: RecordPayment_def Let_def simp del: One_nat_def)
      next
        case c: (Inr s2)
        have "bill_write E ?s1 s2"
          using p row opn by (intro w_payment[OF c]) (auto simp: took_def)
        with tk have w2: "bill_writes E s s2" by (rule bws_snoc)
        have same: "bd_invoices s2 = bd_invoices s"
          using c by (auto simp: payments_Create_def Let_def took_def split: if_splits)
        show ?thesis
        proof (cases "SumConfirmedForInvoice E ?k s2")
          case (Inl e)
          with f opn p0 c w2 show ?thesis by (auto simp: RecordPayment_def Let_def simp del: One_nat_def)
        next
          case sm: (Inr paid)
          have paid: "paid = sql_paid ?k s2" using sm by (auto simp: SumConfirmedForInvoice_def)
          let ?flip = "covers paid (iv_total ?i)"
          let ?u = "if ?flip then invoices_UpdateStatus E ?k InvoiceStatusPaid (Some (be_now E)) s2 else Inr s2"
          show ?thesis
          proof (cases ?u)
            case (Inl e)
            with f opn p0 c sm w2 show ?thesis
              by (auto simp: RecordPayment_def Let_def simp del: One_nat_def)
          next
            case u: (Inr s3)
            have w3: "bill_writes E s s3"
            proof (cases ?flip)
              case True
              with u have u': "invoices_UpdateStatus E ?k InvoiceStatusPaid (Some (be_now E)) s2 = Inr s3" by simp
              have "bill_write E s2 s3" using row opn True paid
                by (intro w_status[OF u', where i = ?i])
                  (cases "iv_status ?i"; auto simp: same invoice_edge_def)+
              with w2 show ?thesis by (rule bws_snoc)
            qed (use u w2 in simp)
            note base = f opn p0 c sm u
            show ?thesis
            proof (cases "invoices_FindByID E 1 ?k s3")
              case (Inl e)
              with base w3 show ?thesis
                by (auto simp: RecordPayment_def Let_def simp del: One_nat_def split: if_splits)
            next
              case (Inr w)
              have "bill_writes E s (maybeApplyReferralReward E w (maybeApplyCommission E w ?p s3))"
                by (rule bws_trans[OF bws_trans[OF w3 maybeApplyCommission_writes] maybeApplyReferralReward_writes])
              with base Inr w3 show ?thesis
                by (auto simp: RecordPayment_def Let_def simp del: One_nat_def split: if_splits)
            qed
          qed
        qed
      qed
    qed
  qed
qed (simp add: RecordPayment_def)

end
