(* ===== verification/BillingTraces.thy ===== *)
theory BillingTraces
  imports BillingSystem
begin

text \<open>
  The rest of the billing operations as sequences of writes: terminations, the scheduler, the
  orchestration ticks and the add-ons; together with \<open>BillingSystem\<close> every event is one.
\<close>

section \<open>Terminations\<close>

lemma terms_Create_find:
  "terms_Create E t s = Inr s' \<Longrightarrow> \<exists>q. tfind tr_id (tr_id t) (bd_terms s') = Some q
     \<and> tr_status q = tr_status t"
  by (auto simp: terms_Create_def tfind_append tfind_None_iff[THEN iffD2] split: if_splits option.splits)

lemma CreateTerminationWO_state:
  "CreateTerminationWO E k address s = Inr (wo, s1) \<Longrightarrow>
     s1 = took 2 (s\<lparr>bd_workorders := bd_workorders s @ [(wo, k)]\<rparr>)"
  by (auto simp: CreateTerminationWO_def Let_def simp del: One_nat_def split: if_splits)

lemma mintTerminationWO_writes:
  assumes "tfind tr_id (tr_id t) (bd_terms s) = Some q" "tr_status q = TerminationStatusWOPending"
  shows "bill_writes E s (snd (mintTerminationWO E t sm s))"
proof (cases "CreateTerminationWO E (tr_customer_id t) (sm_address sm) s")
  case (Inr p)
  obtain wo s1 where p: "p = (wo, s1)" by (cases p)
  note s1 = CreateTerminationWO_state[OF Inr[unfolded p]]
  have w1: "bill_writes E s s1"
    unfolding s1 by (rule bws_trans[OF bws_one[OF w_workorder] took_writes])
  have find: "tfind tr_id (tr_id t) (bd_terms s1) = Some q" using assms(1) by (simp add: s1 took_def)
  show ?thesis
  proof (cases "terms_Update E (t\<lparr>tr_wo_id := Some wo, tr_status := TerminationStatusWOCreated\<rparr>) s1")
    case u: (Inr s2)
    show ?thesis using bws_snoc[OF w1 w_term_minted[OF u find assms(2)]] Inr p u
      by (simp add: mintTerminationWO_def)
  qed (use Inr p w1 in \<open>simp add: mintTerminationWO_def\<close>)
qed (simp add: mintTerminationWO_def)

lemma no_open_request:
  assumes "\<not> found_some (terms_FindOpenForCustomer E k s)" "be_fail E (TermOpen k) = None"
  shows "\<forall>q \<in> set (bd_terms s). tr_customer_id q = k \<longrightarrow> \<not> term_open q"
proof -
  let ?l = "order_by (\<lambda>t. - tr_requested_at t) (filter (\<lambda>t. tr_customer_id t = k \<and> term_open t) (bd_terms s))"
  have "?l = []" using assms by (cases ?l) (auto simp: found_some_iff terms_FindOpenForCustomer_def)
  then have "set ?l = {}" by simp
  then show ?thesis by (simp add: filter_empty_conv)
qed

lemma open_request_lists:
  "terms_FindOpenForCustomer E k (took n s) = terms_FindOpenForCustomer E k s"
  by (simp add: terms_FindOpenForCustomer_def took_def)

text \<open>A new request: the identifier is drawn, maybe a penalty invoice, then the row.\<close>

lemma new_term_writes:
  assumes w: "bill_writes E s s1" and same: "bd_terms s1 = bd_terms s"
    and none: "\<not> found_some (terms_FindOpenForCustomer E (tr_customer_id t) s)"
    and c: "terms_Create E t s1 = Inr s2" and t: "tr_wo_id t = None"
      "tr_status t = TerminationStatusWOPending \<or> tr_status t = TerminationStatusAwaitingPayment"
  shows "bill_writes E s s2"
  using no_open_request[OF none] by (intro bws_snoc[OF w w_term_new[OF c t]]) (simp add: same)

lemma invoices_Create_terms: "invoices_Create E i ls s = Inr s' \<Longrightarrow> bd_terms s' = bd_terms s"
  by (auto simp: invoices_Create_def Let_def split: if_splits)

lemma CreateInvoice_terms: "bd_terms (snd (CreateInvoice E x s)) = bd_terms s"
  by (auto simp: CreateInvoice_def Let_def took_def split: sum.splits dest: invoices_Create_terms)

lemma RequestVoluntaryTermination_writes [bws]:
  "bill_writes E s (snd (RequestVoluntaryTermination E k reason u s))"
proof (cases "k = Nil_uuid \<or> found_some (terms_FindOpenForCustomer E k s)")
  case True
  then show ?thesis by (auto simp: RequestVoluntaryTermination_def)
next
  case none: False
  show ?thesis
  proof (cases "CustomerSummary E k s")
    case (Inl e)
    with none show ?thesis by (auto simp: RequestVoluntaryTermination_def)
  next
    case sm: (Inr sm)
    show ?thesis
    proof (cases "sm_status sm = ''terminated''")
      case True
      with none sm show ?thesis by (auto simp: RequestVoluntaryTermination_def)
    next
      case live: False
      show ?thesis
      proof (cases "outstandingFor E k s")
        case (Inl e)
        with none sm live show ?thesis by (auto simp: RequestVoluntaryTermination_def)
      next
        case o1: (Inr outstanding)
        define now where "now = be_now E"
        define penalty where "penalty = lock_in_penalty now sm"
        define t where "t = \<lparr>tr_id = fresh_id E s, tr_customer_id = k, tr_order_id = sm_order_id sm,
                       tr_kind = TerminationKindVoluntary, tr_status = TerminationStatusRequested,
                       tr_reason = reason,
                       tr_requested_by = (if u = Nil_uuid then None else Some u),
                       tr_final_invoice_id = None, tr_penalty = penalty, tr_outstanding = outstanding,
                       tr_wo_id = None, tr_requested_at = now, tr_completed_at = None, tr_notes = []\<rparr>"
        define s1 where "s1 = took 1 s"
        have tk: "bill_writes E s s1" and same1: "bd_terms s1 = bd_terms s"
          unfolding s1_def by (rule took_writes) (simp add: took_def)
        define t1 where "t1 = t\<lparr>tr_status := TerminationStatusWOPending\<rparr>"
        define t2 where "t2 = (if flt (Fin 0) outstanding then
            t\<lparr>tr_notes := ''Outstanding open invoices total Rp '' @ fmt0 outstanding @ '' at request time.''\<rparr>
            else t)"
        define pen where "pen = (if flt (Fin 0) penalty
            then (case CreateInvoice E (penalty_input k (sm_order_id sm) now penalty) s1 of
                (Inl e, s') \<Rightarrow> (Inl e, s')
              | (Inr v, s') \<Rightarrow> (Inr (t2\<lparr>tr_final_invoice_id := Some (iv_id (vw_invoice v))\<rparr>), s'))
            else (Inr t2, s1))"
        have eq: "snd (RequestVoluntaryTermination E k reason u s) =
          (if flt (fadd outstanding penalty) (rnd (1 / 100)) then
             (case terms_Create E t1 s1 of Inl e \<Rightarrow> s1 | Inr s2 \<Rightarrow> snd (mintTerminationWO E t1 sm s2))
           else (case pen of (Inl e, s2) \<Rightarrow> s2
             | (Inr t3, s2) \<Rightarrow> (case terms_Create E (t3\<lparr>tr_status := TerminationStatusAwaitingPayment\<rparr>) s2 of
                 Inl e \<Rightarrow> s2 | Inr s3 \<Rightarrow> s3)))"
        proof -
          have f: "(k = Nil_uuid) = False" "found_some (terms_FindOpenForCustomer E k s) = False"
            "(sm_status sm = ''terminated'') = False"
            using none live by auto
          show ?thesis
            unfolding RequestVoluntaryTermination_def f sm o1 Let_def if_False sum.case
              t_def[symmetric] now_def[symmetric] penalty_def[symmetric] s1_def[symmetric]
            unfolding penalty_def[symmetric] t_def[symmetric] t1_def[symmetric] t2_def[symmetric] pen_def[symmetric]
            by (simp only: if_distrib[of snd] sum.case_distrib[of snd] prod.case_distrib[of snd] snd_conv)
        qed
        have none': "\<not> found_some (terms_FindOpenForCustomer E k s)" using none by simp
        show ?thesis
        proof (cases "flt (fadd outstanding penalty) (rnd (1 / 100))")
          case True
          show ?thesis
          proof (cases "terms_Create E t1 s1")
            case (Inl e)
            with True tk show ?thesis unfolding eq by simp
          next
            case c: (Inr s2)
            have t1: "tr_customer_id t1 = k" "tr_wo_id t1 = None" "tr_status t1 = TerminationStatusWOPending"
              by (simp_all add: t1_def t_def)
            have w2: "bill_writes E s s2"
              using t1 none' by (intro new_term_writes[OF tk same1 _ c]) auto
            obtain q where q: "tfind tr_id (tr_id t1) (bd_terms s2) = Some q" "tr_status q = tr_status t1"
              using terms_Create_find[OF c] by blast
            then have "tr_status q = TerminationStatusWOPending" using t1 by simp
            note w3 = mintTerminationWO_writes[OF q(1) this, of E sm]
            show ?thesis using bws_trans[OF w2 w3] True c unfolding eq by simp
          qed
        next
          case False
          obtain r s2 where pen: "pen = (r, s2)" by (cases pen)
          have w2: "bill_writes E s s2" and same2: "bd_terms s2 = bd_terms s"
            and t3: "\<And>t3. r = Inr t3 \<Longrightarrow> tr_customer_id t3 = k \<and> tr_wo_id t3 = None"
          proof -
            let ?c = "CreateInvoice E (penalty_input k (sm_order_id sm) now penalty) s1"
            obtain r' s' where c: "?c = (r', s')" by (cases ?c)
            have *: "bill_writes E s s'" "bd_terms s' = bd_terms s"
              using bws_trans[OF tk CreateInvoice_writes] CreateInvoice_terms[of E _ s1] c same1
              by (metis snd_conv)+
            have t2: "tr_customer_id t2 = k \<and> tr_wo_id t2 = None" by (simp add: t2_def t_def)
            show "bill_writes E s s2" "bd_terms s2 = bd_terms s"
              using pen c * tk same1 by (auto simp: pen_def split: if_splits sum.splits)
            show "\<And>t3. r = Inr t3 \<Longrightarrow> tr_customer_id t3 = k \<and> tr_wo_id t3 = None"
              using pen c t2 by (auto simp: pen_def split: if_splits sum.splits)
          qed
          show ?thesis
          proof (cases r)
            case (Inl e)
            with False pen w2 show ?thesis unfolding eq by simp
          next
            case r: (Inr t3)
            note t3 = t3[OF r]
            show ?thesis
            proof (cases "terms_Create E (t3\<lparr>tr_status := TerminationStatusAwaitingPayment\<rparr>) s2")
              case (Inl e)
              with False pen r w2 show ?thesis unfolding eq by simp
            next
              case c: (Inr s3)
              have "bill_writes E s s3" using t3 none' by (intro new_term_writes[OF w2 same2 _ c]) auto
              with False pen r c show ?thesis unfolding eq by simp
            qed
          qed
        qed
      qed
    qed
  qed
qed

lemma terms_FindByID_row: "terms_FindByID E k s = Inr t \<Longrightarrow> tfind tr_id k (bd_terms s) = Some t"
  by (auto simp: terms_FindByID_def split: option.splits)

lemma CancelTerminationRequest_writes [bws]: "bill_writes E s (snd (CancelTerminationRequest E k u reason s))"
proof (cases "terms_FindByID E k s")
  case f: (Inr t)
  show ?thesis
  proof (cases "tr_status t = TerminationStatusCompleted \<or> tr_status t = TerminationStatusCancelled")
    case True
    with f show ?thesis by (auto simp: CancelTerminationRequest_def)
  next
    case opn: False
    define t' where "t' = t\<lparr>tr_status := TerminationStatusCancelled, tr_completed_at := Some (be_now E),
        tr_notes := strJoin (tr_notes t) (''cancelled by '' @ uuid_text u @ '': '' @ reason)\<rparr>"
    have row: "tfind tr_id k (bd_terms s) = Some t" by (rule terms_FindByID_row[OF f])
    have "tr_id t = k" using tfind_SomeD[OF row] by simp
    show ?thesis
    proof (cases "terms_Update E t' s")
      case c: (Inr s1)
      have "bill_write E s s1" using row opn \<open>tr_id t = k\<close>
        by (intro w_term_cancelled[OF c, where q = t]) (auto simp: t'_def term_open_def)
      moreover have "snd (CancelTerminationRequest E k u reason s) = s1"
        using f opn c[unfolded t'_def] by (simp add: CancelTerminationRequest_def)
      ultimately show ?thesis by (simp add: bws_one)
    qed (use f opn in \<open>simp add: CancelTerminationRequest_def t'_def\<close>)
  qed
qed (simp add: CancelTerminationRequest_def)

lemma terms_FindByWOID_row: "terms_FindByWOID E wo s = Inr (Some t) \<Longrightarrow> t \<in> set (bd_terms s) \<and> tr_wo_id t = Some wo"
proof -
  assume f: "terms_FindByWOID E wo s = Inr (Some t)"
  let ?l = "order_by (\<lambda>t. - tr_requested_at t) (filter (\<lambda>t. tr_wo_id t = Some wo) (bd_terms s))"
  have "t \<in> set ?l" using f by (cases ?l) (auto simp: terms_FindByWOID_def simp del: set_order_by)
  then show ?thesis by simp
qed

lemma set_customer_writes:
  "bill_writes E s (case SetCustomerStatus E k st reason s of Inl _ \<Rightarrow> s | Inr s' \<Rightarrow> s')"
  by (auto split: sum.splits intro: bws_one w_customer)

lemma CompleteTerminationByWO_writes [bws]: "bill_writes E s (snd (CompleteTerminationByWO E wo s))"
proof (cases "\<exists>t. terms_FindByWOID E wo s = Inr (Some t)
    \<and> tr_status t \<noteq> TerminationStatusCompleted \<and> tr_status t \<noteq> TerminationStatusCancelled")
  case False
  then show ?thesis by (auto simp: CompleteTerminationByWO_def split: sum.splits option.splits)
next
  case True
  then obtain t where t: "terms_FindByWOID E wo s = Inr (Some t)"
    "tr_status t \<noteq> TerminationStatusCompleted" "tr_status t \<noteq> TerminationStatusCancelled" by blast
  note row = terms_FindByWOID_row[OF t(1)]
  define t' where "t' = t\<lparr>tr_status := TerminationStatusCompleted, tr_completed_at := Some (be_now E)\<rparr>"
  show ?thesis
  proof (cases "terms_Update E t' s")
    case c: (Inr s1)
    have w1: "bill_write E s s1" using row t
      by (intro w_term_completed[OF c, where old = t and wo = wo]) (auto simp: t'_def term_open_def)
    have "bill_writes E s (snd (radius E cc cmd (case SetCustomerStatus E k st r s1 of Inl _ \<Rightarrow> s1 | Inr s' \<Rightarrow> s')))"
      for cc cmd k st r
      by (rule bws_trans[OF bws_one[OF w1] bws_trans[OF set_customer_writes radius_writes]])
    with t c show ?thesis by (auto simp: CompleteTerminationByWO_def t'_def Let_def)
  qed (use t in \<open>auto simp: CompleteTerminationByWO_def t'_def\<close>)
qed

section \<open>The scheduler\<close>

lemma put_cycle_writes: "bill_writes E s (put_cycle E now ord period k cst nts s)"
  by (auto simp: put_cycle_def Let_def simp del: One_nat_def split: sum.splits
      intro: took_writes bws_snoc[OF took_writes w_cycle])

lemma bill_order_writes: "bill_writes E (snd st) (snd (bill_order E now ord st))"
proof -
  have *: "bill_writes E s (put_cycle E now ord period k cst nts (snd (CreateInvoice E x s)))"
    for x s period k cst nts
    by (rule bws_trans[OF CreateInvoice_writes put_cycle_writes])
  show ?thesis
    by (simp add: bill_order_def Let_def case_prod_beta * split: sum.splits)
qed

lemma recurring_step_writes: "bill_writes E (snd st) (snd (recurring_step E now ord st))"
proof -
  have "bill_writes E s (snd (bill_order E now ord (rep, s)))" for rep s
    using bill_order_writes[of E "(rep, s)"] by simp
  then show ?thesis by (auto simp: recurring_step_def Let_def split: prod.splits sum.splits bool.splits)
qed

lemma late_fee_step_writes: "bill_writes E (snd st) (snd (late_fee_step E now p v st))"
proof -
  have *: "bill_writes E s s1" if "CreateInvoice E x s = (r, s1)" for x s r s1
    using CreateInvoice_writes[of E s x] that by simp
  show ?thesis
    by (auto simp: late_fee_step_def Let_def split: prod.splits sum.splits bool.splits intro: *)
qed

lemma customer_radius_writes:
  "SetCustomerStatus E k st reason s = Inr s1 \<Longrightarrow> radius E c cmd s1 = (e, s2) \<Longrightarrow> bill_writes E s s2"
  using bws_trans[OF bws_one[OF w_customer] radius_writes] by (metis snd_conv)

lemma suspend_step_writes: "bill_writes E (snd st) (snd (suspend_step E now p ord st))"
  by (auto simp: suspend_step_def Let_def split: prod.splits sum.splits
      dest: customer_radius_writes)

lemma restore_step_writes: "bill_writes E (snd st) (snd (restore_step E now sc st))"
  by (auto simp: restore_step_def Let_def split: prod.splits sum.splits
      dest: customer_radius_writes)

lemma auto_term_step_writes: "bill_writes E (snd st) (snd (auto_term_step E now policy sc st))"
proof -
  obtain rep s where st: "st = (rep, s)" by (cases st)
  define k where "k = sc_customer_id sc"
  define days where "days = po_terminate_after_suspended_days (resolvedSuspensionPolicy E k policy)"
  show ?thesis
  proof (cases "\<not> shouldAutoTerminate now (sc_suspended_at sc) days
      \<or> found_some (terms_FindOpenForCustomer E k s)")
    case True
    then show ?thesis by (auto simp: auto_term_step_def Let_def st k_def days_def)
  next
    case none: False
    define t where "t = \<lparr>tr_id = fresh_id E s, tr_customer_id = k, tr_order_id = sc_order_id sc,
                tr_kind = TerminationKindAuto, tr_status = TerminationStatusWOPending,
                tr_reason = ''auto-termination after '' @ dec days @ '' days suspended'',
                tr_requested_by = None, tr_final_invoice_id = None, tr_penalty = Fin 0,
                tr_outstanding = (case outstandingFor E k s of Inl _ \<Rightarrow> Fin 0 | Inr x \<Rightarrow> x), tr_wo_id = None,
                tr_requested_at = now, tr_completed_at = None, tr_notes = []\<rparr>"
    have tk: "bill_writes E s (took 1 s)" by (rule took_writes)
    have eq: "snd (auto_term_step E now policy sc st) =
      (case terms_Create E t (took 1 s) of Inl e \<Rightarrow> took 1 s
       | Inr s2 \<Rightarrow> (case CustomerSummary E k s2 of Inl e \<Rightarrow> s2
          | Inr sm \<Rightarrow> snd (mintTerminationWO E t sm s2)))"
    proof -
      have f: "(\<not> shouldAutoTerminate now (sc_suspended_at sc) days) = False"
        "found_some (terms_FindOpenForCustomer E k s) = False"
        using none by auto
      show ?thesis
        unfolding auto_term_step_def st Let_def prod.case k_def[symmetric]
        unfolding days_def[symmetric] f if_False t_def[symmetric]
        by (simp only: sum.case_distrib[of snd] prod.case_distrib[of snd] option.case_distrib[of snd]
            snd_conv split: sum.splits prod.splits option.splits) auto
    qed
    show ?thesis
    proof (cases "terms_Create E t (took 1 s)")
      case (Inl e)
      with tk show ?thesis unfolding eq by (simp add: st)
    next
      case c: (Inr s2)
      have w2: "bill_writes E s s2" using none
        by (intro new_term_writes[OF tk _ _ c]) (auto simp: took_def t_def)
      obtain q where q: "tfind tr_id (tr_id t) (bd_terms s2) = Some q" "tr_status q = tr_status t"
        using terms_Create_find[OF c] by blast
      then have "tr_status q = TerminationStatusWOPending" by (simp add: t_def)
      note w3 = mintTerminationWO_writes[OF q(1) this, of E]
      show ?thesis using c w2 bws_trans[OF w2 w3] unfolding eq
        by (auto simp: st split: sum.splits)
    qed
  qed
qed

lemma run_pass_writes:
  assumes "\<And>st. bill_writes E (snd st) (snd (snd (f st)))"
  shows "bill_writes E (snd st) (snd (run_pass name f st))"
  using assms[of st] by (auto simp: run_pass_def split: prod.splits option.splits)

lemma passes_writes:
  "bill_writes E (snd st) (snd (snd (tickRecurring E now st)))"
  "bill_writes E (snd st) (snd (snd (tickLateFees E now p st)))"
  "bill_writes E (snd st) (snd (snd (runAutoTermination E now p st)))"
  by (auto simp: tickRecurring_def tickLateFees_def runAutoTermination_def split: sum.splits prod.splits
      intro: each_writes recurring_step_writes late_fee_step_writes auto_term_step_writes)

lemma tickSuspendRestore_writes: "bill_writes E (snd st) (snd (snd (tickSuspendRestore E now p st)))"
proof -
  have 1: "bill_writes E (snd st) (snd (each (suspend_step E now p) os st))" for os
    by (intro each_writes suspend_step_writes)
  have "bill_writes E (snd st') (snd (each (restore_step E now) cs st'))" for cs st'
    by (intro each_writes restore_step_writes)
  from bws_trans[OF 1 this] 1 show ?thesis
    by (auto simp: tickSuspendRestore_def Let_def split: sum.splits)
qed

lemma RunBillingTick_writes [bws]: "bill_writes E s (snd (RunBillingTick E now s))"
proof (cases "policies_Get E s")
  case (Inr p)
  let ?st1 = "run_pass ''recurring'' (tickRecurring E now) (empty_report, s)"
  let ?st2 = "run_pass ''late_fees'' (tickLateFees E now p) ?st1"
  let ?st3 = "run_pass ''suspend_restore'' (tickSuspendRestore E now p) ?st2"
  let ?st4 = "run_pass ''terminations'' (runAutoTermination E now p) ?st3"
  have "bill_writes E (snd (empty_report, s)) (snd ?st1)" by (intro run_pass_writes passes_writes)
  also have "bill_writes E (snd ?st1) (snd ?st2)" by (intro run_pass_writes passes_writes)
  also have "bill_writes E (snd ?st2) (snd ?st3)" by (intro run_pass_writes tickSuspendRestore_writes)
  also have "bill_writes E (snd ?st3) (snd ?st4)" by (intro run_pass_writes passes_writes)
  finally show ?thesis using Inr by (simp add: RunBillingTick_def case_prod_beta Let_def)
qed (simp add: RunBillingTick_def)

section \<open>The orchestration ticks\<close>

lemma reminder_step_writes: "bill_writes E (snd st) (snd (reminder_step E v st))"
proof -
  have *: "bill_writes E s (audit_write E a s3)"
    if "reminders_Create E r (took n (snd (SendReminder E k kind s))) = Inr s3" for a r n k kind s s3
    by (rule bws_trans[OF bws_snoc[OF bws_trans[OF send_writes took_writes] w_reminder[OF that]] audit_writes])
  have **: "bill_writes E s (took n (snd (SendReminder E k kind s)))" for n k kind s
    by (rule bws_trans[OF send_writes took_writes])
  show ?thesis
    by (auto simp: reminder_step_def Let_def case_prod_beta ** simp del: One_nat_def
        split: option.splits sum.splits intro: *)
qed

lemma fee_step_writes: "bill_writes E (snd st) (snd (fee_step E v st))"
proof -
  have *: "bill_writes E s s2" if "latefees_Create E r (took n s) = Inr (b, s2)" for r n s b s2
    by (rule bws_snoc[OF took_writes w_latefee[OF that]])
  show ?thesis
    by (auto simp: fee_step_def Let_def case_prod_beta took_writes simp del: One_nat_def
        split: sum.splits intro: * bws_trans[OF * audit_writes])
qed

lemma SetSuspensionState_writes: "SetSuspensionState E k st s = Inr s1 \<Longrightarrow> bill_writes E s s1"
  by (cases st) (auto simp: SetSuspensionState_def intro: bws_one w_customer)

lemma try_state_writes: "bill_writes E s (try_state E k st s)"
  by (auto simp: try_state_def split: sum.splits intro: SetSuspensionState_writes)

lemma suspension_row_writes:
  assumes "bill_writes E s s1"
  shows "bill_writes E s (took n s1)"
    "suspensions_Create E r (took n s1) = Inr s3 \<Longrightarrow> bill_writes E s (audit_write E a s3)"
  using bws_trans[OF assms took_writes] bws_trans[OF bws_snoc[OF bws_trans[OF assms took_writes] w_suspension] audit_writes]
  by blast+

lemma suspension_step_writes: "bill_writes E (snd st) (snd (suspension_step E c st))"
proof -
  have 1: "bill_writes E s (case act of
      SuspensionActionSoftSuspend \<Rightarrow> try_state E k CustomerSuspensionStateSoftSuspend s | _ \<Rightarrow> s)" for act k s
    by (cases act) (simp_all add: try_state_writes)
  have 2: "bill_writes E s (case act of
      SuspensionActionSoftSuspend \<Rightarrow> try_state E k CustomerSuspensionStateSoftSuspend s
    | SuspensionActionHardSuspend \<Rightarrow> try_state E k CustomerSuspensionStateHardSuspend s
    | _ \<Rightarrow> s)" for act k s
    by (cases act) (simp_all add: try_state_writes)
  show ?thesis
    by (cases "sp_supervisor (suspension_policy_for E (sd_customer_id c))")
      (auto simp: suspension_step_def Let_def case_prod_beta suspension_row_writes(1)[OF 1]
        suspension_row_writes(1)[OF 2] simp del: One_nat_def split: option.splits sum.splits
        intro: suspension_row_writes(2)[OF 1] suspension_row_writes(2)[OF 2])
qed

lemma orch_restore_step_writes: "bill_writes E (snd st) (snd (orch_restore_step E c st))"
proof -
  have 1: "bill_writes E s s2" if "radius E cc cmd s = (e, s1)" "SetSuspensionState E k x s1 = Inr s2"
    for cc cmd e s s1 s2 k x
    using radius_writes[of E s cc cmd] that(1) by (intro bws_trans[OF _ SetSuspensionState_writes[OF that(2)]]) simp
  have 2: "bill_writes E s s1" if "radius E cc cmd s = (e, s1)" for cc cmd e s s1
    using radius_writes[of E s cc cmd] that by simp
  show ?thesis
    by (auto simp: orch_restore_step_def Let_def simp del: One_nat_def
        split: prod.splits option.splits sum.splits dest: 2
        intro: suspension_row_writes(1)[OF 1] suspension_row_writes(2)[OF 1])
qed

lemma trigger_step_writes: "bill_writes E (snd st) (snd (trigger_step E r st))"
proof -
  have *: "bill_writes E s s2" if "triggers_Create E row (took n s) = Inr (b, s2)" for row n s b s2
    by (rule bws_snoc[OF took_writes w_trigger[OF that]])
  show ?thesis
    by (auto simp: trigger_step_def Let_def case_prod_beta took_writes audit_writes simp del: One_nat_def
        split: option.splits sum.splits intro: * bws_trans[OF * audit_writes])
qed

lemma each_pair_writes:
  assumes "\<And>x st. bill_writes E (snd st) (snd (f x st))" "each f xs (n, s) = (m, s')"
  shows "bill_writes E s s'"
proof -
  have "bill_writes E (snd (n, s)) (snd (each f xs (n, s)))" by (rule each_writes) (rule assms(1))
  with assms(2) show ?thesis by simp
qed

lemma orchestration_writes [bws]:
  "bill_writes E s (snd (RunReminderTick E s))" "bill_writes E s (snd (RunLateFeeTick E s))"
  "bill_writes E s (snd (RunSuspensionTick E s))" "bill_writes E s (snd (RunRestoreTick E s))"
  "bill_writes E s (snd (RunCommissionTriggerTick E s))"
  by (auto simp: RunReminderTick_def RunLateFeeTick_def RunSuspensionTick_def RunRestoreTick_def
      RunCommissionTriggerTick_def split: sum.splits prod.splits
      elim!: each_pair_writes[OF reminder_step_writes] each_pair_writes[OF fee_step_writes]
        each_pair_writes[OF suspension_step_writes] each_pair_writes[OF orch_restore_step_writes]
        each_pair_writes[OF trigger_step_writes])

section \<open>Add-ons and the policy\<close>

lemma UpsertCustomerAddon_writes: "bill_writes E s (UpsertCustomerAddon E k a q f st s)"
  by (auto simp: UpsertCustomerAddon_def simp del: One_nat_def split: option.splits
      intro: took_writes bws_trans[OF bws_one[OF w_addon] took_writes])

lemma Purchase_writes [bws]: "bill_writes E s (snd (Purchase E k sku n s))"
proof -
  have *: "bill_writes E s (UpsertCustomerAddon E k a q f st s1)"
    if "purchases_Create E p (took m s) = Inr s1" for k a q f st s1 p m
    by (rule bws_trans[OF bws_snoc[OF took_writes w_purchase[OF that]] UpsertCustomerAddon_writes])
  show ?thesis
    by (auto simp: Purchase_def Let_def took_writes simp del: One_nat_def split: sum.splits option.splits intro: *)
qed

lemma addon_Cancel_op_writes [bws]: "bill_writes E s (snd (addon_Cancel_op E k a reason s))"
  by (auto simp: addon_Cancel_op_def split: sum.splits option.splits intro: bws_one w_purchase_update)

lemma expire_step_writes: "bill_writes E (snd st) (snd (expire_step E p st))"
  by (auto simp: expire_step_def split: prod.splits sum.splits intro: bws_one w_purchase_update)

lemma MarkExpiredOlderThan_writes [bws]: "bill_writes E s (snd (MarkExpiredOlderThan E t n s))"
  by (auto simp: MarkExpiredOlderThan_def Let_def split: sum.splits prod.splits
      elim!: each_pair_writes[OF expire_step_writes])

lemma policies_Update_writes [bws]: "bill_writes E s (snd (policies_Update E x s))"
  by (auto simp: policies_Update_def Let_def split: sum.splits option.splits intro: bws_one w_policy)

section \<open>Every event is a sequence of writes\<close>

lemma bill_apply_writes: "bill_writes E s (bill_apply E ev s)"
  by (cases ev) (simp_all add: bws bws_one w_crm)

lemma bill_reachable_induct [consumes 1, case_names start step]:
  assumes "bill_reachable s" "\<And>p. P (bill_initial p)"
    "\<And>E s s'. bill_write E s s' \<Longrightarrow> P s \<Longrightarrow> P s'"
  shows "P s"
  using assms(1)
proof (induction)
  case (event s E ev)
  show ?case using bws_inv[OF bill_apply_writes, where P = P] assms(3) event.IH by blast
qed (rule assms(2))

lemma bill_run_rel:
  assumes "\<And>E a b. bill_write E a b \<Longrightarrow> R a b" "\<And>a. R a a" "\<And>a b c. R a b \<Longrightarrow> R b c \<Longrightarrow> R a c"
  shows "R s (bill_run evs s)"
proof (induction evs s rule: bill_run.induct)
  case (2 E ev evs s)
  have "R s (bill_apply E ev s)" by (rule bws_rel[OF bill_apply_writes assms])
  from assms(3)[OF this 2] show ?case by simp
qed (simp add: assms(2))

end
