(* ===== verification/BillingInvariants.thy ===== *)
theory BillingInvariants
  imports BillingTraces
begin

text \<open>
  What every reachable state of the billing context satisfies. The log tables (cycles,
  commissions, rewards, reminders, late fees) are instances of the locale \<open>unique_log\<close>: an
  insert that succeeds leaves one row per key, whether it is refused, ignored or stored. The
  invoices follow their state graph, an invoice is paid exactly if it has a payment time, and
  the confirmed payments cover every paid invoice.
\<close>

section \<open>The log tables\<close>

text \<open>\<open>add r s s'\<close>: the insert of \<open>r\<close> into \<open>rows\<close> succeeds and leaves \<open>s'\<close>.\<close>

locale unique_log =
  fixes key :: "'r \<Rightarrow> 'k"
    and rows :: "'s \<Rightarrow> 'r list"
    and add :: "'r \<Rightarrow> 's \<Rightarrow> 's \<Rightarrow> bool"
  assumes add_cases: "add r s s' \<Longrightarrow>
      (rows s' = rows s \<and> (\<exists>q \<in> set (rows s). key q = key r))
    \<or> (\<exists>q. rows s' = rows s @ [q] \<and> key q = key r \<and> (\<forall>p \<in> set (rows s). key p \<noteq> key r))"
begin

text \<open>The table is, up to its other columns, a set of keys, and the insert is \<open>insert\<close>.\<close>

lemma add_keys: "add r s s' \<Longrightarrow> key ` set (rows s') = insert (key r) (key ` set (rows s))"
proof (cases "\<exists>q. rows s' = rows s @ [q] \<and> key q = key r")
  case False
  assume "add r s s'"
  with False obtain q where "rows s' = rows s" "q \<in> set (rows s)" "key q = key r" using add_cases by blast
  then show ?thesis by (metis image_eqI insert_absorb)
qed auto

lemma add_keyed: "add r s s' \<Longrightarrow> tkeyed key (rows s) \<Longrightarrow> tkeyed key (rows s')"
  using add_cases[of r s s'] by (fastforce simp: tkeyed_def)

lemma add_again: "add r s s' \<Longrightarrow> add p s' s'' \<Longrightarrow> key p = key r \<Longrightarrow> rows s'' = rows s'"
  using add_cases[of p s' s''] add_keys[of r s s'] by (metis image_iff insertI1)

lemma add_keeps: "add r s s' \<Longrightarrow> \<exists>qs. rows s' = rows s @ qs"
  using add_cases[of r s s'] by auto

lemma add_length: "add r s s' \<Longrightarrow> length (rows s') \<le> Suc (length (rows s))"
  using add_cases[of r s s'] by auto

end

definition cycle_key :: "billing_cycle \<Rightarrow> uuid \<times> time" where
  "cycle_key c = (cy_customer_id c, sql_date (cy_start c))"

definition commission_key :: "commission_record \<Rightarrow> uuid \<times> party_type" where
  "commission_key c = (cm_order_id c, cm_party c)"

definition reminder_key :: "reminder_row \<Rightarrow> uuid \<times> reminder_kind" where
  "reminder_key r = (rl_invoice_id r, rl_kind r)"

lemma sql_date_idem [simp]: "sql_date (sql_date t) = sql_date t"
  by (simp add: sql_date_def day_of_def)

definition dated :: "billing_cycle list \<Rightarrow> bool" where
  "dated cs \<longleftrightarrow> (\<forall>c \<in> set cs. cy_start c = sql_date (cy_start c))"

section \<open>What each write does to its table\<close>

named_theorems shape \<open>the effect of a successful write\<close>

lemma cycles_shape [shape]: "cycles_Create E c s = Inr s' \<Longrightarrow>
    \<exists>r. s' = s\<lparr>bd_cycles := bd_cycles s @ [r]\<rparr> \<and> cycle_key r = cycle_key c \<and> cy_start r = sql_date (cy_start r)
      \<and> (\<forall>q \<in> set (bd_cycles s). (cy_customer_id q, cy_start q) \<noteq> cycle_key c)"
  by (auto simp: cycles_Create_def Let_def cycle_key_def split: if_splits)

lemma commissions_shape [shape]: "commissions_Create E c s = Inr s' \<Longrightarrow>
    \<exists>r. s' = s\<lparr>bd_commissions := bd_commissions s @ [r]\<rparr> \<and> commission_key r = commission_key c
      \<and> (\<forall>q \<in> set (bd_commissions s). commission_key q \<noteq> commission_key c)"
  by (auto simp: commissions_Create_def Let_def commission_key_def split: if_splits)

lemma rewards_shape [shape]: "rewards_Create E x s = Inr s' \<Longrightarrow>
    \<exists>r. s' = s\<lparr>bd_rewards := bd_rewards s @ [r]\<rparr> \<and> rr_referral_id r = rr_referral_id x
      \<and> (\<forall>q \<in> set (bd_rewards s). rr_referral_id q \<noteq> rr_referral_id x)"
  by (auto simp: rewards_Create_def split: if_splits)

lemma reminders_shape [shape]: "reminders_Create E r s = Inr s' \<Longrightarrow>
    (s' = s \<and> (\<exists>q \<in> set (bd_reminders s). reminder_key q = reminder_key r))
    \<or> (s' = s\<lparr>bd_reminders := bd_reminders s @ [r]\<rparr>
       \<and> (\<forall>q \<in> set (bd_reminders s). reminder_key q \<noteq> reminder_key r))"
  by (auto simp: reminders_Create_def reminder_key_def split: if_splits)

lemma latefees_shape [shape]: "latefees_Create E r s = Inr (b, s') \<Longrightarrow>
    (s' = s \<and> (\<exists>q \<in> set (bd_latefees s). la_invoice_id q = la_invoice_id r))
    \<or> (\<exists>q. s' = s\<lparr>bd_latefees := bd_latefees s @ [q]\<rparr> \<and> la_invoice_id q = la_invoice_id r
       \<and> (\<forall>p \<in> set (bd_latefees s). la_invoice_id p \<noteq> la_invoice_id r))"
  by (auto simp: latefees_Create_def split: if_splits)

lemma suspensions_shape [shape]: "suspensions_Create E r s = Inr s' \<Longrightarrow> s' = s\<lparr>bd_suspensions := bd_suspensions s @ [r]\<rparr>"
  by (simp add: suspensions_Create_def)

lemma triggers_shape [shape]: "triggers_Create E r s = Inr (b, s') \<Longrightarrow> \<exists>l. s' = s\<lparr>bd_triggers := l\<rparr>"
  by (auto simp: triggers_Create_def split: if_splits intro: exI[of _ "bd_triggers s"])

lemma customer_shape [shape]: "SetCustomerStatus E k st reason s = Inr s' \<Longrightarrow> \<exists>l. s' = s\<lparr>bd_customers := l\<rparr>"
  by (auto simp: SetCustomerStatus_def split: option.splits)

lemma purchases_shape [shape]:
  "purchases_Create E p s = Inr s' \<Longrightarrow> \<exists>l. s' = s\<lparr>bd_purchases := l\<rparr>"
  "purchases_Update E p s = Inr s' \<Longrightarrow> \<exists>l. s' = s\<lparr>bd_purchases := l\<rparr>"
  by (auto simp: purchases_Create_def purchases_Update_def split: if_splits option.splits)

lemma payments_shape [shape]: "payments_Create E p s = Inr s' \<Longrightarrow>
    s' = s\<lparr>bd_payments := bd_payments s @ [p\<lparr>bp_amount := num 2 (bp_amount p), bp_updated_at := bp_created_at p\<rparr>]\<rparr>
    \<and> flt (Fin 0) (num 2 (bp_amount p)) \<and> (\<forall>q \<in> set (bd_payments s). bp_id q \<noteq> bp_id p)"
  by (auto simp: payments_Create_def Let_def split: if_splits)

lemma invoices_shape [shape]: "invoices_Create E i ls s = Inr s' \<Longrightarrow>
    s' = s\<lparr>bd_invoices := bd_invoices s @ [stored_invoice i], bd_items := bd_items s @ map stored_line ls\<rparr>
    \<and> invoice_check (stored_invoice i) \<and> \<not> invoice_conflict (stored_invoice i) s
    \<and> (\<forall>l \<in> set ls. line_check (stored_line l))"
  by (auto simp: invoices_Create_def Let_def split: if_splits)

lemma status_shape [shape]: "invoices_UpdateStatus E k st paid s = Inr s' \<Longrightarrow>
    s' = s\<lparr>bd_invoices := map (\<lambda>i. if iv_id i = k
        then i\<lparr>iv_status := st, iv_paid_at := paid, iv_updated_at := be_dbnow E\<rparr> else i) (bd_invoices s)\<rparr>"
  by (auto simp: invoices_UpdateStatus_def tupdate_def split: if_splits)

lemma terms_create_shape [shape]: "terms_Create E t s = Inr s' \<Longrightarrow>
    s' = s\<lparr>bd_terms := bd_terms s @ [t\<lparr>tr_penalty := num 2 (tr_penalty t), tr_outstanding := num 2 (tr_outstanding t)\<rparr>]\<rparr>
    \<and> (\<forall>q \<in> set (bd_terms s). tr_id q \<noteq> tr_id t) \<and> \<not> term_conflict t s"
  by (auto simp: terms_Create_def split: if_splits)

definition merge_term :: "termination_request \<Rightarrow> termination_request \<Rightarrow> termination_request" where
  "merge_term t q = q\<lparr>tr_status := tr_status t, tr_final_invoice_id := tr_final_invoice_id t,
     tr_penalty := num 2 (tr_penalty t), tr_outstanding := num 2 (tr_outstanding t),
     tr_wo_id := tr_wo_id t, tr_completed_at := tr_completed_at t, tr_notes := tr_notes t\<rparr>"

lemma terms_update_shape [shape]: "terms_Update E t s = Inr s' \<Longrightarrow>
    s' = s\<lparr>bd_terms := map (\<lambda>q. if tr_id q = tr_id t then merge_term t q else q) (bd_terms s)\<rparr>
    \<and> (\<exists>old. tfind tr_id (tr_id t) (bd_terms s) = Some old
         \<and> \<not> term_conflict (old\<lparr>tr_status := tr_status t\<rparr>) s)"
  by (auto simp: terms_Update_def merge_term_def split: if_splits option.splits)

section \<open>One row per key\<close>

interpretation cycle_log: unique_log cycle_key bd_cycles
  "\<lambda>c s s'. dated (bd_cycles s) \<and> (\<exists>E. cycles_Create E c s = Inr s')"
  by unfold_locales (fastforce dest!: cycles_shape simp: dated_def cycle_key_def)

interpretation commission_log: unique_log commission_key bd_commissions
  "\<lambda>c s s'. \<exists>E. commissions_Create E c s = Inr s'"
  by unfold_locales (fastforce dest!: commissions_shape)

interpretation reward_log: unique_log rr_referral_id bd_rewards "\<lambda>x s s'. \<exists>E. rewards_Create E x s = Inr s'"
  by unfold_locales (fastforce dest!: rewards_shape)

interpretation reminder_log: unique_log reminder_key bd_reminders
  "\<lambda>r s s'. \<exists>E. reminders_Create E r s = Inr s'"
  by unfold_locales (fastforce dest!: reminders_shape)

interpretation latefee_log: unique_log la_invoice_id bd_latefees
  "\<lambda>r s s'. \<exists>E b. latefees_Create E r s = Inr (b, s')"
  by unfold_locales (fastforce dest!: latefees_shape)

definition logs_ok :: "bill_db \<Rightarrow> bool" where
  "logs_ok s \<longleftrightarrow> dated (bd_cycles s) \<and> tkeyed cycle_key (bd_cycles s)
   \<and> tkeyed commission_key (bd_commissions s) \<and> tkeyed rr_referral_id (bd_rewards s)
   \<and> tkeyed reminder_key (bd_reminders s) \<and> tkeyed la_invoice_id (bd_latefees s)"

lemma logs_other:
  assumes "bill_write E s s'"
  obtains (cycle) c where "cycles_Create E c s = Inr s'"
    | (commission) c where "commissions_Create E c s = Inr s'"
    | (reward) r where "rewards_Create E r s = Inr s'"
    | (reminder) r where "reminders_Create E r s = Inr s'"
    | (latefee) r b where "latefees_Create E r s = Inr (b, s')"
    | (other) "bd_cycles s' = bd_cycles s" "bd_commissions s' = bd_commissions s"
        "bd_rewards s' = bd_rewards s" "bd_reminders s' = bd_reminders s" "bd_latefees s' = bd_latefees s"
  using assms
proof (cases rule: bill_write.cases)
  case (w_took n)
  then show ?thesis by (intro other) (simp_all add: took_def)
qed (use that in \<open>blast | auto dest!: shape\<close>)+

lemma bill_write_logs: "bill_write E s s' \<Longrightarrow> logs_ok s \<Longrightarrow> logs_ok s'"
proof (erule logs_other)
  fix c assume c: "cycles_Create E c s = Inr s'" and ok: "logs_ok s"
  have "dated (bd_cycles s')" using cycles_shape[OF c] ok by (auto simp: dated_def logs_ok_def)
  moreover have "tkeyed cycle_key (bd_cycles s')"
    using cycle_log.add_keyed[of s c s'] c ok by (auto simp: logs_ok_def)
  ultimately show ?thesis using cycles_shape[OF c] ok by (auto simp: logs_ok_def)
next
  fix c assume c: "commissions_Create E c s = Inr s'" and ok: "logs_ok s"
  show ?thesis using commission_log.add_keyed[of c s s'] commissions_shape[OF c] c ok
    by (auto simp: logs_ok_def)
next
  fix r assume c: "rewards_Create E r s = Inr s'" and ok: "logs_ok s"
  show ?thesis using reward_log.add_keyed[of r s s'] rewards_shape[OF c] c ok
    by (auto simp: logs_ok_def)
next
  fix r assume c: "reminders_Create E r s = Inr s'" and ok: "logs_ok s"
  show ?thesis using reminder_log.add_keyed[of r s s'] reminders_shape[OF c] c ok
    by (auto simp: logs_ok_def)
next
  fix r b assume c: "latefees_Create E r s = Inr (b, s')" and ok: "logs_ok s"
  show ?thesis using latefee_log.add_keyed[of r s s'] latefees_shape[OF c] c ok
    by (auto simp: logs_ok_def)
qed (simp add: logs_ok_def)

lemma reachable_logs: "bill_reachable s \<Longrightarrow> logs_ok s"
proof (induction rule: bill_reachable_induct)
  case (start p)
  show ?case by (simp add: logs_ok_def bill_initial_def dated_def tkeyed_def)
qed (rule bill_write_logs)

section \<open>Invoices, lines and payments\<close>

definition invoice_ok :: "bill_db \<Rightarrow> invoice \<Rightarrow> bool" where
  "invoice_ok s i \<longleftrightarrow> invoice_check i
     \<and> (iv_status i = InvoiceStatusPaid \<longleftrightarrow> iv_paid_at i \<noteq> None)
     \<and> (iv_status i = InvoiceStatusPaid \<longrightarrow> covers (sql_paid (iv_id i) s) (iv_total i))
     \<and> iv_status i \<noteq> InvoiceStatusOverdue
     \<and> (\<exists>l \<in> set (bd_items s). li_invoice_id l = iv_id i)"

definition payment_ok :: "bill_db \<Rightarrow> bill_payment \<Rightarrow> bool" where
  "payment_ok s p \<longleftrightarrow> bp_status p = BillPaymentConfirmed \<and> flt (Fin 0) (bp_amount p)
     \<and> bp_invoice_id p \<in> iv_id ` set (bd_invoices s)"

definition invoices_ok :: "bill_db \<Rightarrow> bool" where
  "invoices_ok s \<longleftrightarrow> tkeyed iv_id (bd_invoices s) \<and> tkeyed iv_number (bd_invoices s)
     \<and> (\<forall>i \<in> set (bd_invoices s). invoice_ok s i)
     \<and> tkeyed bp_id (bd_payments s) \<and> (\<forall>p \<in> set (bd_payments s). payment_ok s p)
     \<and> (\<forall>l \<in> set (bd_items s). li_invoice_id l \<in> iv_id ` set (bd_invoices s) \<and> line_check l)"

lemma invoices_other:
  assumes "bill_write E s s'"
  obtains (invoice) i ls where "invoices_Create E i ls s = Inr s'"
        "iv_status i = InvoiceStatusDraft \<or> iv_status i = InvoiceStatusIssued" "iv_paid_at i = None"
        "\<forall>l \<in> set ls. li_invoice_id l = iv_id i" "ls \<noteq> []"
    | (status) k st paid i where "invoices_UpdateStatus E k st paid s = Inr s'"
        "tfind iv_id k (bd_invoices s) = Some i" "invoice_edge (iv_status i) st"
        "st = InvoiceStatusPaid \<longleftrightarrow> paid \<noteq> None"
        "st = InvoiceStatusPaid \<Longrightarrow> covers (sql_paid k s) (iv_total i)"
    | (payment) p i where "payments_Create E p s = Inr s'" "bp_status p = BillPaymentConfirmed"
        "tfind iv_id (bp_invoice_id p) (bd_invoices s) = Some i" "iv_status i \<noteq> InvoiceStatusPaid"
        "iv_status i \<noteq> InvoiceStatusCancelled"
    | (other) "bd_invoices s' = bd_invoices s" "bd_items s' = bd_items s" "bd_payments s' = bd_payments s"
  using assms
proof (cases rule: bill_write.cases)
  case (w_took n)
  then show ?thesis by (intro other) (simp_all add: took_def)
qed (use that in \<open>blast | auto dest!: shape\<close>)+

lemma tkeyed_snoc: "tkeyed f (xs @ [x]) \<longleftrightarrow> tkeyed f xs \<and> (\<forall>y \<in> set xs. f y \<noteq> f x)"
  by (auto simp: tkeyed_def) (metis imageI)

lemma dec_value_nonneg: "fle (Fin 0) x \<Longrightarrow> 0 \<le> dec_value k x"
  by (cases x) (auto simp: dec_value_def round_away_def intro: add_nonneg_nonneg)

lemma sql_paid_append:
  assumes "bd_payments s' = bd_payments s @ [p]" "flt (Fin 0) (bp_amount p)"
  shows "fle (sql_paid k s) (sql_paid k s')"
proof -
  have "0 \<le> dec_value 2 (bp_amount p)" using assms(2) by (simp add: dec_value_nonneg flt_imp_fle)
  then show ?thesis unfolding sql_paid_def assms(1) by (intro rnd_mono) simp
qed

lemma covers_mono: "fle x y \<Longrightarrow> y \<noteq> NaN \<Longrightarrow> covers x t \<Longrightarrow> covers y t"
proof -
  assume le: "fle x y" and y: "y \<noteq> NaN" and c: "covers x t"
  have "fadd x (rnd (1 / 1000000)) \<noteq> NaN" using c by (auto simp: covers_def)
  moreover have "fadd y (rnd (1 / 1000000)) \<noteq> NaN"
  proof -
    have "rnd (1 / 1000000 :: rat) = Fin (rndq (1 / 1000000))" by (rule rnd_small) simp
    then show ?thesis using y by (cases y) simp_all
  qed
  ultimately have "fle (fadd x (rnd (1 / 1000000))) (fadd y (rnd (1 / 1000000)))"
    by (rule fadd_mono_left[OF le])
  with c show ?thesis unfolding covers_def by (rule fle_trans)
qed

lemma sql_paid_same: "bd_payments s' = bd_payments s \<Longrightarrow> sql_paid k s' = sql_paid k s"
  by (simp add: sql_paid_def)

lemma sql_paid_not_NaN [simp]: "sql_paid k s \<noteq> NaN"
  by (simp add: sql_paid_def)

lemma bill_write_invoices: "bill_write E s s' \<Longrightarrow> invoices_ok s \<Longrightarrow> invoices_ok s'"
proof (erule invoices_other)
  fix i ls
  assume c: "invoices_Create E i ls s = Inr s'" and new:
    "iv_status i = InvoiceStatusDraft \<or> iv_status i = InvoiceStatusIssued" "iv_paid_at i = None"
    and ls: "\<forall>l \<in> set ls. li_invoice_id l = iv_id i" "ls \<noteq> []" and ok: "invoices_ok s"
  note sh = invoices_shape[OF c]
  have keys: "tkeyed iv_id (bd_invoices s')" "tkeyed iv_number (bd_invoices s')"
    using sh ok by (auto simp: invoices_ok_def tkeyed_snoc invoice_conflict_def)
  have "li_invoice_id (stored_line (hd ls)) = iv_id i" "stored_line (hd ls) \<in> set (map stored_line ls)"
    using ls by (auto simp: stored_line_def)
  then have "invoice_ok s' (stored_invoice i)"
    using sh new by (auto simp: invoice_ok_def stored_invoice_def)
  moreover have "invoice_ok s' j" if "j \<in> set (bd_invoices s)" for j
    using ok that sh by (auto simp: invoices_ok_def invoice_ok_def sql_paid_def)
  moreover have "li_invoice_id (stored_line l) = iv_id i \<and> line_check (stored_line l)" if "l \<in> set ls" for l
    using that ls sh by (auto simp: stored_line_def)
  ultimately show ?thesis using sh ok keys
    by (auto simp: invoices_ok_def payment_ok_def stored_invoice_def)
next
  fix k st paid i
  assume c: "invoices_UpdateStatus E k st paid s = Inr s'" and i: "tfind iv_id k (bd_invoices s) = Some i"
    and e: "invoice_edge (iv_status i) st" "st = InvoiceStatusPaid \<longleftrightarrow> paid \<noteq> None"
    and cov: "st = InvoiceStatusPaid \<Longrightarrow> covers (sql_paid k s) (iv_total i)" and ok: "invoices_ok s"
  note sh = status_shape[OF c]
  define f where "f i = (if iv_id i = k
      then i\<lparr>iv_status := st, iv_paid_at := paid, iv_updated_at := be_dbnow E\<rparr> else i)" for i :: invoice
  have inv: "bd_invoices s' = map f (bd_invoices s)" and rest: "bd_items s' = bd_items s"
    "bd_payments s' = bd_payments s" using sh by (simp_all add: f_def)
  have ids: "map iv_id (bd_invoices s') = map iv_id (bd_invoices s)"
    "map iv_number (bd_invoices s') = map iv_number (bd_invoices s)" unfolding inv by (auto simp: f_def)
  have img: "iv_id ` set (bd_invoices s') = iv_id ` set (bd_invoices s)" using ids(1) by (metis set_map)
  have "invoice_ok s' (f j)" if j: "j \<in> set (bd_invoices s)" for j
  proof (cases "iv_id j = k")
    case True
    with j ok i have "j = i" using tfind_mem[of iv_id "bd_invoices s" j] by (simp add: invoices_ok_def)
    with ok j e cov True show ?thesis
      by (auto simp: f_def invoices_ok_def invoice_ok_def invoice_check_def sql_paid_same[OF rest(2)] rest(1) invoice_edge_def)
  next
    case False
    with ok j show ?thesis by (auto simp: f_def invoices_ok_def invoice_ok_def sql_paid_same[OF rest(2)] rest(1))
  qed
  with ok ids img show ?thesis
    by (simp add: invoices_ok_def tkeyed_def payment_ok_def rest) (simp add: inv)
next
  fix p i
  assume c: "payments_Create E p s = Inr s'" and p: "bp_status p = BillPaymentConfirmed"
    and i: "tfind iv_id (bp_invoice_id p) (bd_invoices s) = Some i" and ok: "invoices_ok s"
  note sh = payments_shape[OF c]
  let ?p = "p\<lparr>bp_amount := num 2 (bp_amount p), bp_updated_at := bp_created_at p\<rparr>"
  have pays: "bd_payments s' = bd_payments s @ [?p]" and rest: "bd_invoices s' = bd_invoices s" "bd_items s' = bd_items s"
    using sh by simp_all
  have "invoice_ok s' j" if "j \<in> set (bd_invoices s)" for j
    using ok that sh covers_mono[OF sql_paid_append[OF pays] sql_paid_not_NaN]
    by (auto simp: invoices_ok_def invoice_ok_def rest(2))
  moreover have "payment_ok s' ?p" using p sh tfind_SomeD[OF i] by (auto simp: payment_ok_def rest intro: rev_image_eqI)
  ultimately show ?thesis using ok sh
    by (auto simp: invoices_ok_def payment_ok_def rest tkeyed_snoc pays)
next
  assume "bd_invoices s' = bd_invoices s" "bd_items s' = bd_items s" "bd_payments s' = bd_payments s"
    and "invoices_ok s"
  then show ?thesis by (simp add: invoices_ok_def invoice_ok_def payment_ok_def sql_paid_def)
qed

lemma reachable_invoices: "bill_reachable s \<Longrightarrow> invoices_ok s"
proof (induction rule: bill_reachable_induct)
  case (start p)
  show ?case by (simp add: invoices_ok_def bill_initial_def tkeyed_def)
qed (rule bill_write_invoices)

section \<open>How rows evolve\<close>

definition rows_evolve :: "('r \<Rightarrow> 'r \<Rightarrow> bool) \<Rightarrow> 'r list \<Rightarrow> 'r list \<Rightarrow> bool" where
  "rows_evolve R xs ys \<longleftrightarrow> (\<forall>x \<in> set xs. \<exists>y \<in> set ys. R x y)"

lemma rows_evolve_refl: "(\<And>x. R x x) \<Longrightarrow> rows_evolve R xs xs"
  by (auto simp: rows_evolve_def)

lemma rows_evolve_trans:
  "(\<And>x y z. R x y \<Longrightarrow> R y z \<Longrightarrow> R x z) \<Longrightarrow> rows_evolve R xs ys \<and> rows_evolve R ys zs \<Longrightarrow> rows_evolve R xs zs"
  unfolding rows_evolve_def by meson

lemma rows_evolve_append: "(\<And>x. R x x) \<Longrightarrow> rows_evolve R xs (xs @ ys)"
  by (auto simp: rows_evolve_def)

lemma rows_evolve_map: "(\<And>x. x \<in> set xs \<Longrightarrow> R x (f x)) \<Longrightarrow> rows_evolve R xs (map f xs)"
  by (auto simp: rows_evolve_def)

text \<open>The columns no operation writes again.\<close>

definition frozen_invoice :: "invoice \<Rightarrow> invoice" where
  "frozen_invoice i = i\<lparr>iv_status := InvoiceStatusDraft, iv_paid_at := None, iv_updated_at := 0\<rparr>"

definition invoice_moves :: "invoice \<Rightarrow> invoice \<Rightarrow> bool" where
  "invoice_moves i j \<longleftrightarrow> invoice_edge\<^sup>*\<^sup>* (iv_status i) (iv_status j)
     \<and> frozen_invoice j = frozen_invoice i
     \<and> (iv_status i = InvoiceStatusPaid \<longrightarrow> iv_paid_at j = iv_paid_at i)"

lemma invoice_edge_end: "invoice_edge a b \<Longrightarrow> a \<noteq> InvoiceStatusPaid \<and> a \<noteq> InvoiceStatusCancelled"
  by (auto simp: invoice_edge_def)

lemma invoice_edges_end: "invoice_edge\<^sup>*\<^sup>* a b \<Longrightarrow> a = InvoiceStatusPaid \<or> a = InvoiceStatusCancelled \<Longrightarrow> b = a"
  by (induction rule: converse_rtranclp_induct) (auto dest: invoice_edge_end)

lemma invoice_moves_refl: "invoice_moves i i"
  by (simp add: invoice_moves_def)

lemma invoice_moves_trans: "invoice_moves i j \<Longrightarrow> invoice_moves j k \<Longrightarrow> invoice_moves i k"
proof -
  assume a: "invoice_moves i j" "invoice_moves j k"
  have "iv_status i = InvoiceStatusPaid \<Longrightarrow> iv_status j = InvoiceStatusPaid"
    using a(1) by (auto simp: invoice_moves_def dest: invoice_edges_end)
  with a show ?thesis unfolding invoice_moves_def by (auto 4 4 intro: rtranclp_trans)
qed

definition invoices_evolve :: "bill_db \<Rightarrow> bill_db \<Rightarrow> bool" where
  "invoices_evolve s s' \<longleftrightarrow> invoices_ok s \<longrightarrow>
     invoices_ok s' \<and> rows_evolve invoice_moves (bd_invoices s) (bd_invoices s')
   \<and> (\<exists>ps. bd_payments s' = bd_payments s @ ps) \<and> (\<exists>ls. bd_items s' = bd_items s @ ls)"

lemma bill_write_evolve: "bill_write E s s' \<Longrightarrow> invoices_evolve s s'"
  unfolding invoices_evolve_def
proof
  assume w: "bill_write E s s'" and ok: "invoices_ok s"
  note ok' = bill_write_invoices[OF w ok]
  have "rows_evolve invoice_moves (bd_invoices s) (bd_invoices s')
    \<and> (\<exists>ps. bd_payments s' = bd_payments s @ ps) \<and> (\<exists>ls. bd_items s' = bd_items s @ ls)"
    using w
  proof (cases rule: invoices_other)
    case (invoice i ls)
    then show ?thesis using invoices_shape[of E i ls s s']
      by (simp add: rows_evolve_append invoice_moves_refl)
  next
    case (status k st paid i)
    have "invoice_moves j (j\<lparr>iv_status := st, iv_paid_at := paid, iv_updated_at := be_dbnow E\<rparr>)"
      if "j \<in> set (bd_invoices s)" "iv_id j = k" for j
    proof -
      have "j = i" using tfind_mem[of iv_id "bd_invoices s" j] that ok status(2) by (simp add: invoices_ok_def)
      with status(3) show ?thesis by (auto simp: invoice_moves_def frozen_invoice_def dest: invoice_edge_end)
    qed
    then show ?thesis using status_shape[OF status(1)]
      by (simp add: rows_evolve_map invoice_moves_refl)
  next
    case (payment p i)
    then show ?thesis using payments_shape[OF payment(1)] by (simp add: rows_evolve_refl invoice_moves_refl)
  qed (simp add: rows_evolve_refl invoice_moves_refl)
  with ok' show "invoices_ok s' \<and> rows_evolve invoice_moves (bd_invoices s) (bd_invoices s')
    \<and> (\<exists>ps. bd_payments s' = bd_payments s @ ps) \<and> (\<exists>ls. bd_items s' = bd_items s @ ls)" by blast
qed

lemma bill_run_evolve: "invoices_evolve s (bill_run evs s)"
proof (rule bill_run_rel[OF bill_write_evolve])
  fix a b c
  show "invoices_evolve a a"
    by (simp add: invoices_evolve_def rows_evolve_refl invoice_moves_refl)
  assume "invoices_evolve a b" "invoices_evolve b c"
  then show "invoices_evolve a c"
    unfolding invoices_evolve_def
    using rows_evolve_trans[of invoice_moves "bd_invoices a" "bd_invoices b" "bd_invoices c"]
      invoice_moves_trans by auto
qed

section \<open>Terminations\<close>

definition term_edge :: "termination_status \<Rightarrow> termination_status \<Rightarrow> bool" where
  "term_edge a b \<longleftrightarrow>
     (a = TerminationStatusWOPending \<and> b = TerminationStatusWOCreated)
   \<or> (a = TerminationStatusWOCreated \<and> b = TerminationStatusCompleted)
   \<or> (a \<in> {TerminationStatusAwaitingPayment, TerminationStatusWOPending, TerminationStatusWOCreated}
      \<and> b = TerminationStatusCancelled)"

definition term_slot :: "termination_request \<Rightarrow> uuid \<times> termination_kind \<times> termination_status" where
  "term_slot t = (tr_customer_id t, tr_kind t, tr_status t)"

definition term_ok :: "termination_request \<Rightarrow> bool" where
  "term_ok t \<longleftrightarrow> tr_status t \<noteq> TerminationStatusRequested
     \<and> (tr_status t \<in> {TerminationStatusAwaitingPayment, TerminationStatusWOPending} \<longrightarrow> tr_wo_id t = None)"

definition terms_ok :: "bill_db \<Rightarrow> bool" where
  "terms_ok s \<longleftrightarrow> tkeyed tr_id (bd_terms s) \<and> tkeyed term_slot (bd_terms s) \<and> (\<forall>t \<in> set (bd_terms s). term_ok t)"

definition term_moves :: "termination_request \<Rightarrow> termination_request \<Rightarrow> bool" where
  "term_moves t u \<longleftrightarrow> term_edge\<^sup>*\<^sup>* (tr_status t) (tr_status u) \<and> tr_id u = tr_id t
     \<and> tr_customer_id u = tr_customer_id t \<and> tr_kind u = tr_kind t"

lemma term_moves_refl: "term_moves t t"
  by (simp add: term_moves_def)

lemma term_moves_trans: "term_moves t u \<Longrightarrow> term_moves u v \<Longrightarrow> term_moves t v"
  unfolding term_moves_def by (auto intro: rtranclp_trans)

lemma terms_other:
  assumes "bill_write E s s'"
  obtains (new) t where "terms_Create E t s = Inr s'" "tr_wo_id t = None"
        "tr_status t = TerminationStatusWOPending \<or> tr_status t = TerminationStatusAwaitingPayment"
        "be_fail E (TermOpen (tr_customer_id t)) = None \<Longrightarrow>
          \<forall>q \<in> set (bd_terms s). tr_customer_id q = tr_customer_id t \<longrightarrow> \<not> term_open q"
    | (update) t old where "terms_Update E t s = Inr s'" "old \<in> set (bd_terms s)" "tr_id old = tr_id t"
        "term_ok old \<Longrightarrow> term_edge (tr_status old) (tr_status t)"
        "tr_status t \<notin> {TerminationStatusAwaitingPayment, TerminationStatusWOPending, TerminationStatusRequested}"
    | (other) "bd_terms s' = bd_terms s"
  using assms
proof (cases rule: bill_write.cases)
  case (w_took n)
  then show ?thesis by (intro other) (simp add: took_def)
next
  case (w_term_new t)
  show ?thesis by (rule new[OF w_term_new(1,2,3)]) (rule w_term_new(4))
next
  case (w_term_minted t wo q)
  show ?thesis
    using w_term_minted tfind_SomeD[OF w_term_minted(2)]
    by (intro update[OF w_term_minted(1), of q]) (auto simp: term_edge_def)
next
  case (w_term_cancelled t q)
  show ?thesis
    using w_term_cancelled tfind_SomeD[OF w_term_cancelled(2)]
    by (intro update[OF w_term_cancelled(1), of q]; cases "tr_status q")
      (auto simp: term_edge_def term_open_def term_ok_def)
next
  case (w_term_completed t old wo)
  show ?thesis
    using w_term_completed
    by (intro update[OF w_term_completed(1,2)]; cases "tr_status old")
      (auto simp: term_edge_def term_open_def term_ok_def)
qed (use that in \<open>blast | auto dest!: shape\<close>)+

lemma bill_write_terms:
  assumes "bill_write E s s'" "terms_ok s"
  shows "terms_ok s' \<and> rows_evolve term_moves (bd_terms s) (bd_terms s')"
  using assms(1)
proof (cases rule: terms_other)
  case (new t)
  then show ?thesis using terms_create_shape[OF new(1)] assms(2)
    by (auto simp: terms_ok_def tkeyed_snoc term_slot_def term_conflict_def term_ok_def
        rows_evolve_append term_moves_refl)
next
  case (update t old)
  obtain o1 where o1: "tfind tr_id (tr_id t) (bd_terms s) = Some o1"
      "\<not> term_conflict (o1\<lparr>tr_status := tr_status t\<rparr>) s"
    and s': "bd_terms s' = map (\<lambda>q. if tr_id q = tr_id t then merge_term t q else q) (bd_terms s)"
    using terms_update_shape[OF update(1)] by auto
  have only: "q = old" if "q \<in> set (bd_terms s)" "tr_id q = tr_id t" for q
    using that update(2,3) assms(2) distinct_map_fst_unique[of tr_id "bd_terms s" q old]
    by (simp add: terms_ok_def tkeyed_def)
  have "o1 = old" using only tfind_SomeD[OF o1(1)] by blast
  define f where "f q = (if tr_id q = tr_id t then merge_term t q else q)" for q
  have f: "f q = (if q = old then merge_term t old else q)" if "q \<in> set (bd_terms s)" for q
  proof (cases "q = old")
    case True
    with update(3) show ?thesis by (simp add: f_def)
  next
    case False
    with only[OF that] have "tr_id q \<noteq> tr_id t" by blast
    with False show ?thesis by (simp add: f_def)
  qed
  have rows: "bd_terms s' = map f (bd_terms s)" by (simp add: s' f_def[abs_def])
  have ids: "tkeyed tr_id (bd_terms s')"
    using assms(2) by (simp add: rows terms_ok_def tkeyed_def comp_def f_def merge_term_def if_distrib[of tr_id] cong: if_cong)
  have "term_ok old" using assms(2) update(2) by (simp add: terms_ok_def)
  note edge = update(4)[OF this]
  have slots: "tkeyed term_slot (bd_terms s')"
    unfolding tkeyed_def rows map_map distinct_map
  proof
    show "distinct (bd_terms s)" using assms(2) by (auto simp: terms_ok_def tkeyed_def distinct_map)
    show "inj_on (term_slot \<circ> f) (set (bd_terms s))"
    proof (rule inj_onI)
      fix x y assume xy: "x \<in> set (bd_terms s)" "y \<in> set (bd_terms s)" "(term_slot \<circ> f) x = (term_slot \<circ> f) y"
      have no: "\<not> (q \<in> set (bd_terms s) \<and> q \<noteq> old \<and> term_slot q = term_slot (merge_term t old))" for q
        using o1(2) only update(3) \<open>o1 = old\<close> by (auto simp: term_conflict_def term_slot_def merge_term_def)
      have inj: "inj_on term_slot (set (bd_terms s))" using assms(2) by (auto simp: terms_ok_def tkeyed_def distinct_map)
      show "x = y" using xy no[of x] no[of y] inj_onD[OF inj, of x y]
        by (cases "x = old"; cases "y = old") (auto simp: f)
    qed
  qed
  have "term_ok (f q)" if "q \<in> set (bd_terms s)" for q
    using that assms(2) update(5) by (auto simp: f terms_ok_def term_ok_def merge_term_def)
  moreover have "term_moves q (f q)" if "q \<in> set (bd_terms s)" for q
    using that edge by (auto simp: f term_moves_def merge_term_def)
  ultimately show ?thesis using ids slots
    by (auto simp: terms_ok_def rows intro: rows_evolve_map)
next
  case other
  with assms(2) show ?thesis by (simp add: terms_ok_def rows_evolve_refl term_moves_refl)
qed

lemma reachable_terms: "bill_reachable s \<Longrightarrow> terms_ok s"
proof (induction rule: bill_reachable_induct)
  case (start p)
  show ?case by (simp add: terms_ok_def bill_initial_def tkeyed_def)
qed (use bill_write_terms in blast)

definition terms_evolve :: "bill_db \<Rightarrow> bill_db \<Rightarrow> bool" where
  "terms_evolve s s' \<longleftrightarrow> (terms_ok s \<longrightarrow> terms_ok s' \<and> rows_evolve term_moves (bd_terms s) (bd_terms s'))"

lemma bill_run_terms: "terms_evolve s (bill_run evs s)"
proof (rule bill_run_rel)
  fix E a b c
  show "bill_write E a b \<Longrightarrow> terms_evolve a b" using bill_write_terms by (auto simp: terms_evolve_def)
  show "terms_evolve a a" by (simp add: terms_evolve_def rows_evolve_refl term_moves_refl)
  assume "terms_evolve a b" "terms_evolve b c"
  then show "terms_evolve a c"
    unfolding terms_evolve_def
    using rows_evolve_trans[of term_moves "bd_terms a" "bd_terms b" "bd_terms c"] term_moves_trans by auto
qed

text \<open>At most one open request per customer, as long as the lookup of open requests works.\<close>

definition one_open :: "bill_db \<Rightarrow> bool" where
  "one_open s \<longleftrightarrow> (\<forall>t \<in> set (bd_terms s). \<forall>u \<in> set (bd_terms s).
     tr_customer_id t = tr_customer_id u \<and> term_open t \<and> term_open u \<longrightarrow> tr_id t = tr_id u)"

lemma term_edge_open: "term_edge a b \<Longrightarrow> a \<notin> {TerminationStatusCompleted, TerminationStatusCancelled}"
  by (auto simp: term_edge_def)

lemma bill_write_one_open:
  assumes "bill_write E s s'" "\<And>k. be_fail E (TermOpen k) = None" "terms_ok s" "one_open s"
  shows "one_open s'"
  using assms(1)
proof (cases rule: terms_other)
  case (new t)
  define r where "r = t\<lparr>tr_penalty := num 2 (tr_penalty t), tr_outstanding := num 2 (tr_outstanding t)\<rparr>"
  have rows: "bd_terms s' = bd_terms s @ [r]" and r: "tr_customer_id r = tr_customer_id t"
    using terms_create_shape[OF new(1)] by (simp_all add: r_def)
  have none: "\<not> term_open q" if "q \<in> set (bd_terms s)" "tr_customer_id q = tr_customer_id r" for q
    using new(4)[OF assms(2)] that r by simp
  show ?thesis unfolding one_open_def rows
  proof (intro ballI impI, elim conjE)
    fix x y assume "x \<in> set (bd_terms s @ [r])" "y \<in> set (bd_terms s @ [r])"
      and xy: "tr_customer_id x = tr_customer_id y" "term_open x" "term_open y"
    then consider "x \<in> set (bd_terms s)" "y \<in> set (bd_terms s)" | "x = r" "y = r"
      | "x = r" "y \<in> set (bd_terms s)" | "x \<in> set (bd_terms s)" "y = r" by auto
    then show "tr_id x = tr_id y"
    proof cases
      case 1
      with assms(4) xy show ?thesis unfolding one_open_def by blast
    next
      case 3
      with none[of y] xy show ?thesis by simp
    next
      case 4
      with none[of x] xy show ?thesis by simp
    qed simp
  qed
next
  case (update t old)
  obtain o1 where s': "bd_terms s' = map (\<lambda>q. if tr_id q = tr_id t then merge_term t q else q) (bd_terms s)"
    using terms_update_shape[OF update(1)] by auto
  have only: "q = old" if "q \<in> set (bd_terms s)" "tr_id q = tr_id t" for q
    using that update(2,3) assms(3) distinct_map_fst_unique[of tr_id "bd_terms s" q old]
    by (simp add: terms_ok_def tkeyed_def)
  have "term_ok old" using assms(3) update(2) by (simp add: terms_ok_def)
  then have opn: "term_open old" using term_edge_open[OF update(4)] by (simp add: term_open_def)
  define f where "f q = (if tr_id q = tr_id t then merge_term t q else q)" for q
  have f: "tr_id (f q) = tr_id q \<and> tr_customer_id (f q) = tr_customer_id q \<and> (term_open (f q) \<longrightarrow> term_open q)"
    if "q \<in> set (bd_terms s)" for q
    using only[OF that] opn by (auto simp: f_def merge_term_def)
  have rows: "bd_terms s' = map f (bd_terms s)" by (simp add: s' f_def[abs_def])
  show ?thesis unfolding one_open_def rows
  proof (intro ballI impI, elim conjE)
    fix x y assume xy: "x \<in> set (map f (bd_terms s))" "y \<in> set (map f (bd_terms s))"
      "tr_customer_id x = tr_customer_id y" "term_open x" "term_open y"
    then obtain a b where ab: "x = f a" "y = f b" "a \<in> set (bd_terms s)" "b \<in> set (bd_terms s)" by auto
    with xy f[of a] f[of b] assms(4) show "tr_id x = tr_id y" unfolding one_open_def by metis
  qed
next
  case other
  then show ?thesis using assms(4) unfolding one_open_def by (simp only:)
qed

lemma bill_run_one_open:
  assumes "\<forall>(E, ev) \<in> set evs. \<forall>k. be_fail E (TermOpen k) = None" "terms_ok s" "one_open s"
  shows "one_open (bill_run evs s)"
  using assms
proof (induction evs s rule: bill_run.induct)
  case (2 E ev evs s)
  have E: "be_fail E (TermOpen k) = None" for k using "2.prems"(1) by simp
  have "terms_ok (bill_apply E ev s) \<and> one_open (bill_apply E ev s)"
    using bws_inv[OF bill_apply_writes, where P = "\<lambda>s. terms_ok s \<and> one_open s"]
      bill_write_terms bill_write_one_open[OF _ E] "2.prems"(2,3) by blast
  with "2.IH" "2.prems"(1) show ?case by simp
qed simp

end
