(* ===== verification/BillingPolicyFacts.thy ===== *)
theory BillingPolicyFacts
  imports BillingPolicies
begin

text \<open>
  What the decisions of \<^verbatim>\<open>BillingPolicies\<close> guarantee: a late fee is never charged inside the
  grace window and never exceeds its cap; the reminders and the suspension actions of one
  invoice or customer move strictly forward, so that evaluating again at the same time decides
  nothing new; and a suspension stage fires when its grace days have passed, at most one hour
  early.
\<close>

section \<open>Late fees\<close>

lemma Compute_positive_eligible: "flt (Fin 0) (Compute p x now) \<Longrightarrow> IsEligible p x now"
  by (auto simp: Compute_def split: if_splits)

lemma IsEligible_grace:
  assumes "IsEligible p x now"
  shows "li_due x + max 0 (lf_grace_days p) * DAY \<le> now" "\<not> lf_disabled p" "\<not> li_is_paid x"
    "\<not> li_is_cancelled x" "\<not> fle (li_outstanding x) (Fin 0)"
proof -
  show "li_due x + max 0 (lf_grace_days p) * DAY \<le> now"
  proof (cases "lf_grace_days p < 0")
    case True
    then show ?thesis
      using assms AddDate_days[of 0 "li_due x"] by (auto simp: IsEligible_def Let_def split: if_splits)
  next
    case False
    then have "max 0 (lf_grace_days p) = lf_grace_days p" by simp
    then show ?thesis
      using assms False AddDate_days[of "lf_grace_days p" "li_due x"]
      by (auto simp: IsEligible_def Let_def split: if_splits)
  qed
  show "\<not> lf_disabled p" "\<not> li_is_paid x"
    "\<not> li_is_cancelled x" "\<not> fle (li_outstanding x) (Fin 0)"
    using assms by (auto simp: IsEligible_def split: if_splits)
qed

text \<open>The fee before rounding: the percentage, clamped to the cap.\<close>

lemma Compute_cap:
  assumes "lf_pct p = Fin r" "0 < r" "li_outstanding x = Fin u"
    and "lf_cap p = Fin c" "0 < c" "c \<le> 2 ^ 45" "r * u \<le> 2 ^ 45" "0 \<le> u"
  shows "fle (Compute p x now) (round2 (lf_cap p))"
proof (cases "IsEligible p x now")
  case False
  then have "Compute p x now = Fin 0" by (simp add: Compute_def)
  then show ?thesis using assms(4-6) round2_nonneg[of c] by simp
next
  case True
  have ru: "0 \<le> u * r" "u * r \<le> 2 ^ 45" using assms by (simp_all add: mult.commute)
  have b: "0 \<le> rndq y \<and> rndq y \<le> 2 ^ 45 \<and> rnd y = Fin (rndq y)" if "0 \<le> y" "y \<le> 2 ^ 45" for y
  proof -
    have "representable 0" "representable (2 ^ 45)"
      using representable_int[of 0] representable_int[of "2 ^ 45"] by simp_all
    then show ?thesis using rndq_between[of 0 "2 ^ 45" y] rnd_small[of y] that by simp
  qed
  define m where "m = rndq (u * r)"
  define a where "a = rndq (m / 100)"
  have m: "fmul (li_outstanding x) (lf_pct p) = Fin m" "0 \<le> m" "m \<le> 2 ^ 45"
    using b[OF ru] assms(1,3) by (simp_all add: m_def)
  have a: "fdiv (Fin m) (Fin 100) = Fin a" "0 \<le> a" "a \<le> 2 ^ 45"
    using b[of "m / 100"] m(2,3) by (simp_all add: a_def)
  define a' where "a' = (if c < a then c else a)"
  have "Compute p x now = round2 (Fin a')"
    using True assms(1,2,4,5) m(1) a(1) by (simp add: Compute_def Let_def a'_def del: fmul.simps fdiv.simps)
  moreover have "fle (round2 (Fin a')) (round2 (Fin c))"
    using a assms(5,6) by (intro round2_mono) (simp_all add: a'_def)
  ultimately show ?thesis by (simp add: assms(4))
qed

text \<open>On whole amounts the percentage is exact to the cent.\<close>

lemma Compute_pct_whole:
  assumes "IsEligible p x now" "lf_pct p = Whole r" "0 < r" "li_outstanding x = Whole n"
    and "0 \<le> n" "n * r \<le> 2 ^ 50" "\<not> flt (Fin 0) (lf_cap p)"
  shows "Compute p x now = cents (n * r)"
proof -
  have nr: "0 \<le> n * r" "\<bar>n * r\<bar> \<le> 2 ^ 50" using assms by simp_all
  have "fmul (Whole n) (Whole r) = Whole (n * r)" using nr by (intro fmul_whole) simp
  then have "fdiv (fmul (li_outstanding x) (lf_pct p)) (Fin 100) = cents (n * r)"
    using assms(2,4) by (simp add: cents_def del: fmul.simps)
  then show ?thesis
    using assms(1,2,3,7) round2_cents[OF nr(2)] by (simp add: Compute_def Let_def del: fmul.simps fdiv.simps)
qed

section \<open>Reminders move forward\<close>

lemma reminderIndex_simps [simp]:
  "reminderIndex ReminderKindSoft = 0" "reminderIndex ReminderKindDueToday = 1"
  "reminderIndex ReminderKindOverdueD1 = 2" "reminderIndex ReminderKindOverdueD3 = 3"
  "reminderIndex ReminderKindOverdueD7 = 4" "reminderIndex ReminderKindOverduePreSuspend = 5"
  "reminderIndex (ReminderKindOther s) = - 1"
  by (simp_all add: reminderIndex_def reminderOrder_def)

lemma reminderIndex_range: "- 1 \<le> reminderIndex k \<and> reminderIndex k \<le> 5"
  by (cases k) simp_all

lemma best_step_index:
  assumes "best_step now due sts c = (r, i)" "snd c = (case fst c of None \<Rightarrow> - 1 | Some k \<Rightarrow> reminderIndex k)"
  shows "i = (case r of None \<Rightarrow> - 1 | Some k \<Rightarrow> reminderIndex k)"
  using assms
proof (induction now due sts c rule: best_step.induct)
  case (2 now due st sts c)
  show ?case
    by (rule "2.IH"[OF refl]) (use "2.prems" in \<open>auto simp: Let_def split: if_splits\<close>)
qed simp

lemma best_step_crossed:
  assumes "best_step now due sts c = (Some k, i)" "fst c \<noteq> Some k"
  shows "\<exists>st \<in> set sts. os_kind st = k \<and> due + os_days st * DAY \<le> now"
  using assms
proof (induction now due sts c rule: best_step.induct)
  case (2 now due st sts c)
  show ?case
  proof (cases "os_kind st = k \<and> due + os_days st * DAY \<le> now")
    case True
    then show ?thesis by auto
  next
    case False
    have "\<exists>st \<in> set sts. os_kind st = k \<and> due + os_days st * DAY \<le> now"
    proof (rule "2.IH"[OF refl])
      show "best_step now due sts (if \<not> now < AddDate 0 0 (os_days st) due \<and> reminderIndex (os_kind st) > snd c
          then (Some (os_kind st), reminderIndex (os_kind st)) else c) = (Some k, i)"
        using "2.prems"(1) by (simp add: Let_def)
      show "fst (if \<not> now < AddDate 0 0 (os_days st) due \<and> reminderIndex (os_kind st) > snd c
          then (Some (os_kind st), reminderIndex (os_kind st)) else c) \<noteq> Some k"
        using False "2.prems"(2) by (auto simp: AddDate_days)
    qed
    then show ?thesis by auto
  qed
qed simp

text \<open>A reminder is always of a later kind than the last one sent.\<close>

theorem NextReminder_forward:
  assumes "NextReminderKindForInvoice p x now = Some k"
  shows "last_index (ri_last x) < reminderIndex k"
proof -
  obtain r i where b: "best_step now (ri_due x) (rp_steps p) (None, - 1) = (r, i)" by fastforce
  have i: "i = (case r of None \<Rightarrow> - 1 | Some k \<Rightarrow> reminderIndex k)" using best_step_index[OF b] by simp
  show ?thesis
    using assms i
    by (auto simp: NextReminderKindForInvoice_def Let_def b split: if_splits)
qed

text \<open>When a reminder may be sent.\<close>

lemma NextReminder_open: "NextReminderKindForInvoice p x now = Some k \<Longrightarrow> \<not> ri_is_paid x \<and> \<not> ri_is_cancelled x"
  by (auto simp: NextReminderKindForInvoice_def split: if_splits)

lemma NextReminder_when:
  assumes "NextReminderKindForInvoice p x now = Some k"
  shows "(k = ReminderKindOverduePreSuspend \<and> 0 < ri_suspend_days x
          \<and> ri_due x + (ri_suspend_days x - max 1 (rp_pre_offset p)) * DAY \<le> now)
    \<or> (\<exists>st \<in> set (rp_steps p). os_kind st = k \<and> ri_due x + os_days st * DAY \<le> now)
    \<or> (k = ReminderKindDueToday \<and> ri_due x \<le> now \<and> now < ri_due x + DAY)
    \<or> (k = ReminderKindSoft \<and> ri_due x - rp_soft_days p * DAY \<le> now \<and> now < ri_due x)"
proof -
  obtain r i where b: "best_step now (ri_due x) (rp_steps p) (None, - 1) = (r, i)" by fastforce
  have m: "(if rp_pre_offset p \<le> 0 then 1 else rp_pre_offset p) = max 1 (rp_pre_offset p)" by simp
  define P where "P \<longleftrightarrow> ri_suspend_days x > 0 \<and>
    \<not> now < AddDate 0 0 (ri_suspend_days x - (if rp_pre_offset p \<le> 0 then 1 else rp_pre_offset p)) (ri_due x)"
  define T where "T \<longleftrightarrow> \<not> now < ri_due x \<and> now < AddDate 0 0 1 (ri_due x)"
  define F where "F \<longleftrightarrow> \<not> now < AddDate 0 0 (- rp_soft_days p) (ri_due x) \<and> now < ri_due x"
  have eq: "NextReminderKindForInvoice p x now =
    (if ri_is_paid x \<or> ri_is_cancelled x then None
     else if P \<and> last_index (ri_last x) < 5 then Some ReminderKindOverduePreSuspend
     else if r \<noteq> None \<and> i > last_index (ri_last x) then r
     else if T \<and> last_index (ri_last x) < 1 then Some ReminderKindDueToday
     else if rp_soft_days p > 0 \<and> F \<and> last_index (ri_last x) < 0 then Some ReminderKindSoft else None)"
    unfolding NextReminderKindForInvoice_def Let_def b prod.case P_def T_def F_def reminderIndex_simps
    by (simp only: conj_assoc)
  have "(k = ReminderKindOverduePreSuspend \<and> P) \<or> r = Some k \<or> (k = ReminderKindDueToday \<and> T)
      \<or> (k = ReminderKindSoft \<and> F)"
    using assms unfolding eq by (auto split: if_split_asm)
  then consider (pre) "k = ReminderKindOverduePreSuspend" P | (step) "r = Some k"
    | (today) "k = ReminderKindDueToday" T | (soft) "k = ReminderKindSoft" F
    by blast
  then show ?thesis
  proof cases
    case pre
    then show ?thesis unfolding P_def m AddDate_days by simp
  next
    case step
    then have "\<exists>st \<in> set (rp_steps p). os_kind st = k \<and> ri_due x + os_days st * DAY \<le> now"
      using best_step_crossed[of now "ri_due x" "rp_steps p" "(None, - 1)" k i] b by simp
    then show ?thesis by blast
  next
    case today
    then show ?thesis by (simp add: T_def AddDate_days)
  next
    case soft
    then show ?thesis by (simp add: F_def AddDate_days)
  qed
qed

text \<open>The hour of day of the policy plays no role.\<close>

lemma NextReminder_ignores_hour:
  "NextReminderKindForInvoice (p\<lparr>rp_due_hour := h\<rparr>) x now = NextReminderKindForInvoice p x now"
proof -
  have "rp_steps (p\<lparr>rp_due_hour := h\<rparr>) = rp_steps p" "rp_pre_offset (p\<lparr>rp_due_hour := h\<rparr>) = rp_pre_offset p"
    "rp_soft_days (p\<lparr>rp_due_hour := h\<rparr>) = rp_soft_days p" by simp_all
  then show ?thesis unfolding NextReminderKindForInvoice_def by (simp only:)
qed

section \<open>Days past due\<close>

lemma quot_nonneg: "0 \<le> a \<Longrightarrow> 0 < b \<Longrightarrow> quot a b = a div b"
  by (cases "a = 0") (simp_all add: quot_def)

lemma representable_32: "\<bar>m\<bar> \<le> 2 ^ 53 \<Longrightarrow> representable (of_int m / 32)"
  unfolding representable_def
  by (intro exI[of _ m] exI[of _ "- 5"]) (simp add: p2_def power_int_minus)

lemma Hours_bounds:
  assumes "0 \<le> d" "d < 2 ^ 63"
  obtains y where "Hours d = Fin y" "of_int (d div HOUR) \<le> y" "y \<le> of_int (d div HOUR) + 1"
proof -
  define h where "h = d div HOUR"
  define ns where "ns = d mod HOUR"
  have h: "0 \<le> h" "h \<le> 2 ^ 30"
    using assms zdiv_mono1[of d "2 ^ 63" HOUR] unfolding h_def by (simp_all add: pos_imp_zdiv_nonneg_iff)
  have ns: "0 \<le> ns" "ns < HOUR" by (simp_all add: ns_def)
  have dh: "d - h * HOUR = ns" using minus_mult_div_eq_mod[of d HOUR] by (simp add: h_def ns_def mult.commute)
  have H: "Hours d = fadd (Whole h) (fdiv (Whole ns) (Fin (of_int HOUR)))"
    using h ns assms(1) quot_nonneg[of d HOUR] dh
    by (simp add: Hours_def Let_def f_of_int_whole flip: h_def)
  have nsr: "(0 :: rat) \<le> of_int ns" "(of_int ns :: rat) \<le> of_int HOUR"
    using ns by (simp_all only: of_int_0_le_iff of_int_le_iff)
  have "representable 0" "representable 1" using representable_int[of 0] representable_int[of 1] by simp_all
  then obtain z where z: "rnd (of_int ns / of_int HOUR) = Fin z" "0 \<le> z" "z \<le> 1"
    using rnd_Fin_between[of 0 1 "of_int ns / of_int HOUR"] nsr by auto
  have hr: "(0 :: rat) \<le> of_int h" "(of_int h :: rat) \<le> 2 ^ 30"
    using h(1) of_int_le_iff[of h "2 ^ 30", where 'a = rat] h(2) by simp_all
  have "representable (of_int h)" "representable (of_int (h + 1))"
    using h by (intro representable_int; simp)+
  then obtain y where y: "rnd (of_int h + z) = Fin y" "of_int h \<le> y" "y \<le> of_int h + 1"
    using rnd_Fin_between[of "of_int h" "of_int (h + 1)" "of_int h + z"] z hr by auto
  show thesis
    by (rule that[of y]) (use y z(1) H in \<open>simp_all add: h_def\<close>)
qed

lemma div_HOUR_24: "0 \<le> d \<Longrightarrow> d div HOUR div 24 = d div DAY"
  by (simp add: div_mult2_eq[symmetric] zdiv_zmult2_eq[symmetric])

lemma daysPast_bounds:
  assumes "0 \<le> now - due" "now - due < 2 ^ 63"
  shows "(now - due) div DAY \<le> daysPast now due" "daysPast now due \<le> (now - due + HOUR) div DAY"
proof -
  define d where "d = now - due"
  define h where "h = d div HOUR"
  define q where "q = h div 24"
  have d: "0 \<le> d" "d < 2 ^ 63" using assms by (simp_all add: d_def)
  have sub: "Sub now due = d" using d by (simp add: Sub_def d_def)
  obtain y where y: "Hours d = Fin y" "of_int h \<le> y" "y \<le> of_int h + 1"
    using Hours_bounds[OF d] unfolding h_def .
  have h: "0 \<le> h" "h \<le> 2 ^ 30"
    using d zdiv_mono1[of d "2 ^ 63" HOUR] unfolding h_def by (simp_all add: pos_imp_zdiv_nonneg_iff)
  have q: "0 \<le> q" "24 * q \<le> h" "h < 24 * q + 24" "q \<le> 2 ^ 30"
    using h div_bounds[of 24 h] by (simp_all add: q_def pos_imp_zdiv_nonneg_iff)
  have qr: "(0 :: rat) \<le> of_int q" "24 * (of_int q :: rat) \<le> of_int h" "(of_int q :: rat) \<le> 2 ^ 30"
    using q(1) of_int_le_iff[of "24 * q" h, where 'a = rat] q(2)
      of_int_le_iff[of q "2 ^ 30", where 'a = rat] q(4) by simp_all
  have rq: "representable (of_int q)" using q by (intro representable_int) simp
  have qday: "q = d div DAY" using div_HOUR_24[OF d(1)] by (simp add: q_def h_def)
  have lo: "of_int q \<le> y / 24" using y(2) qr(2) by simp
  show "(now - due) div DAY \<le> daysPast now due" "daysPast now due \<le> (now - due + HOUR) div DAY"
  proof -
    have up: "q \<le> int64_of (rnd (y / 24)) \<and> int64_of (rnd (y / 24)) \<le> (d + HOUR) div DAY"
    proof (cases "h < 24 * q + 23")
      case True
      have "of_int h + (1 :: rat) \<le> of_int (24 * q + 23)"
        using True of_int_le_iff[of "h + 1" "24 * q + 23", where 'a = rat] by simp
      then have hi: "y / 24 \<le> of_int (32 * q + 31) / 32" using y(3) by simp
      have "representable (of_int (32 * q + 31) / 32)" using q by (intro representable_32) simp
      then obtain w where w: "rnd (y / 24) = Fin w" "of_int q \<le> w" "w \<le> of_int (32 * q + 31) / 32"
        using rnd_Fin_between[OF rq _ lo hi] hi lo qr by auto
      have "w < of_int q + 1" using w(3) by simp
      then have "trunc w = q" using w(2) q(1) by (intro trunc_between)
      then have "int64_of (Fin w) = q" using int64_of_small[of w] q by simp
      moreover have "q \<le> (d + HOUR) div DAY" unfolding qday by (rule zdiv_mono1) simp_all
      ultimately show ?thesis using w(1) by simp
    next
      case False
      then have h23: "h = 24 * q + 23" using q(3) by simp
      have "of_int h + (1 :: rat) = of_int (24 * (q + 1))" by (simp add: h23)
      then have hi: "y / 24 \<le> of_int (q + 1)" using y(3) by simp
      have "representable (of_int (q + 1))" using q by (intro representable_int) simp
      then obtain w where w: "rnd (y / 24) = Fin w" "of_int q \<le> w" "w \<le> of_int (q + 1)"
        using rnd_Fin_between[OF rq _ lo hi] hi lo qr by auto
      have t: "trunc (of_int q) \<le> trunc w" "trunc w \<le> trunc (of_int (q + 1))"
        using w(2,3) by (blast intro: trunc_mono)+
      then have tw: "q \<le> trunc w" "trunc w \<le> q + 1" using q(1) by (simp_all add: trunc_def)
      then have "int64_of (Fin w) = trunc w" using q by (intro int64_of_small) simp
      moreover have "(q + 1) * DAY \<le> d + HOUR"
        using h23 div_bounds[of HOUR d] by (simp add: h_def algebra_simps)
      then have "(q + 1) * DAY div DAY \<le> (d + HOUR) div DAY" by (rule zdiv_mono1) simp
      then have "q + 1 \<le> (d + HOUR) div DAY" by simp
      ultimately show ?thesis using w(1) tw by simp
    qed
    have "daysPast now due = int64_of (rnd (y / 24))" by (simp add: daysPast_def sub y(1))
    then show "(now - due) div DAY \<le> daysPast now due" "daysPast now due \<le> (now - due + HOUR) div DAY"
      using up unfolding qday d_def by simp_all
  qed
qed

section \<open>Suspension moves forward\<close>

lemma escalation_simps [simp]:
  "suspensionEscalationIndex None = - 1"
  "suspensionEscalationIndex (Some SuspensionActionWarn) = 0"
  "suspensionEscalationIndex (Some SuspensionActionSoftSuspend) = 1"
  "suspensionEscalationIndex (Some SuspensionActionHardSuspend) = 2"
  "suspensionEscalationIndex (Some SuspensionActionRestore) = - 1"
  by (simp_all add: suspensionEscalationIndex_def suspensionEscalationOrder_def)

fun stage_grace :: "suspension_policy \<Rightarrow> suspension_action \<Rightarrow> int" where
  "stage_grace p SuspensionActionWarn = sp_warn p"
| "stage_grace p SuspensionActionSoftSuspend = sp_soft p"
| "stage_grace p SuspensionActionHardSuspend = sp_hard p"
| "stage_grace p SuspensionActionRestore = 0"

theorem NextActionFor_forward:
  assumes "NextActionFor p x now = Some k"
  shows "suspensionEscalationIndex (si_last x) < suspensionEscalationIndex (Some k)"
    and "k \<noteq> SuspensionActionRestore" and "si_has_overdue x"
    and "stage_grace p k \<le> daysPast now (si_oldest_due x)"
    and "k \<noteq> SuspensionActionWarn \<Longrightarrow> 0 < stage_grace p k"
  using assms by (auto simp: NextActionFor_def split: if_splits)

text \<open>Once an action is recorded, asking again at the same time decides nothing.\<close>

theorem NextActionFor_settled:
  assumes "NextActionFor p x now = Some k"
  shows "NextActionFor p (x\<lparr>si_last := Some k\<rparr>) now = None"
  using assms by (cases k) (auto simp: NextActionFor_def split: if_splits)

text \<open>
  With ordered stages the action is the highest stage whose grace days have passed, if it is
  newer than the last one.
\<close>

definition due_stage :: "suspension_policy \<Rightarrow> int \<Rightarrow> suspension_action option" where
  "due_stage p days = (if days \<ge> sp_hard p then Some SuspensionActionHardSuspend
     else if days \<ge> sp_soft p then Some SuspensionActionSoftSuspend
     else if days \<ge> sp_warn p then Some SuspensionActionWarn else None)"

theorem NextActionFor_spec:
  assumes "0 < sp_soft p" "0 < sp_hard p" "si_has_overdue x"
  shows "NextActionFor p x now =
    (case due_stage p (daysPast now (si_oldest_due x)) of None \<Rightarrow> None
     | Some k \<Rightarrow> if suspensionEscalationIndex (si_last x) < suspensionEscalationIndex (Some k)
                then Some k else None)"
  using assms by (cases "si_last x"; cases "the (si_last x)") (simp_all add: NextActionFor_def due_stage_def)

lemma restore_exact: "ShouldRestore st unpaid \<longleftrightarrow> st \<noteq> CustomerSuspensionStateActive \<and> \<not> unpaid"
  by (cases st) (simp_all add: ShouldRestore_def)

section \<open>Commission triggers\<close>

lemma EvaluateTrigger_fires:
  assumes "EvaluateTrigger p x now = Some t"
  shows "ti_sales_user_id x \<noteq> Nil_uuid" "et_kind t = tp_trigger p"
    "et_plan_change_id t = ti_plan_change_id x"
    "(tp_trigger p = CommissionTriggerOnPaid \<and> (\<exists>u \<le> now. ti_paid_at x = Some u))
     \<or> (tp_trigger p = CommissionTriggerOnActivated \<and> (\<exists>u \<le> now. ti_activated_at x = Some u))
     \<or> (tp_trigger p = CommissionTriggerOnAnniversary \<and> (\<exists>u \<le> now. ti_anniversary_at x = Some u))"
  using assms
  by (auto simp: EvaluateTrigger_def reached_def Let_def not_less split: if_splits trigger_kind.splits option.splits)

end
