(* ===== verification/BillingFacts.thy ===== *)
theory BillingFacts
  imports BillingInvariants BillingPolicyFacts
begin

text \<open>
  Facts the claims on the billing context share, and the small histories their witnesses run:
  one customer with one order, in March 2025.
\<close>

section \<open>Demo histories\<close>

definition bill_env :: "time \<Rightarrow> (bcall \<Rightarrow> derr option) \<Rightarrow> benv" where
  "bill_env t faults = \<lparr>be_now = t, be_dbnow = t, be_fresh = (\<lambda>n. word_of_nat (1000 + n)), be_fail = faults,
     be_schema = (\<lambda>k kind. Inl (NotFound ''schema'' ''none'')), be_manager = (\<lambda>u. None),
     be_branch = (\<lambda>u. None), be_verified = (\<lambda>u. None), be_resigned = (\<lambda>u t. False),
     be_catalog = (\<lambda>sku. Inl (NotFound ''sku'' ''none'')), be_product_name = (\<lambda>u. [])\<rparr>"

definition bill_ok_env :: "time \<Rightarrow> benv" where
  "bill_ok_env t = bill_env t (\<lambda>_. None)"

lemma bill_ok_env_fail [simp]: "be_fail (bill_ok_env t) c = None"
  by (simp add: bill_ok_env_def bill_env_def)

definition day_in_march :: "int \<Rightarrow> time" where
  "day_in_march d = Date 2025 3 d"

definition demo_customer :: crm_customer where
  "demo_customer = \<lparr>cc_id = 1, cc_status = ''active'', cc_suspended_at = None, cc_suspend_reason = None,
     cc_terminated_at = None, cc_address = ''Jalan 1'', cc_branch_id = None, cc_activated_at = None,
     cc_lock_in_until = None, cc_type = ''retail'', cc_created_at = Date 2025 3 1\<rparr>"

definition demo_crm_order :: crm_order where
  "demo_crm_order = \<lparr>co_id = 2, co_customer_id = 1, co_monthly_price = Fin 100, co_otc_price = Fin 0,
     co_sales_id = Some 3, co_branch_id = None, co_created_at = Date 2025 3 1\<rparr>"

definition crm_event :: "time \<Rightarrow> benv \<times> bill_event" where
  "crm_event t = (bill_ok_env t, EvCrm [demo_customer] [demo_crm_order] [] [] [])"

definition otc_input :: create_invoice_input where
  "otc_input = \<lparr>ci_customer_id = 1, ci_order_id = Some 2, ci_type = InvoiceTypeOTC,
     ci_lines = [\<lparr>ln_description = ''Installation'', ln_item_type = ''otc'', ln_quantity = Fin 1,
                  ln_unit_price = Fin 200\<rparr>],
     ci_ppn_rate = Fin 11, ci_due = Date 2025 3 8, ci_notes = [], ci_created_by = None, ci_issue = True\<rparr>"

definition pay_otc :: "f64 \<Rightarrow> string \<Rightarrow> record_payment_input" where
  "pay_otc a txn = \<lparr>rp_invoice_id = 1000, rp_amount = a, rp_method = ''transfer'', rp_gateway_txn = txn,
     rp_notes = [], rp_confirmed_by = 4\<rparr>"

definition otc_trace :: "(benv \<times> bill_event) list" where
  "otc_trace = [crm_event (day_in_march 1), (bill_ok_env (day_in_march 1), EvCreateInvoice otc_input),
     (bill_ok_env (day_in_march 2), EvRecordPayment (pay_otc (Fin 222) ''tx1''))]"

definition bill_start :: bill_db where
  "bill_start = bill_initial None"

definition demo_db :: bill_db where
  "demo_db = (bill_start\<lparr>bd_customers := [demo_customer], bd_orders := [demo_crm_order]\<rparr>)"

definition demo_ord :: recurring_order where
  "demo_ord = recurring_row demo_crm_order demo_customer (Date 2025 3 1)"

definition broken_invoices :: "bcall \<Rightarrow> derr option" where
  "broken_invoices c = (case c of InvCreate _ \<Rightarrow> Some (New KindInternal ''db'' ''connection lost'') | _ \<Rightarrow> None)"

definition late_trace :: "(benv \<times> bill_event) list" where
  "late_trace = [(bill_ok_env (day_in_march 1), EvCreateInvoice otc_input),
     (bill_ok_env (day_in_march 15), EvBillingTick (day_in_march 15)),
     (bill_ok_env (day_in_march 16), EvBillingTick (day_in_march 16))]"

definition term_trace :: "(benv \<times> bill_event) list" where
  "term_trace = [crm_event (day_in_march 1),
     (bill_ok_env (day_in_march 2), EvRequestTermination 1 ''moving'' 4),
     (bill_ok_env (day_in_march 3), EvRequestTermination 1 ''moving'' 4),
     (bill_ok_env (day_in_march 4), EvCancelTermination 1000 4 ''stays''),
     (bill_ok_env (day_in_march 5), EvRequestTermination 1 ''moving'' 4)]"

definition debt_trace :: "(benv \<times> bill_event) list" where
  "debt_trace = take 2 otc_trace @ [(bill_ok_env (day_in_march 2), EvRequestTermination 1 ''moving'' 4)]"

definition broken_flip :: "bcall \<Rightarrow> derr option" where
  "broken_flip c = (case c of InvUpdateStatus _ \<Rightarrow> Some (New KindInternal ''db'' ''connection lost'') | _ \<Rightarrow> None)"

definition flip_trace :: "(benv \<times> bill_event) list" where
  "flip_trace = take 2 otc_trace
     @ [(bill_env (day_in_march 2) broken_flip, EvRecordPayment (pay_otc (Fin 222) ''tx1''))]"

lemma bill_demo_reachable: "bill_reachable (bill_run evs bill_start)"
  unfolding bill_start_def by (intro bill_run_reachable bill_reachable.start)

text \<open>The installation invoice of 222 is paid by one payment.\<close>

definition otc_view :: "bill_db \<Rightarrow> (uuid \<times> invoice_status \<times> f64) list \<times> (uuid option \<times> invoice_type) list
    \<times> (uuid \<times> f64) list \<times> (party_type \<times> f64) list \<times> (uuid \<times> uuid) list" where
  "otc_view s = (map (\<lambda>i. (iv_id i, iv_status i, iv_total i)) (bd_invoices s),
     map (\<lambda>i. (iv_order_id i, iv_type i)) (bd_invoices s),
     map (\<lambda>p. (bp_invoice_id p, bp_amount p)) (bd_payments s),
     map (\<lambda>c. (cm_party c, cm_amount c)) (bd_commissions s), bd_workorders s)"

lemma otc_viewed: "otc_view (bill_run otc_trace bill_start) = ([(1000, InvoiceStatusPaid, Fin 222)],
    [(Some 2, InvoiceTypeOTC)], [(1000, Fin 222)], [(PartySalesPerson, Fin 15), (PartyCompany, Fin 70)], [])"
  by code_simp

lemma otc_state:
  "map (\<lambda>i. (iv_id i, iv_status i, iv_total i)) (bd_invoices (bill_run otc_trace bill_start))
     = [(1000, InvoiceStatusPaid, Fin 222)]
   \<and> map (\<lambda>p. (bp_invoice_id p, bp_amount p)) (bd_payments (bill_run otc_trace bill_start)) = [(1000, Fin 222)]
   \<and> map (\<lambda>c. (cm_party c, cm_amount c)) (bd_commissions (bill_run otc_trace bill_start))
     = [(PartySalesPerson, Fin 15), (PartyCompany, Fin 70)]"
  using otc_viewed by (simp only: otc_view_def prod.inject)

lemma otc_paid:
  "\<exists>i. i \<in> set (bd_invoices (bill_run otc_trace bill_start)) \<and> iv_status i = InvoiceStatusPaid"
  using otc_state by auto

lemma otc_payments: "bd_payments (bill_run otc_trace bill_start) \<noteq> []"
  using otc_state by auto

end
