(* ===== verification/BillingLedger.thy ===== *)
theory BillingLedger
  imports BillingFacts
begin

text \<open>
  What invoices and payments amount to: an amount of whole cents survives its NUMERIC column,
  a created invoice is read back with the amounts of its lines, and \<open>RecordPayment\<close> refines
  an abstract ledger that counts cents and settles an invoice when the count reaches the total.
\<close>

section \<open>NUMERIC columns keep cents\<close>

lemma round_away_near: "\<bar>x - of_int c\<bar> \<le> 1 / 4 \<Longrightarrow> round_away x = c"
proof -
  assume "\<bar>x - of_int c\<bar> \<le> 1 / 4"
  then have x: "x \<le> of_int c + 1 / 4" "of_int c - 1 / 4 \<le> x" by (auto simp only: abs_le_iff)
  show ?thesis
  proof (cases "0 \<le> x")
    case True
    have "\<lfloor>x + 1 / 2\<rfloor> = c" using x by (intro floor_unique) simp_all
    with True show ?thesis by (simp add: round_away_def)
  next
    case False
    have "\<lfloor>1 / 2 - x\<rfloor> = - c" using x by (intro floor_unique) simp_all
    with False show ?thesis by (simp add: round_away_def)
  qed
qed

lemma dec_value_cents: "\<bar>c\<bar> \<le> 2 ^ 50 \<Longrightarrow> dec_value 2 (cents c) = of_int c / 100"
proof -
  assume c: "\<bar>c\<bar> \<le> 2 ^ 50"
  have "round_away (rndq (of_int c / 100) * 100) = c" by (rule round_away_near) (rule cents_error[OF c])
  then show ?thesis by (simp add: cents_Fin[OF c] dec_value_def)
qed

lemma num_cents: "\<bar>c\<bar> \<le> 2 ^ 50 \<Longrightarrow> num 2 (cents c) = cents c"
proof -
  assume c: "\<bar>c\<bar> \<le> 2 ^ 50"
  have "num 2 (cents c) = rnd (dec_value 2 (cents c))" by (simp add: num_def cents_Fin[OF c])
  then show ?thesis unfolding dec_value_cents[OF c] by (simp add: cents_def)
qed

lemma num_whole: "\<bar>n\<bar> \<le> 2 ^ 43 \<Longrightarrow> num 2 (Whole n) = Whole n"
  using num_cents[of "100 * n"] cents_hundred[of n] by simp

lemma num_neg_cents: "0 < c \<Longrightarrow> c \<le> 2 ^ 50 \<Longrightarrow> flt (Fin 0) (cents c)"
proof -
  assume c: "0 < c" "c \<le> 2 ^ 50"
  have "\<bar>rndq (of_int c / 100) * 100 - of_int c\<bar> \<le> 1 / 4" using c by (intro cents_error) simp
  moreover have "(1 :: rat) \<le> of_int c" using c(1) by simp
  ultimately have "0 < rndq (of_int c / 100)" unfolding abs_le_iff by linarith
  then show ?thesis using c by (simp add: cents_Fin)
qed

section \<open>A created invoice is read back\<close>

lemma fill_lines_orders:
  assumes "\<forall>l \<in> set ls. li_order l = 0"
  shows "map li_order (fst (fill_lines fresh iid i sub ls)) = map (\<lambda>k. int (i + k) + 1) [0..<length ls]"
  using assms
proof (induction ls arbitrary: i sub)
  case (Cons l ls)
  have "map li_order (fst (fill_lines fresh iid (Suc i) t ls)) = map (\<lambda>k. int (i + Suc k) + 1) [0..<length ls]" for t
    using Cons.IH[of "Suc i" t] Cons.prems by simp
  moreover have "li_order (fill_line u iid i l) = int (i + 0) + 1" for u
    using Cons.prems by (simp add: fill_line_def Let_def)
  ultimately show ?case by (simp only: fill_lines.simps Let_def fst_conv list.map length_Cons map_upt_Suc)
qed simp

lemma fill_line_description: "li_description (fill_line u iid i l) = li_description l"
  by (simp add: fill_line_def Let_def)

lemma fill_lines_descriptions: "map li_description (fst (fill_lines fresh iid i sub ls)) = map li_description ls"
  by (induction ls arbitrary: i sub) (simp_all add: Let_def fill_line_description)

lemma fill_lines_amounts:
  assumes "map li_amount ls = map (\<lambda>a. Whole a) as" "\<forall>a \<in> set as. 0 < a"
  shows "map li_amount (fst (fill_lines fresh iid i sub ls)) = map (\<lambda>a. Whole a) as"
  using assms
proof (induction ls arbitrary: i sub as)
  case (Cons l ls)
  then obtain a as' where as: "as = a # as'" "li_amount l = Whole a" "map li_amount ls = map (\<lambda>a. Whole a) as'"
    by (cases as) auto
  have "li_amount (fill_line u iid j l) = Whole a" for u j
    using as(1,2) Cons.prems(2) by (intro fill_line_amount) auto
  moreover have "map li_amount (fst (fill_lines fresh iid j t ls)) = map (\<lambda>a. Whole a) as'" for j t
    using Cons.prems as by (intro Cons.IH) auto
  ultimately show ?case by (simp add: Let_def as(1) del: of_int_add)
qed simp

lemma NewInvoice_lines:
  "NewInvoice fresh now cust ord typ ls r due u notes = Inr (iv, out) \<Longrightarrow>
     out = fst (fill_lines (\<lambda>i. fresh (Suc i)) (fresh 0) 0 (Fin 0) ls)"
  by (auto simp: NewInvoice_def Let_def split: if_splits prod.splits)

text \<open>What a successful \<open>CreateInvoice\<close> has stored and returned.\<close>

lemma CreateInvoice_ok:
  assumes "CreateInvoice E x s = (Inr v, s')"
  obtains i0 out iv where
    "NewInvoice (\<lambda>i. be_fresh E (bd_next s + i)) (be_now E) (ci_customer_id x) (ci_order_id x) (ci_type x)
       (map input_line (ci_lines x)) (ci_ppn_rate x) (ci_due x) (ci_created_by x) (ci_notes x) = Inr (i0, out)"
    "iv_subtotal iv = iv_subtotal i0" "iv_ppn_amount iv = iv_ppn_amount i0" "iv_total iv = iv_total i0"
    "iv_id iv = iv_id i0" "iv_status iv = (if ci_issue x then InvoiceStatusIssued else InvoiceStatusDraft)"
    "invoices_Create E iv out (took (length (ci_lines x) + 2) s) = Inr s'"
    "invoices_FindByID E 0 (iv_id iv) s' = Inr v"
proof -
  obtain p where p: "NewInvoice (\<lambda>i. be_fresh E (bd_next s + i)) (be_now E) (ci_customer_id x) (ci_order_id x) (ci_type x)
       (map input_line (ci_lines x)) (ci_ppn_rate x) (ci_due x) (ci_created_by x) (ci_notes x) = Inr p"
    using assms unfolding CreateInvoice_def Let_def by (auto split: sum.splits)
  obtain i0 out where p2: "p = (i0, out)" by (cases p)
  obtain r where r: "r = (if ci_issue x then Issue (be_now E) i0 else Inr i0)" by blast
  obtain iv where iv: "r = Inr iv"
    using assms p p2 by (cases r) (simp_all add: CreateInvoice_def r[symmetric])
  obtain s2 where c: "invoices_Create E iv out (took (length (ci_lines x) + 2) s) = Inr s2"
    using assms p p2 iv
    by (cases "invoices_Create E iv out (took (length (ci_lines x) + 2) s)")
      (simp_all add: CreateInvoice_def r[symmetric])
  have "invoices_FindByID E 0 (iv_id iv) s2 = Inr v \<and> s2 = s'"
    using assms p p2 iv c by (auto simp: CreateInvoice_def r[symmetric])
  then have "s2 = s'" "invoices_FindByID E 0 (iv_id iv) s' = Inr v" by auto
  moreover have "iv_subtotal iv = iv_subtotal i0" "iv_ppn_amount iv = iv_ppn_amount i0" "iv_total iv = iv_total i0"
    "iv_id iv = iv_id i0" "iv_status iv = (if ci_issue x then InvoiceStatusIssued else InvoiceStatusDraft)"
    using r iv NewInvoice_shape(1)[OF p[unfolded p2]] by (auto simp: Issue_def split: if_splits)
  ultimately show ?thesis using that p p2 c by blast
qed

lemma CreateInvoice_reads_back:
  assumes reach: "bill_reachable s" and c: "CreateInvoice E x s = (Inr v, s')"
    and lines: "map li_amount (map input_line (ci_lines x)) = map (\<lambda>a. Whole a) as" "\<forall>a \<in> set as. 0 < a"
      "sum_list as \<le> 2 ^ 40"
    and rate: "ci_ppn_rate x = Whole r"
  shows "iv_subtotal (vw_invoice v) = Whole (sum_list as)" "iv_ppn_amount (vw_invoice v) = cents (r * sum_list as)"
    "iv_total (vw_invoice v) = cents ((100 + r) * sum_list as)"
    "map li_amount (vw_lines v) = map (\<lambda>a. Whole a) as" "map li_description (vw_lines v) = map ln_description (ci_lines x)"
    "vw_payments v = []" "tfind iv_id (iv_id (vw_invoice v)) (bd_invoices s') = Some (vw_invoice v)"
proof -
  from CreateInvoice_ok[OF c] obtain i0 out iv where n:
    "NewInvoice (\<lambda>i. be_fresh E (bd_next s + i)) (be_now E) (ci_customer_id x) (ci_order_id x) (ci_type x)
       (map input_line (ci_lines x)) (ci_ppn_rate x) (ci_due x) (ci_created_by x) (ci_notes x) = Inr (i0, out)"
    and iv: "iv_subtotal iv = iv_subtotal i0" "iv_ppn_amount iv = iv_ppn_amount i0" "iv_total iv = iv_total i0"
      "iv_id iv = iv_id i0"
    and cr: "invoices_Create E iv out (took (length (ci_lines x) + 2) s) = Inr s'"
    and fd: "invoices_FindByID E 0 (iv_id iv) s' = Inr v" by metis
  note sh = invoices_shape[OF cr]
  note ok = reachable_invoices[OF reach, unfolded invoices_ok_def]
  have S: "0 \<le> sum_list as" using lines(2) by (intro sum_list_nonneg) auto
  have r: "0 \<le> r" "r \<le> 100" using n unfolding rate by (auto simp: NewInvoice_def split: if_splits)
  have rS: "0 \<le> r * sum_list as" "r * sum_list as \<le> 100 * 2 ^ 40"
    using r S lines(3) mult_mono[of r 100 "sum_list as" "2 ^ 40"] by simp_all
  have fresh: "\<forall>j \<in> set (bd_invoices s). iv_id j \<noteq> iv_id iv"
    using sh by (auto simp: invoice_conflict_def stored_invoice_def took_def)
  have row: "tfind iv_id (iv_id iv) (bd_invoices s') = Some (stored_invoice iv)"
    using sh fresh by (simp add: tfind_append tfind_None_iff[THEN iffD2] stored_invoice_def took_def)
  have v: "vw_invoice v = stored_invoice iv" using invoices_FindByID_view[OF fd] row by simp
  note ex = NewInvoice_whole[OF n[unfolded rate] lines]
  show "iv_subtotal (vw_invoice v) = Whole (sum_list as)"
    using lines(3) S by (simp add: v stored_invoice_def iv ex num_whole)
  show "iv_ppn_amount (vw_invoice v) = cents (r * sum_list as)"
    using rS by (simp add: v stored_invoice_def iv ex num_cents)
  show "iv_total (vw_invoice v) = cents ((100 + r) * sum_list as)"
    using rS S lines(3) by (simp add: v stored_invoice_def iv ex num_cents distrib_right)
  show "tfind iv_id (iv_id (vw_invoice v)) (bd_invoices s') = Some (vw_invoice v)"
    using row by (simp add: v stored_invoice_def)
  have no_pay: "filter (\<lambda>p. bp_invoice_id p = iv_id iv) (bd_payments s) = []"
    using ok fresh by (auto simp: filter_empty_conv payment_ok_def)
  have no_line: "filter (\<lambda>l. li_invoice_id l = iv_id iv) (bd_items s) = []"
    using ok fresh by (fastforce simp: filter_empty_conv)
  have mine: "\<forall>l \<in> set (map stored_line out). li_invoice_id l = iv_id iv"
    using NewInvoice_shape(3)[OF n] iv(4) by (auto simp: stored_line_def)
  have rows: "filter (\<lambda>l. li_invoice_id l = iv_id iv) (bd_items s') = map stored_line out"
  proof -
    have "bd_items s' = bd_items s @ map stored_line out" using sh by (simp add: took_def)
    then show ?thesis using no_line mine by (simp add: filter_id_conv del: filter_map)
  qed
  have "map li_order out = map (\<lambda>k. int k + 1) [0..<length (ci_lines x)]"
    using fill_lines_orders[of "map input_line (ci_lines x)"] by (simp add: NewInvoice_lines[OF n] input_line_def)
  moreover have "sorted (map (\<lambda>k. int k + 1) [0..<length (ci_lines x)])"
    by (simp add: sorted_iff_nth_mono)
  ultimately have "sorted (map li_order (map stored_line out))" by (simp add: stored_line_def comp_def)
  moreover have view: "v = full_view (stored_invoice iv) s'"
    using fd row by (auto simp: invoices_FindByID_def split: option.splits)
  ultimately have vl: "vw_lines v = map stored_line out"
    using rows by (simp add: view full_view_def Let_def linesForInvoice_def order_by_def
        sort_key_id_if_sorted stored_invoice_def)
  have "map li_amount out = map (\<lambda>a. Whole a) as" unfolding NewInvoice_lines[OF n]
    by (rule fill_lines_amounts[OF lines(1,2)])
  moreover have "map (num 2) (map (\<lambda>a. Whole a) as) = map (\<lambda>a. Whole a) as"
  proof (intro map_idI)
    fix y assume "y \<in> set (map (\<lambda>a. Whole a) as)"
    then obtain a where a: "y = Whole a" "a \<in> set as" by auto
    then have "a \<le> sum_list as" using lines(2) by (intro member_le_sum_list) auto
    with a lines(2,3) show "num 2 y = y" by (auto intro!: num_whole)
  qed
  moreover have "map li_amount (map stored_line out) = map (num 2) (map li_amount out)"
    by (simp add: stored_line_def)
  ultimately show "map li_amount (vw_lines v) = map (\<lambda>a. Whole a) as" unfolding vl by simp
  show "map li_description (vw_lines v) = map ln_description (ci_lines x)"
    unfolding vl by (simp add: stored_line_def comp_def NewInvoice_lines[OF n] fill_lines_descriptions input_line_def)
  have "paymentsForInvoice (iv_id iv) s' = []"
    using sh no_pay by (simp add: paymentsForInvoice_def order_by_def took_def)
  then show "vw_payments v = []"
    by (simp add: view full_view_def Let_def stored_invoice_def)
qed

section \<open>The abstract ledger\<close>

text \<open>
  One invoice as its customer sees it: what is due and what has been paid, in cents, and
  whether it is settled.
\<close>

record ledger =
  lg_due :: int
  lg_paid :: int
  lg_settled :: bool

definition ledger_pay :: "int \<Rightarrow> ledger \<Rightarrow> ledger" where
  "ledger_pay c l = l\<lparr>lg_paid := lg_paid l + c, lg_settled := (lg_due l \<le> lg_paid l + c)\<rparr>"

definition confirmed :: "uuid \<Rightarrow> bill_db \<Rightarrow> bill_payment list" where
  "confirmed k s = filter (\<lambda>p. bp_invoice_id p = k \<and> bp_status p = BillPaymentConfirmed) (bd_payments s)"

definition ledger_rel :: "uuid \<Rightarrow> bill_db \<Rightarrow> ledger \<Rightarrow> bool" where
  "ledger_rel k s l \<longleftrightarrow> (\<exists>i cs. tfind iv_id k (bd_invoices s) = Some i \<and> iv_total i = cents (lg_due l)
     \<and> map bp_amount (confirmed k s) = map cents cs \<and> (\<forall>c \<in> set cs. 0 < c) \<and> sum_list cs = lg_paid l
     \<and> (lg_settled l \<longleftrightarrow> iv_status i = InvoiceStatusPaid))"

lemma sum_list_divide_distrib_cents: "sum_list (map (\<lambda>c. of_int c / 100 :: rat) cs) = of_int (sum_list cs) / 100"
  by (induction cs) (simp_all add: add_divide_distrib)

text \<open>On cents the tolerance of a millionth never matters.\<close>

lemma covers_cents:
  assumes "0 \<le> a" "a \<le> 2 ^ 47" "0 \<le> t" "t \<le> 2 ^ 47"
  shows "covers (cents a) (cents t) \<longleftrightarrow> t \<le> a"
proof -
  define p where "p = rndq (of_int a / 100)"
  define q where "q = rndq (of_int t / 100)"
  define e where "e = rndq (1 / 1000000)"
  have cents: "cents a = Fin p" "cents t = Fin q" using assms by (simp_all add: cents_Fin p_def q_def)
  have err: "\<bar>p * 100 - of_int a\<bar> \<le> 1 / 4" "\<bar>q * 100 - of_int t\<bar> \<le> 1 / 4"
    unfolding p_def q_def using assms by (intro cents_error; simp)+
  have "e = 4722366482869645 / 4722366482869645213696" unfolding e_def by code_simp
  then have e: "0 < e" "e \<le> 1 / 100000" "1 / 2 ^ 20 \<le> e" by simp_all
  have eps: "rnd (1 / 1000000) = Fin e" unfolding e_def by (rule rnd_small) simp
  have a47: "(of_int a :: rat) \<le> 2 ^ 47" using assms(2) by (metis of_int_le_iff of_int_numeral of_int_power)
  have p0: "0 \<le> p" unfolding p_def using assms(1) by (intro rndq_nonneg) simp
  have pbig: "p \<le> 2 ^ 41" using err(1) a47 unfolding abs_le_iff by simp
  have sum: "fadd (Fin p) (Fin e) = Fin (rndq (p + e))" using p0 pbig e by (simp add: rnd_small)
  have "covers (cents a) (cents t) \<longleftrightarrow> q \<le> rndq (p + e)"
    unfolding covers_def eps cents sum by simp
  also have "\<dots> \<longleftrightarrow> t \<le> a"
  proof
    assume "t \<le> a"
    then have "q \<le> p" unfolding p_def q_def by (intro rndq_mono) (simp add: divide_right_mono)
    also have "p = rndq p" unfolding p_def by simp
    also have "\<dots> \<le> rndq (p + e)" using e by (intro rndq_mono) simp
    finally show "q \<le> rndq (p + e)" .
  next
    assume le: "q \<le> rndq (p + e)"
    have rel: "\<bar>rndq (p + e) - (p + e)\<bar> \<le> (p + e) * p2 (- 53)"
    proof -
      have "p2 (- 1022) \<le> p2 (- 20)" by (rule p2_mono) simp
      also have "p2 (- 20) = 1 / 2 ^ 20" by code_simp
      finally have "p2 (- 1022) \<le> e" using e(3) by simp
      moreover have "\<bar>p + e\<bar> = p + e" using p0 e(1) by simp
      ultimately show ?thesis using rndq_rel_error[of "p + e"] p0 by simp
    qed
    have "p2 (- 53) = 1 / 2 ^ 53" by code_simp
    moreover have "p + e \<le> 2 ^ 42" using pbig e(2) by simp
    ultimately have "(p + e) * p2 (- 53) \<le> 2 ^ 42 * (1 / 2 ^ 53)" by (simp only: mult_right_mono zero_le_divide_1_iff zero_le_power zero_le_numeral)
    then have "(p + e) * p2 (- 53) \<le> 1 / 1000" by simp
    with rel le have "q \<le> p + e + 1 / 1000" unfolding abs_le_iff by linarith
    then have "q * 100 \<le> p * 100 + 1 / 4" using e by linarith
    with err have "of_int t \<le> (of_int a + 3 / 4 :: rat)" unfolding abs_le_iff by linarith
    then have "(of_int t :: rat) < of_int (a + 1)" by simp
    then have "t < a + 1" by (simp only: of_int_less_iff)
    then show "t \<le> a" by simp
  qed
  finally show ?thesis .
qed

lemma sql_paid_cents:
  assumes "map bp_amount (confirmed k s) = map cents cs" "\<forall>c \<in> set cs. 0 < c" "sum_list cs \<le> 2 ^ 50"
  shows "sql_paid k s = cents (sum_list cs)"
proof -
  have le: "c \<le> 2 ^ 50" if "c \<in> set cs" for c
    using member_le_sum_list[OF that] assms(2,3) by fastforce
  have "map (\<lambda>p. dec_value 2 (bp_amount p)) (confirmed k s) = map (dec_value 2) (map cents cs)"
    unfolding assms(1)[symmetric] by simp
  also have "\<dots> = map (\<lambda>c. of_int c / 100) cs"
    using le assms(2) unfolding map_map by (intro map_cong) (simp_all only: comp_def, intro dec_value_cents, fastforce)
  finally have "sum_list (map (\<lambda>p. dec_value 2 (bp_amount p)) (confirmed k s)) = of_int (sum_list cs) / 100"
    by (simp add: sum_list_divide_distrib_cents)
  then show ?thesis unfolding sql_paid_def confirmed_def[symmetric] by (simp only:) (simp add: cents_def)
qed

section \<open>Recording a payment refines the ledger\<close>

definition money_part :: "bill_db \<Rightarrow> invoice list \<times> bill_payment list" where
  "money_part s = (bd_invoices s, bd_payments s)"

lemma create_commissions_money: "money_part (create_commissions E cs s) = money_part s"
proof (induction cs arbitrary: s)
  case (Cons c cs)
  then show ?case by (auto simp: money_part_def split: sum.splits dest!: commissions_shape)
qed simp

lemma after_payment_money:
  "money_part (maybeApplyReferralReward E w (maybeApplyCommission E w p s)) = money_part s"
proof -
  have 1: "money_part (maybeApplyCommission E w p s) = money_part s" for s
    by (auto simp: maybeApplyCommission_def Let_def create_commissions_money split: option.splits sum.splits)
      (auto simp: money_part_def took_def)
  have 2: "money_part (maybeApplyReferralReward E w s) = money_part s" for s
    by (auto simp: maybeApplyReferralReward_def Let_def split: option.splits sum.splits dest!: rewards_shape)
      (auto simp: money_part_def took_def)
  show ?thesis by (simp add: 1 2)
qed

lemma RecordPayment_ok:
  assumes "RecordPayment E x s = (Inr v, s')"
  obtains i p s2 s3 where "tfind iv_id (rp_invoice_id x) (bd_invoices s) = Some i"
    "iv_status i \<noteq> InvoiceStatusPaid" "iv_status i \<noteq> InvoiceStatusCancelled"
    "bp_invoice_id p = rp_invoice_id x" "bp_amount p = rp_amount x" "bp_status p = BillPaymentConfirmed"
    "payments_Create E p (took 1 s) = Inr s2"
    "(if covers (sql_paid (rp_invoice_id x) s2) (iv_total i)
      then invoices_UpdateStatus E (rp_invoice_id x) InvoiceStatusPaid (Some (be_now E)) s2 else Inr s2) = Inr s3"
    "money_part s' = money_part s3"
proof -
  let ?k = "rp_invoice_id x"
  obtain v0 where f: "invoices_FindByID E 0 ?k s = Inr v0"
    using assms by (cases "invoices_FindByID E 0 ?k s") (simp_all add: RecordPayment_def)
  let ?i = "vw_invoice v0"
  have opn: "iv_status ?i \<noteq> InvoiceStatusPaid" "iv_status ?i \<noteq> InvoiceStatusCancelled"
    using assms f by (auto simp: RecordPayment_def split: if_splits)
  obtain p0 where p0: "NewPayment (fresh_id E s) (be_now E) ?k (iv_customer_id ?i) (rp_amount x) (rp_method x)
        (Some (rp_confirmed_by x)) (rp_notes x) = Inr p0"
    using assms f opn by (auto simp: RecordPayment_def split: sum.splits)
  define p where "p = p0\<lparr>bp_gateway_txn := rp_gateway_txn x\<rparr>"
  have p: "bp_invoice_id p = ?k" "bp_amount p = rp_amount x" "bp_status p = BillPaymentConfirmed"
    using p0 by (auto simp: p_def NewPayment_def Let_def split: if_splits)
  obtain s2 where c: "payments_Create E p (took 1 s) = Inr s2"
    using assms f opn p0 by (cases "payments_Create E p (took 1 s)") (auto simp: RecordPayment_def Let_def p_def)
  have "SumConfirmedForInvoice E ?k s2 = Inr (sql_paid ?k s2)"
    using assms f opn p0 c
    by (cases "be_fail E (PaySum ?k)") (auto simp: RecordPayment_def Let_def p_def SumConfirmedForInvoice_def bguard_def)
  note base = f opn p0 c[unfolded p_def] this
  let ?u = "if covers (sql_paid ?k s2) (iv_total ?i)
      then invoices_UpdateStatus E ?k InvoiceStatusPaid (Some (be_now E)) s2 else Inr s2"
  obtain s3 where u: "?u = Inr s3"
    using assms base by (cases ?u) (auto simp: RecordPayment_def Let_def)
  have "money_part s' = money_part s3"
    using assms base u after_payment_money[of E _ p s3]
    by (cases "invoices_FindByID E 1 ?k s3") (auto simp: RecordPayment_def Let_def p_def split: if_splits)
  with that[OF invoices_FindByID_view[OF f] opn p c u] show ?thesis .
qed

lemma RecordPayment_ledger:
  assumes "RecordPayment E x s = (Inr v, s')" "ledger_rel (rp_invoice_id x) s l" "rp_amount x = cents c"
    and "0 < c" "lg_paid l + c \<le> 2 ^ 47" "0 \<le> lg_due l" "lg_due l \<le> 2 ^ 47"
  shows "ledger_rel (rp_invoice_id x) s' (ledger_pay c l)" "\<not> lg_settled l"
proof -
  let ?k = "rp_invoice_id x"
  obtain i p s2 s3 where r: "tfind iv_id ?k (bd_invoices s) = Some i"
    "iv_status i \<noteq> InvoiceStatusPaid" "iv_status i \<noteq> InvoiceStatusCancelled"
    "bp_invoice_id p = ?k" "bp_amount p = cents c" "bp_status p = BillPaymentConfirmed"
    and cr: "payments_Create E p (took 1 s) = Inr s2"
    and u: "(if covers (sql_paid ?k s2) (iv_total i)
      then invoices_UpdateStatus E ?k InvoiceStatusPaid (Some (be_now E)) s2 else Inr s2) = Inr s3"
    and m: "money_part s' = money_part s3"
    using RecordPayment_ok[OF assms(1)] assms(3) by metis
  obtain cs where l: "iv_total i = cents (lg_due l)" "map bp_amount (confirmed ?k s) = map cents cs"
    "\<forall>c \<in> set cs. 0 < c" "sum_list cs = lg_paid l" "lg_settled l \<longleftrightarrow> iv_status i = InvoiceStatusPaid"
    using assms(2) r(1) by (auto simp: ledger_rel_def)
  show "\<not> lg_settled l" using l(5) r(2) by simp
  have cs: "0 \<le> lg_paid l" using l(3,4) by (metis less_imp_le sum_list_nonneg)
  have "num 2 (cents c) = cents c" using assms(4,5) cs by (intro num_cents) simp
  then have pays: "map bp_amount (confirmed ?k s2) = map cents (cs @ [c])"
    using payments_shape[OF cr] r l(2) by (simp add: confirmed_def took_def)
  have inv2: "bd_invoices s2 = bd_invoices s" using payments_shape[OF cr] by (simp add: took_def)
  have paid: "sql_paid ?k s2 = cents (lg_paid l + c)"
    using sql_paid_cents[OF pays] l(3,4) assms(4,5) by simp
  have cov: "covers (sql_paid ?k s2) (iv_total i) \<longleftrightarrow> lg_due l \<le> lg_paid l + c"
    unfolding paid l(1) using assms(4-7) cs by (intro covers_cents) simp_all
  show "ledger_rel ?k s' (ledger_pay c l)"
  proof (cases "lg_due l \<le> lg_paid l + c")
    case True
    with u cov have "invoices_UpdateStatus E ?k InvoiceStatusPaid (Some (be_now E)) s2 = Inr s3" by simp
    note sh = status_shape[OF this]
    have "tfind iv_id ?k (bd_invoices s3) =
        Some (i\<lparr>iv_status := InvoiceStatusPaid, iv_paid_at := Some (be_now E), iv_updated_at := be_dbnow E\<rparr>)"
      using r(1) by (simp add: sh inv2 tfind_map)
    moreover have "confirmed ?k s3 = confirmed ?k s2" by (simp add: sh confirmed_def)
    ultimately show ?thesis using m pays l True assms(4)
      by (auto simp: ledger_rel_def ledger_pay_def money_part_def confirmed_def intro!: exI[of _ "cs @ [c]"])
  next
    case False
    with u cov have "s3 = s2" by simp
    then show ?thesis using m pays l False assms(4) r inv2
      by (auto simp: ledger_rel_def ledger_pay_def money_part_def confirmed_def intro!: exI[of _ "cs @ [c]"])
  qed
qed

lemma RecordPayment_other_ledger:
  assumes "RecordPayment E x s = (Inr v, s')" "k \<noteq> rp_invoice_id x" "ledger_rel k s l"
  shows "ledger_rel k s' l"
proof (rule RecordPayment_ok[OF assms(1)])
  let ?k = "rp_invoice_id x"
  fix i p s2 s3
  assume r: "bp_invoice_id p = ?k" and cr: "payments_Create E p (took 1 s) = Inr s2"
    and u: "(if covers (sql_paid ?k s2) (iv_total i)
      then invoices_UpdateStatus E ?k InvoiceStatusPaid (Some (be_now E)) s2 else Inr s2) = Inr s3"
    and m: "money_part s' = money_part s3"
  have 1: "confirmed k s2 = confirmed k s" "bd_invoices s2 = bd_invoices s"
    using payments_shape[OF cr] r assms(2) by (simp_all add: confirmed_def took_def)
  have 2: "confirmed k s3 = confirmed k s2 \<and> tfind iv_id k (bd_invoices s3) = tfind iv_id k (bd_invoices s2)"
  proof (cases "covers (sql_paid ?k s2) (iv_total i)")
    case True
    with u have "invoices_UpdateStatus E ?k InvoiceStatusPaid (Some (be_now E)) s2 = Inr s3" by simp
    note sh = status_shape[OF this]
    show ?thesis using assms(2)
      by (cases "tfind iv_id k (bd_invoices s2)") (simp_all add: sh confirmed_def tfind_map)
  qed (use u in simp)
  show ?thesis using 1 2 m assms(3) by (simp add: ledger_rel_def money_part_def confirmed_def)
qed

end
