(* ===== verification/BillingPasses.thy ===== *)
theory BillingPasses
  imports BillingLedger
begin

text \<open>
  The scheduler's passes: what makes the recurring pass safe to repeat (the cycle row of a
  period), what it costs when a cycle failed, and why the late-fee pass is not safe to repeat.
\<close>

section \<open>Cycles block their period\<close>

lemma cycle_exists:
  "be_fail E (CycleExists k t) = None \<Longrightarrow> cycles_ExistsForPeriod E k t s
     = Inr (\<exists>y \<in> set (bd_cycles s). cy_customer_id y = k \<and> cy_start y = sql_date t)"
  by (simp add: cycles_ExistsForPeriod_def bguard_def)

lemma bill_run_cycles: "\<exists>cs. bd_cycles (bill_run evs s) = bd_cycles s @ cs"
proof (rule bill_run_rel[where R = "\<lambda>a b. \<exists>cs. bd_cycles b = bd_cycles a @ cs"])
  fix E a b assume "bill_write E a b"
  then show "\<exists>cs. bd_cycles b = bd_cycles a @ cs"
    by (cases rule: logs_other) (auto dest: cycles_shape commissions_shape rewards_shape reminders_shape latefees_shape)
qed auto

definition period_billed :: "benv \<Rightarrow> time \<Rightarrow> recurring_order \<Rightarrow> bill_db \<Rightarrow> bool" where
  "period_billed E now ord s \<longleftrightarrow> (\<exists>y \<in> set (bd_cycles s). cy_customer_id y = ro_customer_id ord
     \<and> cy_start y = sql_date (fst (recurring_period E now ord)))"

lemma recurring_step_blocked:
  assumes "period_billed E now ord s"
  shows "snd (recurring_step E now ord (rep, s)) = s"
  using assms by (cases "be_fail E (CycleExists (ro_customer_id ord) (fst (recurring_period E now ord)))")
    (auto simp: recurring_step_def Let_def cycle_exists period_billed_def cycles_ExistsForPeriod_def bguard_def)

lemma period_billed_run: "period_billed E now ord s \<Longrightarrow> period_billed E now ord (bill_run evs s)"
  using bill_run_cycles[of evs s] by (auto simp: period_billed_def)

section \<open>After a pass every active order has its cycle\<close>

text \<open>The identifiers \<^verbatim>\<open>uuid.New\<close> hands out up to its \<open>b\<close>-th call are new.\<close>

definition fresh_cycles :: "benv \<Rightarrow> nat \<Rightarrow> bill_db \<Rightarrow> bool" where
  "fresh_cycles E b s \<longleftrightarrow> inj_on (be_fresh E) {bd_next s..<b}
     \<and> (\<forall>n \<in> {bd_next s..<b}. \<forall>y \<in> set (bd_cycles s). cy_id y \<noteq> be_fresh E n)"

lemma fresh_cycles_later:
  "fresh_cycles E b s \<Longrightarrow> bd_next s \<le> bd_next s' \<Longrightarrow> bd_cycles s' = bd_cycles s \<Longrightarrow> fresh_cycles E b s'"
  by (auto simp: fresh_cycles_def intro: inj_on_subset)

lemma CreateInvoice_cycles:
  "bd_cycles (snd (CreateInvoice E x s)) = bd_cycles s \<and> bd_next s \<le> bd_next (snd (CreateInvoice E x s))"
  by (auto simp: CreateInvoice_def Let_def took_def invoices_Create_def split: sum.splits if_splits)

lemma put_cycle_spec:
  assumes "fresh_cycles E b s" "bd_next s < b" "be_fail E (CycleCreate (ro_customer_id ord) (fst period)) = None"
  shows "fresh_cycles E b (put_cycle E now ord period ino st nts s)"
    and "\<exists>y \<in> set (bd_cycles (put_cycle E now ord period ino st nts s)).
      cy_customer_id y = ro_customer_id ord \<and> cy_start y = sql_date (fst period)"
    and "\<exists>cs. bd_cycles (put_cycle E now ord period ino st nts s) = bd_cycles s @ cs"
proof -
  define c where "c = \<lparr>cy_id = fresh_id E s, cy_customer_id = ro_customer_id ord, cy_order_id = ro_order_id ord,
              cy_start = fst period, cy_end = snd period, cy_invoice_id = ino,
              cy_status = st, cy_notes = nts, cy_created_at = now\<rparr>"
  define sc where "sc = c\<lparr>cy_start := sql_date (cy_start c), cy_end := sql_date (cy_end c)\<rparr>"
  have new: "\<forall>y \<in> set (bd_cycles s). cy_id y \<noteq> fresh_id E s"
    using assms(1,2) by (auto simp: fresh_cycles_def fresh_id_def)
  define s1 where "s1 = took 1 s"
  have s1: "bd_cycles s1 = bd_cycles s" "bd_next s1 = Suc (bd_next s)" by (simp_all add: s1_def took_def)
  define hit where "hit \<longleftrightarrow> (\<exists>y \<in> set (bd_cycles s). cy_customer_id y = ro_customer_id ord \<and> cy_start y = sql_date (fst period))"
  have ex: "cycles_Create E c s1 = (if hit then Inl (duplicate_err ''cycle.create'' ''create billing cycle'')
     else Inr (s1\<lparr>bd_cycles := bd_cycles s @ [sc]\<rparr>))"
    using new assms(3) by (auto simp: cycles_Create_def bguard_def c_def sc_def s1 hit_def)
  have "put_cycle E now ord period ino st nts s = (case cycles_Create E c s1 of Inl _ \<Rightarrow> s1 | Inr s2 \<Rightarrow> s2)"
    unfolding put_cycle_def Let_def c_def s1_def by (rule refl)
  then have put: "put_cycle E now ord period ino st nts s = (if hit then s1 else s1\<lparr>bd_cycles := bd_cycles s @ [sc]\<rparr>)"
    by (simp add: ex)
  have inj: "inj_on (be_fresh E) {bd_next s..<b}" using assms(1) by (simp add: fresh_cycles_def)
  have snew: "cy_id sc \<noteq> be_fresh E n" if "Suc (bd_next s) \<le> n" "n < b" for n
    using that assms(2) inj_onD[OF inj, of n "bd_next s"] by (auto simp: sc_def c_def fresh_id_def)
  show "fresh_cycles E b (put_cycle E now ord period ino st nts s)"
    using assms(1) snew by (auto simp: put fresh_cycles_def s1 intro: inj_on_subset)
  have "cy_customer_id sc = ro_customer_id ord \<and> cy_start sc = sql_date (fst period)" by (simp add: sc_def c_def)
  then show "\<exists>y \<in> set (bd_cycles (put_cycle E now ord period ino st nts s)).
      cy_customer_id y = ro_customer_id ord \<and> cy_start y = sql_date (fst period)"
    by (cases hit) (simp_all add: put s1, simp add: hit_def)
  show "\<exists>cs. bd_cycles (put_cycle E now ord period ino st nts s) = bd_cycles s @ cs"
    by (simp add: put s1)
qed

lemma bill_order_state:
  "\<exists>x ino cst nts. snd (bill_order E now ord (rep, s)) =
     put_cycle E now ord (recurring_period E now ord) ino cst nts (snd (CreateInvoice E x s))"
proof -
  obtain ads rep1 where a: "(case ActiveAddonsForCustomer E (ro_customer_id ord) s of
      Inr as \<Rightarrow> (as, rep) | Inl e \<Rightarrow> ([], note_error (about ''addon lookup'' (ro_customer_id ord) e) rep)) = (ads, rep1)"
    by fastforce
  define d0 where "d0 = po_due_offset_days (resolvedBillingPolicy E (ro_customer_id ord) zero_policy)"
  define x where "x = recurring_input E ord (fst (recurring_period E now ord))
    (AddDate 0 0 (if d0 \<le> 0 then 7 else d0) (fst (recurring_period E now ord))) ads"
  have "snd (bill_order E now ord (rep, s)) = (case CreateInvoice E x s of
      (Inl e, s1) \<Rightarrow> put_cycle E now ord (recurring_period E now ord) None CycleStatusFailed (error_text e) s1
    | (Inr v, s1) \<Rightarrow> put_cycle E now ord (recurring_period E now ord) (Some (iv_id (vw_invoice v))) CycleStatusGenerated [] s1)"
    unfolding bill_order_def Let_def prod.case a d0_def[symmetric] x_def[symmetric]
    by (auto split: prod.splits sum.splits)
  then show ?thesis by (auto split: prod.splits sum.splits) (metis snd_conv)+
qed

lemma put_cycle_next: "Suc (bd_next s) \<le> bd_next (put_cycle E now ord period ino st nts s)"
  by (auto simp: put_cycle_def Let_def took_def cycles_Create_def split: sum.splits if_splits)

lemma recurring_step_spec:
  assumes fr: "fresh_cycles E b s" and le: "bd_next s' \<le> b"
    and ok: "\<And>t. be_fail E (CycleCreate (ro_customer_id ord) t) = None" "\<And>t. be_fail E (CycleExists (ro_customer_id ord) t) = None"
    and st: "recurring_step E now ord (rep, s) = (rep', s')"
  shows "fresh_cycles E b s'" "not_yet_active now ord \<or> period_billed E now ord s'" "\<exists>cs. bd_cycles s' = bd_cycles s @ cs"
proof -
  have "fresh_cycles E b s' \<and> (not_yet_active now ord \<or> period_billed E now ord s') \<and> (\<exists>cs. bd_cycles s' = bd_cycles s @ cs)"
  proof (cases "not_yet_active now ord \<or> period_billed E now ord s")
    case True
    have "s' = s"
    proof (cases "period_billed E now ord s")
      case True
      with recurring_step_blocked[of E now ord s rep] st show ?thesis by simp
    qed (use True st in \<open>simp add: recurring_step_def\<close>)
    with True fr show ?thesis by auto
  next
    case False
    then have "cycles_ExistsForPeriod E (ro_customer_id ord) (fst (recurring_period E now ord)) s = Inr False"
      using cycle_exists[OF ok(2)] by (auto simp: period_billed_def)
    with False have bo: "bill_order E now ord (rep, s) = (rep', s')"
      using st by (simp add: recurring_step_def)
    obtain x ino cst nts where s': "s' = put_cycle E now ord (recurring_period E now ord) ino cst nts (snd (CreateInvoice E x s))"
      using bill_order_state[of E now ord rep s] bo by auto
    have nx: "bd_next (snd (CreateInvoice E x s)) < b"
      using le put_cycle_next unfolding s' by (meson Suc_le_lessD order_trans)
    have f: "fresh_cycles E b (snd (CreateInvoice E x s))"
      using CreateInvoice_cycles[of E x s] by (intro fresh_cycles_later[OF fr]) simp_all
    have pc: "fresh_cycles E b s'"
      "\<exists>y \<in> set (bd_cycles s'). cy_customer_id y = ro_customer_id ord \<and> cy_start y = sql_date (fst (recurring_period E now ord))"
      "\<exists>cs. bd_cycles s' = bd_cycles (snd (CreateInvoice E x s)) @ cs"
      unfolding s' by (rule put_cycle_spec[OF f nx ok(1)])+
    have "period_billed E now ord s'" using pc(2) unfolding period_billed_def .
    moreover have "\<exists>cs. bd_cycles s' = bd_cycles s @ cs" using pc(3) CreateInvoice_cycles[of E x s] by simp
    ultimately show ?thesis using pc(1) by blast
  qed
  then show "fresh_cycles E b s'" "not_yet_active now ord \<or> period_billed E now ord s'" "\<exists>cs. bd_cycles s' = bd_cycles s @ cs"
    by blast+
qed

lemma recurring_step_next: "bd_next (snd st) \<le> bd_next (snd (recurring_step E now ord st))"
proof -
  obtain rep s where st: "st = (rep, s)" by (cases st)
  have "bd_next s \<le> bd_next (snd (bill_order E now ord (rep, s)))"
    using bill_order_state[of E now ord rep s] CreateInvoice_cycles put_cycle_next by (metis Suc_leD order_trans)
  then show ?thesis by (auto simp: st recurring_step_def split: sum.splits bool.splits)
qed

lemma each_recurring_next: "bd_next (snd st) \<le> bd_next (snd (each (recurring_step E now) ords st))"
proof (induction ords arbitrary: st)
  case (Cons ord ords)
  show ?case using order_trans[OF recurring_step_next Cons.IH] by simp
qed simp

lemma each_recurring_spec:
  assumes fr: "fresh_cycles E (bd_next s') s"
    and ok: "\<And>k t. be_fail E (CycleCreate k t) = None" "\<And>k t. be_fail E (CycleExists k t) = None"
    and st: "each (recurring_step E now) ords (rep, s) = (rep', s')"
  shows "(\<forall>ord \<in> set ords. not_yet_active now ord \<or> period_billed E now ord s') \<and> (\<exists>cs. bd_cycles s' = bd_cycles s @ cs)"
  using fr st
proof (induction ords arbitrary: rep s)
  case (Cons ord ords)
  obtain rep1 s1 where s1: "recurring_step E now ord (rep, s) = (rep1, s1)" by fastforce
  have r: "each (recurring_step E now) ords (rep1, s1) = (rep', s')" using Cons.prems(2) s1 by simp
  have "bd_next s1 \<le> bd_next s'" using each_recurring_next[of "(rep1, s1)" E now ords] r by simp
  note sp = recurring_step_spec[OF Cons.prems(1) this ok s1]
  note IH = Cons.IH[OF sp(1) r]
  then have "not_yet_active now ord \<or> period_billed E now ord s'" using sp(2) by (auto simp: period_billed_def)
  with IH sp(3) show ?case by auto
qed simp

lemma each_recurring_blocked:
  "\<forall>ord \<in> set ords. not_yet_active now ord \<or> period_billed E now ord s \<Longrightarrow>
     snd (each (recurring_step E now) ords (rep, s)) = s"
proof (induction ords arbitrary: rep)
  case (Cons ord ords)
  have "snd (recurring_step E now ord (rep, s)) = s"
    using Cons.prems recurring_step_blocked[of E now ord s rep] by (auto simp: recurring_step_def)
  then obtain rep1 where "recurring_step E now ord (rep, s) = (rep1, s)"
    by (metis prod.collapse)
  with Cons show ?case by simp
qed simp

section \<open>Late fees\<close>

lemma List_no_lines: "invoices_List E f s = Inr (vs, n) \<Longrightarrow> v \<in> set vs \<Longrightarrow> vw_lines v = []"
  by (auto simp: invoices_List_def Let_def list_view_def)

lemma hasLateFee_never: "hasLateFeeForInvoice E oid number s \<noteq> Inr True"
  by (auto simp: hasLateFeeForInvoice_def split: option.splits sum.splits dest: List_no_lines)

section \<open>Reminders per invoice\<close>

lemma bill_write_kinds:
  "bill_write E s s' \<Longrightarrow> \<forall>r \<in> set (bd_reminders s). reminderIndex (rl_kind r) \<noteq> - 1 \<Longrightarrow>
     \<forall>r \<in> set (bd_reminders s'). reminderIndex (rl_kind r) \<noteq> - 1"
proof (erule logs_other)
  fix r assume c: "reminders_Create E r s = Inr s'" and ok: "\<forall>r \<in> set (bd_reminders s). reminderIndex (rl_kind r) \<noteq> - 1"
  have "reminderIndex (rl_kind r) \<noteq> - 1" using c by (cases "rl_kind r") (auto simp: reminders_Create_def)
  with reminders_shape[OF c] ok show ?thesis by auto
qed (auto dest: cycles_shape commissions_shape rewards_shape latefees_shape)

lemma reachable_kinds: "bill_reachable s \<Longrightarrow> \<forall>r \<in> set (bd_reminders s). reminderIndex (rl_kind r) \<noteq> - 1"
proof (induction rule: bill_reachable_induct)
  case (start p)
  show ?case by (simp add: bill_initial_def)
qed (rule bill_write_kinds)

definition invoice_reminders :: "uuid \<Rightarrow> bill_db \<Rightarrow> reminder_row list" where
  "invoice_reminders k s = filter (\<lambda>r. rl_invoice_id r = k) (bd_reminders s)"

lemma reminderIndex_inj:
  "reminderIndex a = reminderIndex b \<Longrightarrow> reminderIndex a \<noteq> - 1 \<Longrightarrow> a = b"
  by (cases a; cases b) simp_all

lemma reminders_at_most_six:
  assumes "bill_reachable s"
  shows "length (invoice_reminders k s) \<le> 6"
proof -
  let ?l = "invoice_reminders k s"
  have "distinct (map reminder_key (bd_reminders s))"
    using reachable_logs[OF assms] by (simp add: logs_ok_def tkeyed_def)
  then have "inj_on reminder_key (set (bd_reminders s))" "distinct (bd_reminders s)" by (simp_all add: distinct_map)
  then have d: "distinct ?l" and i: "inj_on (\<lambda>r. reminderIndex (rl_kind r)) (set ?l)"
    using reachable_kinds[OF assms] reminderIndex_inj
    by (auto simp: invoice_reminders_def inj_on_def reminder_key_def)
  have "(\<lambda>r. reminderIndex (rl_kind r)) ` set ?l \<subseteq> {0..5}"
  proof
    fix x assume "x \<in> (\<lambda>r. reminderIndex (rl_kind r)) ` set ?l"
    then obtain r where "r \<in> set (bd_reminders s)" "x = reminderIndex (rl_kind r)" by (auto simp: invoice_reminders_def)
    with reachable_kinds[OF assms] reminderIndex_range[of "rl_kind r"] show "x \<in> {0..5}" by force
  qed
  then have "card ((\<lambda>r. reminderIndex (rl_kind r)) ` set ?l) \<le> card {0..5::int}" by (intro card_mono) simp_all
  then show ?thesis using d by (simp add: card_image[OF i] distinct_card)
qed

section \<open>Commission shares\<close>

lemma commission_rows_amounts:
  "map cm_amount (commission_rows fresh now ord pid iid i shares)
     = map (\<lambda>(party, pct, user, branch, nts). round2 (fdiv (fmul (ro_monthly_price ord) pct) (Fin 100))) shares"
  "map cm_party (commission_rows fresh now ord pid iid i shares) = map fst shares"
  by (induction shares arbitrary: i rule: list.induct) (auto simp: mk_commission_def Let_def)

lemma share_cents:
  assumes "0 \<le> n" "n \<le> 2 ^ 40" "0 \<le> r" "r \<le> 100"
  shows "round2 (fdiv (fmul (Whole n) (Whole r)) (Fin 100)) = cents (n * r)"
proof -
  have nr: "0 \<le> n * r" "n * r \<le> 2 ^ 40 * 100" using assms mult_mono[of n "2 ^ 40" r 100] by simp_all
  then have "fmul (Whole n) (Whole r) = Whole (n * r)" by (intro fmul_whole) simp
  then have "fdiv (fmul (Whole n) (Whole r)) (Fin 100) = cents (n * r)" by (simp add: cents_def del: fmul.simps)
  then show ?thesis using nr by (simp add: round2_cents del: fmul.simps fdiv.simps)
qed

text \<open>The percentages that are paid out when the manager or the sales branch is unknown.\<close>

definition paid_percents :: "uuid option \<Rightarrow> uuid option \<Rightarrow> int \<Rightarrow> int \<Rightarrow> int" where
  "paid_percents manager_id sales_branch mgr branch =
     100 - (if manager_id = None then mgr else 0) - (if sales_branch = None then branch else 0)"

lemma commission_split_cents:
  assumes split: "split = \<lparr>cs_rep = Whole a, cs_mgr = Whole b, cs_branch_sales = Whole c,
      cs_branch_infra = Whole d, cs_holding = Whole e\<rparr>"
    and nn: "0 \<le> a" "0 \<le> b" "0 \<le> c" "0 \<le> d" "0 \<le> e" "a + b + c + d + e = 100"
    and price: "ro_monthly_price ord = Whole n" "0 \<le> n" "n \<le> 2 ^ 40"
    and cross: "cross \<longrightarrow> ro_branch_id ord \<noteq> None"
  shows "\<exists>cs. map cm_amount (buildCommissionRowsWithSplit fresh now ord pid iid manager_id sales_branch cross split)
      = map cents cs \<and> sum_list cs = n * paid_percents manager_id sales_branch b c"
proof -
  note am = share_cents[OF price(2,3)]
  have fold: "fadd (Whole e) (Whole d) = Whole (e + d)" using nn by (intro fadd_whole) simp
  define rest where "rest = (if cross then [n * d, n * e] else [n * (e + d)])"
  define cs where "cs = [n * a] @ (if manager_id \<noteq> None then [n * b] else [])
    @ (if sales_branch \<noteq> None then [n * c] else []) @ rest"
  have "map cm_amount (buildCommissionRowsWithSplit fresh now ord pid iid manager_id sales_branch cross split) = map cents cs"
    unfolding buildCommissionRowsWithSplit_def commission_rows_amounts commission_shares_def Let_def split price(1)
    using nn cross am[of a] am[of b] am[of c] am[of d] am[of e] am[of "e + d"]
    by (cases cross) (simp_all add: cs_def rest_def fold del: fadd.simps fmul.simps fdiv.simps of_int_add)
  moreover have "sum_list cs = n * paid_percents manager_id sales_branch b c"
  proof -
    have "n * 100 = n * a + n * b + n * c + n * d + n * e"
      unfolding nn(6)[symmetric] by (simp add: distrib_left)
    then show ?thesis by (cases cross) (auto simp: cs_def rest_def paid_percents_def distrib_left right_diff_distrib)
  qed
  ultimately show ?thesis by blast
qed

section \<open>Stuck terminations and repeated payments\<close>

lemma term_edges_awaiting:
  "term_edge\<^sup>*\<^sup>* a b \<Longrightarrow> a = TerminationStatusAwaitingPayment \<Longrightarrow>
     b = TerminationStatusAwaitingPayment \<or> b = TerminationStatusCancelled"
  by (induction rule: rtranclp_induct) (auto simp: term_edge_def)

lemma txn_taken:
  assumes "q \<in> set (bd_payments s)" "bp_gateway_txn q = bp_gateway_txn p" "bp_gateway_txn p \<noteq> []"
  shows "payments_Create E p s \<noteq> Inr s'"
  using assms by (auto simp: payments_Create_def Let_def split: if_splits)

lemma RecordPayment_txn_taken:
  assumes "q \<in> set (bd_payments s)" "bp_gateway_txn q = rp_gateway_txn x" "rp_gateway_txn x \<noteq> []"
  shows "\<exists>e. fst (RecordPayment E x s) = Inl e" "money_part (snd (RecordPayment E x s)) = money_part s"
proof -
  have no: "payments_Create E (p\<lparr>bp_gateway_txn := rp_gateway_txn x\<rparr>) (took n s) \<noteq> Inr s'" for p n s'
    using assms by (intro txn_taken[of q]) (auto simp: took_def)
  show "\<exists>e. fst (RecordPayment E x s) = Inl e"
    using no by (auto simp: RecordPayment_def Let_def simp del: One_nat_def split: sum.splits)
  show "money_part (snd (RecordPayment E x s)) = money_part s"
    using no by (auto simp: RecordPayment_def Let_def simp del: One_nat_def split: sum.splits)
      (auto simp: money_part_def took_def)
qed

end
