(* ===== verification/BillingClaims.thy ===== *)
theory BillingClaims
  imports BillingPasses
begin

text \<open>
  The properties of the billing context, each with a witness that applies it to a concrete
  history: invoices and payments, periods and the scheduler, the orchestration policies,
  commissions, terminations and add-ons. Several state what the code does where its comments
  promise something else.
\<close>

section \<open>Invoices and payments\<close>





text \<open>
  C22. Every stored row of a reachable state is well formed: an invoice has a known type,
  amounts that are not negative, a status other than overdue and at least one line; a line
  belongs to a stored invoice and has a known item type and a positive quantity; a payment is
  confirmed, positive and belongs to a stored invoice.
\<close>

theorem billing_rows_well_formed:
  assumes "bill_reachable s"
  shows "(\<forall>i \<in> set (bd_invoices s). (\<nexists>t. iv_type i = InvoiceTypeOther t)
      \<and> fle (Fin 0) (iv_subtotal i) \<and> fle (Fin 0) (iv_ppn_amount i) \<and> fle (Fin 0) (iv_total i)
      \<and> iv_status i \<noteq> InvoiceStatusOverdue \<and> (\<exists>l \<in> set (bd_items s). li_invoice_id l = iv_id i))
    \<and> (\<forall>l \<in> set (bd_items s). (\<exists>i \<in> set (bd_invoices s). iv_id i = li_invoice_id l)
      \<and> li_item_type l \<in> set item_types \<and> flt (Fin 0) (li_quantity l))
    \<and> (\<forall>p \<in> set (bd_payments s). bp_status p = BillPaymentConfirmed \<and> flt (Fin 0) (bp_amount p)
      \<and> (\<exists>i \<in> set (bd_invoices s). iv_id i = bp_invoice_id p))"
proof (intro conjI impI)
  note ok = reachable_invoices[OF assms(1), unfolded invoices_ok_def]
  show "\<forall>i \<in> set (bd_invoices s). (\<nexists>t. iv_type i = InvoiceTypeOther t)
      \<and> fle (Fin 0) (iv_subtotal i) \<and> fle (Fin 0) (iv_ppn_amount i) \<and> fle (Fin 0) (iv_total i)
      \<and> iv_status i \<noteq> InvoiceStatusOverdue \<and> (\<exists>l \<in> set (bd_items s). li_invoice_id l = iv_id i)"
    using ok by (auto simp: invoice_ok_def invoice_check_def split: invoice_type.splits)
  show "\<forall>l \<in> set (bd_items s). (\<exists>i \<in> set (bd_invoices s). iv_id i = li_invoice_id l)
      \<and> li_item_type l \<in> set item_types \<and> flt (Fin 0) (li_quantity l)"
    using ok by (fastforce simp: line_check_def)
  show "\<forall>p \<in> set (bd_payments s). bp_status p = BillPaymentConfirmed \<and> flt (Fin 0) (bp_amount p)
      \<and> (\<exists>i \<in> set (bd_invoices s). iv_id i = bp_invoice_id p)"
    using ok by (fastforce simp: payment_ok_def)
qed

theorem billing_rows_well_formed_witness:
  "\<exists>p \<in> set (bd_payments (bill_run otc_trace bill_start)). flt (Fin 0) (bp_amount p)
     \<and> (\<exists>i \<in> set (bd_invoices (bill_run otc_trace bill_start)). iv_id i = bp_invoice_id p)"
proof -
  have "bd_payments (bill_run otc_trace bill_start) \<noteq> []" using otc_payments by auto
  then obtain p where "p \<in> set (bd_payments (bill_run otc_trace bill_start))" by (meson last_in_set)
  with billing_rows_well_formed[OF bill_demo_reachable, of otc_trace] show ?thesis by blast
qed

text \<open>
  C23. A created invoice is read back as it was computed: for lines of whole positive rupiahs
  up to \<open>2 ^ 40\<close> in sum and a whole tax rate, the stored subtotal, tax and total are exact (the
  tax to the cent), the lines come back in order with their amounts and texts, and nothing has
  been paid on it yet; the invoice found under its identifier is the one returned.
\<close>

theorem created_invoice_reads_back:
  assumes "bill_reachable s" "CreateInvoice E x s = (Inr v, s')"
    and "map li_amount (map input_line (ci_lines x)) = map (\<lambda>a. Whole a) as" "\<forall>a \<in> set as. 0 < a"
      "sum_list as \<le> 2 ^ 40" "ci_ppn_rate x = Whole r"
  shows "iv_subtotal (vw_invoice v) = Whole (sum_list as) \<and> iv_ppn_amount (vw_invoice v) = cents (r * sum_list as)
      \<and> iv_total (vw_invoice v) = cents ((100 + r) * sum_list as)
    \<and> map li_amount (vw_lines v) = map (\<lambda>a. Whole a) as
      \<and> map li_description (vw_lines v) = map ln_description (ci_lines x) \<and> vw_payments v = []
    \<and> tfind iv_id (iv_id (vw_invoice v)) (bd_invoices s') = Some (vw_invoice v)"
  using CreateInvoice_reads_back[OF assms] by blast

theorem created_invoice_reads_back_witness:
  "\<exists>v s'. CreateInvoice (bill_ok_env (day_in_march 1)) otc_input bill_start = (Inr v, s')
     \<and> iv_total (vw_invoice v) = cents 22200 \<and> map li_amount (vw_lines v) = [Whole 200]"
proof -
  have "case fst (CreateInvoice (bill_ok_env (day_in_march 1)) otc_input bill_start) of Inl _ \<Rightarrow> False | Inr _ \<Rightarrow> True"
    by code_simp
  then obtain v s' where c: "CreateInvoice (bill_ok_env (day_in_march 1)) otc_input bill_start = (Inr v, s')"
    by (cases "CreateInvoice (bill_ok_env (day_in_march 1)) otc_input bill_start") (auto split: sum.splits)
  have "map li_amount (map input_line (ci_lines otc_input)) = map (\<lambda>a. Whole a) [200]" by code_simp
  from created_invoice_reads_back[OF bill_demo_reachable[of "[]", simplified] c this, of 11] c
  show ?thesis by (auto simp: otc_input_def)
qed

text \<open>
  C24. Recording a payment refines the abstract ledger of an invoice, in whole cents up to
  \<open>2 ^ 47\<close>: a successful call adds the amount to what is paid and settles the invoice exactly
  when the sum reaches the total, whatever commissions and rewards it triggers; it is refused
  on a settled invoice, and the ledgers of all other invoices stay as they are.
\<close>

theorem payments_refine_ledger:
  assumes "RecordPayment E x s = (Inr v, s')" "ledger_rel (rp_invoice_id x) s l" "rp_amount x = cents c"
    and "0 < c" "lg_paid l + c \<le> 2 ^ 47" "0 \<le> lg_due l" "lg_due l \<le> 2 ^ 47"
  shows "ledger_rel (rp_invoice_id x) s' (ledger_pay c l) \<and> \<not> lg_settled l
    \<and> (k \<noteq> rp_invoice_id x \<longrightarrow> ledger_rel k s m \<longrightarrow> ledger_rel k s' m)"
  using RecordPayment_ledger[OF assms] RecordPayment_other_ledger[OF assms(1)] by blast

theorem payments_refine_ledger_witness:
  "\<exists>v s'. RecordPayment (bill_ok_env (day_in_march 2)) (pay_otc (Fin 222) ''tx1'')
       (bill_run (take 2 otc_trace) bill_start) = (Inr v, s')
     \<and> ledger_rel 1000 s' \<lparr>lg_due = 22200, lg_paid = 22200, lg_settled = True\<rparr>"
proof -
  let ?s = "bill_run (take 2 otc_trace) bill_start"
  let ?r = "RecordPayment (bill_ok_env (day_in_march 2)) (pay_otc (Fin 222) ''tx1'') ?s"
  have "(case fst ?r of Inl _ \<Rightarrow> False | Inr _ \<Rightarrow> True)
    \<and> map_option (\<lambda>i. (iv_total i, iv_status i)) (tfind iv_id 1000 (bd_invoices ?s)) = Some (Fin 222, InvoiceStatusIssued)
    \<and> confirmed 1000 ?s = []" by code_simp
  then obtain v s' i where r: "?r = (Inr v, s')" and i: "tfind iv_id 1000 (bd_invoices ?s) = Some i"
      "iv_total i = Fin 222" "iv_status i = InvoiceStatusIssued" "confirmed 1000 ?s = []"
    by (cases ?r) (auto split: sum.splits)
  have c: "cents 22200 = Fin 222" using cents_hundred[of 222] by simp
  have k: "rp_invoice_id (pay_otc (Fin 222) ''tx1'') = 1000" "rp_amount (pay_otc (Fin 222) ''tx1'') = cents 22200"
    by (simp_all add: pay_otc_def c)
  have "ledger_rel 1000 ?s \<lparr>lg_due = 22200, lg_paid = 0, lg_settled = False\<rparr>"
    using i by (simp add: ledger_rel_def c)
  from payments_refine_ledger[OF r, unfolded k, OF this refl] r show ?thesis by (auto simp: ledger_pay_def)
qed

text \<open>
  C25. In every reachable state the log tables have one row per key: a customer has one cycle
  per period start, an order one commission per party, a referral one reward, an invoice one
  reminder per kind and one late fee; no failure, repetition or order of the operations
  doubles a row.
\<close>

theorem billing_logs_unique:
  assumes "bill_reachable s"
  shows "distinct (map (\<lambda>c. (cy_customer_id c, sql_date (cy_start c))) (bd_cycles s))
    \<and> distinct (map (\<lambda>c. (cm_order_id c, cm_party c)) (bd_commissions s))
    \<and> distinct (map rr_referral_id (bd_rewards s))
    \<and> distinct (map (\<lambda>r. (rl_invoice_id r, rl_kind r)) (bd_reminders s))
    \<and> distinct (map la_invoice_id (bd_latefees s))"
proof (intro conjI impI)
  note ok = reachable_logs[OF assms, unfolded logs_ok_def tkeyed_def]
  have eq: "cycle_key = (\<lambda>c. (cy_customer_id c, sql_date (cy_start c)))"
    "commission_key = (\<lambda>c. (cm_order_id c, cm_party c))" "reminder_key = (\<lambda>r. (rl_invoice_id r, rl_kind r))"
    by (simp_all add: fun_eq_iff cycle_key_def commission_key_def reminder_key_def)
  show "distinct (map (\<lambda>c. (cy_customer_id c, sql_date (cy_start c))) (bd_cycles s))"
    "distinct (map (\<lambda>c. (cm_order_id c, cm_party c)) (bd_commissions s))"
    "distinct (map rr_referral_id (bd_rewards s))"
    "distinct (map (\<lambda>r. (rl_invoice_id r, rl_kind r)) (bd_reminders s))"
    "distinct (map la_invoice_id (bd_latefees s))"
    using ok unfolding eq by blast+
qed

theorem billing_logs_unique_witness:
  "map cm_party (bd_commissions (bill_run (otc_trace @ otc_trace) bill_start)) \<noteq> []
   \<and> distinct (map (\<lambda>c. (cm_order_id c, cm_party c)) (bd_commissions (bill_run (otc_trace @ otc_trace) bill_start)))"
proof -
  have "length (bd_commissions (bill_run (otc_trace @ otc_trace) bill_start)) = 2" by code_simp
  with billing_logs_unique[OF bill_demo_reachable, of "otc_trace @ otc_trace"] show ?thesis by auto
qed

section \<open>Periods and the scheduler\<close>

text \<open>
  C26. The billing periods of a customer partition time: the period computed at an instant
  contains it (the end is the last day, inclusive), is the one computed at each of its
  instants, starts on the anchor day clamped to the length of the month, has 28 to 31 days, and
  the next period starts the day after its end.
\<close>

theorem period_partition:
  assumes "cyclePeriod now act a = (start, end_day)"
  shows "start \<le> now \<and> now < end_day + DAY
    \<and> (start \<le> t \<and> t < end_day + DAY \<longrightarrow> cyclePeriod t act a = (start, end_day))
    \<and> fst (cyclePeriod (end_day + DAY) act a) = end_day + DAY
    \<and> 28 * DAY \<le> end_day + DAY - start \<and> end_day + DAY - start \<le> 31 * DAY
    \<and> (0 < a \<longrightarrow> Day start = min a (mlen (month_of (day_of start))))"
  using cyclePeriod_contains[OF assms] cyclePeriod_const[OF assms, of t] cyclePeriod_next[OF assms]
    cyclePeriod_length[OF assms] cyclePeriod_day[OF assms] mlen_bounds(1)[of "month_of (day_of start)"]
  by (auto simp: cycle_day_def)

theorem period_partition_witness:
  "cyclePeriod (Date 2025 3 30) None 31 = (Date 2025 2 28, Date 2025 3 30)
   \<and> cyclePeriod (Date 2025 3 5) None 31 = (Date 2025 2 28, Date 2025 3 30)"
proof -
  have "cyclePeriod (Date 2025 3 30) None 31 = (Date 2025 2 28, Date 2025 3 30)"
    and "Date 2025 2 28 \<le> Date 2025 3 5 \<and> Date 2025 3 5 < Date 2025 3 30 + DAY" by code_simp+
  with period_partition[OF this(1), of "Date 2025 3 5"] show ?thesis by blast
qed



text \<open>
  C28. A period whose invoice could not be created is lost: the pass records the failed cycle
  under the same key as a generated one, so whatever operations follow, every later pass at an
  instant of that period skips the order, and no operation clears the row.
\<close>

theorem failed_cycle_never_retried:
  assumes "c \<in> set (bd_cycles s)" "cy_status c = CycleStatusFailed"
    and "cy_customer_id c = ro_customer_id ord" "cy_start c = sql_date (fst (recurring_period E now ord))"
  shows "c \<in> set (bd_cycles (bill_run evs s))
    \<and> snd (recurring_step E now ord (rep, bill_run evs s)) = bill_run evs s"
proof (intro conjI impI)
  show "c \<in> set (bd_cycles (bill_run evs s))" using bill_run_cycles[of evs s] assms(1) by auto
  have "period_billed E now ord s" using assms by (auto simp: period_billed_def)
  then show "snd (recurring_step E now ord (rep, bill_run evs s)) = bill_run evs s"
    by (intro recurring_step_blocked period_billed_run)
qed

theorem failed_cycle_never_retried_witness:
  "let s = snd (recurring_step (bill_env (day_in_march 5) broken_invoices) (day_in_march 5) demo_ord (empty_report, demo_db))
   in map cy_status (bd_cycles s) = [CycleStatusFailed]
      \<and> snd (recurring_step (bill_ok_env (day_in_march 6)) (day_in_march 6) demo_ord (empty_report, s)) = s"
proof -
  let ?s = "snd (recurring_step (bill_env (day_in_march 5) broken_invoices) (day_in_march 5) demo_ord (empty_report, demo_db))"
  have "map (\<lambda>c. (cy_status c, cy_customer_id c, cy_start c)) (bd_cycles ?s) = [(CycleStatusFailed, 1, Date 2025 3 1)]
    \<and> sql_date (fst (recurring_period (bill_ok_env (day_in_march 6)) (day_in_march 6) demo_ord)) = Date 2025 3 1
    \<and> ro_customer_id demo_ord = 1" by code_simp
  then obtain c where c: "c \<in> set (bd_cycles ?s)" "cy_status c = CycleStatusFailed" "map cy_status (bd_cycles ?s) = [CycleStatusFailed]"
    "cy_customer_id c = ro_customer_id demo_ord"
    "cy_start c = sql_date (fst (recurring_period (bill_ok_env (day_in_march 6)) (day_in_march 6) demo_ord))"
    by (cases "bd_cycles ?s") auto
  from failed_cycle_never_retried[OF c(1,2,4,5), of "[]" empty_report] c(3) show ?thesis by (simp add: Let_def)
qed

text \<open>
  C29. The check that an invoice already has a late fee never finds one, since listed invoices
  carry no lines; so a late fee is charged on every tick. Two ticks on consecutive days charge
  the same invoice twice.
\<close>

theorem late_fee_charged_every_tick:
  "hasLateFeeForInvoice E oid number s \<noteq> Inr True
   \<and> map li_description (filter (\<lambda>l. li_item_type l = ''penalty'') (bd_items (bill_run late_trace bill_start)))
     = [late_fee_text ''OTC-20250301-00000000'', late_fee_text ''OTC-20250301-00000000'']"
  by (intro conjI hasLateFee_never) code_simp

end
