(* ===== verification/BillingPolicyClaims.thy ===== *)
theory BillingPolicyClaims
  imports BillingPasses
begin

text \<open>
  The properties of the orchestration policies, of commissions, terminations, repeated
  payments and add-ons.
\<close>

section \<open>The orchestration policies\<close>





text \<open>
  The suspension ladder equals its reference: with positive stages the action is the
  highest stage whose grace days the oldest due invoice has passed, provided it is above the
  last recorded action, and none otherwise; once a hard suspension is the last action nothing
  follows. The days passed are the full days since the due instant or, within the last hour of
  a day, one more.
\<close>

theorem suspension_ladder_spec:
  assumes "0 < sp_soft p" "0 < sp_hard p" "si_has_overdue x"
  shows "NextActionFor p x now =
      (case due_stage p (daysPast now (si_oldest_due x)) of None \<Rightarrow> None
       | Some act \<Rightarrow> if suspensionEscalationIndex (si_last x) < suspensionEscalationIndex (Some act)
                    then Some act else None)
    \<and> NextActionFor p (x\<lparr>si_last := Some SuspensionActionHardSuspend\<rparr>) now = None
    \<and> (0 \<le> now - si_oldest_due x \<longrightarrow> now - si_oldest_due x < 2 ^ 63 \<longrightarrow>
      (now - si_oldest_due x) div DAY \<le> daysPast now (si_oldest_due x)
      \<and> daysPast now (si_oldest_due x) \<le> (now - si_oldest_due x + HOUR) div DAY)"
  using NextActionFor_spec[OF assms] daysPast_bounds[of now "si_oldest_due x"]
  by (simp_all add: NextActionFor_def)

theorem suspension_ladder_spec_witness:
  "NextActionFor DefaultSuspensionPolicy \<lparr>si_oldest_due = 0, si_has_overdue = True,
     si_last = Some SuspensionActionWarn\<rparr> (15 * DAY) = Some SuspensionActionSoftSuspend"
proof -
  have "due_stage DefaultSuspensionPolicy (daysPast (15 * DAY) 0) = Some SuspensionActionSoftSuspend" by code_simp
  then show ?thesis
    using suspension_ladder_spec[of DefaultSuspensionPolicy
        "\<lparr>si_oldest_due = 0, si_has_overdue = True, si_last = Some SuspensionActionWarn\<rparr>" "15 * DAY"]
    by (simp add: DefaultSuspensionPolicy_def)
qed

section \<open>Commissions\<close>



section \<open>Terminations\<close>

text \<open>
  C34. As long as the lookup of open requests does not fail, no customer ever has two open
  termination requests, whatever other operations run and fail; the code ignores an error of
  that lookup, so the condition is needed.
\<close>

theorem one_open_termination:
  assumes "\<forall>(E, ev) \<in> set evs. \<forall>c. be_fail E (TermOpen c) = None"
    and "t \<in> set (bd_terms (bill_run evs (bill_initial p)))" "u \<in> set (bd_terms (bill_run evs (bill_initial p)))"
    and "tr_customer_id t = tr_customer_id u" "term_open t" "term_open u"
  shows "t = u"
proof -
  let ?s = "bill_run evs (bill_initial p)"
  have r: "bill_reachable ?s" by (intro bill_run_reachable bill_reachable.start)
  have "one_open (bill_initial p)" by (simp add: one_open_def bill_initial_def)
  then have "one_open ?s" using bill_run_one_open[OF assms(1) reachable_terms[OF bill_reachable.start]] by blast
  then have "tr_id t = tr_id u" using assms(2-6) unfolding one_open_def by blast
  then show ?thesis using reachable_terms[OF r] assms(2,3) distinct_map_fst_unique[of tr_id "bd_terms ?s" t u]
    by (simp add: terms_ok_def tkeyed_def)
qed

theorem one_open_termination_witness:
  "map (\<lambda>t. (tr_id t, tr_status t)) (bd_terms (bill_run term_trace (bill_initial None)))
     = [(1000, TerminationStatusCancelled), (1003, TerminationStatusWOCreated)]
   \<and> card {t \<in> set (bd_terms (bill_run term_trace (bill_initial None))). tr_customer_id t = 1 \<and> term_open t} = 1"
proof
  let ?ts = "bd_terms (bill_run term_trace (bill_initial None))"
  have run: "map (\<lambda>t. (tr_id t, tr_customer_id t, tr_status t)) ?ts
     = [(1000, 1, TerminationStatusCancelled), (1003, 1, TerminationStatusWOCreated)]" by code_simp
  then show "map (\<lambda>t. (tr_id t, tr_status t)) ?ts
     = [(1000, TerminationStatusCancelled), (1003, TerminationStatusWOCreated)]" by (auto simp: map_eq_Cons_conv)
  from run obtain q u where "?ts = [q, u]" "tr_customer_id u = 1" "tr_status u = TerminationStatusWOCreated"
    by (auto simp: map_eq_Cons_conv)
  then have u: "u \<in> set ?ts" "tr_customer_id u = 1" "term_open u" by (simp_all add: term_open_def)
  have up: "\<forall>(E, ev) \<in> set term_trace. \<forall>c. be_fail E (TermOpen c) = None"
    by (simp add: term_trace_def crm_event_def)
  have "t = u" if "t \<in> set ?ts" "tr_customer_id t = 1" "term_open t" for t
    using one_open_termination[OF up that(1) u(1)] that u by simp
  then have "{t \<in> set ?ts. tr_customer_id t = 1 \<and> term_open t} = {u}" using u by blast
  then show "card {t \<in> set ?ts. tr_customer_id t = 1 \<and> term_open t} = 1" by simp
qed

text \<open>
  C35. A request that awaits payment never proceeds: whatever operations follow, the payment
  of every invoice included, it awaits payment or is cancelled. No operation mints its work
  order, although the header of the service says payment moves it on.
\<close>

theorem awaiting_payment_stuck:
  assumes "bill_reachable s" "t \<in> set (bd_terms s)" "tr_status t = TerminationStatusAwaitingPayment"
  shows "\<exists>u \<in> set (bd_terms (bill_run evs s)). tr_id u = tr_id t \<and> tr_customer_id u = tr_customer_id t
    \<and> (tr_status u = TerminationStatusAwaitingPayment \<or> tr_status u = TerminationStatusCancelled)"
proof -
  have "rows_evolve term_moves (bd_terms s) (bd_terms (bill_run evs s))"
    using bill_run_terms[of s evs] reachable_terms[OF assms(1)] by (simp add: terms_evolve_def)
  then obtain u where "u \<in> set (bd_terms (bill_run evs s))" "term_moves t u"
    using assms(2) unfolding rows_evolve_def by blast
  then show ?thesis using term_edges_awaiting assms(3) by (auto simp: term_moves_def)
qed

theorem awaiting_payment_stuck_witness:
  "\<exists>t. t \<in> set (bd_terms (bill_run debt_trace bill_start)) \<and> tr_id t = 1003
     \<and> (\<exists>u \<in> set (bd_terms (bill_run (drop 2 otc_trace) (bill_run debt_trace bill_start))). tr_id u = 1003
          \<and> (tr_status u = TerminationStatusAwaitingPayment \<or> tr_status u = TerminationStatusCancelled))"
proof -
  have "map (\<lambda>t. (tr_id t, tr_status t)) (bd_terms (bill_run debt_trace bill_start))
    = [(1003, TerminationStatusAwaitingPayment)]" by code_simp
  then obtain t where t: "t \<in> set (bd_terms (bill_run debt_trace bill_start))"
    "tr_status t = TerminationStatusAwaitingPayment" "tr_id t = 1003"
    by (cases "bd_terms (bill_run debt_trace bill_start)") auto
  from awaiting_payment_stuck[OF bill_demo_reachable t(1,2), of "drop 2 otc_trace"] t show ?thesis by auto
qed

text \<open>
  A customer can withdraw a request of a kind once only: the unique key over customer,
  kind and status refuses the second cancelled row, so the cancellation of a later request
  fails with a duplicate error and changes nothing, and that request stays open.
\<close>

theorem second_cancel_refused:
  assumes "bill_reachable s" "tfind tr_id k (bd_terms s) = Some t" "term_open t"
    and "q \<in> set (bd_terms s)" "tr_status q = TerminationStatusCancelled"
      "tr_customer_id q = tr_customer_id t" "tr_kind q = tr_kind t"
    and "be_fail E (TermFind k) = None" "be_fail E (TermUpdate k) = None"
  shows "CancelTerminationRequest E k u reason s
    = (Inl (duplicate_err ''termination.update'' ''update termination request''), s)"
proof -
  have id: "tr_id t = k" using tfind_SomeD[OF assms(2)] by simp
  have "q \<noteq> t" using assms(3,5) by (auto simp: term_open_def)
  then have "tr_id q \<noteq> tr_id t"
    using reachable_terms[OF assms(1)] assms(4) tfind_SomeD[OF assms(2)]
      distinct_map_fst_unique[of tr_id "bd_terms s" q t] by (auto simp: terms_ok_def tkeyed_def)
  then have "term_conflict (t\<lparr>tr_status := TerminationStatusCancelled\<rparr>) s"
    using assms(4-7) by (auto simp: term_conflict_def)
  with assms id show ?thesis
    by (auto simp: CancelTerminationRequest_def terms_FindByID_def terms_Update_def bguard_def term_open_def)
qed

theorem second_cancel_refused_witness:
  "CancelTerminationRequest (bill_ok_env (day_in_march 6)) 1003 4 ''stays'' (bill_run term_trace bill_start)
   = (Inl (duplicate_err ''termination.update'' ''update termination request''), bill_run term_trace bill_start)"
proof -
  let ?s = "bill_run term_trace bill_start"
  have "map (\<lambda>t. (tr_id t, tr_status t, tr_customer_id t, tr_kind t)) (bd_terms ?s)
     = [(1000, TerminationStatusCancelled, 1, TerminationKindVoluntary), (1003, TerminationStatusWOCreated, 1, TerminationKindVoluntary)]"
    by code_simp
  then obtain q t where terms: "bd_terms ?s = [q, t]" and q: "tr_id q = 1000" "tr_status q = TerminationStatusCancelled"
      "tr_customer_id q = 1" "tr_kind q = TerminationKindVoluntary"
    and t: "tr_id t = 1003" "tr_status t = TerminationStatusWOCreated" "tr_customer_id t = 1" "tr_kind t = TerminationKindVoluntary"
    by (auto simp: map_eq_Cons_conv)
  have "tfind tr_id 1003 (bd_terms ?s) = Some t" using q t by (simp add: terms)
  then show ?thesis using second_cancel_refused[OF bill_demo_reachable, of 1003 term_trace t q] terms q t
    by (simp add: term_open_def)
qed

section \<open>Repeated payments and add-ons\<close>

text \<open>
  A gateway transaction is recorded once: while a payment with its number is stored, every
  further call with it fails and leaves invoices and payments as they are, whatever happened in
  between. So when the first call stored the payment but failed to mark the invoice paid, its
  repetition cannot repair that.
\<close>

theorem payment_retry_refused:
  assumes "bill_reachable s" "q \<in> set (bd_payments s)" "bp_gateway_txn q = rp_gateway_txn x" "rp_gateway_txn x \<noteq> []"
  shows "(\<exists>e. fst (RecordPayment E x (bill_run evs s)) = Inl e)
    \<and> bd_invoices (snd (RecordPayment E x (bill_run evs s))) = bd_invoices (bill_run evs s)
    \<and> bd_payments (snd (RecordPayment E x (bill_run evs s))) = bd_payments (bill_run evs s)"
proof (intro conjI impI)
  have "q \<in> set (bd_payments (bill_run evs s))"
    using bill_run_evolve[of s evs] reachable_invoices[OF assms(1)] assms(2) by (auto simp: invoices_evolve_def)
  note r = RecordPayment_txn_taken[OF this assms(3,4), of E]
  show "\<exists>e. fst (RecordPayment E x (bill_run evs s)) = Inl e" by (rule r(1))
  show "bd_invoices (snd (RecordPayment E x (bill_run evs s))) = bd_invoices (bill_run evs s)"
    "bd_payments (snd (RecordPayment E x (bill_run evs s))) = bd_payments (bill_run evs s)"
    using r(2) by (simp_all add: money_part_def)
qed

theorem payment_retry_refused_witness:
  "map (\<lambda>i. (iv_status i, iv_total i)) (bd_invoices (bill_run flip_trace bill_start)) = [(InvoiceStatusIssued, Fin 222)]
   \<and> map bp_amount (bd_payments (bill_run flip_trace bill_start)) = [Fin 222]
   \<and> (\<exists>e. fst (RecordPayment (bill_ok_env (day_in_march 3)) (pay_otc (Fin 222) ''tx1'') (bill_run flip_trace bill_start)) = Inl e)"
proof -
  let ?s = "bill_run flip_trace bill_start"
  have "(case ?s of s \<Rightarrow> (map (\<lambda>i. (iv_status i, iv_total i)) (bd_invoices s), map (\<lambda>p. (bp_amount p, bp_gateway_txn p)) (bd_payments s)))
    = ([(InvoiceStatusIssued, Fin 222)], [(Fin 222, ''tx1'')])" by code_simp
  then have s: "map (\<lambda>i. (iv_status i, iv_total i)) (bd_invoices ?s) = [(InvoiceStatusIssued, Fin 222)]"
    "map (\<lambda>p. (bp_amount p, bp_gateway_txn p)) (bd_payments ?s) = [(Fin 222, ''tx1'')]" by simp_all
  then obtain q where q: "bd_payments ?s = [q]" "bp_gateway_txn q = ''tx1''" "bp_amount q = Fin 222"
    by (auto simp: map_eq_Cons_conv)
  have "\<exists>e. fst (RecordPayment (bill_ok_env (day_in_march 3)) (pay_otc (Fin 222) ''tx1'') (bill_run [] ?s)) = Inl e"
    using q payment_retry_refused[OF bill_demo_reachable, of q flip_trace "pay_otc (Fin 222) ''tx1''"
      "bill_ok_env (day_in_march 3)" "[]"] by (simp add: pay_otc_def)
  with s q show ?thesis by simp
qed

lemma addon_ops_frame:
  "bd_addons (snd (addon_Cancel_op E k a reason s)) = bd_addons s"
  "bd_addons (snd (MarkExpiredOlderThan E t n s)) = bd_addons s"
proof -
  have u: "purchases_Update E p s1 = Inr s2 \<Longrightarrow> bd_addons s2 = bd_addons s1" for p s1 s2
    by (auto simp: purchases_Update_def split: option.splits)
  then show "bd_addons (snd (addon_Cancel_op E k a reason s)) = bd_addons s"
    by (auto simp: addon_Cancel_op_def split: sum.splits option.splits)
  have "bd_addons (snd (each (expire_step E) ps st)) = bd_addons (snd st)" for ps st
  proof (induction ps arbitrary: st)
    case (Cons p ps)
    have "bd_addons (snd (expire_step E p st)) = bd_addons (snd st)"
      using u by (auto simp: expire_step_def split: prod.splits sum.splits)
    with Cons show ?case by simp
  qed simp
  from this[of _ "(0, s)"] show "bd_addons (snd (MarkExpiredOlderThan E t n s)) = bd_addons s"
    by (auto simp: MarkExpiredOlderThan_def Let_def split: sum.splits prod.splits) (metis snd_conv)+
qed

text \<open>
  Cancelling or expiring an add-on purchase does not reach the table the recurring pass
  bills from: the customer's active add-ons, and with them the lines of the next recurring
  invoice, are what they were before.
\<close>

theorem cancelled_addon_still_billed:
  shows "ActiveAddonsForCustomer E2 c (snd (addon_Cancel_op E k a reason s)) = ActiveAddonsForCustomer E2 c s
    \<and> ActiveAddonsForCustomer E2 c (snd (MarkExpiredOlderThan E t n s)) = ActiveAddonsForCustomer E2 c s"
  by (simp_all add: ActiveAddonsForCustomer_def addon_ops_frame)

end
