(* ===== verification/BillingPortal.thy ===== *)
theory BillingPortal
  imports BillingTraces
begin

text \<open>
  The self-service termination of the customer portal (\<^verbatim>\<open>usecase/portal.go\<close>) with its table of
  one-time codes (\<^verbatim>\<open>adapter/postgres/customer_otp_repo.go\<close>, \<^verbatim>\<open>migrations/0016\<close>) and the lookups in
  the CRM gateway. bcrypt and the random source are arguments of the environment: \<open>oe_hash\<close> is
  \<^verbatim>\<open>GenerateFromPassword\<close>, \<open>oe_compare\<close> is \<^verbatim>\<open>CompareHashAndPassword\<close>, \<open>oe_random\<close> the drawn number.
  The confirmed request is the billing operation of \<^verbatim>\<open>r3.go\<close>, so a portal call is at most one
  billing event and every invariant of the billing tables extends to the portal.
\<close>

section \<open>The environment and the table\<close>

datatype otp_call = OtpLookup string | OtpCount uuid | OtpDelete | OtpGenerate | OtpCreate uuid
  | OtpFind uuid | OtpVerify uuid | OtpAttempt uuid

datatype compare_result = Matched | Mismatched | CompareFailed string

record otp_env =
  oe_bill :: benv
  oe_fail :: "otp_call \<Rightarrow> derr option"
  oe_id :: uuid
  oe_random :: int
  oe_hash :: "string \<Rightarrow> string"
  oe_compare :: "string \<Rightarrow> string \<Rightarrow> compare_result"
  oe_dev :: bool

record otp_row =
  ot_id :: uuid
  ot_customer_id :: uuid
  ot_purpose :: string
  ot_hash :: string
  ot_attempts :: int
  ot_verified_at :: "time option"
  ot_expires_at :: time
  ot_created_at :: time

record contact =
  kt_id :: uuid
  kt_number :: string
  kt_phone :: string

text \<open>\<open>pd_minted\<close> is the log line of every minted code: customer, instant and the code itself.\<close>

record portal_db =
  pd_bill :: bill_db
  pd_contacts :: "contact list"
  pd_otps :: "otp_row list"
  pd_minted :: "(uuid \<times> time \<times> string) list"

definition oguard :: "otp_env \<Rightarrow> otp_call \<Rightarrow> 'a res \<Rightarrow> 'a res" where
  "oguard E c r = (case oe_fail E c of Some e \<Rightarrow> Inl e | None \<Rightarrow> r)"

lemma oguard_Inr_iff [simp]: "oguard E c r = Inr x \<longleftrightarrow> oe_fail E c = None \<and> r = Inr x"
  by (cases "oe_fail E c") (auto simp: oguard_def)

section \<open>The CRM lookups\<close>

definition ascii_digit :: "char \<Rightarrow> bool" where
  "ascii_digit c \<longleftrightarrow> 48 \<le> byte c \<and> byte c \<le> 57"

definition last_nine :: "string \<Rightarrow> string" where
  "last_nine phone = (let ds = filter ascii_digit phone in drop (length ds - 9) ds)"

definition FindCustomerByNumber :: "otp_env \<Rightarrow> string \<Rightarrow> portal_db \<Rightarrow> uuid res" where
  "FindCustomerByNumber E number s = oguard E (OtpLookup number)
     (case find (\<lambda>k. kt_number k = number) (pd_contacts s) of
        None \<Rightarrow> Inl (NotFound ''customer.not_found'' ''customer_number not found'')
      | Some k \<Rightarrow> Inr (kt_id k))"

definition FindCustomerByNumberAndPhone :: "otp_env \<Rightarrow> string \<Rightarrow> string \<Rightarrow> portal_db \<Rightarrow> uuid res" where
  "FindCustomerByNumberAndPhone E number phone s = oguard E (OtpLookup number)
     (case find (\<lambda>k. kt_number k = number \<and> last_nine (kt_phone k) = last_nine phone) (pd_contacts s) of
        None \<Rightarrow> Inl (NotFound ''customer.not_found'' ''no customer matches the supplied number + phone'')
      | Some k \<Rightarrow> Inr (kt_id k))"

section \<open>The table of codes\<close>

definition otps_Create :: "otp_env \<Rightarrow> otp_row \<Rightarrow> portal_db \<Rightarrow> portal_db res" where
  "otps_Create E r s = oguard E (OtpCreate (ot_id r))
     (case tinsert ot_id r (pd_otps s) of
        None \<Rightarrow> Inl (duplicate_err ''portal_otp.create'' ''create OTP'')
      | Some rows \<Rightarrow> Inr (s\<lparr>pd_otps := rows\<rparr>))"

definition otp_active :: "time \<Rightarrow> uuid \<Rightarrow> string \<Rightarrow> otp_row \<Rightarrow> bool" where
  "otp_active now k purpose r \<longleftrightarrow> ot_customer_id r = k \<and> ot_purpose r = purpose
     \<and> ot_verified_at r = None \<and> now < ot_expires_at r"

definition otps_FindActive :: "otp_env \<Rightarrow> uuid \<Rightarrow> string \<Rightarrow> portal_db \<Rightarrow> otp_row option res" where
  "otps_FindActive E k purpose s = oguard E (OtpFind k)
     (Inr (case order_by (\<lambda>r. - ot_created_at r)
                  (filter (otp_active (be_dbnow (oe_bill E)) k purpose) (pd_otps s)) of
             [] \<Rightarrow> None | r # _ \<Rightarrow> Some r))"

definition otps_MarkVerified :: "otp_env \<Rightarrow> uuid \<Rightarrow> portal_db \<Rightarrow> portal_db res" where
  "otps_MarkVerified E k s = oguard E (OtpVerify k)
     (case tupdate ot_id (\<lambda>r. r\<lparr>ot_verified_at := Some (be_dbnow (oe_bill E))\<rparr>) k (pd_otps s) of
        None \<Rightarrow> Inl (NotFound ''portal_otp.not_found'' ''otp not found'')
      | Some rows \<Rightarrow> Inr (s\<lparr>pd_otps := rows\<rparr>))"

definition otps_IncrementAttempts :: "otp_env \<Rightarrow> uuid \<Rightarrow> portal_db \<Rightarrow> portal_db res" where
  "otps_IncrementAttempts E k s = oguard E (OtpAttempt k)
     (Inr (s\<lparr>pd_otps := map (\<lambda>r. if ot_id r = k then r\<lparr>ot_attempts := ot_attempts r + 1\<rparr> else r) (pd_otps s)\<rparr>))"

definition otps_DeleteExpired :: "otp_env \<Rightarrow> time \<Rightarrow> portal_db \<Rightarrow> portal_db res" where
  "otps_DeleteExpired E before s = oguard E OtpDelete
     (Inr (s\<lparr>pd_otps := filter (\<lambda>r. \<not> ot_expires_at r < before) (pd_otps s)\<rparr>))"

definition otps_CountRequestsSince :: "otp_env \<Rightarrow> uuid \<Rightarrow> string \<Rightarrow> time \<Rightarrow> portal_db \<Rightarrow> int res" where
  "otps_CountRequestsSince E k purpose since s = oguard E (OtpCount k)
     (Inr (int (length (filter (\<lambda>r. ot_customer_id r = k \<and> ot_purpose r = purpose
        \<and> since \<le> ot_created_at r) (pd_otps s)))))"

section \<open>The two calls\<close>

abbreviation MINUTE :: duration where "MINUTE \<equiv> 60000000000"

definition PortalOTPTTL :: duration where "PortalOTPTTL = 10 * MINUTE"
definition PortalOTPMaxAttempts :: int where "PortalOTPMaxAttempts = 5"
definition PortalOTPRequestWindow :: duration where "PortalOTPRequestWindow = HOUR"
definition PortalOTPMaxRequestsPerWindow :: int where "PortalOTPMaxRequestsPerWindow = 5"

fun pad_digits :: "nat \<Rightarrow> int \<Rightarrow> string" where
  "pad_digits 0 n = []"
| "pad_digits (Suc k) n = pad_digits k (n div 10) @ [digit_char (n mod 10)]"

definition padLeft6Portal :: "int \<Rightarrow> string" where
  "padLeft6Portal n = pad_digits 6 n"

definition generate6DigitOTPPortal :: "otp_env \<Rightarrow> (string \<times> string) res" where
  "generate6DigitOTPPortal E = (let plain = padLeft6Portal (oe_random E)
     in oguard E OtpGenerate (Inr (plain, oe_hash E plain)))"

record otp_output =
  oo_customer_id :: uuid
  oo_expires_at :: time
  oo_dev_otp :: string

definition too_many_requests :: derr where
  "too_many_requests = WithRetryAfter 3600 (New KindRateLimited ''portal.too_many_requests''
     ''too many OTP requests for this customer; try again later'')"

definition mint_otp :: "otp_env \<Rightarrow> uuid \<Rightarrow> portal_db \<Rightarrow> otp_output res \<times> portal_db" where
  "mint_otp E k s =
    (let now = be_now (oe_bill E) in
     case generate6DigitOTPPortal E of
       Inl e \<Rightarrow> (Inl (Wrap KindInternal ''portal.otp_gen'' ''generate otp'' (error_text e)), s)
     | Inr (plain, hashed) \<Rightarrow>
         let r = \<lparr>ot_id = oe_id E, ot_customer_id = k, ot_purpose = ''termination'', ot_hash = hashed,
               ot_attempts = 0, ot_verified_at = None, ot_expires_at = now + PortalOTPTTL,
               ot_created_at = now\<rparr>
         in (case otps_Create E r s of
               Inl e \<Rightarrow> (Inl e, s)
             | Inr s1 \<Rightarrow> (Inr \<lparr>oo_customer_id = k, oo_expires_at = ot_expires_at r,
                   oo_dev_otp = (if oe_dev E then plain else [])\<rparr>,
                 s1\<lparr>pd_minted := pd_minted s1 @ [(k, now, plain)]\<rparr>)))"

definition RequestTerminationOTP ::
    "otp_env \<Rightarrow> string \<Rightarrow> string \<Rightarrow> portal_db \<Rightarrow> otp_output res \<times> portal_db" where
  "RequestTerminationOTP E number phone s =
    (let now = be_now (oe_bill E); num = TrimSpace number; ph = TrimSpace phone in
     if num = [] \<or> ph = [] then
       (Inl (Validation ''portal.input'' ''customer_number and phone are required''), s)
     else (case FindCustomerByNumberAndPhone E num ph s of
         Inl e \<Rightarrow> (Inl e, s)
       | Inr k \<Rightarrow>
           if (case otps_CountRequestsSince E k ''termination'' (now - PortalOTPRequestWindow) s of
                 Inl _ \<Rightarrow> False | Inr n \<Rightarrow> PortalOTPMaxRequestsPerWindow \<le> n) then
             (Inl too_many_requests, s)
           else mint_otp E k (after s (otps_DeleteExpired E (now - HOUR) s))))"

definition self_service_reason :: "string \<Rightarrow> string" where
  "self_service_reason reason = (if TrimSpace reason = [] then ''customer self-service''
     else ''customer self-service: '' @ TrimSpace reason)"

definition ConfirmTermination ::
    "otp_env \<Rightarrow> string \<Rightarrow> string \<Rightarrow> string \<Rightarrow> portal_db \<Rightarrow> (uuid \<times> termination_status) res \<times> portal_db" where
  "ConfirmTermination E number code reason s =
    (let num = TrimSpace number; otp = TrimSpace code in
     if num = [] \<or> otp = [] then
       (Inl (Validation ''portal.input'' ''customer_number and otp are required''), s)
     else (case FindCustomerByNumber E num s of
       Inl e \<Rightarrow> (Inl e, s)
     | Inr k \<Rightarrow> (case otps_FindActive E k ''termination'' s of
         Inl e \<Rightarrow> (Inl e, s)
       | Inr None \<Rightarrow> (Inl (NotFound ''portal.otp_expired'' (''no active OTP '' @ dash @ '' request a fresh one'')), s)
       | Inr (Some r) \<Rightarrow>
           if PortalOTPMaxAttempts \<le> ot_attempts r then
             (Inl (Conflict ''portal.otp_attempts'' ''too many wrong attempts; request a fresh OTP''), s)
           else (case oe_compare E (ot_hash r) otp of
               Mismatched \<Rightarrow> (Inl (Validation ''portal.otp_invalid'' ''invalid OTP''),
                 after s (otps_IncrementAttempts E (ot_id r) s))
             | CompareFailed m \<Rightarrow> (Inl (Wrap KindInternal ''portal.otp_compare'' ''otp compare'' m),
                 after s (otps_IncrementAttempts E (ot_id r) s))
             | Matched \<Rightarrow> (case otps_MarkVerified E (ot_id r) s of
                   Inl e \<Rightarrow> (Inl e, s)
                 | Inr s1 \<Rightarrow>
                     (case RequestVoluntaryTermination (oe_bill E) k (self_service_reason reason) Nil_uuid (pd_bill s1) of
                        (Inl e, b) \<Rightarrow> (Inl e, s1\<lparr>pd_bill := b\<rparr>)
                      | (Inr t, b) \<Rightarrow> (Inr (tr_id t, tr_status t), s1\<lparr>pd_bill := b\<rparr>)))))))"

section \<open>Events\<close>

datatype portal_event =
    EvPortalRequest string string
  | EvPortalConfirm string string string
  | EvPortalContacts "contact list"
  | EvPortalBilling bill_event

fun portal_apply :: "otp_env \<Rightarrow> portal_event \<Rightarrow> portal_db \<Rightarrow> portal_db" where
  "portal_apply E (EvPortalRequest number phone) s = snd (RequestTerminationOTP E number phone s)"
| "portal_apply E (EvPortalConfirm number code reason) s = snd (ConfirmTermination E number code reason s)"
| "portal_apply E (EvPortalContacts cs) s = s\<lparr>pd_contacts := cs\<rparr>"
| "portal_apply E (EvPortalBilling ev) s = s\<lparr>pd_bill := bill_apply (oe_bill E) ev (pd_bill s)\<rparr>"

definition portal_initial :: "policy option \<Rightarrow> portal_db" where
  "portal_initial p = \<lparr>pd_bill = bill_initial p, pd_contacts = [], pd_otps = [], pd_minted = []\<rparr>"

inductive portal_reachable :: "portal_db \<Rightarrow> bool" where
  start: "portal_reachable (portal_initial p)"
| event: "portal_reachable s \<Longrightarrow> portal_reachable (portal_apply E ev s)"

fun portal_run :: "(otp_env \<times> portal_event) list \<Rightarrow> portal_db \<Rightarrow> portal_db" where
  "portal_run [] s = s"
| "portal_run ((E, ev) # evs) s = portal_run evs (portal_apply E ev s)"

lemma portal_run_reachable: "portal_reachable s \<Longrightarrow> portal_reachable (portal_run evs s)"
  by (induction evs s rule: portal_run.induct) (auto intro: portal_reachable.intros)

section \<open>What a call does\<close>

text \<open>The rows left after the purge of a request, which may fail.\<close>

definition purged :: "otp_env \<Rightarrow> portal_db \<Rightarrow> otp_row list \<Rightarrow> bool" where
  "purged E s rows \<longleftrightarrow> rows = pd_otps s
     \<or> rows = filter (\<lambda>r. \<not> ot_expires_at r < be_now (oe_bill E) - HOUR) (pd_otps s)"

definition requests_since :: "uuid \<Rightarrow> time \<Rightarrow> otp_row list \<Rightarrow> nat" where
  "requests_since k t rows = length (filter (\<lambda>r. ot_customer_id r = k \<and> ot_purpose r = ''termination''
     \<and> t \<le> ot_created_at r) rows)"

inductive request_shape :: "otp_env \<Rightarrow> portal_db \<Rightarrow> portal_db \<Rightarrow> bool" for E s where
  rs_same: "request_shape E s s"
| rs_purged: "purged E s rows \<Longrightarrow> request_shape E s (s\<lparr>pd_otps := rows\<rparr>)"
| rs_minted: "purged E s rows \<Longrightarrow> ot_id r \<notin> ot_id ` set rows \<Longrightarrow> ot_id r = oe_id E \<Longrightarrow>
    ot_purpose r = ''termination'' \<Longrightarrow> ot_attempts r = 0 \<Longrightarrow> ot_verified_at r = None \<Longrightarrow>
    ot_created_at r = be_now (oe_bill E) \<Longrightarrow> ot_expires_at r = be_now (oe_bill E) + PortalOTPTTL \<Longrightarrow>
    (oe_fail E (OtpCount (ot_customer_id r)) = None \<Longrightarrow>
      requests_since (ot_customer_id r) (be_now (oe_bill E) - HOUR) (pd_otps s) < 5) \<Longrightarrow>
    request_shape E s (s\<lparr>pd_otps := rows @ [r],
      pd_minted := pd_minted s @ [(ot_customer_id r, be_now (oe_bill E), plain)]\<rparr>)"

lemma purge_rows:
  "\<exists>rows. purged E s rows \<and> after s (otps_DeleteExpired E (be_now (oe_bill E) - HOUR) s) = s\<lparr>pd_otps := rows\<rparr>"
proof (cases "oe_fail E OtpDelete")
  case None
  then show ?thesis by (intro exI[of _ "filter _ (pd_otps s)"] conjI)
      (auto simp: purged_def otps_DeleteExpired_def oguard_def)
next
  case (Some e)
  then show ?thesis by (intro exI[of _ "pd_otps s"]) (simp add: purged_def otps_DeleteExpired_def oguard_def)
qed

lemma mint_otp_shape:
  assumes "purged E s rows"
    and "oe_fail E (OtpCount k) = None \<Longrightarrow> requests_since k (be_now (oe_bill E) - HOUR) (pd_otps s) < 5"
  shows "request_shape E s (snd (mint_otp E k (s\<lparr>pd_otps := rows\<rparr>)))"
proof (cases "generate6DigitOTPPortal E")
  case (Inl e)
  then show ?thesis using rs_purged[OF assms(1)] by (simp add: mint_otp_def)
next
  case (Inr pair)
  obtain plain hashed where gen: "generate6DigitOTPPortal E = Inr (plain, hashed)" using Inr by (cases pair) auto
  let ?r = "\<lparr>ot_id = oe_id E, ot_customer_id = k, ot_purpose = ''termination'', ot_hash = hashed,
    ot_attempts = 0, ot_verified_at = None, ot_expires_at = be_now (oe_bill E) + PortalOTPTTL,
    ot_created_at = be_now (oe_bill E)\<rparr>"
  show ?thesis
  proof (cases "otps_Create E ?r (s\<lparr>pd_otps := rows\<rparr>)")
    case (Inl e)
    then show ?thesis using rs_purged[OF assms(1)] by (simp add: mint_otp_def gen Let_def)
  next
    case (Inr s1)
    then have "oe_id E \<notin> ot_id ` set rows" "s1 = s\<lparr>pd_otps := rows @ [?r]\<rparr>"
      by (auto simp: otps_Create_def tinsert_def split: option.splits if_splits)
    then show ?thesis using rs_minted[OF assms(1), of ?r plain] assms(2) Inr by (simp add: mint_otp_def gen Let_def)
  qed
qed

lemma RequestTerminationOTP_shape: "request_shape E s (snd (RequestTerminationOTP E number phone s))"
proof -
  let ?now = "be_now (oe_bill E)"
  have "request_shape E s (snd (mint_otp E k (after s (otps_DeleteExpired E (?now - HOUR) s))))"
    if "\<not> (case otps_CountRequestsSince E k ''termination'' (?now - PortalOTPRequestWindow) s of
          Inl _ \<Rightarrow> False | Inr n \<Rightarrow> PortalOTPMaxRequestsPerWindow \<le> n)" for k
  proof -
    obtain rows where rows: "purged E s rows" "after s (otps_DeleteExpired E (?now - HOUR) s) = s\<lparr>pd_otps := rows\<rparr>"
      using purge_rows by blast
    have "requests_since k (?now - HOUR) (pd_otps s) < 5" if "oe_fail E (OtpCount k) = None"
      using that \<open>\<not> (case otps_CountRequestsSince E k ''termination'' (?now - PortalOTPRequestWindow) s of
          Inl _ \<Rightarrow> False | Inr n \<Rightarrow> PortalOTPMaxRequestsPerWindow \<le> n)\<close>
      by (simp add: otps_CountRequestsSince_def oguard_def requests_since_def PortalOTPRequestWindow_def
          PortalOTPMaxRequestsPerWindow_def)
    from mint_otp_shape[OF rows(1) this] show ?thesis by (simp add: rows(2))
  qed
  then show ?thesis by (auto simp: RequestTerminationOTP_def Let_def rs_same split: sum.splits)
qed

definition touch_otp :: "uuid \<Rightarrow> (otp_row \<Rightarrow> otp_row) \<Rightarrow> otp_row list \<Rightarrow> otp_row list" where
  "touch_otp k f rows = map (\<lambda>r. if ot_id r = k then f r else r) rows"

inductive confirm_shape :: "otp_env \<Rightarrow> string \<Rightarrow> portal_db \<Rightarrow> portal_db \<Rightarrow> bool" for E code s where
  cs_same: "confirm_shape E code s s"
| cs_wrong: "r \<in> set (pd_otps s) \<Longrightarrow> otp_active (be_dbnow (oe_bill E)) (ot_customer_id r) ''termination'' r \<Longrightarrow>
    ot_attempts r < 5 \<Longrightarrow> oe_compare E (ot_hash r) (TrimSpace code) \<noteq> Matched \<Longrightarrow>
    confirm_shape E code s (s\<lparr>pd_otps := touch_otp (ot_id r) (\<lambda>r. r\<lparr>ot_attempts := ot_attempts r + 1\<rparr>) (pd_otps s)\<rparr>)"
| cs_used: "r \<in> set (pd_otps s) \<Longrightarrow> otp_active (be_dbnow (oe_bill E)) (ot_customer_id r) ''termination'' r \<Longrightarrow>
    ot_attempts r < 5 \<Longrightarrow> oe_compare E (ot_hash r) (TrimSpace code) = Matched \<Longrightarrow>
    b = bill_apply (oe_bill E) (EvRequestTermination (ot_customer_id r) reason Nil_uuid) (pd_bill s) \<Longrightarrow>
    confirm_shape E code s (s\<lparr>pd_otps := touch_otp (ot_id r)
      (\<lambda>r. r\<lparr>ot_verified_at := Some (be_dbnow (oe_bill E))\<rparr>) (pd_otps s), pd_bill := b\<rparr>)"

lemma FindActive_row:
  assumes "otps_FindActive E k purpose s = Inr (Some r)"
  shows "r \<in> set (pd_otps s)" "otp_active (be_dbnow (oe_bill E)) k purpose r"
proof -
  have "r \<in> set (order_by (\<lambda>r. - ot_created_at r) (filter (otp_active (be_dbnow (oe_bill E)) k purpose) (pd_otps s)))"
    using assms by (auto simp: otps_FindActive_def simp del: set_order_by split: list.splits)
  then show "r \<in> set (pd_otps s)" "otp_active (be_dbnow (oe_bill E)) k purpose r" by auto
qed

lemma IncrementAttempts_touch:
  "after s (otps_IncrementAttempts E k s) = s \<or> after s (otps_IncrementAttempts E k s)
     = s\<lparr>pd_otps := touch_otp k (\<lambda>r. r\<lparr>ot_attempts := ot_attempts r + 1\<rparr>) (pd_otps s)\<rparr>"
  by (cases "oe_fail E (OtpAttempt k)") (simp_all add: otps_IncrementAttempts_def oguard_def touch_otp_def)

lemma MarkVerified_touch:
  assumes "otps_MarkVerified E k s = Inr s1"
  shows "s1 = s\<lparr>pd_otps := touch_otp k (\<lambda>r. r\<lparr>ot_verified_at := Some (be_dbnow (oe_bill E))\<rparr>) (pd_otps s)\<rparr>"
  using assms by (auto simp: otps_MarkVerified_def tupdate_def touch_otp_def split: if_splits)

lemma ConfirmTermination_found:
  assumes "TrimSpace number \<noteq> []" "TrimSpace code \<noteq> []" "FindCustomerByNumber E (TrimSpace number) s = Inr k"
    "otps_FindActive E k ''termination'' s = Inr (Some r)" "ot_attempts r < 5"
  shows "confirm_shape E code s (snd (ConfirmTermination E number code reason s))"
proof -
  note row = FindActive_row[OF assms(4)]
  have k: "ot_customer_id r = k" using row(2) by (simp add: otp_active_def)
  have act: "otp_active (be_dbnow (oe_bill E)) (ot_customer_id r) ''termination'' r" using row(2) k by simp
  have lt: "\<not> PortalOTPMaxAttempts \<le> ot_attempts r" using assms(5) by (simp add: PortalOTPMaxAttempts_def)
  show ?thesis
  proof (cases "oe_compare E (ot_hash r) (TrimSpace code) = Matched")
    case False
    then have "snd (ConfirmTermination E number code reason s) = after s (otps_IncrementAttempts E (ot_id r) s)"
      using assms(1-4) lt by (cases "oe_compare E (ot_hash r) (TrimSpace code)") (simp_all add: ConfirmTermination_def)
    then show ?thesis using IncrementAttempts_touch[of s E "ot_id r"] cs_wrong[OF row(1) act assms(5) False]
        cs_same[of E code s] by auto
  next
    case True
    show ?thesis
    proof (cases "otps_MarkVerified E (ot_id r) s")
      case (Inl e)
      then show ?thesis using assms(1-4) lt True by (simp add: ConfirmTermination_def cs_same)
    next
      case (Inr s1)
      have "snd (ConfirmTermination E number code reason s) = s1\<lparr>pd_bill :=
          bill_apply (oe_bill E) (EvRequestTermination k (self_service_reason reason) Nil_uuid) (pd_bill s1)\<rparr>"
        using assms(1-4) lt True Inr by (simp add: ConfirmTermination_def split: prod.splits sum.splits)
      then show ?thesis using MarkVerified_touch[OF Inr] cs_used[OF row(1) act assms(5) True refl] k by simp
    qed
  qed
qed

lemma ConfirmTermination_shape: "confirm_shape E code s (snd (ConfirmTermination E number code reason s))"
proof (cases "TrimSpace number = [] \<or> TrimSpace code = []")
  case False
  show ?thesis
  proof (cases "FindCustomerByNumber E (TrimSpace number) s")
    case (Inr k)
    show ?thesis
    proof (cases "otps_FindActive E k ''termination'' s")
      case (Inr found)
      show ?thesis
      proof (cases found)
        case (Some r)
        with Inr have row: "otps_FindActive E k ''termination'' s = Inr (Some r)" by simp
        show ?thesis
        proof (cases "ot_attempts r < 5")
          case True
          with False \<open>FindCustomerByNumber E (TrimSpace number) s = Inr k\<close> row show ?thesis
            by (intro ConfirmTermination_found) auto
        next
          case no: False
          with False \<open>FindCustomerByNumber E (TrimSpace number) s = Inr k\<close> row show ?thesis
            by (simp add: ConfirmTermination_def PortalOTPMaxAttempts_def cs_same)
        qed
      qed (use False \<open>FindCustomerByNumber E (TrimSpace number) s = Inr k\<close> Inr in
          \<open>simp add: ConfirmTermination_def cs_same\<close>)
    qed (use False Inr in \<open>simp add: ConfirmTermination_def cs_same\<close>)
  qed (use False in \<open>simp add: ConfirmTermination_def cs_same\<close>)
qed (auto simp: ConfirmTermination_def cs_same)

lemma ConfirmTermination_accepts:
  assumes "ConfirmTermination E number code reason s = (Inr v, s')"
  obtains k r where "FindCustomerByNumber E (TrimSpace number) s = Inr k"
    "otps_FindActive E k ''termination'' s = Inr (Some r)" "ot_attempts r < 5"
    "oe_compare E (ot_hash r) (TrimSpace code) = Matched"
    "pd_otps s' = touch_otp (ot_id r) (\<lambda>r. r\<lparr>ot_verified_at := Some (be_dbnow (oe_bill E))\<rparr>) (pd_otps s)"
proof -
  obtain k r s1 where a: "FindCustomerByNumber E (TrimSpace number) s = Inr k"
      "otps_FindActive E k ''termination'' s = Inr (Some r)" "ot_attempts r < 5"
      "oe_compare E (ot_hash r) (TrimSpace code) = Matched" "otps_MarkVerified E (ot_id r) s = Inr s1"
      "pd_otps s' = pd_otps s1"
    using assms by (auto simp: ConfirmTermination_def Let_def PortalOTPMaxAttempts_def
        split: if_splits sum.splits option.splits compare_result.splits prod.splits)
  from that[OF a(1-4)] MarkVerified_touch[OF a(5)] a(6) show thesis by simp
qed

section \<open>Billing invariants hold with the portal\<close>

lemma request_bill: "request_shape E s s' \<Longrightarrow> pd_bill s' = pd_bill s"
  by (induction rule: request_shape.induct) auto

lemma confirm_bill: "confirm_shape E code s s' \<Longrightarrow> bill_reachable (pd_bill s) \<Longrightarrow> bill_reachable (pd_bill s')"
  by (induction rule: confirm_shape.induct) (auto intro: bill_reachable.event simp del: bill_apply.simps)

lemma portal_bill_reachable: "portal_reachable s \<Longrightarrow> bill_reachable (pd_bill s)"
proof (induction rule: portal_reachable.induct)
  case (start p)
  show ?case by (simp add: portal_initial_def bill_reachable.start)
next
  case (event s E ev)
  then show ?case
    using request_bill[OF RequestTerminationOTP_shape] confirm_bill[OF ConfirmTermination_shape]
    by (cases ev) (auto intro: bill_reachable.event simp del: bill_apply.simps)
qed

section \<open>The codes of a reachable state\<close>

definition otps_ok :: "portal_db \<Rightarrow> bool" where
  "otps_ok s \<longleftrightarrow> tkeyed ot_id (pd_otps s) \<and> (\<forall>r \<in> set (pd_otps s). ot_purpose r = ''termination''
     \<and> ot_expires_at r = ot_created_at r + PortalOTPTTL \<and> 0 \<le> ot_attempts r \<and> ot_attempts r \<le> 5)"

lemma touch_ids [simp]: "(\<And>r. ot_id (f r) = ot_id r) \<Longrightarrow> map ot_id (touch_otp k f rows) = map ot_id rows"
  by (simp add: touch_otp_def)

lemma touch_mem: "q \<in> set (touch_otp k f rows) \<Longrightarrow> \<exists>r \<in> set rows. q = (if ot_id r = k then f r else r)"
  by (auto simp: touch_otp_def)

lemma purged_ok: "purged E s rows \<Longrightarrow> otps_ok s \<Longrightarrow> otps_ok (s\<lparr>pd_otps := rows\<rparr>)"
  by (auto simp: purged_def otps_ok_def tkeyed_def distinct_map intro: inj_on_subset)

lemma request_otps_ok: "request_shape E s s' \<Longrightarrow> otps_ok s \<Longrightarrow> otps_ok s'"
proof (induction rule: request_shape.induct)
  case (rs_minted rows r plain)
  with purged_ok[OF rs_minted(1,10)] show ?case by (auto simp: otps_ok_def tkeyed_def)
qed (auto dest: purged_ok)

lemma touch_otps_ok:
  assumes ok: "otps_ok s"
    and f: "\<And>q. q \<in> set (pd_otps s) \<Longrightarrow> ot_id q = k \<Longrightarrow> ot_id (f q) = k \<and> ot_purpose (f q) = ot_purpose q
      \<and> ot_expires_at (f q) = ot_expires_at q \<and> ot_created_at (f q) = ot_created_at q
      \<and> 0 \<le> ot_attempts (f q) \<and> ot_attempts (f q) \<le> 5"
  shows "otps_ok (s\<lparr>pd_otps := touch_otp k f (pd_otps s), pd_bill := b\<rparr>)"
proof -
  have "map ot_id (touch_otp k f (pd_otps s)) = map ot_id (pd_otps s)" using f by (simp add: touch_otp_def)
  moreover have "ot_purpose q = ''termination'' \<and> ot_expires_at q = ot_created_at q + PortalOTPTTL
      \<and> 0 \<le> ot_attempts q \<and> ot_attempts q \<le> 5" if q: "q \<in> set (touch_otp k f (pd_otps s))" for q
  proof -
    obtain r where r: "r \<in> set (pd_otps s)" "q = (if ot_id r = k then f r else r)" using touch_mem[OF q] by blast
    then show ?thesis using ok f[OF r(1)] by (cases "ot_id r = k") (simp_all add: otps_ok_def)
  qed
  ultimately show ?thesis using ok by (simp add: otps_ok_def tkeyed_def)
qed

lemma same_bill: "s\<lparr>pd_otps := rows\<rparr> = s\<lparr>pd_otps := rows, pd_bill := pd_bill s\<rparr>"
  by simp

lemma confirm_otps_ok: "confirm_shape E code s s' \<Longrightarrow> otps_ok s \<Longrightarrow> otps_ok s'"
proof (induction rule: confirm_shape.induct)
  case (cs_wrong r)
  have "ot_attempts q < 5" "0 \<le> ot_attempts q" if "q \<in> set (pd_otps s)" "ot_id q = ot_id r" for q
    using that cs_wrong(1,3,5) distinct_map_fst_unique[of ot_id "pd_otps s" q r] by (auto simp: otps_ok_def tkeyed_def)
  then have "0 \<le> ot_attempts q \<and> ot_attempts q + 1 \<le> 5" if "q \<in> set (pd_otps s)" "ot_id q = ot_id r" for q
    using that by fastforce
  then show ?case by (subst same_bill, intro touch_otps_ok[OF cs_wrong(5)]) simp
next
  case (cs_used r b reason)
  then have "0 \<le> ot_attempts q \<and> ot_attempts q \<le> 5" if "q \<in> set (pd_otps s)" for q
    using that by (simp add: otps_ok_def)
  then show ?case by (intro touch_otps_ok[OF cs_used(6)]) simp
qed auto

lemma portal_apply_otps_ok: "otps_ok s \<Longrightarrow> otps_ok (portal_apply E ev s)"
proof (cases ev)
  case (EvPortalRequest number phone)
  then show "otps_ok s \<Longrightarrow> ?thesis" using request_otps_ok[OF RequestTerminationOTP_shape] by simp
next
  case (EvPortalConfirm number code reason)
  then show "otps_ok s \<Longrightarrow> ?thesis" using confirm_otps_ok[OF ConfirmTermination_shape] by simp
qed (simp_all add: otps_ok_def)

lemma portal_otps_ok: "portal_reachable s \<Longrightarrow> otps_ok s"
  by (induction rule: portal_reachable.induct)
    (auto simp: portal_initial_def otps_ok_def[of "\<lparr>pd_bill = _, pd_contacts = _, pd_otps = [], pd_minted = _\<rparr>"]
      tkeyed_def intro: portal_apply_otps_ok simp del: portal_apply.simps)

section \<open>A verified code stays verified\<close>

lemma touch_otp_mem_iff: "q \<in> set (touch_otp k f rows) \<longleftrightarrow> (\<exists>r \<in> set rows. q = (if ot_id r = k then f r else r))"
  unfolding touch_otp_def set_map by (rule image_iff)

definition spent :: "uuid \<Rightarrow> portal_db \<Rightarrow> bool" where
  "spent k s \<longleftrightarrow> (\<forall>q \<in> set (pd_otps s). ot_id q = k \<longrightarrow> ot_verified_at q \<noteq> None)"

lemma spent_request: "request_shape E s s' \<Longrightarrow> spent k s \<Longrightarrow> oe_id E \<noteq> k \<Longrightarrow> spent k s'"
  by (induction rule: request_shape.induct) (auto simp: spent_def purged_def)

lemma spent_confirm: "confirm_shape E code s s' \<Longrightarrow> spent k s \<Longrightarrow> spent k s'"
  by (induction rule: confirm_shape.induct) (auto simp: spent_def touch_otp_mem_iff)

lemma spent_run: "spent k s \<Longrightarrow> \<forall>(E, ev) \<in> set evs. oe_id E \<noteq> k \<Longrightarrow> spent k (portal_run evs s)"
proof (induction evs s rule: portal_run.induct)
  case (2 E ev evs s)
  have "spent k (portal_apply E ev s)"
  proof (cases ev)
    case (EvPortalRequest number phone)
    then show ?thesis using spent_request[OF RequestTerminationOTP_shape 2(2)] 2(3) by simp
  next
    case (EvPortalConfirm number code reason)
    then show ?thesis using spent_confirm[OF ConfirmTermination_shape 2(2)] by simp
  qed (use 2(2) in \<open>simp_all add: spent_def\<close>)
  with 2 show ?case by simp
qed simp

section \<open>The limit on codes per hour\<close>

text \<open>
  The log of minted codes has at most five entries of a customer in any hour, provided the
  clock does not run backwards and the count does not fail: the code goes on when it fails.
\<close>

definition mints_since :: "uuid \<Rightarrow> time \<Rightarrow> portal_db \<Rightarrow> nat" where
  "mints_since k t s = length (filter (\<lambda>(c, m, _). c = k \<and> t \<le> m) (pd_minted s))"

definition mints_within :: "uuid \<Rightarrow> time \<Rightarrow> time \<Rightarrow> portal_db \<Rightarrow> nat" where
  "mints_within k from until s = length (filter (\<lambda>(c, m, _). c = k \<and> from \<le> m \<and> m \<le> until) (pd_minted s))"

definition rate_ok :: "time \<Rightarrow> portal_db \<Rightarrow> bool" where
  "rate_ok now s \<longleftrightarrow> (\<forall>k t. now - HOUR \<le> t \<longrightarrow> mints_since k t s \<le> requests_since k t (pd_otps s))
     \<and> (\<forall>k t. mints_within k t (t + HOUR) s \<le> 5)"

fun steady :: "time \<Rightarrow> (otp_env \<times> portal_event) list \<Rightarrow> bool" where
  "steady now [] = True"
| "steady now ((E, ev) # evs) \<longleftrightarrow> now \<le> be_now (oe_bill E) \<and> (\<forall>k. oe_fail E (OtpCount k) = None)
     \<and> steady (be_now (oe_bill E)) evs"

lemma requests_since_purged:
  assumes "purged E s rows" "otps_ok s" "be_now (oe_bill E) - HOUR \<le> t"
  shows "requests_since k t rows = requests_since k t (pd_otps s)"
proof -
  have keep: "filter (\<lambda>r. \<not> ot_expires_at r < be_now (oe_bill E) - HOUR
      \<and> ot_customer_id r = k \<and> ot_purpose r = ''termination'' \<and> t \<le> ot_created_at r) (pd_otps s)
    = filter (\<lambda>r. ot_customer_id r = k \<and> ot_purpose r = ''termination'' \<and> t \<le> ot_created_at r) (pd_otps s)"
    using assms(2,3) by (intro filter_cong) (auto simp: otps_ok_def PortalOTPTTL_def)
  from assms(1) show ?thesis
    unfolding purged_def
  proof
    assume "rows = filter (\<lambda>r. \<not> ot_expires_at r < be_now (oe_bill E) - HOUR) (pd_otps s)"
    then show ?thesis using keep by (simp add: requests_since_def)
  qed simp
qed

lemma requests_since_touch:
  assumes "\<And>q. ot_customer_id (f q) = ot_customer_id q" "\<And>q. ot_purpose (f q) = ot_purpose q"
    "\<And>q. ot_created_at (f q) = ot_created_at q"
  shows "requests_since k t (touch_otp i f rows) = requests_since k t rows"
  unfolding requests_since_def touch_otp_def by (induction rows) (simp_all add: assms)

lemma length_filter_mono: "(\<And>x. P x \<Longrightarrow> Q x) \<Longrightarrow> length (filter P xs) \<le> length (filter Q xs)"
  by (induction xs) auto

lemma mints_within_since: "mints_within k t u s \<le> mints_since k t s"
  unfolding mints_within_def mints_since_def by (intro length_filter_mono) auto

lemma mints_since_mono: "t \<le> u \<Longrightarrow> mints_since k u s \<le> mints_since k t s"
  unfolding mints_since_def by (intro length_filter_mono) auto

lemma rate_later: "rate_ok n s \<Longrightarrow> n \<le> now \<Longrightarrow> rate_ok now s"
  by (auto simp: rate_ok_def)

lemma rate_request:
  "request_shape E s s' \<Longrightarrow> rate_ok (be_now (oe_bill E)) s \<Longrightarrow> otps_ok s \<Longrightarrow>
     \<forall>k. oe_fail E (OtpCount k) = None \<Longrightarrow> rate_ok (be_now (oe_bill E)) s'"
proof (induction rule: request_shape.induct)
  case (rs_purged rows)
  then show ?case
    using requests_since_purged[OF rs_purged(1,3)] by (simp add: rate_ok_def mints_since_def mints_within_def)
next
  case (rs_minted rows r plain)
  let ?now = "be_now (oe_bill E)" and ?k = "ot_customer_id r"
  let ?s = "s\<lparr>pd_otps := rows @ [r], pd_minted := pd_minted s @ [(?k, ?now, plain)]\<rparr>"
  have since: "mints_since k t ?s = mints_since k t s + (if k = ?k \<and> t \<le> ?now then 1 else 0)" for k t
    by (simp add: mints_since_def)
  have within: "mints_within k t u ?s = mints_within k t u s + (if k = ?k \<and> t \<le> ?now \<and> ?now \<le> u then 1 else 0)" for k t u
    by (simp add: mints_within_def)
  have "requests_since k t (rows @ [r]) = requests_since k t rows + (if k = ?k \<and> t \<le> ?now then 1 else 0)" for k t
    using rs_minted(4,7) by (simp add: requests_since_def)
  then have rows: "requests_since k t (rows @ [r]) = requests_since k t (pd_otps s) + (if k = ?k \<and> t \<le> ?now then 1 else 0)"
    if "?now - HOUR \<le> t" for k t using that requests_since_purged[OF rs_minted(1,11)] by simp
  have few: "mints_since ?k (?now - HOUR) s < 5"
    using rs_minted(9,10,12) by (auto simp: rate_ok_def intro: le_less_trans)
  have "mints_within k t (t + HOUR) ?s \<le> 5" for k t
  proof (cases "k = ?k \<and> t \<le> ?now \<and> ?now \<le> t + HOUR")
    case True
    then have "mints_within k t (t + HOUR) s \<le> mints_since ?k (?now - HOUR) s"
      using mints_within_since[of k t "t + HOUR" s] mints_since_mono[of "?now - HOUR" t k s] by auto
    with few have "mints_within k t (t + HOUR) s < 5" by linarith
    then show ?thesis using True unfolding within by auto
  next
    case False
    then show ?thesis using rs_minted(10) unfolding within by (auto simp: rate_ok_def)
  qed
  moreover have "mints_since k t ?s \<le> requests_since k t (pd_otps ?s)" if "?now - HOUR \<le> t" for k t
    using that rs_minted(10) rows[OF that] unfolding since by (simp add: rate_ok_def)
  ultimately show ?case unfolding rate_ok_def by blast
qed simp

lemma rate_confirm: "confirm_shape E code s s' \<Longrightarrow> rate_ok now s \<Longrightarrow> rate_ok now s'"
proof (induction rule: confirm_shape.induct)
  case (cs_wrong r)
  then show ?case by (simp add: rate_ok_def mints_since_def mints_within_def requests_since_touch)
next
  case (cs_used r b reason)
  then show ?case by (simp add: rate_ok_def mints_since_def mints_within_def requests_since_touch)
qed

lemma rate_apply:
  assumes "rate_ok now s" "otps_ok s" "now \<le> be_now (oe_bill E)" "\<forall>k. oe_fail E (OtpCount k) = None"
  shows "rate_ok (be_now (oe_bill E)) (portal_apply E ev s)"
proof (cases ev)
  case (EvPortalRequest number phone)
  then show ?thesis using rate_request[OF RequestTerminationOTP_shape rate_later[OF assms(1,3)] assms(2,4)] by simp
next
  case (EvPortalConfirm number code reason)
  then show ?thesis using rate_confirm[OF ConfirmTermination_shape rate_later[OF assms(1,3)]] by simp
qed (use rate_later[OF assms(1,3)] in \<open>simp_all add: rate_ok_def mints_since_def mints_within_def\<close>)

lemma rate_run: "rate_ok now s \<Longrightarrow> otps_ok s \<Longrightarrow> steady now evs \<Longrightarrow> \<exists>later. rate_ok later (portal_run evs s)"
proof (induction evs s arbitrary: now rule: portal_run.induct)
  case (2 E ev evs s)
  have "rate_ok (be_now (oe_bill E)) (portal_apply E ev s)" using 2(2-4) by (intro rate_apply) auto
  from 2(1)[OF this portal_apply_otps_ok[OF 2(3)]] 2(4) show ?case by simp
qed auto

section \<open>The code text\<close>

definition digits_value :: "string \<Rightarrow> int" where
  "digits_value ds = foldl (\<lambda>n c. 10 * n + (int (byte c) - 48)) 0 ds"

lemma byte_digit: "0 \<le> d \<Longrightarrow> d < 10 \<Longrightarrow> int (byte (digit_char d)) = 48 + d"
  by (simp add: digit_char_def byte_def)

lemma pad_digits_value: "0 \<le> n \<Longrightarrow> n < 10 ^ k \<Longrightarrow> digits_value (pad_digits k n) = n \<and> length (pad_digits k n) = k"
proof (induction k arbitrary: n)
  case (Suc k)
  have "n div 10 < 10 ^ k" using Suc(3) by simp
  then have "digits_value (pad_digits k (n div 10)) = n div 10 \<and> length (pad_digits k (n div 10)) = k"
    using Suc by simp
  moreover have "int (byte (digit_char (n mod 10))) = 48 + n mod 10" by (intro byte_digit) auto
  ultimately show ?case by (simp add: digits_value_def)
qed (simp add: digits_value_def)

end
