(* ===== verification/BillingPortalClaims.thy ===== *)
theory BillingPortalClaims
  imports BillingPortal BillingFacts
begin

text \<open>
  The properties of the customer portal: how many codes a customer can be sent, and what a
  confirmation needs.
\<close>

section \<open>A demonstration customer\<close>

definition plain_otp_env :: "uuid \<Rightarrow> int \<Rightarrow> time \<Rightarrow> otp_env" where
  "plain_otp_env k n now = \<lparr>oe_bill = bill_ok_env now, oe_fail = (\<lambda>_. None), oe_id = k, oe_random = n,
     oe_hash = (\<lambda>p. ''h'' @ p), oe_compare = (\<lambda>h p. if h = ''h'' @ p then Matched else Mismatched), oe_dev = False\<rparr>"

definition ask :: "uuid \<Rightarrow> time \<Rightarrow> otp_env \<times> portal_event" where
  "ask k now = (plain_otp_env k 1234 now, EvPortalRequest ''C-1'' '' 0812-3456-7890'')"

definition customer_listed :: "otp_env \<times> portal_event" where
  "customer_listed = (plain_otp_env 0 0 0, EvPortalContacts [\<lparr>kt_id = 1, kt_number = ''C-1'', kt_phone = ''+62 812 3456 7890''\<rparr>])"

definition portal_setup :: "(otp_env \<times> portal_event) list" where
  "portal_setup = [(plain_otp_env 0 0 (day_in_march 1), EvPortalBilling (snd (crm_event (day_in_march 1)))),
     customer_listed]"




text \<open>
  C40. A termination is only accepted through the portal with a matching code of that customer
  that is unverified, unexpired and has fewer than five wrong guesses; the call verifies the
  code, so no later call accepts it again (identifiers are not reused), and in every reachable
  state no code has more than five wrong guesses and the billing tables satisfy the billing
  invariants.
\<close>

theorem confirmation_needs_code:
  assumes "portal_reachable s" "ConfirmTermination E number code reason s = (Inr v, s')"
  shows "\<exists>r \<in> set (pd_otps s). FindCustomerByNumber E (TrimSpace number) s = Inr (ot_customer_id r)
      \<and> ot_verified_at r = None \<and> be_dbnow (oe_bill E) < ot_expires_at r \<and> ot_attempts r < 5
      \<and> oe_compare E (ot_hash r) (TrimSpace code) = Matched
      \<and> ((\<forall>(D, ev) \<in> set evs. oe_id D \<noteq> ot_id r) \<longrightarrow>
          (\<forall>q \<in> set (pd_otps (portal_run evs s')). ot_id q = ot_id r \<longrightarrow> ot_verified_at q \<noteq> None))
      \<and> (\<forall>q \<in> set (pd_otps (portal_run evs s')). 0 \<le> ot_attempts q \<and> ot_attempts q \<le> 5)
      \<and> bill_reachable (pd_bill (portal_run evs s'))"
proof -
  obtain k r where a: "FindCustomerByNumber E (TrimSpace number) s = Inr k"
      "otps_FindActive E k ''termination'' s = Inr (Some r)" "ot_attempts r < 5"
      "oe_compare E (ot_hash r) (TrimSpace code) = Matched"
      "pd_otps s' = touch_otp (ot_id r) (\<lambda>r. r\<lparr>ot_verified_at := Some (be_dbnow (oe_bill E))\<rparr>) (pd_otps s)"
    using ConfirmTermination_accepts[OF assms(2)] .
  note row = FindActive_row[OF a(2)]
  have s': "s' = portal_apply E (EvPortalConfirm number code reason) s" using assms(2) by simp
  have reach: "portal_reachable (portal_run evs s')" unfolding s'
    by (intro portal_run_reachable portal_reachable.event assms(1))
  have "spent (ot_id r) s'" by (auto simp: spent_def a(5) touch_otp_mem_iff)
  with a row portal_otps_ok[OF reach] portal_bill_reachable[OF reach] spent_run[of "ot_id r" s' evs] show ?thesis
    by (intro bexI[of _ r]) (simp_all add: otp_active_def otps_ok_def spent_def)
qed

theorem confirmation_needs_code_witness:
  "case ConfirmTermination (plain_otp_env 9 0 (day_in_march 2 + MINUTE)) ''C-1'' ''001234'' ''moving''
      (portal_run (portal_setup @ [ask 7 (day_in_march 2)]) (portal_initial None)) of
     (Inl e, s) \<Rightarrow> False
   | (Inr (t, st), s) \<Rightarrow> st = TerminationStatusWOCreated \<and> bill_reachable (pd_bill s)"
proof -
  let ?s = "portal_run (portal_setup @ [ask 7 (day_in_march 2)]) (portal_initial None)"
  let ?c = "ConfirmTermination (plain_otp_env 9 0 (day_in_march 2 + MINUTE)) ''C-1'' ''001234'' ''moving'' ?s"
  have "(case fst ?c of Inl e \<Rightarrow> None | Inr v \<Rightarrow> Some (snd v)) = Some TerminationStatusWOCreated" by code_simp
  then obtain v s' where c: "?c = (Inr v, s')" "snd v = TerminationStatusWOCreated"
    by (cases ?c) (auto split: sum.splits)
  have "portal_reachable ?s" by (intro portal_run_reachable portal_reachable.start)
  from confirmation_needs_code[OF this c(1), of "[]"] c show ?thesis by (cases v) auto
qed

end
