(* ===== verification/FieldDomain.thy ===== *)
theory FieldDomain
  imports BillingDomain
begin

text \<open>
  The entities of the field service (\<^verbatim>\<open>internal/field/domain\<close>): work orders with their state
  graph, assignments, checklists, resolution items, reschedules, the signed hand-over record
  (BAST) and teams, with the constructors and guards of the code. The status, type, grade and
  decision texts of the code are datatypes; a constructor \<open>...Other\<close> stands for any other text a
  caller may pass where the code converts without a check.
\<close>

section \<open>Work orders (work\_order.go)\<close>

datatype wo_kind = WOTypeNewInstallation | WOTypeMaintenance | WOTypeTermination

datatype wo_status =
    WOStatusCreated | WOStatusUnassigned | WOStatusAssigned | WOStatusDispatched | WOStatusInProgress
  | WOStatusPendingNOCVerification | WOStatusCompleted | WOStatusRescheduled | WOStatusCancelled
  | WOStatusOther string

datatype wo_priority = PriorityHigh | PriorityMedium | PriorityLow | PriorityOther string

datatype wo_category = WOCategoryBroadband | WOCategoryEnterprise

record work_order =
  wo_id :: uuid
  wo_number :: string
  wo_order_id :: "uuid option"
  wo_customer_id :: uuid
  wo_kind :: wo_kind
  wo_product_type :: string
  wo_subtype :: string
  wo_address :: string
  wo_branch_id :: "uuid option"
  wo_priority :: wo_priority
  wo_status :: wo_status
  wo_scheduled :: "time option"
  wo_sla_due :: "time option"
  wo_team_id :: "uuid option"
  wo_team_leader_id :: "uuid option"
  wo_emergency :: bool
  wo_cross_area :: bool
  wo_notes :: string
  wo_created_by :: "uuid option"
  wo_created_at :: time
  wo_updated_at :: time
  wo_product_id :: "uuid option"
  wo_schema_id :: "uuid option"
  wo_category :: wo_category

fun wo_status_text :: "wo_status \<Rightarrow> string" where
  "wo_status_text WOStatusCreated = ''created''"
| "wo_status_text WOStatusUnassigned = ''unassigned''"
| "wo_status_text WOStatusAssigned = ''assigned''"
| "wo_status_text WOStatusDispatched = ''dispatched''"
| "wo_status_text WOStatusInProgress = ''in_progress''"
| "wo_status_text WOStatusPendingNOCVerification = ''pending_noc_verification''"
| "wo_status_text WOStatusCompleted = ''completed''"
| "wo_status_text WOStatusRescheduled = ''rescheduled''"
| "wo_status_text WOStatusCancelled = ''cancelled''"
| "wo_status_text (WOStatusOther t) = t"

text \<open>The customer segment; \<open>ulower\<close> is \<^verbatim>\<open>strings.ToLower\<close> outside ASCII.\<close>

definition NormalizeCategory :: "(string \<Rightarrow> string) \<Rightarrow> string \<Rightarrow> wo_category" where
  "NormalizeCategory ulower raw =
    (if ToLower ulower (TrimSpace raw) \<in> {''enterprise'', ''business'', ''corporate''}
     then WOCategoryEnterprise else WOCategoryBroadband)"

text \<open>\<open>wo_uuid\<close> is the second identifier \<^verbatim>\<open>uuid.New\<close> hands out, used in the number only.\<close>

definition GenerateWONumber :: "uuid \<Rightarrow> time \<Rightarrow> string" where
  "GenerateWONumber wo_uuid t = ''WO-'' @ format_ymd t @ ''-'' @ take 8 (uuid_text wo_uuid)"

definition new_wo ::
    "wo_kind \<Rightarrow> uuid \<Rightarrow> uuid \<Rightarrow> time \<Rightarrow> uuid option \<Rightarrow> uuid \<Rightarrow> string \<Rightarrow> wo_category \<Rightarrow> work_order res" where
  "new_wo kind fresh wo_uuid now order_id customer_id address category =
    (let addr = TrimSpace address in
     if customer_id = Nil_uuid then Inl (Validation ''wo.customer_required'' ''customer_id is required'')
     else if addr = [] then Inl (Validation ''wo.address_required'' ''address is required'')
     else Inr \<lparr>wo_id = fresh, wo_number = GenerateWONumber wo_uuid now, wo_order_id = order_id,
       wo_customer_id = customer_id, wo_kind = kind, wo_product_type = ''broadband'', wo_subtype = [],
       wo_address = addr, wo_branch_id = None, wo_priority = PriorityMedium, wo_status = WOStatusCreated,
       wo_scheduled = None, wo_sla_due = None, wo_team_id = None, wo_team_leader_id = None,
       wo_emergency = False, wo_cross_area = False, wo_notes = [], wo_created_by = None,
       wo_created_at = now, wo_updated_at = now, wo_product_id = None, wo_schema_id = None,
       wo_category = category\<rparr>)"

definition NewInstallationWO ::
    "uuid \<Rightarrow> uuid \<Rightarrow> time \<Rightarrow> uuid option \<Rightarrow> uuid \<Rightarrow> string \<Rightarrow> wo_category \<Rightarrow> work_order res" where
  "NewInstallationWO = new_wo WOTypeNewInstallation"

definition NewTerminationWO ::
    "uuid \<Rightarrow> uuid \<Rightarrow> time \<Rightarrow> uuid option \<Rightarrow> uuid \<Rightarrow> string \<Rightarrow> wo_category \<Rightarrow> work_order res" where
  "NewTerminationWO = new_wo WOTypeTermination"

text \<open>The successors of a status (\<^verbatim>\<open>validTransitions\<close>).\<close>

fun validTransitions :: "wo_status \<Rightarrow> wo_status list" where
  "validTransitions WOStatusCreated = [WOStatusUnassigned, WOStatusCancelled]"
| "validTransitions WOStatusUnassigned = [WOStatusAssigned, WOStatusCancelled, WOStatusRescheduled]"
| "validTransitions WOStatusAssigned = [WOStatusDispatched, WOStatusInProgress, WOStatusUnassigned,
     WOStatusCancelled, WOStatusRescheduled]"
| "validTransitions WOStatusDispatched = [WOStatusInProgress, WOStatusCancelled, WOStatusRescheduled]"
| "validTransitions WOStatusInProgress = [WOStatusPendingNOCVerification, WOStatusRescheduled, WOStatusCancelled]"
| "validTransitions WOStatusPendingNOCVerification = [WOStatusCompleted, WOStatusInProgress]"
| "validTransitions WOStatusRescheduled = [WOStatusAssigned, WOStatusUnassigned, WOStatusCancelled]"
| "validTransitions _ = []"

definition AssertCanTransition :: "wo_status \<Rightarrow> work_order \<Rightarrow> unit res" where
  "AssertCanTransition target w =
    (if wo_status w = target then
       Inl (Conflict ''wo.status_unchanged'' (''wo already in status '' @ wo_status_text target))
     else if target \<notin> set (validTransitions (wo_status w)) then
       Inl (Conflict ''wo.invalid_transition'' (''cannot move wo from '' @ wo_status_text (wo_status w)
         @ '' to '' @ wo_status_text target))
     else Inr ())"

section \<open>Rescheduling (reschedule.go)\<close>

datatype reschedule_reason = RescheduleCustomerNotAvail | RescheduleSiteNotReady
  | RescheduleEquipmentIssue | RescheduleCustomerRequest | RescheduleOther
  | RescheduleInvalid string

record reschedule =
  rs_id :: uuid
  rs_wo_id :: uuid
  rs_reason :: reschedule_reason
  rs_notes :: string
  rs_original_date :: "time option"
  rs_new_date :: "time option"
  rs_by :: "uuid option"
  rs_created_at :: time

definition AssertCanReschedule :: "work_order \<Rightarrow> unit res" where
  "AssertCanReschedule w =
    (if wo_status w \<in> {WOStatusAssigned, WOStatusDispatched, WOStatusInProgress, WOStatusRescheduled} then Inr ()
     else Inl (Conflict ''wo.cannot_reschedule''
       (''cannot reschedule a WO in status '' @ wo_status_text (wo_status w))))"

section \<open>Assignments (assignment.go)\<close>

datatype tech_grade = GradeSenior | GradeJunior | GradeOther string

datatype wo_role = WORoleLead | WORoleObserver

record assignment =
  as_id :: uuid
  as_wo_id :: uuid
  as_technician_id :: uuid
  as_grade :: tech_grade
  as_role :: wo_role
  as_by :: "uuid option"
  as_at :: time

section \<open>Checklists and resolution items (checklist.go, resolution.go)\<close>

record checklist_template =
  ct_tpl_id :: uuid
  ct_tpl_kind :: wo_kind
  ct_tpl_product_type :: string
  ct_tpl_product_id :: "uuid option"
  ct_tpl_subtype :: "string option"
  ct_min_photos :: int
  ct_gps_stamp :: bool
  ct_tpl_active :: bool

record checklist_item =
  ci_item_id :: uuid
  ci_template_id :: uuid
  ci_order :: int
  ci_item_type :: string
  ci_label :: string
  ci_required :: bool
  ci_photo_tag :: string
  ci_gps_required :: bool
  ci_min_accuracy :: "int option"

record checklist_response =
  cr_id :: uuid
  cr_wo_id :: uuid
  cr_item_id :: uuid
  cr_text :: string
  cr_file_url :: string
  cr_gps_lat :: "f64 option"
  cr_gps_lng :: "f64 option"
  cr_gps_accuracy :: "f64 option"
  cr_by :: "uuid option"
  cr_at :: time

record resolution_item =
  ri_id :: uuid
  ri_wo_id :: uuid
  ri_order :: int
  ri_label :: string
  ri_category :: string
  ri_finding :: string
  ri_action :: string
  ri_status :: string
  ri_minutes :: "int option"
  ri_by :: "uuid option"
  ri_logged_at :: time

section \<open>The hand-over record (bast.go)\<close>

datatype sign_off_mode = SignOffOnSite | SignOffRemote | SignOffOther string

datatype noc_status = NOCStatusPending | NOCStatusApproved | NOCStatusRejected | NOCStatusOther string

fun noc_status_text :: "noc_status \<Rightarrow> string" where
  "noc_status_text NOCStatusPending = ''pending''"
| "noc_status_text NOCStatusApproved = ''approved''"
| "noc_status_text NOCStatusRejected = ''rejected''"
| "noc_status_text (NOCStatusOther t) = t"

text \<open>The transient plaintext of the code is part of the result of a call, not of the row.\<close>

record bast =
  ba_id :: uuid
  ba_wo_id :: uuid
  ba_customer_id :: uuid
  ba_compiled :: string
  ba_mode :: sign_off_mode
  ba_sig_url :: string
  ba_otp_used :: bool
  ba_otp_code :: string
  ba_otp_verified_at :: "time option"
  ba_sign_off_at :: time
  ba_gps_lat :: "f64 option"
  ba_gps_lng :: "f64 option"
  ba_submitted_by :: "uuid option"
  ba_submitted_at :: time
  ba_noc_status :: noc_status
  ba_verified_by :: "uuid option"
  ba_verified_at :: "time option"
  ba_noc_notes :: string

definition NewBAST :: "uuid \<Rightarrow> time \<Rightarrow> uuid \<Rightarrow> uuid \<Rightarrow> sign_off_mode \<Rightarrow> string \<Rightarrow> bast res" where
  "NewBAST fresh now wo customer mode compiled =
    (if wo = Nil_uuid then Inl (Validation ''bast.wo_required'' ''wo_id is required'')
     else if customer = Nil_uuid then Inl (Validation ''bast.customer_required'' ''customer_id is required'')
     else if mode \<noteq> SignOffOnSite \<and> mode \<noteq> SignOffRemote then
       Inl (Validation ''bast.signoff_invalid'' ''sign_off_mode must be on_site or remote'')
     else Inr \<lparr>ba_id = fresh, ba_wo_id = wo, ba_customer_id = customer,
       ba_compiled = (if compiled = [] then ''{}'' else compiled), ba_mode = mode, ba_sig_url = [],
       ba_otp_used = False, ba_otp_code = [], ba_otp_verified_at = None, ba_sign_off_at = now,
       ba_gps_lat = None, ba_gps_lng = None, ba_submitted_by = None, ba_submitted_at = now,
       ba_noc_status = NOCStatusPending, ba_verified_by = None, ba_verified_at = None, ba_noc_notes = []\<rparr>)"

definition CanVerify :: "bast \<Rightarrow> unit res" where
  "CanVerify b =
    (if ba_noc_status b \<noteq> NOCStatusPending then
       Inl (Conflict ''bast.not_pending''
         (''BAST already '' @ noc_status_text (ba_noc_status b) @ ''; cannot re-verify''))
     else Inr ())"

section \<open>Teams (team.go)\<close>

record team =
  tm_id :: uuid
  tm_code :: string
  tm_name :: string
  tm_branch_id :: uuid
  tm_leader_id :: "uuid option"
  tm_active :: bool
  tm_created_at :: time
  tm_updated_at :: time

record team_member =
  mb_id :: uuid
  mb_team_id :: uuid
  mb_user_id :: uuid
  mb_grade :: tech_grade
  mb_active :: bool
  mb_joined_at :: time

text \<open>\<open>upper\<close> is \<^verbatim>\<open>strings.ToUpper\<close>.\<close>

definition NewTeam :: "(string \<Rightarrow> string) \<Rightarrow> uuid \<Rightarrow> time \<Rightarrow> string \<Rightarrow> string \<Rightarrow> uuid \<Rightarrow> uuid option \<Rightarrow> team res" where
  "NewTeam upper fresh now code name branch leader =
    (let c = TrimSpace (upper code); n = TrimSpace name in
     if c = [] then Inl (Validation ''team.code_required'' ''code is required'')
     else if n = [] then Inl (Validation ''team.name_required'' ''name is required'')
     else if branch = Nil_uuid then Inl (Validation ''team.branch_required'' ''branch_id is required'')
     else Inr \<lparr>tm_id = fresh, tm_code = c, tm_name = n, tm_branch_id = branch, tm_leader_id = leader,
       tm_active = True, tm_created_at = now, tm_updated_at = now\<rparr>)"

section \<open>Offline replay (offline\_replay.go)\<close>

datatype idempotency_outcome = IdempotencyFirstSubmit | IdempotencyReplayMatch | IdempotencyReplayConflict

record idempotency_record =
  ip_actor_id :: uuid
  ip_key :: string
  ip_digest :: string

definition EvaluateReplay ::
    "uuid \<Rightarrow> string \<Rightarrow> string \<Rightarrow> idempotency_record option \<Rightarrow> idempotency_outcome" where
  "EvaluateReplay actor key digest existing =
    (let k = TrimSpace key in
     if k = [] then IdempotencyFirstSubmit
     else (case existing of
         None \<Rightarrow> IdempotencyFirstSubmit
       | Some r \<Rightarrow>
           if ip_key r \<noteq> k then IdempotencyFirstSubmit
           else if ip_actor_id r \<noteq> actor then IdempotencyReplayConflict
           else if ip_digest r \<noteq> digest then IdempotencyReplayConflict
           else IdempotencyReplayMatch))"

end
