(* ===== verification/FieldRepo.thy ===== *)
theory FieldRepo
  imports FieldDomain BillingPortal
begin

text \<open>
  The storage of the field service (\<^verbatim>\<open>internal/field/adapter/postgres\<close>), with the keys and CHECKs
  of \<^verbatim>\<open>migrations/0008\<close> and \<open>0053\<close>, and its gateways. The state \<open>field_db\<close> holds the tables, the
  billing state next to them (the service embeds the billing use cases in process, and both
  share one database) and what left the context: commands to the RADIUS client, audit rows and
  pushed messages. Foreign keys into the tables of other contexts are among the failures the
  environment decides.
\<close>

section \<open>The environment\<close>

datatype fcall =
    WoCreate | WoFind nat | WoUpdate | WoStatus nat | AssignUpsert | AssignList nat
  | TplProduct nat | TplFor nat | TplDerive | ItemFind | RespUpsert | RespList nat | ResAdd | ResList nat
  | BastCreate | BastActive nat | BastFind nat | BastMark | BastOtp | ReschedCreate | SlaCount | SlaList
  | TeamFind nat | TeamCreate | MemberAdd | MemberList
  | ActProjection nat | ActProvision nat | ActPromote | CrmSetActive | OtpGen | AuditWrite

text \<open>What the CRM context answers for an order.\<close>

record order_projection =
  op_order_id :: uuid
  op_customer_id :: uuid
  op_address :: string
  op_branch_id :: "uuid option"
  op_window_hours :: int
  op_product_id :: "uuid option"
  op_schema_id :: "uuid option"
  op_customer_type :: string

text \<open>
  \<open>fe_bill\<close> is the environment of the embedded billing calls and carries the clocks; the other
  contexts answer through \<open>fe_order\<close> (CRM), \<open>fe_leader\<close> and \<open>fe_sla\<close> (branches), \<open>fe_checklist\<close>
  (the platform's schema resolver), \<open>fe_gps\<close> (uploads) and \<open>fe_radius\<close>; \<open>fe_snapshot\<close> is
  \<^verbatim>\<open>json.Marshal\<close> of the snapshot, \<open>fe_hash\<close> and \<open>fe_compare\<close> are bcrypt, \<open>fe_lower\<close> and
  \<open>fe_upper\<close> the case maps of \<^verbatim>\<open>strings\<close>.
\<close>

record field_env =
  fe_bill :: benv
  fe_fail :: "fcall \<Rightarrow> derr option"
  fe_fresh :: "nat \<Rightarrow> uuid"
  fe_order :: "uuid \<Rightarrow> order_projection res"
  fe_leader :: "uuid \<Rightarrow> uuid option"
  fe_sla :: "uuid \<Rightarrow> int res"
  fe_checklist :: "uuid \<Rightarrow> (checklist_item list \<times> uuid option) res"
  fe_gps :: "string \<Rightarrow> (f64 option \<times> f64 option) res"
  fe_radius :: "uuid \<Rightarrow> string res"
  fe_snapshot :: "work_order \<Rightarrow> sign_off_mode \<Rightarrow> checklist_response list \<Rightarrow> resolution_item list \<Rightarrow> string option"
  fe_random :: int
  fe_hash :: "string \<Rightarrow> string"
  fe_compare :: "string \<Rightarrow> string \<Rightarrow> bool"
  fe_lower :: "string \<Rightarrow> string"
  fe_upper :: "string \<Rightarrow> string"

abbreviation fe_now :: "field_env \<Rightarrow> time" where "fe_now E \<equiv> be_now (fe_bill E)"
abbreviation fe_dbnow :: "field_env \<Rightarrow> time" where "fe_dbnow E \<equiv> be_dbnow (fe_bill E)"

section \<open>The tables\<close>

datatype network_command = Provisioned uuid int | Promoted uuid

record field_db =
  fd_next :: nat
  fd_bill :: bill_db
  fd_wos :: "work_order list"
  fd_assigns :: "assignment list"
  fd_templates :: "checklist_template list"
  fd_items :: "checklist_item list"
  fd_responses :: "checklist_response list"
  fd_resolutions :: "resolution_item list"
  fd_basts :: "bast list"
  fd_reschedules :: "reschedule list"
  fd_teams :: "team list"
  fd_members :: "team_member list"
  fd_network :: "network_command list"
  fd_audit :: "(uuid \<times> string) list"
  fd_pushed :: "(uuid \<times> wo_role) list"

definition fguard :: "field_env \<Rightarrow> fcall \<Rightarrow> 'a res \<Rightarrow> 'a res" where
  "fguard E c r = (case fe_fail E c of Some e \<Rightarrow> Inl e | None \<Rightarrow> r)"

lemma fguard_Inr_iff [simp]: "fguard E c r = Inr x \<longleftrightarrow> fe_fail E c = None \<and> r = Inr x"
  by (cases "fe_fail E c") (auto simp: fguard_def)

text \<open>The \<open>i\<close>-th identifier of a call and the counter after \<open>n\<close> of them.\<close>

definition fid :: "field_env \<Rightarrow> nat \<Rightarrow> field_db \<Rightarrow> uuid" where
  "fid E i s = fe_fresh E (fd_next s + i)"

definition ftook :: "nat \<Rightarrow> field_db \<Rightarrow> field_db" where
  "ftook n s = s\<lparr>fd_next := fd_next s + n\<rparr>"

section \<open>Work orders (wo\_repo.go)\<close>

definition wo_check :: "work_order \<Rightarrow> bool" where
  "wo_check w \<longleftrightarrow> (case wo_status w of WOStatusOther _ \<Rightarrow> False | _ \<Rightarrow> True)
     \<and> (case wo_priority w of PriorityOther _ \<Rightarrow> False | _ \<Rightarrow> True)"

definition wos_Create :: "field_env \<Rightarrow> work_order \<Rightarrow> field_db \<Rightarrow> field_db res" where
  "wos_Create E w s = fguard E WoCreate
    (if \<not> wo_check w then Inl (check_err ''wo.create'' ''create work order'')
     else if \<exists>q \<in> set (fd_wos s). wo_id q = wo_id w \<or> wo_number q = wo_number w then
       Inl (duplicate_err ''wo.create'' ''create work order'')
     else Inr (s\<lparr>fd_wos := fd_wos s @ [w\<lparr>wo_updated_at := wo_created_at w\<rparr>]\<rparr>))"

definition wo_not_found :: derr where
  "wo_not_found = NotFound ''wo.not_found'' ''work order not found''"

definition wos_Update :: "field_env \<Rightarrow> work_order \<Rightarrow> field_db \<Rightarrow> field_db res" where
  "wos_Update E w s = fguard E WoUpdate
    (if \<not> wo_check w then Inl (check_err ''wo.update'' ''update work order'')
     else (case tupdate wo_id (\<lambda>q. q\<lparr>wo_scheduled := wo_scheduled w, wo_sla_due := wo_sla_due w,
              wo_team_id := wo_team_id w, wo_team_leader_id := wo_team_leader_id w,
              wo_priority := wo_priority w, wo_status := wo_status w, wo_emergency := wo_emergency w,
              wo_cross_area := wo_cross_area w, wo_notes := wo_notes w,
              wo_updated_at := fe_dbnow E\<rparr>) (wo_id w) (fd_wos s) of
         None \<Rightarrow> Inl wo_not_found
       | Some rows \<Rightarrow> Inr (s\<lparr>fd_wos := rows\<rparr>)))"

definition wos_UpdateStatus :: "field_env \<Rightarrow> nat \<Rightarrow> uuid \<Rightarrow> wo_status \<Rightarrow> field_db \<Rightarrow> field_db res" where
  "wos_UpdateStatus E n k st s = fguard E (WoStatus n)
    (if (case st of WOStatusOther _ \<Rightarrow> True | _ \<Rightarrow> False) then
       Inl (check_err ''wo.update_status'' ''update wo status'')
     else (case tupdate wo_id (\<lambda>q. q\<lparr>wo_status := st, wo_updated_at := fe_dbnow E\<rparr>) k (fd_wos s) of
         None \<Rightarrow> Inl wo_not_found
       | Some rows \<Rightarrow> Inr (s\<lparr>fd_wos := rows\<rparr>)))"

definition wos_FindByID :: "field_env \<Rightarrow> nat \<Rightarrow> uuid \<Rightarrow> field_db \<Rightarrow> work_order res" where
  "wos_FindByID E n k s = fguard E (WoFind n)
    (case tfind wo_id k (fd_wos s) of None \<Rightarrow> Inl wo_not_found | Some w \<Rightarrow> Inr w)"

section \<open>Assignments (assignment\_repo.go)\<close>

definition grade_check :: "tech_grade \<Rightarrow> bool" where
  "grade_check g \<longleftrightarrow> (case g of GradeOther _ \<Rightarrow> False | _ \<Rightarrow> True)"

definition insert_assignment :: "string \<Rightarrow> string \<Rightarrow> assignment \<Rightarrow> assignment list \<Rightarrow> assignment list res" where
  "insert_assignment code msg a rows =
    (if \<not> grade_check (as_grade a) then Inl (check_err code msg)
     else if \<exists>q \<in> set rows. as_id q = as_id a
         \<or> as_wo_id q = as_wo_id a \<and> (as_technician_id q = as_technician_id a
              \<or> as_role q = WORoleLead \<and> as_role a = WORoleLead) then Inl (duplicate_err code msg)
     else Inr (rows @ [a]))"

text \<open>One transaction: the rows of the work order are replaced, or nothing changes.\<close>

definition assigns_UpsertPair ::
    "field_env \<Rightarrow> uuid \<Rightarrow> assignment \<Rightarrow> assignment option \<Rightarrow> field_db \<Rightarrow> field_db res" where
  "assigns_UpsertPair E k lead observer s = fguard E AssignUpsert
    (let wiped = filter (\<lambda>a. as_wo_id a \<noteq> k) (fd_assigns s) in
     case insert_assignment ''assign.lead'' ''create lead assignment''
            (lead\<lparr>as_wo_id := k, as_role := WORoleLead\<rparr>) wiped of
       Inl e \<Rightarrow> Inl e
     | Inr rows \<Rightarrow>
         (case observer of
            None \<Rightarrow> Inr (s\<lparr>fd_assigns := rows\<rparr>)
          | Some x \<Rightarrow> (case insert_assignment ''assign.observer'' ''create observer assignment''
                (x\<lparr>as_wo_id := k, as_role := WORoleObserver\<rparr>) rows of
              Inl e \<Rightarrow> Inl e | Inr rows2 \<Rightarrow> Inr (s\<lparr>fd_assigns := rows2\<rparr>))))"

definition assigns_ListForWO :: "field_env \<Rightarrow> nat \<Rightarrow> uuid \<Rightarrow> field_db \<Rightarrow> assignment list res" where
  "assigns_ListForWO E n k s = fguard E (AssignList n)
    (Inr (order_by as_at (filter (\<lambda>a. as_wo_id a = k \<and> as_role a = WORoleLead) (fd_assigns s))
        @ order_by as_at (filter (\<lambda>a. as_wo_id a = k \<and> as_role a \<noteq> WORoleLead) (fd_assigns s))))"

section \<open>Checklists (checklist\_repo.go)\<close>

definition items_of :: "uuid \<Rightarrow> field_db \<Rightarrow> checklist_item list" where
  "items_of tpl s = order_by ci_order (filter (\<lambda>i. ci_template_id i = tpl) (fd_items s))"

text \<open>A row with the wanted subtype comes before one without a subtype.\<close>

definition pick_template :: "(checklist_template \<Rightarrow> bool) \<Rightarrow> wo_kind \<Rightarrow> string \<Rightarrow> field_db \<Rightarrow> checklist_template option" where
  "pick_template P kind subtype s =
    (let ts = filter (\<lambda>t. ct_tpl_kind t = kind \<and> P t \<and> ct_tpl_active t) (fd_templates s) in
     case find (\<lambda>t. ct_tpl_subtype t = Some subtype) ts of
       Some t \<Rightarrow> Some t
     | None \<Rightarrow> if subtype = [] then find (\<lambda>t. ct_tpl_subtype t = None) ts else None)"

definition FindTemplateFor ::
    "field_env \<Rightarrow> nat \<Rightarrow> wo_kind \<Rightarrow> string \<Rightarrow> string \<Rightarrow> field_db \<Rightarrow> (checklist_template \<times> checklist_item list) res" where
  "FindTemplateFor E n kind ptype subtype s = fguard E (TplFor n)
    (case pick_template (\<lambda>t. ct_tpl_product_type t = ptype) kind subtype s of
       None \<Rightarrow> Inl (NotFound ''checklist.template_not_found'' ''no checklist template for this WO type/product'')
     | Some t \<Rightarrow> Inr (t, items_of (ct_tpl_id t) s))"

definition FindTemplateForProduct ::
    "field_env \<Rightarrow> nat \<Rightarrow> wo_kind \<Rightarrow> uuid \<Rightarrow> string \<Rightarrow> field_db \<Rightarrow> (checklist_template \<times> checklist_item list) res" where
  "FindTemplateForProduct E n kind product subtype s = fguard E (TplProduct n)
    (case pick_template (\<lambda>t. ct_tpl_product_id t = Some product) kind subtype s of
       None \<Rightarrow> Inl (NotFound ''checklist.template_not_found_for_product'' ''no per-product checklist template'')
     | Some t \<Rightarrow> Inr (t, items_of (ct_tpl_id t) s))"

definition checklist_item_types :: "string list" where
  "checklist_item_types = [''photo'', ''text'', ''number'', ''checkbox'', ''qr_scan'', ''signature'', ''gps_location'']"

fun insert_items :: "(nat \<Rightarrow> uuid) \<Rightarrow> uuid \<Rightarrow> checklist_item list \<Rightarrow> checklist_item list \<Rightarrow> checklist_item list res" where
  "insert_items fresh tpl [] rows = Inr rows"
| "insert_items fresh tpl (i # is) rows =
    (if ci_item_type i \<notin> set checklist_item_types then
       Inl (check_err ''checklist.derive_item_insert'' ''create derived template item'')
     else if \<exists>q \<in> set rows. ci_item_id q = fresh 0 \<or> ci_template_id q = tpl \<and> ci_order q = ci_order i then
       Inl (duplicate_err ''checklist.derive_item_insert'' ''create derived template item'')
     else insert_items (\<lambda>n. fresh (Suc n)) tpl is (rows @ [i\<lparr>ci_item_id := fresh 0, ci_template_id := tpl\<rparr>]))"

definition CreateDerivedTemplate ::
    "field_env \<Rightarrow> wo_kind \<Rightarrow> uuid \<Rightarrow> checklist_item list \<Rightarrow> field_db \<Rightarrow> field_db res" where
  "CreateDerivedTemplate E kind product items s = fguard E TplDerive
    (if \<exists>t \<in> set (fd_templates s). ct_tpl_kind t = kind \<and> ct_tpl_product_id t = Some product then Inr (ftook 1 s)
     else if \<exists>t \<in> set (fd_templates s). ct_tpl_id t = fid E 0 s then
       Inl (duplicate_err ''checklist.derive_insert'' ''create derived template'')
     else (case insert_items (\<lambda>n. fid E (Suc n) s) (fid E 0 s) items (fd_items s) of
         Inl e \<Rightarrow> Inl e
       | Inr rows \<Rightarrow> Inr (ftook (Suc (length items)) (s\<lparr>fd_items := rows, fd_templates := fd_templates s @
           [\<lparr>ct_tpl_id = fid E 0 s, ct_tpl_kind = kind, ct_tpl_product_type = [], ct_tpl_product_id = Some product,
             ct_tpl_subtype = None, ct_min_photos = 3, ct_gps_stamp = True, ct_tpl_active = True\<rparr>]\<rparr>))))"

definition FindItem :: "field_env \<Rightarrow> uuid \<Rightarrow> field_db \<Rightarrow> checklist_item res" where
  "FindItem E k s = fguard E ItemFind
    (case tfind ci_item_id k (fd_items s) of
       None \<Rightarrow> Inl (NotFound ''checklist.item_not_found'' ''template item not found'') | Some i \<Rightarrow> Inr i)"

definition response_key :: "checklist_response \<Rightarrow> uuid \<times> uuid" where
  "response_key r = (cr_wo_id r, cr_item_id r)"

text \<open>An insert that overwrites the other columns of the row with the same key.\<close>

definition UpsertResponse ::
    "field_env \<Rightarrow> checklist_response \<Rightarrow> field_db \<Rightarrow> (checklist_response \<times> field_db) res" where
  "UpsertResponse E r s = fguard E RespUpsert
    (case find (\<lambda>q. response_key q = response_key r) (fd_responses s) of
       Some q \<Rightarrow> (let r2 = r\<lparr>cr_id := cr_id q\<rparr> in
         Inr (r2, s\<lparr>fd_responses := map (\<lambda>p. if response_key p = response_key r then r2 else p) (fd_responses s)\<rparr>))
     | None \<Rightarrow>
         if \<exists>q \<in> set (fd_responses s). cr_id q = cr_id r then
           Inl (duplicate_err ''checklist.response'' ''save response'')
         else if \<not> (\<exists>w \<in> set (fd_wos s). wo_id w = cr_wo_id r) \<or> \<not> (\<exists>i \<in> set (fd_items s). ci_item_id i = cr_item_id r) then
           Inl (Validation ''checklist.response.bad_fk'' (''save response '' @ dash @ '' referenced record not found''))
         else Inr (r, s\<lparr>fd_responses := fd_responses s @ [r]\<rparr>))"

definition ListResponses :: "field_env \<Rightarrow> nat \<Rightarrow> uuid \<Rightarrow> field_db \<Rightarrow> checklist_response list res" where
  "ListResponses E n k s = fguard E (RespList n) (Inr (filter (\<lambda>r. cr_wo_id r = k) (fd_responses s)))"

section \<open>Resolution items (resolution\_repo.go)\<close>

definition resolution_check :: "resolution_item \<Rightarrow> bool" where
  "resolution_check r \<longleftrightarrow>
     ri_category r \<in> {''config'', ''hardware'', ''cabling'', ''signal'', ''software'', ''other''}
   \<and> ri_status r \<in> {''resolved'', ''partial'', ''unable'', ''escalated_to_noc'', ''escalated_to_team_leader''}"

definition resolutions_Add :: "field_env \<Rightarrow> resolution_item \<Rightarrow> field_db \<Rightarrow> field_db res" where
  "resolutions_Add E r s = fguard E ResAdd
    (if \<not> resolution_check r then Inl (check_err ''resolution.add'' ''add resolution item'')
     else if \<not> (\<exists>w \<in> set (fd_wos s). wo_id w = ri_wo_id r) then
       Inl (Validation ''resolution.add.bad_fk'' (''add resolution item '' @ dash @ '' referenced record not found''))
     else (case tinsert ri_id r (fd_resolutions s) of
         None \<Rightarrow> Inl (duplicate_err ''resolution.add'' ''add resolution item'')
       | Some rows \<Rightarrow> Inr (s\<lparr>fd_resolutions := rows\<rparr>)))"

text \<open>\<open>ORDER BY item_order, logged_at\<close>: a stable sort by the second key, then by the first.\<close>

definition resolutions_ListForWO :: "field_env \<Rightarrow> nat \<Rightarrow> uuid \<Rightarrow> field_db \<Rightarrow> resolution_item list res" where
  "resolutions_ListForWO E n k s = fguard E (ResList n)
    (Inr (order_by ri_order (order_by ri_logged_at (filter (\<lambda>r. ri_wo_id r = k) (fd_resolutions s)))))"

section \<open>Hand-over records (bast\_repo.go)\<close>

definition bast_check :: "bast \<Rightarrow> bool" where
  "bast_check b \<longleftrightarrow> (case ba_mode b of SignOffOther _ \<Rightarrow> False | _ \<Rightarrow> True)
     \<and> (case ba_noc_status b of NOCStatusOther _ \<Rightarrow> False | _ \<Rightarrow> True)"

definition basts_Create :: "field_env \<Rightarrow> bast \<Rightarrow> field_db \<Rightarrow> field_db res" where
  "basts_Create E b s = fguard E BastCreate
    (if \<not> bast_check b then Inl (check_err ''bast.create'' ''create bast'')
     else if \<exists>q \<in> set (fd_basts s). ba_id q = ba_id b \<or>
         ba_wo_id q = ba_wo_id b \<and> ba_noc_status q \<noteq> NOCStatusRejected \<and> ba_noc_status b \<noteq> NOCStatusRejected then
       Inl (duplicate_err ''bast.create'' ''create bast'')
     else Inr (s\<lparr>fd_basts := fd_basts s @ [b]\<rparr>))"

definition basts_FindActiveForWO :: "field_env \<Rightarrow> nat \<Rightarrow> uuid \<Rightarrow> field_db \<Rightarrow> bast option res" where
  "basts_FindActiveForWO E n k s = fguard E (BastActive n)
    (Inr (find (\<lambda>b. ba_wo_id b = k \<and> ba_noc_status b \<noteq> NOCStatusRejected) (fd_basts s)))"

definition basts_FindByID :: "field_env \<Rightarrow> nat \<Rightarrow> uuid \<Rightarrow> field_db \<Rightarrow> bast option res" where
  "basts_FindByID E n k s = fguard E (BastFind n) (Inr (tfind ba_id k (fd_basts s)))"

definition basts_MarkVerified ::
    "field_env \<Rightarrow> uuid \<Rightarrow> noc_status \<Rightarrow> uuid \<Rightarrow> string \<Rightarrow> field_db \<Rightarrow> field_db res" where
  "basts_MarkVerified E k st by_user notes s = fguard E BastMark
    (case tupdate ba_id (\<lambda>b. b\<lparr>ba_noc_status := st, ba_verified_by := Some by_user,
            ba_verified_at := Some (fe_dbnow E), ba_noc_notes := notes\<rparr>) k (fd_basts s) of
       None \<Rightarrow> Inl (NotFound ''bast.not_found'' ''bast not found'')
     | Some rows \<Rightarrow> Inr (s\<lparr>fd_basts := rows\<rparr>))"

definition basts_VerifyOTP :: "field_env \<Rightarrow> uuid \<Rightarrow> field_db \<Rightarrow> field_db res" where
  "basts_VerifyOTP E k s = fguard E BastOtp
    (case tupdate ba_id (\<lambda>b. b\<lparr>ba_otp_verified_at := Some (fe_dbnow E)\<rparr>) k (fd_basts s) of
       None \<Rightarrow> Inl (NotFound ''bast.not_found'' ''bast not found'')
     | Some rows \<Rightarrow> Inr (s\<lparr>fd_basts := rows\<rparr>))"

section \<open>Reschedules and teams (reschedule\_repo.go, team\_repo.go)\<close>

definition reschedules_Create :: "field_env \<Rightarrow> reschedule \<Rightarrow> field_db \<Rightarrow> field_db res" where
  "reschedules_Create E r s = fguard E ReschedCreate
    (if (case rs_reason r of RescheduleInvalid _ \<Rightarrow> True | _ \<Rightarrow> False) then
       Inl (check_err ''wo.reschedule.create'' ''create reschedule'')
     else (case tinsert rs_id r (fd_reschedules s) of
         None \<Rightarrow> Inl (duplicate_err ''wo.reschedule.create'' ''create reschedule'')
       | Some rows \<Rightarrow> Inr (s\<lparr>fd_reschedules := rows\<rparr>)))"

definition sla_breached :: "time \<Rightarrow> work_order \<Rightarrow> bool" where
  "sla_breached now w \<longleftrightarrow> (case wo_sla_due w of None \<Rightarrow> False | Some t \<Rightarrow> t < now)
     \<and> wo_status w \<notin> {WOStatusCompleted, WOStatusCancelled}"

definition ListSLABreaches :: "field_env \<Rightarrow> int \<Rightarrow> int \<Rightarrow> field_db \<Rightarrow> (work_order list \<times> int) res" where
  "ListSLABreaches E limit offset s = fguard E SlaCount (fguard E SlaList
    (let n = (if limit \<le> 0 then 50 else limit); ws = filter (sla_breached (fe_dbnow E)) (fd_wos s)
     in Inr (page (nat n) (nat offset) (order_by (\<lambda>w. case wo_sla_due w of None \<Rightarrow> 0 | Some t \<Rightarrow> t) ws),
             int (length ws))))"

definition teams_Create :: "field_env \<Rightarrow> team \<Rightarrow> field_db \<Rightarrow> field_db res" where
  "teams_Create E t s = fguard E TeamCreate
    (if \<exists>q \<in> set (fd_teams s). tm_id q = tm_id t \<or> tm_code q = tm_code t then
       Inl (duplicate_err ''team.create'' ''create team'')
     else Inr (s\<lparr>fd_teams := fd_teams s @ [t]\<rparr>))"

definition teams_FindByID :: "field_env \<Rightarrow> nat \<Rightarrow> uuid \<Rightarrow> field_db \<Rightarrow> team res" where
  "teams_FindByID E n k s = fguard E (TeamFind n)
    (case tfind tm_id k (fd_teams s) of
       None \<Rightarrow> Inl (NotFound ''team.not_found'' ''team not found'') | Some t \<Rightarrow> Inr t)"

definition teams_AddMember :: "field_env \<Rightarrow> team_member \<Rightarrow> field_db \<Rightarrow> field_db res" where
  "teams_AddMember E m s = fguard E MemberAdd
    (if \<not> grade_check (mb_grade m) then Inl (check_err ''team_member.add'' ''add team member'')
     else if \<exists>q \<in> set (fd_members s). mb_id q = mb_id m \<or> mb_team_id q = mb_team_id m \<and> mb_user_id q = mb_user_id m then
       Inl (duplicate_err ''team_member.add'' ''add team member'')
     else Inr (s\<lparr>fd_members := fd_members s @ [m]\<rparr>))"

definition teams_ListMembers :: "field_env \<Rightarrow> uuid \<Rightarrow> field_db \<Rightarrow> team_member list res" where
  "teams_ListMembers E k s = fguard E MemberList (Inr (filter (\<lambda>m. mb_team_id m = k) (fd_members s)))"

section \<open>The CRM and RADIUS gateways (adapter/crm, adapter/network)\<close>

text \<open>The part of the projection the activation reads is the customer of the order.\<close>

definition ActivationProjectionForOrder :: "field_env \<Rightarrow> nat \<Rightarrow> uuid \<Rightarrow> field_db \<Rightarrow> uuid res" where
  "ActivationProjectionForOrder E n oid s = fguard E (ActProjection n)
    (case find (\<lambda>x. co_id x = oid \<and> (\<exists>c \<in> set (bd_customers (fd_bill s)). cc_id c = co_customer_id x)) (bd_orders (fd_bill s)) of
       None \<Rightarrow> Inl (NotFound ''crm.order_not_found'' ''order not found'')
     | Some x \<Rightarrow> Inr (co_customer_id x))"

definition SetCustomerActive :: "field_env \<Rightarrow> uuid \<Rightarrow> field_db \<Rightarrow> field_db res" where
  "SetCustomerActive E k s = fguard E CrmSetActive
    (if \<exists>c \<in> set (bd_customers (fd_bill s)). cc_id c = k \<and> cc_status c \<noteq> ''terminated'' then
       Inr (s\<lparr>fd_bill := (fd_bill s)\<lparr>bd_customers := map (\<lambda>c. if cc_id c = k \<and> cc_status c \<noteq> ''terminated''
         then c\<lparr>cc_status := ''active''\<rparr> else c) (bd_customers (fd_bill s))\<rparr>\<rparr>)
     else Inl (NotFound ''customer.not_active_eligible'' ''customer is missing or already terminated''))"

definition ProvisionAtWO :: "field_env \<Rightarrow> nat \<Rightarrow> uuid \<Rightarrow> int \<Rightarrow> field_db \<Rightarrow> field_db res" where
  "ProvisionAtWO E n k hours s = fguard E (ActProvision n)
    (Inr (s\<lparr>fd_network := fd_network s @ [Provisioned k hours]\<rparr>))"

text \<open>Provision, then promote; what was provisioned stays when the promotion fails.\<close>

definition ProvisionAndActivate :: "field_env \<Rightarrow> uuid \<Rightarrow> field_db \<Rightarrow> derr option \<times> field_db" where
  "ProvisionAndActivate E k s =
    (case ProvisionAtWO E 1 k 0 s of
       Inl e \<Rightarrow> (Some e, s)
     | Inr s1 \<Rightarrow> (case fguard E ActPromote (Inr (s1\<lparr>fd_network := fd_network s1 @ [Promoted k]\<rparr>)) of
         Inl e \<Rightarrow> (Some e, s1)
       | Inr s2 \<Rightarrow> (None, s2)))"

end
