(* ===== verification/FieldSvc.thy ===== *)
theory FieldSvc
  imports FieldRepo
begin

text \<open>
  The use cases of the field service (\<^verbatim>\<open>usecase/service.go\<close>, \<^verbatim>\<open>r2.go\<close>), fully wired as in
  \<^verbatim>\<open>cmd/field-svc/main.go\<close>. Each operation returns its result and the state it leaves; an
  error does not undo what was written before it, since there is no transaction around a call.
\<close>

section \<open>Reading a work order\<close>

record wo_detail =
  dt_wo :: work_order
  dt_assigns :: "assignment list"
  dt_template :: "checklist_template option"
  dt_items :: "checklist_item list"
  dt_responses :: "checklist_response list"
  dt_resolutions :: "resolution_item list"
  dt_bast :: "bast option"

text \<open>The template of the product if there is one, else that of the product type; errors count as none.\<close>

definition effective_template ::
    "field_env \<Rightarrow> nat \<Rightarrow> work_order \<Rightarrow> field_db \<Rightarrow> (checklist_template \<times> checklist_item list) option" where
  "effective_template E n w s =
    (let legacy = (case FindTemplateFor E n (wo_kind w) (wo_product_type w) (wo_subtype w) s of
           Inl _ \<Rightarrow> None | Inr ti \<Rightarrow> Some ti)
     in case wo_product_id w of
          None \<Rightarrow> legacy
        | Some p \<Rightarrow> (case FindTemplateForProduct E n (wo_kind w) p (wo_subtype w) s of
            Inl _ \<Rightarrow> legacy | Inr ti \<Rightarrow> Some ti))"

definition GetWO :: "field_env \<Rightarrow> uuid \<Rightarrow> field_db \<Rightarrow> wo_detail res" where
  "GetWO E k s =
    (case wos_FindByID E 9 k s of Inl e \<Rightarrow> Inl e | Inr w \<Rightarrow>
    (case assigns_ListForWO E 9 k s of Inl e \<Rightarrow> Inl e | Inr asg \<Rightarrow>
    (case ListResponses E 9 k s of Inl e \<Rightarrow> Inl e | Inr rsp \<Rightarrow>
    (case resolutions_ListForWO E 9 k s of Inl e \<Rightarrow> Inl e | Inr ress \<Rightarrow>
    (case basts_FindActiveForWO E 9 k s of Inl e \<Rightarrow> Inl e | Inr b \<Rightarrow>
      Inr \<lparr>dt_wo = w, dt_assigns = asg, dt_template = map_option fst (effective_template E 9 w s),
        dt_items = (case effective_template E 9 w s of None \<Rightarrow> [] | Some ti \<Rightarrow> snd ti),
        dt_responses = rsp, dt_resolutions = ress, dt_bast = b\<rparr>)))))"

section \<open>Creating work orders\<close>

record create_termination_wo_input =
  tw_customer_id :: uuid
  tw_order_id :: "uuid option"
  tw_address :: string
  tw_branch_id :: "uuid option"
  tw_notes :: string
  tw_created_by :: uuid
  tw_customer_type :: string

definition opt_uuid :: "uuid \<Rightarrow> uuid option" where
  "opt_uuid u = (if u = Nil_uuid then None else Some u)"

definition field_CreateTerminationWO ::
    "field_env \<Rightarrow> create_termination_wo_input \<Rightarrow> field_db \<Rightarrow> wo_detail res \<times> field_db" where
  "field_CreateTerminationWO E x s =
    (case NewTerminationWO (fid E 0 s) (fid E 1 s) (fe_now E) (tw_order_id x) (tw_customer_id x) (tw_address x)
            (NormalizeCategory (fe_lower E) (tw_customer_type x)) of
       Inl e \<Rightarrow> (Inl e, s)
     | Inr w0 \<Rightarrow>
         let w = w0\<lparr>wo_branch_id := tw_branch_id x, wo_created_by := opt_uuid (tw_created_by x),
               wo_notes := tw_notes x, wo_status := WOStatusUnassigned\<rparr>; s1 = ftook 2 s
         in (case wos_Create E w s1 of Inl e \<Rightarrow> (Inl e, s1) | Inr s2 \<Rightarrow> (GetWO E (wo_id w) s2, s2)))"

record create_wo_input =
  cw_order_id :: uuid
  cw_scheduled :: "time option"
  cw_priority :: "wo_priority option"
  cw_notes :: string
  cw_created_by :: uuid

definition resolveInstallSLAMinutes :: "field_env \<Rightarrow> uuid option \<Rightarrow> int" where
  "resolveInstallSLAMinutes E branch =
    (case branch of None \<Rightarrow> 24 * 60
     | Some b \<Rightarrow> (case fe_sla E b of Inl _ \<Rightarrow> 24 * 60 | Inr m \<Rightarrow> if m \<le> 0 then 24 * 60 else m))"

text \<open>A product of durations wraps at 64 bits.\<close>

definition wrap64 :: "int \<Rightarrow> int" where
  "wrap64 n = sint (word_of_int n :: 64 word)"

definition order_wo :: "field_env \<Rightarrow> create_wo_input \<Rightarrow> order_projection \<Rightarrow> work_order \<Rightarrow> work_order" where
  "order_wo E x proj w0 =
    (let w1 = w0\<lparr>wo_branch_id := op_branch_id proj, wo_product_id := op_product_id proj,
           wo_schema_id := op_schema_id proj,
           wo_priority := (case cw_priority x of None \<Rightarrow> wo_priority w0 | Some p \<Rightarrow> p),
           wo_notes := cw_notes x, wo_created_by := opt_uuid (cw_created_by x)\<rparr>;
         w2 = (case cw_scheduled x of None \<Rightarrow> w1
           | Some t \<Rightarrow> w1\<lparr>wo_scheduled := Some t,
               wo_sla_due := Some (t + wrap64 (resolveInstallSLAMinutes E (op_branch_id proj) * MINUTE))\<rparr>);
         w3 = w2\<lparr>wo_status := WOStatusUnassigned\<rparr>
     in case op_branch_id proj of None \<Rightarrow> w3
        | Some b \<Rightarrow> (case fe_leader E b of None \<Rightarrow> w3 | Some l \<Rightarrow> w3\<lparr>wo_team_leader_id := Some l\<rparr>))"

text \<open>The two best-effort steps after the row is stored.\<close>

definition materialize_checklist :: "field_env \<Rightarrow> work_order \<Rightarrow> field_db \<Rightarrow> field_db" where
  "materialize_checklist E w s =
    (case wo_product_id w of None \<Rightarrow> s
     | Some p \<Rightarrow> (case fe_checklist E (wo_customer_id w) of
         Inl _ \<Rightarrow> s
       | Inr (items, _) \<Rightarrow> if items = [] then s
           else after s (CreateDerivedTemplate E (wo_kind w) p items s)))"

definition provision_temporary :: "field_env \<Rightarrow> uuid \<Rightarrow> int \<Rightarrow> field_db \<Rightarrow> field_db" where
  "provision_temporary E oid hours s =
    (case ActivationProjectionForOrder E 0 oid s of
       Inl _ \<Rightarrow> s
     | Inr k \<Rightarrow> after s (ProvisionAtWO E 0 k (if hours \<le> 0 then 72 else hours) s))"

definition CreateWOFromOrder :: "field_env \<Rightarrow> create_wo_input \<Rightarrow> field_db \<Rightarrow> wo_detail res \<times> field_db" where
  "CreateWOFromOrder E x s =
    (case fe_order E (cw_order_id x) of
       Inl e \<Rightarrow> (Inl e, s)
     | Inr proj \<Rightarrow>
    (case NewInstallationWO (fid E 0 s) (fid E 1 s) (fe_now E) (Some (op_order_id proj)) (op_customer_id proj)
            (op_address proj) (NormalizeCategory (fe_lower E) (op_customer_type proj)) of
       Inl e \<Rightarrow> (Inl e, s)
     | Inr w0 \<Rightarrow>
         let w = order_wo E x proj w0; s1 = ftook 2 s
         in (case wos_Create E w s1 of
               Inl e \<Rightarrow> (Inl e, s1)
             | Inr s2 \<Rightarrow>
                 let s3 = materialize_checklist E w s2;
                     s4 = provision_temporary E (cw_order_id x) (op_window_hours proj) s3
                 in (GetWO E (wo_id w) s4, s4))))"

section \<open>Dispatch\<close>

definition RouteToTeam :: "field_env \<Rightarrow> uuid \<Rightarrow> uuid \<Rightarrow> field_db \<Rightarrow> wo_detail res \<times> field_db" where
  "RouteToTeam E k team_id s =
    (case wos_FindByID E 0 k s of Inl e \<Rightarrow> (Inl e, s) | Inr w \<Rightarrow>
    (case teams_FindByID E 0 team_id s of Inl e \<Rightarrow> (Inl e, s) | Inr t \<Rightarrow>
      (case wos_Update E (w\<lparr>wo_team_id := Some (tm_id t), wo_team_leader_id := tm_leader_id t,
             wo_cross_area := (case wo_branch_id w of None \<Rightarrow> wo_cross_area w
               | Some b \<Rightarrow> if b \<noteq> tm_branch_id t then True else wo_cross_area w)\<rparr>) s of
         Inl e \<Rightarrow> (Inl e, s)
       | Inr s1 \<Rightarrow> (GetWO E k s1, s1))))"

record assign_input =
  ai_wo_id :: uuid
  ai_lead_id :: uuid
  ai_lead_grade :: "tech_grade option"
  ai_observer_id :: "uuid option"
  ai_observer_grade :: "tech_grade option"
  ai_by :: uuid

definition assigned_text :: "assign_input \<Rightarrow> string" where
  "assigned_text x = ''lead='' @ uuid_text (ai_lead_id x)
     @ (case ai_observer_id x of None \<Rightarrow> [] | Some u \<Rightarrow> '' observer='' @ uuid_text u)"

definition announce_assignment :: "field_env \<Rightarrow> assign_input \<Rightarrow> field_db \<Rightarrow> field_db" where
  "announce_assignment E x s =
    (let s1 = after s (fguard E AuditWrite (Inr (s\<lparr>fd_audit := fd_audit s @ [(ai_wo_id x, assigned_text x)]\<rparr>)))
     in s1\<lparr>fd_pushed := fd_pushed s1 @ (ai_lead_id x, WORoleLead)
          # (case ai_observer_id x of None \<Rightarrow> [] | Some u \<Rightarrow> [(u, WORoleObserver)])\<rparr>)"

definition lead_row :: "field_env \<Rightarrow> assign_input \<Rightarrow> field_db \<Rightarrow> assignment" where
  "lead_row E x s = \<lparr>as_id = fid E 0 s, as_wo_id = ai_wo_id x, as_technician_id = ai_lead_id x,
     as_grade = (case ai_lead_grade x of None \<Rightarrow> GradeSenior | Some g \<Rightarrow> g), as_role = WORoleLead,
     as_by = Some (ai_by x), as_at = fe_now E\<rparr>"

definition observer_row :: "field_env \<Rightarrow> assign_input \<Rightarrow> field_db \<Rightarrow> assignment option" where
  "observer_row E x s = map_option (\<lambda>u. \<lparr>as_id = fid E 1 s, as_wo_id = ai_wo_id x, as_technician_id = u,
     as_grade = (case ai_observer_grade x of None \<Rightarrow> GradeJunior | Some g \<Rightarrow> g), as_role = WORoleObserver,
     as_by = Some (ai_by x), as_at = fe_now E\<rparr>) (ai_observer_id x)"

definition AssignTechnicians :: "field_env \<Rightarrow> assign_input \<Rightarrow> field_db \<Rightarrow> wo_detail res \<times> field_db" where
  "AssignTechnicians E x s =
    (case wos_FindByID E 0 (ai_wo_id x) s of Inl e \<Rightarrow> (Inl e, s) | Inr w \<Rightarrow>
     if ai_lead_id x = Nil_uuid then
       (Inl (Validation ''assign.lead_required'' ''lead technician is required''), s)
     else if ai_observer_id x = Some (ai_lead_id x) then
       (Inl (Validation ''assign.duplicate'' ''lead and observer must differ''), s)
     else let s1 = ftook (if ai_observer_id x = None then 1 else 2) s in
     (case assigns_UpsertPair E (ai_wo_id x) (lead_row E x s) (observer_row E x s) s1 of
        Inl e \<Rightarrow> (Inl e, s1)
      | Inr s2 \<Rightarrow>
     (case (if wo_status w = WOStatusUnassigned \<or> wo_status w = WOStatusRescheduled
            then wos_UpdateStatus E 0 (ai_wo_id x) WOStatusAssigned s2 else Inr s2) of
        Inl e \<Rightarrow> (Inl e, s2)
      | Inr s3 \<Rightarrow> (let s4 = announce_assignment E x s3 in (GetWO E (ai_wo_id x) s4, s4)))))"

definition UpdateStatus :: "field_env \<Rightarrow> uuid \<Rightarrow> wo_status \<Rightarrow> field_db \<Rightarrow> wo_detail res \<times> field_db" where
  "UpdateStatus E k st s =
    (case wos_FindByID E 0 k s of Inl e \<Rightarrow> (Inl e, s) | Inr w \<Rightarrow>
    (case AssertCanTransition st w of Inl e \<Rightarrow> (Inl e, s) | Inr _ \<Rightarrow>
    (case wos_UpdateStatus E 0 k st s of Inl e \<Rightarrow> (Inl e, s) | Inr s1 \<Rightarrow> (GetWO E k s1, s1))))"

record reschedule_input =
  ri_in_wo_id :: uuid
  ri_in_reason :: reschedule_reason
  ri_in_notes :: string
  ri_in_new_date :: time
  ri_in_by :: uuid

definition RescheduleWO :: "field_env \<Rightarrow> reschedule_input \<Rightarrow> field_db \<Rightarrow> wo_detail res \<times> field_db" where
  "RescheduleWO E x s =
    (case wos_FindByID E 0 (ri_in_wo_id x) s of Inl e \<Rightarrow> (Inl e, s) | Inr w \<Rightarrow>
    (case AssertCanReschedule w of Inl e \<Rightarrow> (Inl e, s) | Inr _ \<Rightarrow>
    (case wos_Update E (w\<lparr>wo_scheduled := Some (ri_in_new_date x), wo_status := WOStatusRescheduled\<rparr>) s of
       Inl e \<Rightarrow> (Inl e, s)
     | Inr s1 \<Rightarrow>
         let r = \<lparr>rs_id = fid E 0 s1, rs_wo_id = ri_in_wo_id x, rs_reason = ri_in_reason x,
               rs_notes = ri_in_notes x, rs_original_date = wo_scheduled w,
               rs_new_date = Some (ri_in_new_date x), rs_by = Some (ri_in_by x), rs_created_at = fe_now E\<rparr>;
             s2 = ftook 1 s1
         in (case reschedules_Create E r s2 of Inl e \<Rightarrow> (Inl e, s2) | Inr s3 \<Rightarrow> (GetWO E (ri_in_wo_id x) s3, s3)))))"

end
