(* ===== verification/FieldBast.thy ===== *)
theory FieldBast
  imports FieldSvc
begin

text \<open>
  Work on site and the hand-over (\<^verbatim>\<open>usecase/service.go\<close>, \<^verbatim>\<open>r2.go\<close>): checklist responses with the
  GPS gate, the resolution log, submitting the hand-over record, the one-time code of a remote
  sign-off, and the decision of the network operations centre with its payment gate and its
  hooks into CRM, RADIUS and billing.
\<close>

section \<open>Checklist responses and resolution items\<close>

record response_input =
  rn_wo_id :: uuid
  rn_item_id :: uuid
  rn_text :: string
  rn_file_url :: string
  rn_gps_lat :: "f64 option"
  rn_gps_lng :: "f64 option"
  rn_gps_accuracy :: "f64 option"
  rn_by :: uuid

text \<open>The position to store, or the refusal; an unknown item is not gated.\<close>

definition gps_gate :: "field_env \<Rightarrow> response_input \<Rightarrow> field_db \<Rightarrow> (f64 option \<times> f64 option) res" where
  "gps_gate E x s =
    (case FindItem E (rn_item_id x) s of
       Inl _ \<Rightarrow> Inr (rn_gps_lat x, rn_gps_lng x)
     | Inr i \<Rightarrow>
         if \<not> ci_gps_required i then Inr (rn_gps_lat x, rn_gps_lng x)
         else if rn_file_url x \<noteq> [] then
           (case fe_gps E (rn_file_url x) of
              Inl _ \<Rightarrow> Inl (Validation ''checklist.upload_unknown''
                (''file_url is not a known upload '' @ dash @ '' re-upload the photo''))
            | Inr (lat, lng) \<Rightarrow>
                if lat = None \<or> lng = None then
                  Inl (Validation ''checklist.gps_missing'' (''this item requires GPS; the uploaded photo has no GPS metadata. ''
                    @ ''Enable location on the camera or attach client GPS at upload time.''))
                else Inr (lat, lng))
         else if rn_gps_lat x = None \<or> rn_gps_lng x = None then
           Inl (Validation ''checklist.gps_required'' ''this item requires gps_lat + gps_lng on the response'')
         else Inr (rn_gps_lat x, rn_gps_lng x))"

definition SubmitChecklistResponse ::
    "field_env \<Rightarrow> response_input \<Rightarrow> field_db \<Rightarrow> checklist_response res \<times> field_db" where
  "SubmitChecklistResponse E x s =
    (if rn_wo_id x = Nil_uuid \<or> rn_item_id x = Nil_uuid then
       (Inl (Validation ''checklist.ids_required'' ''wo_id and template_item_id are required''), s)
     else (case gps_gate E x s of
         Inl e \<Rightarrow> (Inl e, s)
       | Inr (lat, lng) \<Rightarrow>
           let r = \<lparr>cr_id = fid E 0 s, cr_wo_id = rn_wo_id x, cr_item_id = rn_item_id x, cr_text = rn_text x,
                 cr_file_url = rn_file_url x, cr_gps_lat = lat, cr_gps_lng = lng, cr_gps_accuracy = rn_gps_accuracy x,
                 cr_by = Some (rn_by x), cr_at = fe_now E\<rparr>; s1 = ftook 1 s
           in (case UpsertResponse E r s1 of Inl e \<Rightarrow> (Inl e, s1) | Inr (q, s2) \<Rightarrow> (Inr q, s2))))"

record resolution_input =
  rl_in_wo_id :: uuid
  rl_in_label :: string
  rl_in_category :: string
  rl_in_finding :: string
  rl_in_action :: string
  rl_in_status :: string
  rl_in_minutes :: "int option"
  rl_in_by :: uuid

definition next_order :: "resolution_item list \<Rightarrow> int" where
  "next_order rs = foldl (\<lambda>n r. if n \<le> ri_order r then ri_order r + 1 else n) 1 rs"

definition AddResolutionItem ::
    "field_env \<Rightarrow> resolution_input \<Rightarrow> field_db \<Rightarrow> resolution_item res \<times> field_db" where
  "AddResolutionItem E x s =
    (case resolutions_ListForWO E 0 (rl_in_wo_id x) s of
       Inl e \<Rightarrow> (Inl e, s)
     | Inr existing \<Rightarrow>
         let r = \<lparr>ri_id = fid E 0 s, ri_wo_id = rl_in_wo_id x, ri_order = next_order existing,
               ri_label = rl_in_label x, ri_category = rl_in_category x, ri_finding = rl_in_finding x,
               ri_action = rl_in_action x, ri_status = rl_in_status x, ri_minutes = rl_in_minutes x,
               ri_by = Some (rl_in_by x), ri_logged_at = fe_now E\<rparr>; s1 = ftook 1 s
         in (case resolutions_Add E r s1 of Inl e \<Rightarrow> (Inl e, s1) | Inr s2 \<Rightarrow> (Inr r, s2)))"

section \<open>Submitting the hand-over\<close>

record submit_bast_input =
  sb_wo_id :: uuid
  sb_mode :: sign_off_mode
  sb_sig_url :: string
  sb_otp_used :: bool
  sb_gps_lat :: "f64 option"
  sb_gps_lng :: "f64 option"
  sb_compiled :: string
  sb_by :: uuid

definition missing_item :: "checklist_item list \<Rightarrow> checklist_response list \<Rightarrow> checklist_item option" where
  "missing_item items responses =
     find (\<lambda>i. ci_required i \<and> ci_item_id i \<notin> cr_item_id ` set responses) items"

definition checklist_gate :: "field_env \<Rightarrow> work_order \<Rightarrow> field_db \<Rightarrow> unit res" where
  "checklist_gate E w s =
    (case effective_template E 0 w s of
       None \<Rightarrow> Inr ()
     | Some (tpl, items) \<Rightarrow>
         (case ListResponses E 0 (wo_id w) s of
            Inl e \<Rightarrow> Inl e
          | Inr responses \<Rightarrow>
              (case missing_item items responses of
                 None \<Rightarrow> Inr ()
               | Some i \<Rightarrow> Inl (Validation ''bast.checklist_incomplete''
                   (''required checklist item not submitted: '' @ ci_label i)))))"

definition compiled_data :: "field_env \<Rightarrow> work_order \<Rightarrow> submit_bast_input \<Rightarrow> field_db \<Rightarrow> string" where
  "compiled_data E w x s =
    (if sb_compiled x \<noteq> [] then sb_compiled x
     else (case fe_snapshot E w (sb_mode x)
             (case ListResponses E 1 (wo_id w) s of Inl _ \<Rightarrow> [] | Inr rs \<Rightarrow> rs)
             (case resolutions_ListForWO E 1 (wo_id w) s of Inl _ \<Rightarrow> [] | Inr rs \<Rightarrow> rs) of
         None \<Rightarrow> [] | Some t \<Rightarrow> t))"

definition padLeft6 :: "int \<Rightarrow> string" where
  "padLeft6 n = pad_digits 6 n"

definition generate6DigitOTP :: "field_env \<Rightarrow> (string \<times> string) res" where
  "generate6DigitOTP E =
    (let plain = padLeft6 (fe_random E) in fguard E OtpGen (Inr (plain, fe_hash E plain)))"

text \<open>The code and its hash of a remote sign-off; the texts are empty on site.\<close>

definition sign_off_code :: "field_env \<Rightarrow> sign_off_mode \<Rightarrow> bast \<Rightarrow> (bast \<times> string) res" where
  "sign_off_code E mode b =
    (if mode \<noteq> SignOffRemote then Inr (b, [])
     else (case generate6DigitOTP E of
         Inl e \<Rightarrow> Inl (Wrap KindInternal ''bast.otp_gen'' ''failed to generate otp'' (error_text e))
       | Inr (plain, hashed) \<Rightarrow> Inr (b\<lparr>ba_otp_used := True, ba_otp_code := hashed\<rparr>, plain)))"

definition SubmitBAST :: "field_env \<Rightarrow> submit_bast_input \<Rightarrow> field_db \<Rightarrow> (bast \<times> string) res \<times> field_db" where
  "SubmitBAST E x s =
    (case wos_FindByID E 0 (sb_wo_id x) s of Inl e \<Rightarrow> (Inl e, s) | Inr w \<Rightarrow>
     if wo_status w \<noteq> WOStatusInProgress then
       (Inl (Conflict ''bast.wo_not_in_progress'' ''WO must be in_progress to submit BAST''), s)
     else (case basts_FindActiveForWO E 0 (sb_wo_id x) s of
       Inr (Some b) \<Rightarrow> (Inl (Conflict ''bast.already_submitted''
         (''a BAST is already submitted for this WO (status: '' @ noc_status_text (ba_noc_status b) @ '')'')), s)
     | _ \<Rightarrow>
    (case checklist_gate E w s of Inl e \<Rightarrow> (Inl e, s) | Inr _ \<Rightarrow>
    (case NewBAST (fid E 0 s) (fe_now E) (sb_wo_id x) (wo_customer_id w) (sb_mode x) (compiled_data E w x s) of
       Inl e \<Rightarrow> (Inl e, s)
     | Inr b0 \<Rightarrow>
         let b1 = b0\<lparr>ba_sig_url := sb_sig_url x, ba_otp_used := sb_otp_used x, ba_gps_lat := sb_gps_lat x,
               ba_gps_lng := sb_gps_lng x, ba_submitted_by := Some (sb_by x)\<rparr>; s1 = ftook 1 s
         in (case sign_off_code E (sb_mode x) b1 of Inl e \<Rightarrow> (Inl e, s1) | Inr (b, plain) \<Rightarrow>
            (case basts_Create E b s1 of Inl e \<Rightarrow> (Inl e, s1) | Inr s2 \<Rightarrow>
            (case wos_UpdateStatus E 0 (sb_wo_id x) WOStatusPendingNOCVerification s2 of
               Inl e \<Rightarrow> (Inl e, s2)
             | Inr s3 \<Rightarrow> (Inr (b, plain), s3))))))))"

definition VerifyBASTOTP :: "field_env \<Rightarrow> uuid \<Rightarrow> string \<Rightarrow> field_db \<Rightarrow> bast option res \<times> field_db" where
  "VerifyBASTOTP E k code s =
    (case basts_FindByID E 0 k s of
       Inl e \<Rightarrow> (Inl e, s)
     | Inr None \<Rightarrow> (Inl (NotFound ''bast.not_found'' ''bast not found''), s)
     | Inr (Some b) \<Rightarrow>
         if ba_mode b \<noteq> SignOffRemote then
           (Inl (Conflict ''bast.otp_unused'' ''OTP verification only applies to remote sign-off''), s)
         else if ba_otp_verified_at b \<noteq> None then
           (Inl (Conflict ''bast.otp_already_verified'' ''OTP already verified for this BAST''), s)
         else if ba_otp_code b = [] then
           (Inl (Conflict ''bast.otp_missing'' ''no OTP recorded on this BAST (generated only at submit time)''), s)
         else if \<not> fe_compare E (ba_otp_code b) code then
           (Inl (Validation ''bast.otp_mismatch'' ''OTP code is incorrect''), s)
         else (case basts_VerifyOTP E k s of Inl e \<Rightarrow> (Inl e, s) | Inr s1 \<Rightarrow> (basts_FindByID E 1 k s1, s1)))"

section \<open>The decision of the NOC\<close>

record verify_bast_input =
  vb_bast_id :: uuid
  vb_decision :: noc_status
  vb_notes :: string
  vb_by :: uuid

text \<open>Payment gates approval: the order's installation invoice must be paid, if there is one.\<close>

definition payment_gate :: "field_env \<Rightarrow> bast \<Rightarrow> field_db \<Rightarrow> unit res" where
  "payment_gate E b s =
    (case wos_FindByID E 0 (ba_wo_id b) s of
       Inl e \<Rightarrow> Inl e
     | Inr w \<Rightarrow> (case wo_order_id w of
         None \<Rightarrow> Inr ()
       | Some oid \<Rightarrow> (case IsOrderOTCPaid (fe_bill E) oid (fd_bill s) of
           Inl e \<Rightarrow> Inl e
         | Inr paid \<Rightarrow> if paid then Inr () else Inl (Conflict ''bast.payment_gate''
             ''OTC invoice for this order is not yet paid; NOC approval blocked''))))"

definition onInstallApproved :: "field_env \<Rightarrow> work_order \<Rightarrow> field_db \<Rightarrow> derr option \<times> field_db" where
  "onInstallApproved E w s =
    (case wo_order_id w of
       None \<Rightarrow> (None, s)
     | Some oid \<Rightarrow> (case ActivationProjectionForOrder E 1 oid s of
         Inl e \<Rightarrow> (Some e, s)
       | Inr k \<Rightarrow> (case ProvisionAndActivate E k s of
           (Some e, s1) \<Rightarrow> (Some e, s1)
         | (None, s1) \<Rightarrow> (case SetCustomerActive E (wo_customer_id w) s1 of
             Inl e \<Rightarrow> (Some e, s1) | Inr s2 \<Rightarrow> (None, s2)))))"

text \<open>The hooks of an approval, by the type of the work order.\<close>

definition approval_hooks :: "field_env \<Rightarrow> uuid \<Rightarrow> field_db \<Rightarrow> derr option \<times> field_db" where
  "approval_hooks E wo s =
    (case wos_FindByID E 1 wo s of
       Inl _ \<Rightarrow> (None, s)
     | Inr w \<Rightarrow> (case wo_kind w of
         WOTypeNewInstallation \<Rightarrow> (case onInstallApproved E w s of
             (Some e, s1) \<Rightarrow> (Some (Wrap KindInternal ''bast.activation_hook'' ''install activation hook failed'' (error_text e)), s1)
           | (None, s1) \<Rightarrow> (None, s1))
       | WOTypeTermination \<Rightarrow> (case CompleteTerminationByWO (fe_bill E) wo (fd_bill s) of
             (Some e, b) \<Rightarrow> (Some (Wrap KindInternal ''bast.termination_hook'' ''termination complete hook failed'' (error_text e)),
                s\<lparr>fd_bill := b\<rparr>)
           | (None, b) \<Rightarrow> (None, s\<lparr>fd_bill := b\<rparr>))
       | WOTypeMaintenance \<Rightarrow> (None, s)))"

definition VerifyBAST :: "field_env \<Rightarrow> verify_bast_input \<Rightarrow> field_db \<Rightarrow> bast option res \<times> field_db" where
  "VerifyBAST E x s =
    (case basts_FindByID E 0 (vb_bast_id x) s of
       Inl e \<Rightarrow> (Inl e, s)
     | Inr None \<Rightarrow> (Inl (NotFound ''bast.not_found'' ''bast not found''), s)
     | Inr (Some b) \<Rightarrow>
    (case CanVerify b of Inl e \<Rightarrow> (Inl e, s) | Inr _ \<Rightarrow>
     if vb_decision x \<noteq> NOCStatusApproved \<and> vb_decision x \<noteq> NOCStatusRejected then
       (Inl (Validation ''bast.decision_invalid'' ''decision must be approved or rejected''), s)
     else (case (if vb_decision x = NOCStatusApproved then payment_gate E b s else Inr ()) of
       Inl e \<Rightarrow> (Inl e, s)
     | Inr _ \<Rightarrow>
    (case basts_MarkVerified E (ba_id b) (vb_decision x) (vb_by x) (vb_notes x) s of Inl e \<Rightarrow> (Inl e, s) | Inr s1 \<Rightarrow>
    (case wos_UpdateStatus E 0 (ba_wo_id b)
            (if vb_decision x = NOCStatusRejected then WOStatusInProgress else WOStatusCompleted) s1 of
       Inl e \<Rightarrow> (Inl e, s1)
     | Inr s2 \<Rightarrow>
         (case (if vb_decision x = NOCStatusApproved then approval_hooks E (ba_wo_id b) s2 else (None, s2)) of
            (Some e, s3) \<Rightarrow> (Inl e, s3)
          | (None, s3) \<Rightarrow> (basts_FindByID E 1 (ba_id b) s3, s3)))))))"

definition Forbidden :: "string \<Rightarrow> string \<Rightarrow> derr" where
  "Forbidden code msg = New KindForbidden code msg"

definition GetONTConfig :: "field_env \<Rightarrow> uuid \<Rightarrow> uuid \<Rightarrow> field_db \<Rightarrow> string res" where
  "GetONTConfig E k caller s =
    (case wos_FindByID E 0 k s of Inl e \<Rightarrow> Inl e | Inr w \<Rightarrow>
     if wo_status w \<noteq> WOStatusInProgress then
       Inl (Forbidden ''wo.ont_inactive'' ''ONT config is only available while the WO is in progress'')
     else if caller = Nil_uuid then fe_radius E (wo_customer_id w)
     else (case assigns_ListForWO E 0 k s of
         Inl e \<Rightarrow> Inl e
       | Inr asg \<Rightarrow> if caller \<in> as_technician_id ` set asg then fe_radius E (wo_customer_id w)
           else Inl (Forbidden ''wo.ont_not_assigned'' ''only the assigned technicians may view ONT credentials'')))"

section \<open>Teams\<close>

definition CreateTeam ::
    "field_env \<Rightarrow> string \<Rightarrow> string \<Rightarrow> uuid \<Rightarrow> uuid option \<Rightarrow> field_db \<Rightarrow> team res \<times> field_db" where
  "CreateTeam E code name branch leader s =
    (case NewTeam (fe_upper E) (fid E 0 s) (fe_now E) code name branch leader of
       Inl e \<Rightarrow> (Inl e, s)
     | Inr t \<Rightarrow> (let s1 = ftook 1 s in
         case teams_Create E t s1 of Inl e \<Rightarrow> (Inl e, s1) | Inr s2 \<Rightarrow> (teams_FindByID E 1 (tm_id t) s2, s2)))"

definition AddTeamMember ::
    "field_env \<Rightarrow> uuid \<Rightarrow> uuid \<Rightarrow> tech_grade \<Rightarrow> field_db \<Rightarrow> team_member res \<times> field_db" where
  "AddTeamMember E team user grade s =
    (case teams_FindByID E 0 team s of
       Inl e \<Rightarrow> (Inl e, s)
     | Inr _ \<Rightarrow>
         let m = \<lparr>mb_id = fid E 0 s, mb_team_id = team, mb_user_id = user, mb_grade = grade, mb_active = True,
               mb_joined_at = fe_now E\<rparr>; s1 = ftook 1 s
         in (case teams_AddMember E m s1 of
               Inl e \<Rightarrow> (Inl e, s1)
             | Inr s2 \<Rightarrow> (case teams_ListMembers E team s2 of
                 Inl e \<Rightarrow> (Inl e, s2)
               | Inr ms \<Rightarrow> (Inr (case find (\<lambda>q. mb_id q = mb_id m) ms of Some q \<Rightarrow> q | None \<Rightarrow> m), s2))))"

end
