(* ===== verification/FieldSystem.thy ===== *)
theory FieldSystem
  imports FieldBast
begin

text \<open>
  The field service as one state machine with billing at its side. An event is a call of one of
  its operations under an environment of its own, a billing event, or a row another part of the
  backend writes into \<^verbatim>\<open>field.work_orders\<close> (tickets, bulk jobs and add-on orders insert rows; the
  cross-area screen sets its flag). A billing event also stores the termination work orders
  billing mints, since its gateway inserts them into the same table. Calls are atomic here.

  Every call changes each table at most once; \<open>field_delta\<close> says how, and is proved once per
  operation. The invariants then need one argument per table.
\<close>

section \<open>Events\<close>

datatype field_event =
    FevCreateWO create_wo_input
  | FevCreateTermination create_termination_wo_input
  | FevRoute uuid uuid
  | FevAssign assign_input
  | FevStatus uuid wo_status
  | FevReschedule reschedule_input
  | FevResponse response_input
  | FevResolution resolution_input
  | FevSubmit submit_bast_input
  | FevVerifyOTP uuid string
  | FevVerify verify_bast_input
  | FevTeam string string uuid "uuid option"
  | FevMember uuid uuid tech_grade
  | FevBilling bill_event "uuid \<Rightarrow> work_order"
  | FevInsertWO work_order
  | FevCrossArea uuid

text \<open>The row the billing gateway inserts; the function gives the columns billing does not decide here.\<close>

definition minted_wo :: "(uuid \<Rightarrow> work_order) \<Rightarrow> uuid \<times> uuid \<Rightarrow> work_order" where
  "minted_wo f p = (f (fst p))\<lparr>wo_id := fst p, wo_customer_id := snd p, wo_kind := WOTypeTermination,
     wo_status := WOStatusUnassigned\<rparr>"

definition wo_keys :: "work_order list \<Rightarrow> bool" where
  "wo_keys ws \<longleftrightarrow> tkeyed wo_id ws \<and> tkeyed wo_number ws"

text \<open>A row that clashes with a key or breaks a CHECK is refused; for a minted row the environment fails the call instead.\<close>

definition insert_wos :: "work_order list \<Rightarrow> bill_db \<Rightarrow> field_db \<Rightarrow> field_db" where
  "insert_wos new b s =
    (if wo_keys (fd_wos s @ new) \<and> list_all wo_check new then s\<lparr>fd_wos := fd_wos s @ new, fd_bill := b\<rparr> else s)"

fun field_apply :: "field_env \<Rightarrow> field_event \<Rightarrow> field_db \<Rightarrow> field_db" where
  "field_apply E (FevCreateWO x) s = snd (CreateWOFromOrder E x s)"
| "field_apply E (FevCreateTermination x) s = snd (field_CreateTerminationWO E x s)"
| "field_apply E (FevRoute k t) s = snd (RouteToTeam E k t s)"
| "field_apply E (FevAssign x) s = snd (AssignTechnicians E x s)"
| "field_apply E (FevStatus k st) s = snd (UpdateStatus E k st s)"
| "field_apply E (FevReschedule x) s = snd (RescheduleWO E x s)"
| "field_apply E (FevResponse x) s = snd (SubmitChecklistResponse E x s)"
| "field_apply E (FevResolution x) s = snd (AddResolutionItem E x s)"
| "field_apply E (FevSubmit x) s = snd (SubmitBAST E x s)"
| "field_apply E (FevVerifyOTP k code) s = snd (VerifyBASTOTP E k code s)"
| "field_apply E (FevVerify x) s = snd (VerifyBAST E x s)"
| "field_apply E (FevTeam code name br lead) s = snd (CreateTeam E code name br lead s)"
| "field_apply E (FevMember t u g) s = snd (AddTeamMember E t u g s)"
| "field_apply E (FevBilling ev f) s = (let b = bill_apply (fe_bill E) ev (fd_bill s)
     in insert_wos (map (minted_wo f) (drop (length (bd_workorders (fd_bill s))) (bd_workorders b))) b s)"
| "field_apply E (FevInsertWO w) s = insert_wos [w] (fd_bill s) s"
| "field_apply E (FevCrossArea k) s = s\<lparr>fd_wos := map (\<lambda>w. if wo_id w = k
     then w\<lparr>wo_cross_area := True, wo_updated_at := fe_dbnow E\<rparr> else w) (fd_wos s)\<rparr>"

text \<open>Checklist templates are seeded by an administration tool, so the start leaves them open.\<close>

definition field_initial :: "policy option \<Rightarrow> checklist_template list \<Rightarrow> checklist_item list \<Rightarrow> field_db" where
  "field_initial p ts is = \<lparr>fd_next = 0, fd_bill = bill_initial p, fd_wos = [], fd_assigns = [],
     fd_templates = ts, fd_items = is, fd_responses = [], fd_resolutions = [], fd_basts = [],
     fd_reschedules = [], fd_teams = [], fd_members = [], fd_network = [], fd_audit = [], fd_pushed = []\<rparr>"

inductive field_reachable :: "field_db \<Rightarrow> bool" where
  field_start: "field_reachable (field_initial p ts is)"
| field_event: "field_reachable s \<Longrightarrow> field_reachable (field_apply E ev s)"

fun field_run :: "(field_env \<times> field_event) list \<Rightarrow> field_db \<Rightarrow> field_db" where
  "field_run [] s = s"
| "field_run ((E, ev) # evs) s = field_run evs (field_apply E ev s)"

lemma field_run_reachable: "field_reachable s \<Longrightarrow> field_reachable (field_run evs s)"
  by (induction evs s rule: field_run.induct) (auto intro: field_reachable.intros)

section \<open>What a call does to each table\<close>

text \<open>The columns no operation writes again.\<close>

definition wo_identity :: "work_order \<Rightarrow> work_order" where
  "wo_identity w = w\<lparr>wo_scheduled := None, wo_sla_due := None, wo_team_id := None, wo_team_leader_id := None,
     wo_priority := PriorityMedium, wo_status := WOStatusCreated, wo_emergency := False, wo_cross_area := False,
     wo_notes := [], wo_updated_at := 0\<rparr>"

lemma wo_identity_id: "wo_identity v = wo_identity w \<Longrightarrow>
    wo_id v = wo_id w \<and> wo_number v = wo_number w \<and> wo_order_id v = wo_order_id w \<and> wo_kind v = wo_kind w
  \<and> wo_customer_id v = wo_customer_id w"
  by (cases v, cases w) (simp add: wo_identity_def)

text \<open>
  \<open>N k st\<close>: the call may also set the status of the work order \<open>k\<close> to \<open>st\<close>, whatever it was;
  \<open>D k st\<close>: it may decide the pending record \<open>k\<close> as \<open>st\<close>.
\<close>

inductive wos_delta :: "(uuid \<Rightarrow> wo_status \<Rightarrow> bool) \<Rightarrow> work_order list \<Rightarrow> work_order list \<Rightarrow> bool" for N where
  wd_same: "wos_delta N ws ws"
| wd_new: "(wo_keys ws \<Longrightarrow> wo_keys (ws @ new)) \<Longrightarrow> wos_delta N ws (ws @ new)"
| wd_move: "tfind wo_id k ws = Some q \<Longrightarrow> tupdate wo_id f k ws = Some ws' \<Longrightarrow>
    (\<And>x. wo_identity (f x) = wo_identity x) \<Longrightarrow>
    wo_status (f q) = wo_status q \<or> wo_status (f q) \<in> set (validTransitions (wo_status q)) \<or> N k (wo_status (f q))
    \<Longrightarrow> wos_delta N ws ws'"

inductive basts_delta :: "(uuid \<Rightarrow> noc_status \<Rightarrow> bool) \<Rightarrow> bast list \<Rightarrow> bast list \<Rightarrow> bool" for D where
  bd_same: "basts_delta D bs bs"
| bd_new: "\<forall>q \<in> set bs. ba_id q \<noteq> ba_id b \<and> (ba_wo_id q = ba_wo_id b \<longrightarrow> ba_noc_status q = NOCStatusRejected) \<Longrightarrow>
    ba_noc_status b = NOCStatusPending \<Longrightarrow> ba_otp_verified_at b = None \<Longrightarrow> basts_delta D bs (bs @ [b])"
| bd_decide: "tfind ba_id k bs = Some b \<Longrightarrow> ba_noc_status b = NOCStatusPending \<Longrightarrow>
    st = NOCStatusApproved \<or> st = NOCStatusRejected \<Longrightarrow> D k st \<Longrightarrow>
    tupdate ba_id (\<lambda>b. b\<lparr>ba_noc_status := st, ba_verified_by := u, ba_verified_at := t, ba_noc_notes := n\<rparr>) k bs
      = Some bs' \<Longrightarrow> basts_delta D bs bs'"
| bd_otp: "tfind ba_id k bs = Some b \<Longrightarrow> ba_otp_verified_at b = None \<Longrightarrow> ba_mode b = SignOffRemote \<Longrightarrow>
    tupdate ba_id (\<lambda>b. b\<lparr>ba_otp_verified_at := t\<rparr>) k bs = Some bs' \<Longrightarrow> basts_delta D bs bs'"

inductive assigns_delta :: "assignment list \<Rightarrow> assignment list \<Rightarrow> bool" where
  ad_same: "assigns_delta rows rows"
| ad_lead: "insert_assignment c m l (filter (\<lambda>a. as_wo_id a \<noteq> k) rows) = Inr r1 \<Longrightarrow> as_wo_id l = k \<Longrightarrow>
    as_role l = WORoleLead \<Longrightarrow> assigns_delta rows r1"
| ad_pair: "insert_assignment c m l (filter (\<lambda>a. as_wo_id a \<noteq> k) rows) = Inr r1 \<Longrightarrow> as_wo_id l = k \<Longrightarrow>
    as_role l = WORoleLead \<Longrightarrow> insert_assignment c2 m2 x r1 = Inr r2 \<Longrightarrow> as_wo_id x = k \<Longrightarrow>
    as_role x = WORoleObserver \<Longrightarrow> assigns_delta rows r2"

inductive responses_delta :: "checklist_response list \<Rightarrow> checklist_response list \<Rightarrow> bool" where
  rd_same: "responses_delta rows rows"
| rd_new: "\<forall>q \<in> set rows. response_key q \<noteq> response_key r \<and> cr_id q \<noteq> cr_id r \<Longrightarrow> responses_delta rows (rows @ [r])"
| rd_over: "q \<in> set rows \<Longrightarrow> response_key r = response_key q \<Longrightarrow>
    responses_delta rows (map (\<lambda>p. if response_key p = response_key r then r\<lparr>cr_id := cr_id q\<rparr> else p) rows)"

text \<open>The billing side of a call is a run of billing events.\<close>

definition bill_delta :: "bill_db \<Rightarrow> bill_db \<Rightarrow> bool" where
  "bill_delta b b' \<longleftrightarrow> (\<exists>evs. b' = bill_run evs b)"

definition field_delta ::
    "(uuid \<Rightarrow> wo_status \<Rightarrow> bool) \<Rightarrow> (uuid \<Rightarrow> noc_status \<Rightarrow> bool) \<Rightarrow> field_db \<Rightarrow> field_db \<Rightarrow> bool" where
  "field_delta N D s s' \<longleftrightarrow> wos_delta N (fd_wos s) (fd_wos s') \<and> basts_delta D (fd_basts s) (fd_basts s')
     \<and> assigns_delta (fd_assigns s) (fd_assigns s') \<and> responses_delta (fd_responses s) (fd_responses s')
     \<and> bill_delta (fd_bill s) (fd_bill s')"

named_theorems fdelta \<open>what the operations do to the tables\<close>
named_theorems fshape \<open>the state a repository write leaves\<close>

lemma bill_delta_refl [simp]: "bill_delta b b"
  unfolding bill_delta_def by (rule exI[of _ "[]"]) simp

lemma bill_delta_event: "bill_delta b (bill_apply E ev b)"
  unfolding bill_delta_def by (rule exI[of _ "[(E, ev)]"]) simp

lemma delta_refl [simp, intro]: "field_delta N D s s"
  by (auto simp: field_delta_def intro: wd_same bd_same ad_same rd_same)

text \<open>A state that agrees on the five tables.\<close>

definition same_tables :: "field_db \<Rightarrow> field_db \<Rightarrow> bool" where
  "same_tables s s' \<longleftrightarrow> fd_wos s' = fd_wos s \<and> fd_basts s' = fd_basts s \<and> fd_assigns s' = fd_assigns s
     \<and> fd_responses s' = fd_responses s \<and> fd_bill s' = fd_bill s"

lemma same_tables_refl [simp]: "same_tables s s"
  by (simp add: same_tables_def)

lemma same_tables_trans: "same_tables s s1 \<Longrightarrow> same_tables s1 s2 \<Longrightarrow> same_tables s s2"
  by (simp add: same_tables_def)

lemma same_tables_delta: "same_tables s s' \<Longrightarrow> field_delta N D s s'"
  by (auto simp: same_tables_def field_delta_def intro: wd_same bd_same ad_same rd_same)

lemma delta_then_same: "field_delta N D s s1 \<Longrightarrow> same_tables s1 s2 \<Longrightarrow> field_delta N D s s2"
  by (simp add: same_tables_def field_delta_def)

lemma same_then_delta: "same_tables s s1 \<Longrightarrow> field_delta N D s1 s2 \<Longrightarrow> field_delta N D s s2"
  by (simp add: same_tables_def field_delta_def)

lemma ftook_same [simp]: "same_tables s (ftook n s)"
  by (simp add: same_tables_def ftook_def)

lemma ftook_fields [simp]: "fd_wos (ftook n s) = fd_wos s" "fd_basts (ftook n s) = fd_basts s"
  "fd_assigns (ftook n s) = fd_assigns s" "fd_responses (ftook n s) = fd_responses s"
  "fd_bill (ftook n s) = fd_bill s" "fd_templates (ftook n s) = fd_templates s" "fd_items (ftook n s) = fd_items s"
  "fd_resolutions (ftook n s) = fd_resolutions s" "fd_network (ftook n s) = fd_network s"
  by (simp_all add: ftook_def)

end
