(* ===== verification/FieldTraces.thy ===== *)
theory FieldTraces
  imports FieldSystem
begin

text \<open>
  Every operation of the field service realises \<open>field_delta\<close>: first the state each repository
  write leaves (\<open>fshape\<close>), then the operations over them (\<open>fdelta\<close>).
\<close>

section \<open>Repository writes\<close>

lemma wos_Create_shape [fshape]: "wos_Create E w s = Inr s' \<Longrightarrow>
    s' = s\<lparr>fd_wos := fd_wos s @ [w\<lparr>wo_updated_at := wo_created_at w\<rparr>]\<rparr>
  \<and> (\<forall>q \<in> set (fd_wos s). wo_id q \<noteq> wo_id w \<and> wo_number q \<noteq> wo_number w)"
  by (auto simp: wos_Create_def split: if_splits)

lemma wos_Update_shape [fshape]: "wos_Update E w s = Inr s' \<Longrightarrow>
    \<exists>rows. s' = s\<lparr>fd_wos := rows\<rparr> \<and> tupdate wo_id (\<lambda>q. q\<lparr>wo_scheduled := wo_scheduled w,
      wo_sla_due := wo_sla_due w, wo_team_id := wo_team_id w, wo_team_leader_id := wo_team_leader_id w,
      wo_priority := wo_priority w, wo_status := wo_status w, wo_emergency := wo_emergency w,
      wo_cross_area := wo_cross_area w, wo_notes := wo_notes w, wo_updated_at := fe_dbnow E\<rparr>) (wo_id w) (fd_wos s)
      = Some rows"
  by (auto simp: wos_Update_def split: if_splits option.splits)

lemma wos_UpdateStatus_shape [fshape]: "wos_UpdateStatus E n k st s = Inr s' \<Longrightarrow>
    \<exists>rows. s' = s\<lparr>fd_wos := rows\<rparr> \<and>
      tupdate wo_id (\<lambda>q. q\<lparr>wo_status := st, wo_updated_at := fe_dbnow E\<rparr>) k (fd_wos s) = Some rows"
  by (auto simp: wos_UpdateStatus_def split: if_splits option.splits)

lemma wos_FindByID_row: "wos_FindByID E n k s = Inr w \<Longrightarrow> tfind wo_id k (fd_wos s) = Some w"
  by (auto simp: wos_FindByID_def split: option.splits)

lemma wos_FindByID_id: "wos_FindByID E n k s = Inr w \<Longrightarrow> wo_id w = k"
  using tfind_SomeD[OF wos_FindByID_row] by blast

lemma basts_Create_shape [fshape]: "basts_Create E b s = Inr s' \<Longrightarrow>
    s' = s\<lparr>fd_basts := fd_basts s @ [b]\<rparr> \<and> (\<forall>q \<in> set (fd_basts s). ba_id q \<noteq> ba_id b \<and>
      (ba_noc_status b \<noteq> NOCStatusRejected \<longrightarrow> ba_wo_id q = ba_wo_id b \<longrightarrow> ba_noc_status q = NOCStatusRejected))"
  by (auto simp: basts_Create_def split: if_splits)

lemma basts_MarkVerified_shape [fshape]: "basts_MarkVerified E k st u n s = Inr s' \<Longrightarrow>
    \<exists>rows. s' = s\<lparr>fd_basts := rows\<rparr> \<and> tupdate ba_id (\<lambda>b. b\<lparr>ba_noc_status := st, ba_verified_by := Some u,
      ba_verified_at := Some (fe_dbnow E), ba_noc_notes := n\<rparr>) k (fd_basts s) = Some rows"
  by (auto simp: basts_MarkVerified_def split: option.splits)

lemma basts_VerifyOTP_shape [fshape]: "basts_VerifyOTP E k s = Inr s' \<Longrightarrow>
    \<exists>rows. s' = s\<lparr>fd_basts := rows\<rparr> \<and>
      tupdate ba_id (\<lambda>b. b\<lparr>ba_otp_verified_at := Some (fe_dbnow E)\<rparr>) k (fd_basts s) = Some rows"
  by (auto simp: basts_VerifyOTP_def split: option.splits)

lemma basts_FindByID_row: "basts_FindByID E n k s = Inr (Some b) \<Longrightarrow> tfind ba_id k (fd_basts s) = Some b"
  by (auto simp: basts_FindByID_def)

lemma basts_FindByID_id: "basts_FindByID E n k s = Inr (Some b) \<Longrightarrow> ba_id b = k"
  using tfind_SomeD[OF basts_FindByID_row] by blast

lemma UpsertPair_shape [fshape]:
  assumes "assigns_UpsertPair E k l x s = Inr s'"
  shows "s' = s\<lparr>fd_assigns := fd_assigns s'\<rparr> \<and> assigns_delta (fd_assigns s) (fd_assigns s')"
proof -
  have "as_wo_id (l\<lparr>as_wo_id := k, as_role := r\<rparr>) = k" "as_role (l\<lparr>as_wo_id := k, as_role := r\<rparr>) = r" for l r
    by simp_all
  note kr = this
  show ?thesis
    using assms by (cases x) (auto simp: assigns_UpsertPair_def Let_def split: sum.splits
        intro: ad_lead[OF _ kr] ad_pair[OF _ kr _ kr])
qed

lemma UpsertResponse_shape [fshape]:
  assumes up: "UpsertResponse E r s = Inr (q, s')"
  shows "\<exists>rows. s' = s\<lparr>fd_responses := rows\<rparr> \<and> responses_delta (fd_responses s) rows"
proof (cases "find (\<lambda>q. response_key q = response_key r) (fd_responses s)")
  case None
  then have "\<forall>q \<in> set (fd_responses s). response_key q \<noteq> response_key r" by (simp add: find_None_iff)
  with None up show ?thesis by (auto simp: UpsertResponse_def split: if_splits intro: rd_new)
next
  case (Some p)
  then have p: "p \<in> set (fd_responses s)" "response_key p = response_key r"
    by (auto simp: find_Some_iff)
  from up Some have s': "s' = s\<lparr>fd_responses := map (\<lambda>q. if response_key q = response_key r
      then r\<lparr>cr_id := cr_id p\<rparr> else q) (fd_responses s)\<rparr>"
    by (simp add: UpsertResponse_def Let_def)
  show ?thesis
    by (rule exI, rule conjI, rule s', rule rd_over[OF p(1) p(2)[symmetric]])
qed

lemma resolutions_Add_same: "resolutions_Add E r s = Inr s' \<Longrightarrow> same_tables s s'"
  by (auto simp: resolutions_Add_def same_tables_def split: if_splits option.splits)

lemma reschedules_Create_same: "reschedules_Create E r s = Inr s' \<Longrightarrow> same_tables s s'"
  by (auto simp: reschedules_Create_def same_tables_def split: if_splits option.splits)

lemma teams_Create_same: "teams_Create E t s = Inr s' \<Longrightarrow> same_tables s s'"
  by (auto simp: teams_Create_def same_tables_def split: if_splits)

lemma teams_AddMember_same: "teams_AddMember E m s = Inr s' \<Longrightarrow> same_tables s s'"
  by (auto simp: teams_AddMember_def same_tables_def split: if_splits)

lemma CreateDerivedTemplate_same: "CreateDerivedTemplate E kind p items s = Inr s' \<Longrightarrow> same_tables s s'"
  by (auto simp: CreateDerivedTemplate_def same_tables_def split: if_splits sum.splits)

lemma ProvisionAtWO_same: "ProvisionAtWO E n k h s = Inr s' \<Longrightarrow> same_tables s s'"
  by (auto simp: ProvisionAtWO_def same_tables_def)

lemma after_same: "(\<And>s'. r = Inr s' \<Longrightarrow> same_tables s s') \<Longrightarrow> same_tables s (after s r)"
  by (cases r) auto

lemma ProvisionAndActivate_same: "same_tables s (snd (ProvisionAndActivate E k s))"
  by (auto simp: ProvisionAndActivate_def ProvisionAtWO_def same_tables_def fguard_def split: sum.splits option.splits)

lemma materialize_checklist_same: "same_tables s (materialize_checklist E w s)"
  by (auto simp: materialize_checklist_def split: option.splits sum.splits intro: after_same CreateDerivedTemplate_same)

lemma provision_temporary_same: "same_tables s (provision_temporary E k h s)"
  by (auto simp: provision_temporary_def split: sum.splits intro: after_same ProvisionAtWO_same)

lemma announce_assignment_same: "same_tables s (announce_assignment E x s)"
  by (auto simp: announce_assignment_def Let_def same_tables_def fguard_def split: option.splits)

lemma SetCustomerActive_shape: "SetCustomerActive E k s = Inr s' \<Longrightarrow>
    \<exists>b. s' = s\<lparr>fd_bill := b\<rparr> \<and> bill_delta (fd_bill s) b"
proof -
  assume *: "SetCustomerActive E k s = Inr s'"
  have "bill_delta b (b\<lparr>bd_customers := cs\<rparr>)" for b cs
    using bill_delta_event[of b undefined "EvCrm cs (bd_orders b) (bd_referrals b) (bd_addons b) (bd_plan_changes b)"]
    by simp
  with * show ?thesis by (auto simp: SetCustomerActive_def split: if_splits)
qed

section \<open>Composing the writes\<close>

lemma wo_keys_snoc: "wo_keys ws \<Longrightarrow> \<forall>q \<in> set ws. wo_id q \<noteq> wo_id w \<and> wo_number q \<noteq> wo_number w \<Longrightarrow>
    wo_keys (ws @ [w])"
  by (auto simp: wo_keys_def tkeyed_def)

lemma create_delta: "wos_Create E w s = Inr s' \<Longrightarrow> field_delta N D s s'"
  by (drule wos_Create_shape) (auto simp: field_delta_def intro!: wd_new wo_keys_snoc intro: bd_same ad_same rd_same)

lemma wos_delta_lift: "wos_delta N (fd_wos s) ws \<Longrightarrow> field_delta N D s (s\<lparr>fd_wos := ws\<rparr>)"
  by (auto simp: field_delta_def intro: bd_same ad_same rd_same)

lemma status_wos:
  assumes "wos_UpdateStatus E n k st s = Inr s'" "tfind wo_id k (fd_wos s) = Some w"
    "st = wo_status w \<or> st \<in> set (validTransitions (wo_status w)) \<or> N k st"
  shows "wos_delta N (fd_wos s) (fd_wos s')"
proof -
  obtain rows where r: "s' = s\<lparr>fd_wos := rows\<rparr>"
    "tupdate wo_id (\<lambda>q. q\<lparr>wo_status := st, wo_updated_at := fe_dbnow E\<rparr>) k (fd_wos s) = Some rows"
    using wos_UpdateStatus_shape[OF assms(1)] by blast
  have "wos_delta N (fd_wos s) rows"
    by (rule wd_move[OF assms(2) r(2)]) (use assms(3) in \<open>auto simp: wo_identity_def\<close>)
  with r(1) show ?thesis by simp
qed

lemma status_delta:
  assumes "wos_UpdateStatus E n k st s = Inr s'" "tfind wo_id k (fd_wos s) = Some w"
    "st = wo_status w \<or> st \<in> set (validTransitions (wo_status w)) \<or> N k st"
  shows "field_delta N D s s'"
proof -
  have "wos_delta N (fd_wos s) (fd_wos s')" by (rule status_wos[OF assms(1,2)]) (rule assms(3))
  then show ?thesis using wos_delta_lift wos_UpdateStatus_shape[OF assms(1)] by auto
qed

lemma update_delta:
  assumes "wos_Update E w s = Inr s'" "tfind wo_id (wo_id w) (fd_wos s) = Some q"
    "wo_status w = wo_status q \<or> wo_status w \<in> set (validTransitions (wo_status q))"
  shows "field_delta N D s s'"
proof -
  let ?f = "\<lambda>q. q\<lparr>wo_scheduled := wo_scheduled w,
      wo_sla_due := wo_sla_due w, wo_team_id := wo_team_id w, wo_team_leader_id := wo_team_leader_id w,
      wo_priority := wo_priority w, wo_status := wo_status w, wo_emergency := wo_emergency w,
      wo_cross_area := wo_cross_area w, wo_notes := wo_notes w, wo_updated_at := fe_dbnow E\<rparr>"
  obtain rows where r: "s' = s\<lparr>fd_wos := rows\<rparr>" "tupdate wo_id ?f (wo_id w) (fd_wos s) = Some rows"
    using wos_Update_shape[OF assms(1)] by blast
  have "wos_delta N (fd_wos s) rows"
    by (rule wd_move[OF assms(2) r(2)]) (use assms(3) in \<open>auto simp: wo_identity_def\<close>)
  with r(1) show ?thesis using wos_delta_lift by simp
qed

section \<open>The operations\<close>

lemma CreateTermination_delta [fdelta]: "field_delta N D s (snd (field_CreateTerminationWO E x s))"
  by (auto simp: field_CreateTerminationWO_def Let_def split: sum.splits
      intro: same_tables_delta same_then_delta[OF ftook_same create_delta])

lemma CreateWO_delta [fdelta]: "field_delta N D s (snd (CreateWOFromOrder E x s))"
proof -
  have "field_delta N D s (provision_temporary E k h (materialize_checklist E w s2))"
    if "wos_Create E w (ftook 2 s) = Inr s2" for k h w s2
    by (rule delta_then_same[OF same_then_delta[OF ftook_same create_delta[OF that]]])
      (rule same_tables_trans[OF materialize_checklist_same provision_temporary_same])
  then show ?thesis
    by (auto simp: CreateWOFromOrder_def Let_def split: sum.splits intro: same_tables_delta)
qed

lemma Route_delta [fdelta]: "field_delta N D s (snd (RouteToTeam E k t s))"
proof -
  have "field_delta N D s s1"
    if "wos_FindByID E 0 k s = Inr w" "wos_Update E (w\<lparr>wo_team_id := a, wo_team_leader_id := b, wo_cross_area := c\<rparr>) s = Inr s1"
    for w a b c s1
    using that(2) wos_FindByID_row[OF that(1)] wos_FindByID_id[OF that(1)] by (auto elim!: update_delta)
  then show ?thesis by (auto simp: RouteToTeam_def split: sum.splits)
qed

lemma UpdateStatus_delta [fdelta]: "field_delta N D s (snd (UpdateStatus E k st s))"
proof -
  have "field_delta N D s s1"
    if "wos_FindByID E 0 k s = Inr w" "AssertCanTransition st w = Inr u" "wos_UpdateStatus E 0 k st s = Inr s1"
    for w u s1
    using that(2) by (intro status_delta[OF that(3) wos_FindByID_row[OF that(1)]])
      (auto simp: AssertCanTransition_def split: if_splits)
  then show ?thesis by (auto simp: UpdateStatus_def split: sum.splits)
qed

lemma Reschedule_delta [fdelta]: "field_delta N D s (snd (RescheduleWO E x s))"
proof -
  have "field_delta N D s s1"
    if "wos_FindByID E 0 k s = Inr w" "AssertCanReschedule w = Inr u"
      "wos_Update E (w\<lparr>wo_scheduled := d, wo_status := WOStatusRescheduled\<rparr>) s = Inr s1" for k w u d s1
    using that(2) wos_FindByID_row[OF that(1)] wos_FindByID_id[OF that(1)]
    by (intro update_delta[OF that(3)]) (auto simp: AssertCanReschedule_def split: if_splits)
  note d = this
  have "field_delta N D s s3" if "field_delta N D s s1" "reschedules_Create E r (ftook 1 s1) = Inr s3" for r s1 s3
    by (rule delta_then_same[OF that(1) same_tables_trans[OF ftook_same reschedules_Create_same[OF that(2)]]])
  note r = this
  show ?thesis
  proof (cases "wos_FindByID E 0 (ri_in_wo_id x) s")
    case f: (Inr w)
    show ?thesis
    proof (cases "AssertCanReschedule w")
      case a: (Inr u)
      show ?thesis
      proof (cases "wos_Update E (w\<lparr>wo_scheduled := Some (ri_in_new_date x), wo_status := WOStatusRescheduled\<rparr>) s")
        case u: (Inr s1)
        note d1 = d[OF f a u]
        show ?thesis using f a u r[OF d1] delta_then_same[OF d1 ftook_same]
          by (simp add: RescheduleWO_def Let_def split: sum.splits)
      qed (use f a in \<open>simp add: RescheduleWO_def\<close>)
    qed (use f in \<open>simp add: RescheduleWO_def\<close>)
  qed (simp add: RescheduleWO_def)
qed

lemma Assign_delta [fdelta]: "field_delta N D s (snd (AssignTechnicians E x s))"
proof (cases "wos_FindByID E 0 (ai_wo_id x) s")
  case f: (Inr w)
  let ?n = "if ai_observer_id x = None then 1 else 2" and ?k = "ai_wo_id x"
  let ?up = "\<lambda>s2. if wo_status w = WOStatusUnassigned \<or> wo_status w = WOStatusRescheduled
            then wos_UpdateStatus E 0 ?k WOStatusAssigned s2 else Inr s2"
  have "field_delta N D s s2 \<and> (\<forall>s3. ?up s2 = Inr s3 \<longrightarrow> field_delta N D s s3)"
    if pair: "assigns_UpsertPair E ?k l ob (ftook n s) = Inr s2" for l ob n s2
  proof -
    obtain rows where r: "s2 = (ftook n s)\<lparr>fd_assigns := rows\<rparr>" "assigns_delta (fd_assigns s) rows"
      using UpsertPair_shape[OF pair] by (metis ftook_fields(3))
    have row: "tfind wo_id ?k (fd_wos s2) = Some w" using wos_FindByID_row[OF f] r(1) by simp
    have mv: "wos_delta N (fd_wos s) (fd_wos s3) \<and> fd_assigns s3 = rows \<and> fd_basts s3 = fd_basts s
        \<and> fd_responses s3 = fd_responses s \<and> fd_bill s3 = fd_bill s" if "?up s2 = Inr s3" for s3
    proof (cases "wo_status w = WOStatusUnassigned \<or> wo_status w = WOStatusRescheduled")
      case True
      with that have u: "wos_UpdateStatus E 0 ?k WOStatusAssigned s2 = Inr s3" by simp
      have "wos_delta N (fd_wos s2) (fd_wos s3)" by (rule status_wos[OF u row]) (use True in auto)
      with wos_UpdateStatus_shape[OF u] r(1) show ?thesis by auto
    qed (use that r(1) in \<open>auto intro: wd_same\<close>)
    then have "field_delta N D s s3" if "?up s2 = Inr s3" for s3
      using that r(2) by (auto simp: field_delta_def intro: bd_same rd_same)
    moreover have "field_delta N D s s2" using r by (auto simp: field_delta_def intro: wd_same bd_same rd_same)
    ultimately show ?thesis by blast
  qed
  then show ?thesis using f
    by (auto simp: AssignTechnicians_def Let_def simp del: One_nat_def split: sum.splits
        intro: same_tables_delta delta_then_same[OF _ announce_assignment_same])
qed (simp add: AssignTechnicians_def)

lemma Response_delta [fdelta]: "field_delta N D s (snd (SubmitChecklistResponse E x s))"
proof -
  have "field_delta N D s s2" if up: "UpsertResponse E r (ftook 1 s) = Inr (q, s2)" for r q s2
    using UpsertResponse_shape[OF up] by (auto simp: field_delta_def intro: wd_same bd_same ad_same)
  then show ?thesis
    by (auto simp: SubmitChecklistResponse_def Let_def simp del: One_nat_def split: sum.splits
        intro: same_tables_delta)
qed

lemma Resolution_delta [fdelta]: "field_delta N D s (snd (AddResolutionItem E x s))"
proof -
  have "field_delta N D s s2" if "resolutions_Add E r (ftook 1 s) = Inr s2" for r s2
    by (rule same_tables_delta[OF same_tables_trans[OF ftook_same resolutions_Add_same[OF that]]])
  then show ?thesis
    by (auto simp: AddResolutionItem_def Let_def simp del: One_nat_def split: sum.splits intro: same_tables_delta)
qed

lemma Team_delta [fdelta]: "field_delta N D s (snd (CreateTeam E code name br lead s))"
proof -
  have "field_delta N D s s2" if "teams_Create E t (ftook 1 s) = Inr s2" for t s2
    by (rule same_tables_delta[OF same_tables_trans[OF ftook_same teams_Create_same[OF that]]])
  then show ?thesis
    by (auto simp: CreateTeam_def Let_def simp del: One_nat_def split: sum.splits intro: same_tables_delta)
qed

lemma Member_delta [fdelta]: "field_delta N D s (snd (AddTeamMember E t u g s))"
proof -
  have "field_delta N D s s2" if "teams_AddMember E m (ftook 1 s) = Inr s2" for m s2
    by (rule same_tables_delta[OF same_tables_trans[OF ftook_same teams_AddMember_same[OF that]]])
  then show ?thesis
    by (auto simp: AddTeamMember_def Let_def simp del: One_nat_def split: sum.splits option.splits
        intro: same_tables_delta)
qed

lemma sign_off_code_row:
  assumes "sign_off_code E mode b0 = Inr (b, plain)"
  shows "ba_id b = ba_id b0 \<and> ba_wo_id b = ba_wo_id b0 \<and> ba_customer_id b = ba_customer_id b0 \<and>
    ba_noc_status b = ba_noc_status b0 \<and> ba_otp_verified_at b = ba_otp_verified_at b0 \<and> ba_mode b = ba_mode b0"
  using assms by (auto simp: sign_off_code_def split: if_splits sum.splits)

lemma NewBAST_row: "NewBAST fresh now wo customer mode compiled = Inr b \<Longrightarrow>
    ba_id b = fresh \<and> ba_wo_id b = wo \<and> ba_customer_id b = customer \<and> ba_mode b = mode \<and>
    ba_noc_status b = NOCStatusPending \<and> ba_otp_verified_at b = None \<and> (mode = SignOffOnSite \<or> mode = SignOffRemote)"
  by (auto simp: NewBAST_def split: if_splits)

lemma new_bast_delta:
  assumes "basts_Create E b s = Inr s2" "ba_noc_status b = NOCStatusPending" "ba_otp_verified_at b = None"
  shows "basts_delta D (fd_basts s) (fd_basts s2) \<and> s2 = s\<lparr>fd_basts := fd_basts s @ [b]\<rparr>"
  using basts_Create_shape[OF assms(1)] assms(2,3) by (auto intro: bd_new)

text \<open>The guards a submission has passed when it stores the record \<open>b\<close>.\<close>

definition submitted ::
    "field_env \<Rightarrow> submit_bast_input \<Rightarrow> field_db \<Rightarrow> work_order \<Rightarrow> bast \<Rightarrow> string \<Rightarrow> bool" where
  "submitted E x s w b plain \<longleftrightarrow> wos_FindByID E 0 (sb_wo_id x) s = Inr w \<and> wo_status w = WOStatusInProgress
     \<and> (\<forall>q. basts_FindActiveForWO E 0 (sb_wo_id x) s \<noteq> Inr (Some q)) \<and> checklist_gate E w s = Inr ()
     \<and> (\<exists>b0. NewBAST (fid E 0 s) (fe_now E) (sb_wo_id x) (wo_customer_id w) (sb_mode x) (compiled_data E w x s) = Inr b0
         \<and> sign_off_code E (sb_mode x) (b0\<lparr>ba_sig_url := sb_sig_url x, ba_otp_used := sb_otp_used x,
             ba_gps_lat := sb_gps_lat x, ba_gps_lng := sb_gps_lng x, ba_submitted_by := Some (sb_by x)\<rparr>)
           = Inr (b, plain))"

definition store_bast :: "field_env \<Rightarrow> uuid \<Rightarrow> bast \<Rightarrow> string \<Rightarrow> field_db \<Rightarrow> (bast \<times> string) res \<times> field_db" where
  "store_bast E k b plain s1 =
    (case basts_Create E b s1 of Inl e \<Rightarrow> (Inl e, s1) | Inr s2 \<Rightarrow>
    (case wos_UpdateStatus E 0 k WOStatusPendingNOCVerification s2 of Inl e \<Rightarrow> (Inl e, s2) | Inr s3 \<Rightarrow> (Inr (b, plain), s3)))"

lemma SubmitBAST_split:
  "(\<exists>e s'. SubmitBAST E x s = (Inl e, s') \<and> same_tables s s')
   \<or> (\<exists>w b plain. submitted E x s w b plain \<and> SubmitBAST E x s = store_bast E (sb_wo_id x) b plain (ftook 1 s))"
    (is "?early \<or> ?stored")
proof (cases "wos_FindByID E 0 (sb_wo_id x) s")
  case f: (Inr w)
  show ?thesis
  proof (cases "wo_status w = WOStatusInProgress \<and> (\<forall>q. basts_FindActiveForWO E 0 (sb_wo_id x) s \<noteq> Inr (Some q))
      \<and> checklist_gate E w s = Inr ()")
    case False
    then have ?early using f
      by (cases "wo_status w = WOStatusInProgress"; cases "basts_FindActiveForWO E 0 (sb_wo_id x) s")
        (auto simp: SubmitBAST_def split: sum.splits option.splits)
    then show ?thesis ..
  next
    case ok: True
    note none = ok[THEN conjunct2, THEN conjunct1]
    let ?new = "NewBAST (fid E 0 s) (fe_now E) (sb_wo_id x) (wo_customer_id w) (sb_mode x) (compiled_data E w x s)"
    let ?rest = "\<lambda>b0. (case sign_off_code E (sb_mode x) (b0\<lparr>ba_sig_url := sb_sig_url x, ba_otp_used := sb_otp_used x,
        ba_gps_lat := sb_gps_lat x, ba_gps_lng := sb_gps_lng x, ba_submitted_by := Some (sb_by x)\<rparr>) of
        Inl e \<Rightarrow> (Inl e, ftook 1 s) | Inr (b, plain) \<Rightarrow> store_bast E (sb_wo_id x) b plain (ftook 1 s))"
    have eq: "SubmitBAST E x s = (case ?new of Inl e \<Rightarrow> (Inl e, s) | Inr b0 \<Rightarrow> ?rest b0)"
      using f ok none unfolding SubmitBAST_def Let_def store_bast_def
      by (cases "basts_FindActiveForWO E 0 (sb_wo_id x) s"; cases "projr (basts_FindActiveForWO E 0 (sb_wo_id x) s)")
        simp_all
    show ?thesis
    proof (cases ?new)
      case n: (Inr b0)
      let ?b1 = "b0\<lparr>ba_sig_url := sb_sig_url x, ba_otp_used := sb_otp_used x,
        ba_gps_lat := sb_gps_lat x, ba_gps_lng := sb_gps_lng x, ba_submitted_by := Some (sb_by x)\<rparr>"
      show ?thesis
      proof (cases "sign_off_code E (sb_mode x) ?b1")
        case c: (Inr p)
        obtain b plain where p: "p = (b, plain)" by (cases p)
        have "submitted E x s w b plain" using f ok n c p by (simp add: submitted_def)
        moreover have "SubmitBAST E x s = store_bast E (sb_wo_id x) b plain (ftook 1 s)" using eq n c p by simp
        ultimately show ?thesis by blast
      qed (use eq n in auto)
    qed (use eq in auto)
  qed
qed (simp add: SubmitBAST_def)

lemma submitted_row:
  assumes "submitted E x s w b plain"
  shows "ba_noc_status b = NOCStatusPending \<and> ba_otp_verified_at b = None \<and> ba_wo_id b = sb_wo_id x \<and> ba_id b = fid E 0 s
    \<and> ba_customer_id b = wo_customer_id w \<and> ba_mode b = sb_mode x \<and> tfind wo_id (sb_wo_id x) (fd_wos s) = Some w
    \<and> wo_status w = WOStatusInProgress"
proof -
  obtain b0 where n: "NewBAST (fid E 0 s) (fe_now E) (sb_wo_id x) (wo_customer_id w) (sb_mode x) (compiled_data E w x s) = Inr b0"
    and c: "sign_off_code E (sb_mode x) (b0\<lparr>ba_sig_url := sb_sig_url x, ba_otp_used := sb_otp_used x,
      ba_gps_lat := sb_gps_lat x, ba_gps_lng := sb_gps_lng x, ba_submitted_by := Some (sb_by x)\<rparr>) = Inr (b, plain)"
    using assms by (auto simp: submitted_def)
  show ?thesis using sign_off_code_row[OF c] NewBAST_row[OF n] assms
    by (auto simp: submitted_def dest: wos_FindByID_row)
qed

lemma SubmitBAST_delta [fdelta]: "field_delta N D s (snd (SubmitBAST E x s))"
  using SubmitBAST_split[of E x s]
proof (elim disjE exE conjE)
  fix w b plain
  assume sub: "submitted E x s w b plain" and eq: "SubmitBAST E x s = store_bast E (sb_wo_id x) b plain (ftook 1 s)"
  note row = submitted_row[OF sub]
  show ?thesis
  proof (cases "basts_Create E b (ftook 1 s)")
    case (Inl e)
    then show ?thesis using eq same_tables_delta[OF ftook_same] by (simp add: store_bast_def)
  next
    case c: (Inr s2)
    have n: "basts_delta D (fd_basts s) (fd_basts s2)" "s2 = (ftook 1 s)\<lparr>fd_basts := fd_basts s @ [b]\<rparr>"
      using new_bast_delta[OF c, of D] row by auto
    then have d2: "field_delta N D s s2" by (auto simp: field_delta_def intro: wd_same ad_same rd_same)
    show ?thesis
    proof (cases "wos_UpdateStatus E 0 (sb_wo_id x) WOStatusPendingNOCVerification s2")
      case (Inl e)
      then show ?thesis using eq c d2 by (simp add: store_bast_def)
    next
      case u: (Inr s3)
      have f: "tfind wo_id (sb_wo_id x) (fd_wos s2) = Some w" using row n by simp
      have "wos_delta N (fd_wos s2) (fd_wos s3)" by (rule status_wos[OF u f]) (simp add: row)
      with n wos_UpdateStatus_shape[OF u] have "field_delta N D s s3"
        by (auto simp: field_delta_def intro: ad_same rd_same)
      then show ?thesis using eq c u by (simp add: store_bast_def)
    qed
  qed
qed (auto intro: same_tables_delta)

lemma VerifyOTP_delta [fdelta]: "field_delta N D s (snd (VerifyBASTOTP E k code s))"
proof -
  have "field_delta N D s s1" if f: "basts_FindByID E 0 k s = Inr (Some b)" and m: "ba_mode b = SignOffRemote"
    "ba_otp_verified_at b = None" and v: "basts_VerifyOTP E k s = Inr s1" for b s1
    using basts_VerifyOTP_shape[OF v] bd_otp[OF basts_FindByID_row[OF f] m(2,1)]
    by (auto simp: field_delta_def intro: wd_same ad_same rd_same)
  then show ?thesis by (auto simp: VerifyBASTOTP_def split: sum.splits option.splits)
qed

text \<open>The hooks of an approval touch the billing side only.\<close>

definition bill_only :: "field_db \<Rightarrow> field_db \<Rightarrow> bool" where
  "bill_only s s' \<longleftrightarrow> fd_wos s' = fd_wos s \<and> fd_basts s' = fd_basts s \<and> fd_assigns s' = fd_assigns s
     \<and> fd_responses s' = fd_responses s \<and> bill_delta (fd_bill s) (fd_bill s')"

lemma same_bill_only: "same_tables s s' \<Longrightarrow> bill_only s s'"
  by (simp add: same_tables_def bill_only_def)

lemma onInstallApproved_bill: "bill_only s (snd (onInstallApproved E w s))"
proof -
  have act: "same_tables s s1" if "ProvisionAndActivate E k s = (e, s1)" for k e s1
    using ProvisionAndActivate_same[of s E k] that by simp
  have "bill_only s s2" if "ProvisionAndActivate E k s = (e, s1)" "SetCustomerActive E c s1 = Inr s2" for k e s1 c s2
    using act[OF that(1)] SetCustomerActive_shape[OF that(2)] by (auto simp: same_tables_def bill_only_def)
  then show ?thesis using act
    by (auto simp: onInstallApproved_def intro: same_bill_only split: option.splits sum.splits prod.splits)
qed

lemma hooks_bill: "bill_only s (snd (approval_hooks E k s))"
proof -
  have t: "bill_only s (s\<lparr>fd_bill := b\<rparr>)" if "CompleteTerminationByWO (fe_bill E) k (fd_bill s) = (e, b)" for e b
    using bill_delta_event[of "fd_bill s" "fe_bill E" "EvCompleteTermination k"] that by (simp add: bill_only_def)
  have i: "bill_only s s1" if "onInstallApproved E w s = (e, s1)" for w e s1
    using onInstallApproved_bill[of s E w] that by simp
  show ?thesis using t i
    by (auto simp: approval_hooks_def same_bill_only split: sum.splits wo_kind.splits option.splits prod.splits)
qed

text \<open>The one change of a status outside the graph: the decision on the work order's pending record.\<close>

definition decided :: "verify_bast_input \<Rightarrow> field_db \<Rightarrow> uuid \<Rightarrow> wo_status \<Rightarrow> bool" where
  "decided x s k st \<longleftrightarrow> (\<exists>b. tfind ba_id (vb_bast_id x) (fd_basts s) = Some b \<and> ba_noc_status b = NOCStatusPending
     \<and> ba_wo_id b = k \<and> (vb_decision x = NOCStatusApproved \<and> st = WOStatusCompleted
        \<or> vb_decision x = NOCStatusRejected \<and> st = WOStatusInProgress))"

text \<open>The decision, and what gates an approval.\<close>

definition gated :: "field_env \<Rightarrow> verify_bast_input \<Rightarrow> field_db \<Rightarrow> uuid \<Rightarrow> noc_status \<Rightarrow> bool" where
  "gated E x s k st \<longleftrightarrow> k = vb_bast_id x \<and> st = vb_decision x \<and> (st = NOCStatusApproved \<longrightarrow>
     (\<exists>b. tfind ba_id k (fd_basts s) = Some b \<and> payment_gate E b s = Inr ()))"

lemma tupdate_found: "tupdate key f k rows = Some rows' \<Longrightarrow> \<exists>r. tfind key k rows = Some r"
  using tupdate_Some_iff[of key f k rows] by auto

lemma VerifyBAST_delta: "field_delta (decided x s) (gated E x s) s (snd (VerifyBAST E x s))"
proof (cases "basts_FindByID E 0 (vb_bast_id x) s")
  case f: (Inr ob)
  show ?thesis
  proof (cases ob)
    case (Some b)
    note row = basts_FindByID_row[OF f[unfolded Some]] and bid = basts_FindByID_id[OF f[unfolded Some]]
    let ?gate = "if vb_decision x = NOCStatusApproved then payment_gate E b s else Inr ()"
    show ?thesis
    proof (cases "ba_noc_status b = NOCStatusPending \<and> (vb_decision x = NOCStatusApproved \<or> vb_decision x = NOCStatusRejected)
        \<and> ?gate = Inr ()")
      case ok: True
      let ?st = "if vb_decision x = NOCStatusRejected then WOStatusInProgress else WOStatusCompleted"
      have force: "decided x s (ba_wo_id b) ?st" using ok row by (auto simp: decided_def)
      have eq: "VerifyBAST E x s =
        (case basts_MarkVerified E (ba_id b) (vb_decision x) (vb_by x) (vb_notes x) s of Inl e \<Rightarrow> (Inl e, s) | Inr s1 \<Rightarrow>
        (case wos_UpdateStatus E 0 (ba_wo_id b) ?st s1 of Inl e \<Rightarrow> (Inl e, s1) | Inr s2 \<Rightarrow>
        (case (if vb_decision x = NOCStatusApproved then approval_hooks E (ba_wo_id b) s2 else (None, s2)) of
            (Some e, s3) \<Rightarrow> (Inl e, s3)
          | (None, s3) \<Rightarrow> (basts_FindByID E 1 (ba_id b) s3, s3))))"
        using f Some ok by (auto simp: VerifyBAST_def CanVerify_def)
      show ?thesis
      proof (cases "basts_MarkVerified E (ba_id b) (vb_decision x) (vb_by x) (vb_notes x) s")
        case m: (Inr s1)
        have g: "gated E x s (vb_bast_id x) (vb_decision x)" using ok row by (auto simp: gated_def)
        obtain bs where s1: "s1 = s\<lparr>fd_basts := bs\<rparr>" and bs: "basts_delta (gated E x s) (fd_basts s) bs"
          using basts_MarkVerified_shape[OF m] bd_decide[where D = "gated E x s", OF row _ _ g] ok bid by fastforce
        have d1: "field_delta (decided x s) (gated E x s) s s1" using s1 bs by (auto simp: field_delta_def intro: wd_same ad_same rd_same)
        show ?thesis
        proof (cases "wos_UpdateStatus E 0 (ba_wo_id b) ?st s1")
          case u: (Inr s2)
          obtain q where q: "tfind wo_id (ba_wo_id b) (fd_wos s1) = Some q"
            using wos_UpdateStatus_shape[OF u] tupdate_found by metis
          have "wos_delta (decided x s) (fd_wos s1) (fd_wos s2)"
            by (rule status_wos[OF u q]) (use force in blast)
          with wos_UpdateStatus_shape[OF u] s1 bs have d2: "wos_delta (decided x s) (fd_wos s) (fd_wos s2)"
            "basts_delta (gated E x s) (fd_basts s) (fd_basts s2)" "fd_assigns s2 = fd_assigns s" "fd_responses s2 = fd_responses s"
            "fd_bill s2 = fd_bill s" by auto
          have "field_delta (decided x s) (gated E x s) s s3" if "bill_only s2 s3" for s3
            using that d2 by (auto simp: field_delta_def bill_only_def intro: ad_same rd_same)
          then show ?thesis
            using hooks_bill[of s2 E "ba_wo_id b"] same_bill_only[OF same_tables_refl, of s2] eq m u
            by (auto split: prod.splits option.splits)
        qed (use eq m d1 in simp)
      qed (use eq in simp)
    qed (use f Some in \<open>auto simp: VerifyBAST_def CanVerify_def split: sum.splits if_splits\<close>)
  qed (use f in \<open>simp add: VerifyBAST_def\<close>)
qed (simp add: VerifyBAST_def)

section \<open>Every event\<close>

lemma insert_wos_delta: "bill_delta (fd_bill s) b \<Longrightarrow> field_delta N D s (insert_wos new b s)"
  by (auto simp: insert_wos_def field_delta_def intro: wd_new wd_same bd_same ad_same rd_same)

text \<open>The flag of the cross-area screen.\<close>

lemma cross_area_delta: "field_delta N D s (field_apply E (FevCrossArea k) s)"
proof (cases "tfind wo_id k (fd_wos s)")
  case None
  then have "map (\<lambda>w. if wo_id w = k then w\<lparr>wo_cross_area := True, wo_updated_at := fe_dbnow E\<rparr> else w) (fd_wos s)
    = fd_wos s" by (auto simp: tfind_None_iff intro: map_idI)
  then show ?thesis by simp
next
  case (Some q)
  let ?f = "\<lambda>w. w\<lparr>wo_cross_area := True, wo_updated_at := fe_dbnow E\<rparr>"
  have "wos_delta N (fd_wos s) (map (\<lambda>w. if wo_id w = k then ?f w else w) (fd_wos s))"
    by (rule wd_move[OF Some, of ?f]) (use tfind_SomeD[OF Some] in \<open>auto simp: tupdate_def wo_identity_def\<close>)
  then show ?thesis by (simp add: wos_delta_lift)
qed

definition forced :: "field_event \<Rightarrow> field_db \<Rightarrow> uuid \<Rightarrow> wo_status \<Rightarrow> bool" where
  "forced ev s = (case ev of FevVerify x \<Rightarrow> decided x s | _ \<Rightarrow> (\<lambda>_ _. False))"

definition decision :: "field_env \<Rightarrow> field_event \<Rightarrow> field_db \<Rightarrow> uuid \<Rightarrow> noc_status \<Rightarrow> bool" where
  "decision E ev s = (case ev of FevVerify x \<Rightarrow> gated E x s | _ \<Rightarrow> (\<lambda>_ _. False))"

lemma field_apply_delta: "field_delta (forced ev s) (decision E ev s) s (field_apply E ev s)"
proof (cases ev)
  case (FevBilling be f)
  then show ?thesis by (simp add: Let_def insert_wos_delta bill_delta_event)
next
  case (FevCrossArea k)
  then show ?thesis using cross_area_delta by metis
qed (simp_all add: fdelta VerifyBAST_delta forced_def decision_def insert_wos_delta)

end
