(* ===== verification/FieldFacts.thy ===== *)
theory FieldFacts
  imports FieldTraces BillingInvariants
begin

text \<open>
  Invariants of the field service over \<open>field_delta\<close>, and facts that stay once they hold. The
  locale \<open>stable_fact\<close> says that a fact
  one event keeps is kept by every run; it is interpreted on the decided hand-over record and on
  the stored work order. The locale \<open>billing_gateway\<close> is what the payment gate needs of billing,
  and billing's model provides it.
\<close>

section \<open>Facts that stay\<close>

locale stable_fact =
  fixes step :: "'e \<Rightarrow> 's \<Rightarrow> 's" and fact :: "'s \<Rightarrow> bool"
  assumes step_keeps: "fact s \<Longrightarrow> fact (step e s)"
begin

lemma run_keeps: "fact s \<Longrightarrow> fact (fold step es s)"
  by (induction es arbitrary: s) (auto intro: step_keeps)

lemma never_before: "\<not> fact (fold step es s) \<Longrightarrow> \<not> fact s"
  using run_keeps by blast

end

definition field_step :: "field_env \<times> field_event \<Rightarrow> field_db \<Rightarrow> field_db" where
  "field_step e s = field_apply (fst e) (snd e) s"

lemma field_run_fold: "field_run evs s = fold field_step evs s"
  by (induction evs s rule: field_run.induct) (simp_all add: field_step_def)

section \<open>What the field service expects of billing\<close>

text \<open>
  The port \<^verbatim>\<open>BillingGateway\<close>: \<open>asks\<close> is the question the gate puts, \<open>owed\<close> the invoice of the order,
  if there is one. A provider promises that a yes means the invoice is settled, and that a
  settled invoice stays settled whatever billing does next (\<open>moves\<close>).
\<close>

locale billing_gateway =
  fixes ready :: "'s \<Rightarrow> bool"
    and moves :: "'s \<Rightarrow> 's \<Rightarrow> bool"
    and asks :: "'e \<Rightarrow> 'o \<Rightarrow> 's \<Rightarrow> bool res"
    and owed :: "'e \<Rightarrow> 'o \<Rightarrow> 's \<Rightarrow> 'i option"
    and settled :: "'i \<Rightarrow> 's \<Rightarrow> bool"
  assumes yes_settled: "ready s \<Longrightarrow> asks e order s = Inr True \<Longrightarrow> owed e order s = Some i \<Longrightarrow> settled i s"
    and settled_moves: "settled i s \<Longrightarrow> moves s s' \<Longrightarrow> settled i s'"
begin

lemma yes_lasts: "ready s \<Longrightarrow> asks e order s = Inr True \<Longrightarrow> owed e order s = Some i \<Longrightarrow> moves\<^sup>*\<^sup>* s s' \<Longrightarrow> settled i s'"
proof -
  assume "ready s" "asks e order s = Inr True" "owed e order s = Some i" "moves\<^sup>*\<^sup>* s s'"
  from this(4) yes_settled[OF this(1-3)] show ?thesis by (induction rule: rtranclp_induct) (auto intro: settled_moves)
qed

lemma unsettled_refused: "ready s \<Longrightarrow> owed e order s = Some i \<Longrightarrow> \<not> settled i s \<Longrightarrow> asks e order s \<noteq> Inr True"
  using yes_settled by blast

end

section \<open>The tables\<close>

definition active_bast :: "bast \<Rightarrow> bool" where
  "active_bast b \<longleftrightarrow> ba_noc_status b \<noteq> NOCStatusRejected"

definition basts_ok :: "bast list \<Rightarrow> bool" where
  "basts_ok bs \<longleftrightarrow> tkeyed ba_id bs \<and> tkeyed ba_wo_id (filter active_bast bs)
     \<and> (\<forall>b \<in> set bs. ba_noc_status b \<in> {NOCStatusPending, NOCStatusApproved, NOCStatusRejected})"

text \<open>The technicians of a work order: nobody, a lead, or a lead and another technician as observer.\<close>

definition crew :: "uuid \<Rightarrow> assignment list \<Rightarrow> assignment list" where
  "crew k rows = filter (\<lambda>a. as_wo_id a = k) rows"

definition crew_ok :: "assignment list \<Rightarrow> bool" where
  "crew_ok c \<longleftrightarrow> c = [] \<or> (\<exists>l. c = [l] \<and> as_role l = WORoleLead)
     \<or> (\<exists>l x. c = [l, x] \<and> as_role l = WORoleLead \<and> as_role x = WORoleObserver
           \<and> as_technician_id x \<noteq> as_technician_id l)"

definition field_ok :: "field_db \<Rightarrow> bool" where
  "field_ok s \<longleftrightarrow> wo_keys (fd_wos s) \<and> basts_ok (fd_basts s) \<and> (\<forall>k. crew_ok (crew k (fd_assigns s)))
     \<and> tkeyed response_key (fd_responses s)"

lemma wo_number_identity: "wo_identity v = wo_identity w \<Longrightarrow> wo_number v = wo_number w"
  using wo_identity_id by blast

lemma wos_delta_keys: "wos_delta N ws ws' \<Longrightarrow> wo_keys ws \<Longrightarrow> wo_keys ws'"
proof (induction rule: wos_delta.induct)
  case (wd_move k ws q f ws')
  have "wo_id (f x) = wo_id x" "wo_number (f x) = wo_number x" for x
    using wo_identity_id[OF wd_move(3)[of x]] by auto
  then have "map wo_id ws' = map wo_id ws" "map wo_number ws' = map wo_number ws"
    using wd_move(2) by (auto simp: tupdate_def split: if_splits)
  with wd_move(5) show ?case by (simp add: wo_keys_def tkeyed_def)
qed auto

lemma tkeyed_filter_map:
  assumes "tkeyed key (filter P xs)" "\<And>x. x \<in> set xs \<Longrightarrow> key (f x) = key x" "\<And>x. x \<in> set xs \<Longrightarrow> P (f x) \<Longrightarrow> P x"
  shows "tkeyed key (filter P (map f xs))"
  using assms
proof (induction xs)
  case (Cons a xs)
  have "key (f a) \<notin> key ` set (filter P (map f xs))" if "P (f a)"
  proof
    assume "key (f a) \<in> key ` set (filter P (map f xs))"
    then obtain y where y: "y \<in> set xs" "P (f y)" "key (f y) = key (f a)" by auto
    with Cons.prems(2,3) have "key y = key a" "P y" "P a" using that by auto
    from y(1) \<open>P y\<close> have "key y \<in> key ` set (filter P xs)" by simp
    with Cons.prems(1) \<open>P a\<close> \<open>key y = key a\<close> show False by (simp add: tkeyed_def)
  qed
  with Cons show ?case by (auto simp: tkeyed_def split: if_splits)
qed simp

lemma tkeyed_map:
  assumes "tkeyed key xs" "\<And>x. key (f x) = key x"
  shows "tkeyed key (map f xs)"
proof -
  have "map key (map f xs) = map key xs" using assms(2) by simp
  with assms(1) show ?thesis unfolding tkeyed_def by (simp del: map_map)
qed

lemma basts_delta_ok: "basts_delta D bs bs' \<Longrightarrow> basts_ok bs \<Longrightarrow> basts_ok bs'"
proof (induction rule: basts_delta.induct)
  case (bd_new bs b)
  have "\<forall>q \<in> set (filter active_bast bs). ba_wo_id q \<noteq> ba_wo_id b" "active_bast b" "\<forall>q \<in> set bs. ba_id q \<noteq> ba_id b"
    using bd_new(1,2) by (auto simp: active_bast_def)
  with bd_new(2,4) show ?case by (simp add: basts_ok_def tkeyed_snoc)
next
  case (bd_decide k bs b st n t u bs')
  let ?f = "\<lambda>b. if ba_id b = k then b\<lparr>ba_noc_status := st, ba_verified_by := u, ba_verified_at := t, ba_noc_notes := n\<rparr> else b"
  have bs': "bs' = map ?f bs" using bd_decide(5) by (auto simp: tupdate_def split: if_splits)
  have only: "ba_noc_status x = NOCStatusPending" if "x \<in> set bs" "ba_id x = k" for x
    using tfind_mem[of ba_id bs x] that bd_decide by (auto simp: basts_ok_def)
  have "tkeyed ba_wo_id (filter active_bast (map ?f bs))"
  proof (rule tkeyed_filter_map)
    fix x assume "x \<in> set bs" "active_bast (?f x)"
    then show "active_bast x" using only by (cases "ba_id x = k") (auto simp: active_bast_def)
  qed (use bd_decide in \<open>auto simp: basts_ok_def\<close>)
  moreover have "tkeyed ba_id (map ?f bs)"
    by (rule tkeyed_map) (use bd_decide(6) in \<open>simp_all add: basts_ok_def\<close>)
  moreover have "ba_noc_status (?f x) \<in> {NOCStatusPending, NOCStatusApproved, NOCStatusRejected}" if "x \<in> set bs" for x
    using that bd_decide(3,6) by (cases "ba_id x = k") (auto simp: basts_ok_def)
  then have "\<forall>x \<in> set (map ?f bs). ba_noc_status x \<in> {NOCStatusPending, NOCStatusApproved, NOCStatusRejected}"
    unfolding set_map by blast
  ultimately show ?case unfolding basts_ok_def bs' by blast
next
  case (bd_otp k bs b t bs')
  let ?f = "\<lambda>b. if ba_id b = k then b\<lparr>ba_otp_verified_at := t\<rparr> else b"
  have bs': "bs' = map ?f bs" using bd_otp by (auto simp: tupdate_def split: if_splits)
  have "tkeyed ba_wo_id (filter active_bast (map ?f bs))"
    by (rule tkeyed_filter_map) (use bd_otp in \<open>auto simp: basts_ok_def active_bast_def split: if_splits\<close>)
  moreover have "tkeyed ba_id (map ?f bs)"
    by (rule tkeyed_map) (use bd_otp(5) in \<open>simp_all add: basts_ok_def\<close>)
  moreover have "\<forall>x \<in> set (map ?f bs). ba_noc_status x \<in> {NOCStatusPending, NOCStatusApproved, NOCStatusRejected}"
    using bd_otp(5) by (auto simp: basts_ok_def)
  ultimately show ?case unfolding basts_ok_def bs' by blast
qed auto

lemma insert_assignment_shape: "insert_assignment c m a rows = Inr r \<Longrightarrow>
    r = rows @ [a] \<and> (\<forall>q \<in> set rows. as_wo_id q = as_wo_id a \<longrightarrow> as_technician_id q \<noteq> as_technician_id a)"
  by (auto simp: insert_assignment_def split: if_splits)

lemma crew_others [simp]: "crew k (filter (\<lambda>a. as_wo_id a \<noteq> j) rows) = (if k = j then [] else crew k rows)"
  by (induction rows) (auto simp: crew_def)

lemma crew_append [simp]: "crew k (xs @ ys) = crew k xs @ crew k ys"
  by (simp add: crew_def)

lemma crew_Cons [simp]: "crew k [] = []" "crew k (a # as) = (if as_wo_id a = k then a # crew k as else crew k as)"
  by (simp_all add: crew_def)

lemma assigns_delta_ok: "assigns_delta rows rows' \<Longrightarrow> \<forall>k. crew_ok (crew k rows) \<Longrightarrow> \<forall>k. crew_ok (crew k rows')"
proof (induction rule: assigns_delta.induct)
  case (ad_lead c m l k rows r1)
  then show ?case using insert_assignment_shape[OF ad_lead(1)] by (auto simp: crew_ok_def)
next
  case (ad_pair c m l k rows r1 c2 m2 x r2)
  note i1 = insert_assignment_shape[OF ad_pair(1)] and i2 = insert_assignment_shape[OF ad_pair(4)]
  have "as_technician_id x \<noteq> as_technician_id l" using i1 i2 ad_pair(2,5) by auto
  with i1 i2 ad_pair show ?case by (auto simp: crew_ok_def)
qed simp

lemma responses_delta_ok: "responses_delta rows rows' \<Longrightarrow> tkeyed response_key rows \<Longrightarrow> tkeyed response_key rows'"
proof (induction rule: responses_delta.induct)
  case (rd_over q rows r)
  have "map response_key (map (\<lambda>p. if response_key p = response_key r then r\<lparr>cr_id := cr_id q\<rparr> else p) rows)
      = map response_key rows" by (simp add: response_key_def)
  then show ?case using rd_over(3) unfolding tkeyed_def by (rule ssubst)
qed (auto simp: tkeyed_def)

lemma delta_ok: "field_delta N D s s' \<Longrightarrow> field_ok s \<Longrightarrow> field_ok s'"
  unfolding field_delta_def field_ok_def
  using wos_delta_keys basts_delta_ok assigns_delta_ok responses_delta_ok by blast

lemma field_ok_initial: "field_ok (field_initial p ts is)"
  by (simp add: field_ok_def field_initial_def wo_keys_def basts_ok_def tkeyed_def crew_ok_def crew_def)

lemma reachable_field_ok: "field_reachable s \<Longrightarrow> field_ok s"
  by (induction rule: field_reachable.induct) (auto intro: field_ok_initial delta_ok[OF field_apply_delta])

lemma reachable_bill: "field_reachable s \<Longrightarrow> bill_reachable (fd_bill s)"
proof (induction rule: field_reachable.induct)
  case (field_event s E ev)
  then show ?case using field_apply_delta[of ev s E] bill_run_reachable
    by (auto simp: field_delta_def bill_delta_def)
qed (simp add: field_initial_def bill_reachable.start)

section \<open>How rows move\<close>

lemma wos_delta_row:
  assumes d: "wos_delta N ws ws'" and keys: "tkeyed wo_id ws" and w: "w \<in> set ws"
  shows "\<exists>w' \<in> set ws'. wo_identity w' = wo_identity w \<and> (wo_status w' = wo_status w
    \<or> wo_status w' \<in> set (validTransitions (wo_status w)) \<or> N (wo_id w) (wo_status w'))"
  using d
proof cases
  case (wd_move k q f)
  have ws': "ws' = map (\<lambda>r. if wo_id r = k then f r else r) ws"
    using wd_move(2) by (auto simp: tupdate_def split: if_splits)
  show ?thesis
  proof (cases "wo_id w = k")
    case True
    then have "w = q" using tfind_mem[OF keys w] wd_move(1) by simp
    with True wd_move w ws' show ?thesis by (intro bexI[of _ "f w"]) auto
  qed (use w ws' in \<open>auto intro!: bexI[of _ w]\<close>)
qed (use w in auto)

lemma decided_kept: "basts_delta D bs bs' \<Longrightarrow> tfind ba_id k bs = Some b \<Longrightarrow> ba_noc_status b \<noteq> NOCStatusPending \<Longrightarrow>
    \<exists>b'. tfind ba_id k bs' = Some b' \<and> ba_noc_status b' = ba_noc_status b \<and> ba_wo_id b' = ba_wo_id b"
proof (induction rule: basts_delta.induct)
  case (bd_decide j bs c st n t u bs')
  then have "j \<noteq> k" by auto
  with bd_decide tfind_tupdate[OF _ bd_decide(5), of k] show ?case by simp
next
  case (bd_otp j bs c t bs')
  then show ?case using tfind_tupdate[OF _ bd_otp(4), of k] by simp
qed (auto simp: tfind_append)

definition decided_as :: "uuid \<Rightarrow> noc_status \<Rightarrow> field_db \<Rightarrow> bool" where
  "decided_as k st s \<longleftrightarrow> st \<noteq> NOCStatusPending \<and> (\<exists>b. tfind ba_id k (fd_basts s) = Some b \<and> ba_noc_status b = st)"

definition wo_stored :: "work_order \<Rightarrow> field_db \<Rightarrow> bool" where
  "wo_stored w s \<longleftrightarrow> field_ok s \<and> (\<exists>v \<in> set (fd_wos s). wo_identity v = wo_identity w)"

interpretation decision_stays: stable_fact field_step "decided_as k st" for k st
proof
  fix s e
  assume "decided_as k st s"
  then show "decided_as k st (field_step e s)"
    using field_apply_delta[of "snd e" s "fst e"] decided_kept
    unfolding decided_as_def field_step_def field_delta_def by metis
qed

text \<open>Billing keeps its promises: the question is \<^verbatim>\<open>IsOrderOTCPaid\<close>, a move is a run of billing events.\<close>

definition otc_invoice :: "benv \<Rightarrow> uuid \<Rightarrow> bill_db \<Rightarrow> uuid option" where
  "otc_invoice B oid d = (case invoices_FindOTCForOrder B oid d of
     Inr (Some v) \<Rightarrow> Some (iv_id (vw_invoice v)) | _ \<Rightarrow> None)"

definition invoice_settled :: "uuid \<Rightarrow> bill_db \<Rightarrow> bool" where
  "invoice_settled k d \<longleftrightarrow> invoices_ok d \<and> (\<exists>i \<in> set (bd_invoices d). iv_id i = k \<and> iv_status i = InvoiceStatusPaid
     \<and> covers (sql_paid k d) (iv_total i))"

lemma paid_settled: "invoices_ok d \<Longrightarrow> i \<in> set (bd_invoices d) \<Longrightarrow> iv_status i = InvoiceStatusPaid \<Longrightarrow>
    invoice_settled (iv_id i) d"
  by (auto simp: invoice_settled_def invoices_ok_def invoice_ok_def)

lemma FindOTC_row: "invoices_FindOTCForOrder B oid d = Inr (Some v) \<Longrightarrow>
    vw_invoice v \<in> set (bd_invoices d) \<and> iv_order_id (vw_invoice v) = Some oid \<and> iv_type (vw_invoice v) = InvoiceTypeOTC"
  by (auto simp: invoices_FindOTCForOrder_def full_view_def Let_def find_Some_iff split: option.splits)

interpretation billing_answers: billing_gateway bill_reachable bill_delta IsOrderOTCPaid otc_invoice invoice_settled
proof
  fix d B oid k
  assume r: "bill_reachable d" and p: "IsOrderOTCPaid B oid d = Inr True" and k: "otc_invoice B oid d = Some k"
  obtain v where v: "invoices_FindOTCForOrder B oid d = Inr (Some v)" "k = iv_id (vw_invoice v)"
    using k by (auto simp: otc_invoice_def split: sum.splits option.splits)
  have "iv_status (vw_invoice v) = InvoiceStatusPaid" using p v(1) by (simp add: IsOrderOTCPaid_def)
  with paid_settled[OF reachable_invoices[OF r]] FindOTC_row[OF v(1)] v(2) show "invoice_settled k d" by blast
next
  fix k d d'
  assume s: "invoice_settled k d" and m: "bill_delta d d'"
  then obtain i where i: "i \<in> set (bd_invoices d)" "iv_id i = k" "iv_status i = InvoiceStatusPaid" and ok: "invoices_ok d"
    by (auto simp: invoice_settled_def)
  have ev: "invoices_evolve d d'" using m bill_run_evolve by (auto simp: bill_delta_def)
  then have ok': "invoices_ok d'" using ok by (simp add: invoices_evolve_def)
  obtain j where j: "j \<in> set (bd_invoices d')" "invoice_moves i j"
    using ev ok i(1) by (auto simp: invoices_evolve_def rows_evolve_def)
  from j(2) have "iv_status j = InvoiceStatusPaid" "frozen_invoice j = frozen_invoice i"
    using i(3) by (auto simp: invoice_moves_def dest: invoice_edges_end)
  moreover from this(2) have "iv_id j = iv_id i" by (cases i, cases j) (simp add: frozen_invoice_def)
  ultimately show "invoice_settled k d'" using paid_settled[OF ok' j(1)] i(2) by simp
qed

lemma field_run_bill: "bill_delta\<^sup>*\<^sup>* (fd_bill s) (fd_bill (field_run evs s))"
proof (induction evs s rule: field_run.induct)
  case (2 E ev evs s)
  have "bill_delta (fd_bill s) (fd_bill (field_apply E ev s))"
    using field_apply_delta[of ev s E] by (simp add: field_delta_def)
  from converse_rtranclp_into_rtranclp[OF this 2] show ?case by simp
qed simp

interpretation order_stays: stable_fact field_step "wo_stored w" for w
proof
  fix s e
  assume s: "wo_stored w s"
  note d = field_apply_delta[of "snd e" s "fst e"]
  from s obtain v where v: "v \<in> set (fd_wos s)" "wo_identity v = wo_identity w" and ok: "field_ok s"
    by (auto simp: wo_stored_def)
  from d have wd: "wos_delta (forced (snd e) s) (fd_wos s) (fd_wos (field_step e s))"
    by (simp add: field_delta_def field_step_def)
  obtain v' where "v' \<in> set (fd_wos (field_step e s))" "wo_identity v' = wo_identity v"
    using wos_delta_row[OF wd _ v(1)] ok by (auto simp: field_ok_def wo_keys_def)
  with v(2) delta_ok[OF d ok] show "wo_stored w (field_step e s)"
    by (auto simp: wo_stored_def field_step_def)
qed

lemma status_row: "wos_UpdateStatus E n k st s = Inr s' \<Longrightarrow>
    map_option wo_status (tfind wo_id k (fd_wos s')) = Some st \<and> fd_bill s' = fd_bill s \<and> fd_basts s' = fd_basts s
  \<and> (\<forall>w. tfind wo_id k (fd_wos s) = Some w \<longrightarrow> tfind wo_id k (fd_wos s') = Some (w\<lparr>wo_status := st, wo_updated_at := fe_dbnow E\<rparr>))"
proof -
  assume u: "wos_UpdateStatus E n k st s = Inr s'"
  obtain rows where r: "s' = s\<lparr>fd_wos := rows\<rparr>"
    "tupdate wo_id (\<lambda>q. q\<lparr>wo_status := st, wo_updated_at := fe_dbnow E\<rparr>) k (fd_wos s) = Some rows"
    using wos_UpdateStatus_shape[OF u] by blast
  obtain w where w: "tfind wo_id k (fd_wos s) = Some w" using tupdate_found[OF r(2)] by blast
  have "tfind wo_id k rows = Some (w\<lparr>wo_status := st, wo_updated_at := fe_dbnow E\<rparr>)"
    using tfind_tupdate[OF _ r(2), of k] w by simp
  with r(1) w show ?thesis by simp
qed

lemma MarkVerified_ok:
  assumes "fe_fail E BastMark = None" "b \<in> set (fd_basts s)"
  shows "\<exists>bs. basts_MarkVerified E (ba_id b) st u n s = Inr (s\<lparr>fd_basts := bs\<rparr>)"
proof -
  have "\<exists>r \<in> set (fd_basts s). ba_id r = ba_id b" using assms(2) by blast
  then show ?thesis by (simp add: basts_MarkVerified_def tupdate_def fguard_def assms(1)) (rule exI, rule refl)
qed

lemma status_ok:
  assumes "fe_fail E (WoStatus n) = None" "tfind wo_id k (fd_wos s) = Some w" "\<And>t. st \<noteq> WOStatusOther t"
  shows "\<exists>rows. wos_UpdateStatus E n k st s = Inr (s\<lparr>fd_wos := rows\<rparr>)"
proof -
  have "\<exists>r \<in> set (fd_wos s). wo_id r = k" using tfind_SomeD[OF assms(2)] by blast
  then show ?thesis using assms(3) by (cases st) (simp_all add: wos_UpdateStatus_def tupdate_def fguard_def assms(1), (rule exI, rule refl)+, blast)
qed

lemma distinct_single: "distinct xs \<Longrightarrow> set xs \<subseteq> {k} \<Longrightarrow> length xs \<le> 1"
  using card_mono[of "{k}" "set xs"] distinct_card[of xs] by simp

section \<open>The decision of the NOC, path by path\<close>

lemma VerifyBAST_pass:
  assumes "basts_FindByID E 0 (vb_bast_id x) s = Inr (Some b)" "ba_noc_status b = NOCStatusPending"
    "vb_decision x = NOCStatusApproved \<and> payment_gate E b s = Inr () \<or> vb_decision x = NOCStatusRejected"
  shows "VerifyBAST E x s =
    (case basts_MarkVerified E (ba_id b) (vb_decision x) (vb_by x) (vb_notes x) s of Inl e \<Rightarrow> (Inl e, s) | Inr s1 \<Rightarrow>
    (case wos_UpdateStatus E 0 (ba_wo_id b)
        (if vb_decision x = NOCStatusRejected then WOStatusInProgress else WOStatusCompleted) s1 of
      Inl e \<Rightarrow> (Inl e, s1)
    | Inr s2 \<Rightarrow>
    (case (if vb_decision x = NOCStatusApproved then approval_hooks E (ba_wo_id b) s2 else (None, s2)) of
        (Some e, s3) \<Rightarrow> (Inl e, s3)
      | (None, s3) \<Rightarrow> (basts_FindByID E 1 (ba_id b) s3, s3))))"
  using assms by (auto simp: VerifyBAST_def CanVerify_def)

lemma VerifyBAST_success:
  assumes call: "VerifyBAST E x s = (Inr ob, s')" "vb_decision x = NOCStatusApproved"
    and b: "tfind ba_id (vb_bast_id x) (fd_basts s) = Some b"
  shows "\<exists>s2. fd_bill s2 = fd_bill s \<and> approval_hooks E (ba_wo_id b) s2 = (None, s') \<and>
    (\<forall>w. tfind wo_id (ba_wo_id b) (fd_wos s) = Some w \<longrightarrow> tfind wo_id (ba_wo_id b) (fd_wos s2)
      = Some (w\<lparr>wo_status := WOStatusCompleted, wo_updated_at := fe_dbnow E\<rparr>))"
proof -
  have f: "basts_FindByID E 0 (vb_bast_id x) s = Inr (Some b)"
    using call b by (auto simp: VerifyBAST_def basts_FindByID_def fguard_def split: option.splits)
  have pend: "ba_noc_status b = NOCStatusPending" and gate: "payment_gate E b s = Inr ()"
    using call f by (auto simp: VerifyBAST_def CanVerify_def split: if_splits sum.splits)
  note eq = VerifyBAST_pass[OF f pend disjI1[OF conjI[OF call(2) gate]]]
  obtain s1 where m: "basts_MarkVerified E (ba_id b) (vb_decision x) (vb_by x) (vb_notes x) s = Inr s1"
    using eq call(1) by (cases "basts_MarkVerified E (ba_id b) (vb_decision x) (vb_by x) (vb_notes x) s") auto
  obtain s2 where u: "wos_UpdateStatus E 0 (ba_wo_id b) WOStatusCompleted s1 = Inr s2"
    using eq call m by (cases "wos_UpdateStatus E 0 (ba_wo_id b) WOStatusCompleted s1") auto
  have "approval_hooks E (ba_wo_id b) s2 = (None, s')"
    using eq call m u by (auto split: prod.splits option.splits)
  moreover have "fd_bill s1 = fd_bill s" "fd_wos s1 = fd_wos s" using basts_MarkVerified_shape[OF m] by auto
  ultimately show ?thesis using status_row[OF u] by auto
qed

text \<open>A decision whose writes succeed.\<close>

lemma VerifyBAST_decides:
  assumes ok: "fe_fail E (BastFind 0) = None" "fe_fail E BastMark = None" "fe_fail E (WoStatus 0) = None"
    and b: "tfind ba_id (vb_bast_id x) (fd_basts s) = Some b" "ba_noc_status b = NOCStatusPending"
    and w: "tfind wo_id (ba_wo_id b) (fd_wos s) = Some w"
    and d: "vb_decision x = NOCStatusApproved" "payment_gate E b s = Inr ()"
  shows "\<exists>s2 b2. tfind ba_id (vb_bast_id x) (fd_basts s2) = Some b2 \<and> ba_noc_status b2 = NOCStatusApproved \<and> fd_bill s2 = fd_bill s
    \<and> tfind wo_id (ba_wo_id b) (fd_wos s2) = Some (w\<lparr>wo_status := WOStatusCompleted, wo_updated_at := fe_dbnow E\<rparr>)
    \<and> VerifyBAST E x s = (case approval_hooks E (ba_wo_id b) s2 of
        (Some e, s3) \<Rightarrow> (Inl e, s3) | (None, s3) \<Rightarrow> (basts_FindByID E 1 (ba_id b) s3, s3))"
proof -
  have f: "basts_FindByID E 0 (vb_bast_id x) s = Inr (Some b)" using b ok by (simp add: basts_FindByID_def)
  note bid = tfind_SomeD[OF b(1)]
  obtain bs where m: "basts_MarkVerified E (ba_id b) (vb_decision x) (vb_by x) (vb_notes x) s = Inr (s\<lparr>fd_basts := bs\<rparr>)"
    using MarkVerified_ok[OF ok(2), of b s] bid by metis
  have w1: "tfind wo_id (ba_wo_id b) (fd_wos (s\<lparr>fd_basts := bs\<rparr>)) = Some w" using w by simp
  obtain rows where u: "wos_UpdateStatus E 0 (ba_wo_id b) WOStatusCompleted (s\<lparr>fd_basts := bs\<rparr>)
      = Inr (s\<lparr>fd_basts := bs, fd_wos := rows\<rparr>)"
    using status_ok[OF ok(3) w1, of WOStatusCompleted] by auto
  obtain b2 where b2: "tfind ba_id (vb_bast_id x) bs = Some b2" "ba_noc_status b2 = NOCStatusApproved"
  proof -
    obtain rs where r: "s\<lparr>fd_basts := bs\<rparr> = s\<lparr>fd_basts := rs\<rparr>" "tupdate ba_id (\<lambda>b. b\<lparr>ba_noc_status := vb_decision x,
        ba_verified_by := Some (vb_by x), ba_verified_at := Some (fe_dbnow E), ba_noc_notes := vb_notes x\<rparr>) (ba_id b)
        (fd_basts s) = Some rs" using basts_MarkVerified_shape[OF m] by blast
    have "rs = bs" using arg_cong[OF r(1), of fd_basts] by simp
    with tfind_tupdate[OF _ r(2), of "vb_bast_id x"] b(1) bid d(1) that show thesis by simp
  qed
  show ?thesis
    using VerifyBAST_pass[OF f b(2) disjI1[OF conjI[OF d]]] m u b2 w status_row[OF u] d(1)
    by (intro exI[of _ "s\<lparr>fd_basts := bs, fd_wos := rows\<rparr>"] exI[of _ b2]) simp
qed

text \<open>A decided record is never decided again.\<close>

lemma VerifyBAST_refused: "decided_as (vb_bast_id x) st s \<Longrightarrow> \<exists>e. VerifyBAST E x s = (Inl e, s)"
  by (auto simp: decided_as_def VerifyBAST_def basts_FindByID_def fguard_def CanVerify_def split: option.splits)

text \<open>Who approved a record had passed the gate.\<close>

lemma approval_gated:
  assumes ok: "field_ok s" and b: "tfind ba_id k (fd_basts s) = Some b" "ba_noc_status b = NOCStatusPending"
    and b': "tfind ba_id k (fd_basts (field_apply E ev s)) = Some b'" "ba_noc_status b' = NOCStatusApproved"
  shows "payment_gate E b s = Inr ()"
proof -
  have "basts_delta (decision E ev s) (fd_basts s) (fd_basts (field_apply E ev s))"
    using field_apply_delta[of ev s E] by (simp add: field_delta_def)
  then show ?thesis
  proof cases
    case (bd_decide j c st n t u)
    have "j = k" using tfind_tupdate[OF _ bd_decide(5), of k] b b' by (auto split: if_splits)
    moreover from this have "st = NOCStatusApproved" using tfind_tupdate[OF _ bd_decide(5), of k] b b' by auto
    ultimately show ?thesis using bd_decide(4) b(1)
      by (auto simp: decision_def gated_def split: field_event.splits)
  next
    case (bd_otp j c t)
    then show ?thesis using tfind_tupdate[OF _ bd_otp(4), of k] b b' by (auto split: if_splits)
  qed (use b b' in \<open>auto simp: tfind_append\<close>)
qed

lemma payment_gate_open:
  assumes "payment_gate E b s = Inr ()" "tfind wo_id (ba_wo_id b) (fd_wos s) = Some w" "wo_order_id w = Some oid"
  shows "IsOrderOTCPaid (fe_bill E) oid (fd_bill s) = Inr True"
  using assms by (auto simp: payment_gate_def wos_FindByID_def split: sum.splits if_splits)

section \<open>Status calls\<close>

lemma UpdateStatus_moves:
  assumes "fe_fail E = (\<lambda>_. None)" "tfind wo_id k (fd_wos s) = Some w" "st \<in> set (validTransitions (wo_status w))"
    "\<And>t. st \<noteq> WOStatusOther t" "st \<noteq> wo_status w"
  shows "snd (UpdateStatus E k st s) = s\<lparr>fd_wos := map (\<lambda>q. if wo_id q = k
      then q\<lparr>wo_status := st, wo_updated_at := fe_dbnow E\<rparr> else q) (fd_wos s)\<rparr>"
    and "tfind wo_id k (fd_wos (snd (UpdateStatus E k st s))) = Some (w\<lparr>wo_status := st, wo_updated_at := fe_dbnow E\<rparr>)"
proof -
  have up: "tupdate wo_id (\<lambda>q. q\<lparr>wo_status := st, wo_updated_at := fe_dbnow E\<rparr>) k (fd_wos s)
    = Some (map (\<lambda>q. if wo_id q = k then q\<lparr>wo_status := st, wo_updated_at := fe_dbnow E\<rparr> else q) (fd_wos s))"
    using tfind_SomeD[OF assms(2)] by (auto simp: tupdate_def)
  have "wos_UpdateStatus E 0 k st s = Inr (s\<lparr>fd_wos := map (\<lambda>q. if wo_id q = k
      then q\<lparr>wo_status := st, wo_updated_at := fe_dbnow E\<rparr> else q) (fd_wos s)\<rparr>)"
    using up assms(4) by (cases st) (auto simp: wos_UpdateStatus_def fguard_def assms(1))
  then show a: "snd (UpdateStatus E k st s) = s\<lparr>fd_wos := map (\<lambda>q. if wo_id q = k
      then q\<lparr>wo_status := st, wo_updated_at := fe_dbnow E\<rparr> else q) (fd_wos s)\<rparr>"
    using assms(2,3,5) by (simp add: UpdateStatus_def wos_FindByID_def fguard_def assms(1) AssertCanTransition_def)
  show "tfind wo_id k (fd_wos (snd (UpdateStatus E k st s))) = Some (w\<lparr>wo_status := st, wo_updated_at := fe_dbnow E\<rparr>)"
    unfolding a using assms(2) by (simp add: tfind_map)
qed

section \<open>The hand-over, path by path\<close>

lemma SubmitBAST_success:
  assumes "SubmitBAST E x s = (Inr (b, plain), s')"
  obtains w s2 where "submitted E x s w b plain" "basts_Create E b (ftook 1 s) = Inr s2"
    "wos_UpdateStatus E 0 (sb_wo_id x) WOStatusPendingNOCVerification s2 = Inr s'"
proof -
  obtain w b0 p0 where sub: "submitted E x s w b0 p0" and eq: "store_bast E (sb_wo_id x) b0 p0 (ftook 1 s) = (Inr (b, plain), s')"
    using SubmitBAST_split[of E x s] assms by auto
  obtain s2 where c: "basts_Create E b0 (ftook 1 s) = Inr s2"
    using eq by (cases "basts_Create E b0 (ftook 1 s)") (auto simp: store_bast_def)
  have "wos_UpdateStatus E 0 (sb_wo_id x) WOStatusPendingNOCVerification s2 = Inr s'" "b0 = b" "p0 = plain"
    using eq c by (cases "wos_UpdateStatus E 0 (sb_wo_id x) WOStatusPendingNOCVerification s2";
        simp add: store_bast_def)+
  with that sub c show thesis by blast
qed

lemma missing_item_None: "missing_item items rs = None \<longleftrightarrow>
    (\<forall>i \<in> set items. ci_required i \<longrightarrow> (\<exists>r \<in> set rs. cr_item_id r = ci_item_id i))"
  unfolding missing_item_def find_None_iff image_iff by metis

lemma checklist_gate_complete:
  assumes "checklist_gate E w s = Inr ()" "effective_template E 0 w s = Some (t, items)" "i \<in> set items" "ci_required i"
  shows "\<exists>r \<in> set (fd_responses s). cr_wo_id r = wo_id w \<and> cr_item_id r = ci_item_id i"
  using assms by (auto simp: checklist_gate_def ListResponses_def missing_item_None split: sum.splits option.splits)

section \<open>Completing a termination\<close>

lemma terms_FindByWOID_stored: "terms_FindByWOID B k d = Inr (Some t) \<Longrightarrow> t \<in> set (bd_terms d)"
proof -
  assume f: "terms_FindByWOID B k d = Inr (Some t)"
  let ?l = "order_by (\<lambda>t. - tr_requested_at t) (filter (\<lambda>t. tr_wo_id t = Some k) (bd_terms d))"
  have "t \<in> set ?l" using f by (cases ?l) (auto simp: terms_FindByWOID_def)
  then show ?thesis by simp
qed

lemma CompleteTermination_effect:
  assumes ok: "be_fail B = (\<lambda>_. None)" and f: "terms_FindByWOID B k d = Inr (Some t)" "term_open t"
    and c: "CompleteTerminationByWO B k d = (None, d')"
  shows "map_option tr_status (tfind tr_id (tr_id t) (bd_terms d')) = Some TerminationStatusCompleted"
    and "c \<in> set (bd_customers d') \<Longrightarrow> cc_id c = tr_customer_id t \<Longrightarrow> cc_status c = ''terminated''"
    and "\<exists>cs. bd_radius d' = cs @ [RadiusDeactivated (tr_customer_id t)]"
proof -
  let ?t = "t\<lparr>tr_status := TerminationStatusCompleted, tr_completed_at := Some (be_now B)\<rparr>"
  let ?reason = "''termination completed via wo '' @ uuid_text k"
  obtain d1 where u: "terms_Update B ?t d = Inr d1"
    and d': "d' = snd (radius B (RadiusDeactivate (tr_customer_id t)) (RadiusDeactivated (tr_customer_id t))
      (case SetCustomerStatus B (tr_customer_id t) ''terminated'' ?reason d1 of Inl _ \<Rightarrow> d1 | Inr x \<Rightarrow> x))"
    using c f by (auto simp: CompleteTerminationByWO_def term_open_def Let_def split: sum.splits if_splits)
  let ?d2 = "case SetCustomerStatus B (tr_customer_id t) ''terminated'' ?reason d1 of Inl _ \<Rightarrow> d1 | Inr x \<Rightarrow> x"
  have r: "d' = ?d2\<lparr>bd_radius := bd_radius ?d2 @ [RadiusDeactivated (tr_customer_id t)]\<rparr>"
    using d' ok by (simp add: radius_def)
  then show "\<exists>cs. bd_radius d' = cs @ [RadiusDeactivated (tr_customer_id t)]" by simp
  have d1: "d1 = d\<lparr>bd_terms := map (\<lambda>q. if tr_id q = tr_id t then merge_term ?t q else q) (bd_terms d)\<rparr>"
    using terms_update_shape[OF u] by simp
  obtain old where "tfind tr_id (tr_id t) (bd_terms d) = Some old" using terms_update_shape[OF u] by auto
  then have "tfind tr_id (tr_id t) (bd_terms d1) = Some (merge_term ?t old)"
    by (simp add: d1 tfind_map merge_term_def)
  moreover have "bd_terms d' = bd_terms d1"
    using r customer_shape[of B "tr_customer_id t" "''terminated''" ?reason d1]
    by (auto split: sum.splits)
  ultimately show "map_option tr_status (tfind tr_id (tr_id t) (bd_terms d')) = Some TerminationStatusCompleted"
    by (simp add: merge_term_def)
  assume cc: "c \<in> set (bd_customers d')" "cc_id c = tr_customer_id t"
  show "cc_status c = ''terminated''"
  proof (cases "tupdate cc_id (set_status (be_dbnow B) ''terminated'' ?reason) (tr_customer_id t) (bd_customers d1)")
    case None
    then have "bd_customers d' = bd_customers d1" using r ok by (simp add: SetCustomerStatus_def bguard_def)
    with None cc show ?thesis by (auto simp: tupdate_def split: if_splits)
  next
    case (Some rows)
    then have "bd_customers d' = rows" using r ok by (simp add: SetCustomerStatus_def bguard_def)
    with cc tupdate_set[OF Some, of c] show ?thesis by (auto simp: set_status_def)
  qed
qed

end
