(* ===== verification/FieldDemo.thy ===== *)
theory FieldDemo
  imports FieldFacts BillingFacts
begin

text \<open>
  Small histories of the field service for the witnesses: an installation that is handed over,
  with its invoice paid, and a termination. The states are built by the operations themselves
  and are reachable because each of them is an event.
\<close>

section \<open>Environment and inputs\<close>

definition demo_projection :: order_projection where
  "demo_projection = \<lparr>op_order_id = 2, op_customer_id = 1, op_address = ''Jalan 1'', op_branch_id = None,
     op_window_hours = 72, op_product_id = None, op_schema_id = None, op_customer_type = ''retail''\<rparr>"

definition field_env_at :: "time \<Rightarrow> (fcall \<Rightarrow> derr option) \<Rightarrow> field_env" where
  "field_env_at t faults = \<lparr>fe_bill = bill_ok_env t, fe_fail = faults, fe_fresh = (\<lambda>n. word_of_nat (2000 + n)),
     fe_order = (\<lambda>_. Inr demo_projection), fe_leader = (\<lambda>_. None), fe_sla = (\<lambda>_. Inr 240),
     fe_checklist = (\<lambda>_. Inl (NotFound ''schema'' ''none'')), fe_gps = (\<lambda>_. Inl (NotFound ''upload'' ''none'')),
     fe_radius = (\<lambda>_. Inr ''secret''), fe_snapshot = (\<lambda>_ _ _ _. Some ''{}''), fe_random = 42,
     fe_hash = (\<lambda>t. CHR ''h'' # t), fe_compare = (\<lambda>h t. h = CHR ''h'' # t), fe_lower = id, fe_upper = id\<rparr>"

definition fdemo :: "int \<Rightarrow> field_env" where
  "fdemo d = field_env_at (day_in_march d) (\<lambda>_. None)"

lemma fdemo_fields [simp]: "fe_bill (fdemo d) = bill_ok_env (day_in_march d)" "fe_fail (fdemo d) = (\<lambda>_. None)"
  by (simp_all add: fdemo_def field_env_at_def)

text \<open>A faulty environment: the projection for the activation cannot be read.\<close>

definition no_projection :: "fcall \<Rightarrow> derr option" where
  "no_projection c = (case c of ActProjection n \<Rightarrow> Some (New KindInternal ''db'' ''timeout'') | _ \<Rightarrow> None)"

definition broken :: field_env where
  "broken = field_env_at (day_in_march 8) no_projection"

lemma broken_fields [simp]: "fe_bill broken = bill_ok_env (day_in_march 8)" "fe_fail broken = no_projection"
  by (simp_all add: broken_def field_env_at_def)

definition demo_wo :: work_order where
  "demo_wo = \<lparr>wo_id = 50, wo_number = ''WO-20250303-1'', wo_order_id = Some 2, wo_customer_id = 1,
     wo_kind = WOTypeNewInstallation, wo_product_type = ''broadband'', wo_subtype = [], wo_address = ''Jalan 1'',
     wo_branch_id = None, wo_priority = PriorityMedium, wo_status = WOStatusUnassigned, wo_scheduled = None,
     wo_sla_due = None, wo_team_id = None, wo_team_leader_id = None, wo_emergency = False, wo_cross_area = False,
     wo_notes = [], wo_created_by = None, wo_created_at = 0, wo_updated_at = 0, wo_product_id = None,
     wo_schema_id = None, wo_category = WOCategoryBroadband\<rparr>"

definition crew_in :: assign_input where
  "crew_in = \<lparr>ai_wo_id = 50, ai_lead_id = 7, ai_lead_grade = None, ai_observer_id = Some 8, ai_observer_grade = None, ai_by = 4\<rparr>"

definition bast_in :: submit_bast_input where
  "bast_in = \<lparr>sb_wo_id = 50, sb_mode = SignOffRemote, sb_sig_url = ''sig'', sb_otp_used = False, sb_gps_lat = None,
     sb_gps_lng = None, sb_compiled = [], sb_by = 7\<rparr>"

definition verdict :: "noc_status \<Rightarrow> verify_bast_input" where
  "verdict st = \<lparr>vb_bast_id = 2002, vb_decision = st, vb_notes = [], vb_by = 9\<rparr>"

section \<open>States\<close>

text \<open>The order is stored, its crew assigned, the work started, the record submitted.\<close>

definition started :: field_db where
  "started = snd (UpdateStatus (fdemo 6) 50 WOStatusInProgress (snd (AssignTechnicians (fdemo 5) crew_in
     ((field_initial None [] [])\<lparr>fd_wos := [demo_wo]\<rparr>))))"

definition handed_over :: field_db where
  "handed_over = snd (SubmitBAST (fdemo 7) bast_in started)"

text \<open>The same with the customer's order in CRM and its installation invoice paid.\<close>

definition paid_up :: field_db where
  "paid_up = handed_over\<lparr>fd_bill := bill_run otc_trace bill_start\<rparr>"

text \<open>A termination that waits for the decision; its work order is the one billing knows.\<close>

definition leaving_request :: termination_request where
  "leaving_request = \<lparr>tr_id = 60, tr_customer_id = 1, tr_order_id = Some 2, tr_kind = TerminationKindVoluntary,
     tr_status = TerminationStatusWOCreated, tr_reason = [], tr_requested_by = None, tr_final_invoice_id = None,
     tr_penalty = Fin 0, tr_outstanding = Fin 0, tr_wo_id = Some 50, tr_requested_at = day_in_march 2,
     tr_completed_at = None, tr_notes = []\<rparr>"

definition leaving :: field_db where
  "leaving = handed_over\<lparr>fd_wos := map (\<lambda>w. w\<lparr>wo_kind := WOTypeTermination\<rparr>) (fd_wos handed_over),
     fd_bill := demo_db\<lparr>bd_terms := [leaving_request]\<rparr>\<rparr>"

section \<open>What is in them\<close>

definition wo_view :: "field_db \<Rightarrow> (uuid \<times> wo_kind \<times> wo_status \<times> uuid option) list" where
  "wo_view s = map (\<lambda>w. (wo_id w, wo_kind w, wo_status w, wo_order_id w)) (fd_wos s)"

definition bast_view :: "field_db \<Rightarrow> (uuid \<times> uuid \<times> noc_status) list" where
  "bast_view s = map (\<lambda>b. (ba_id b, ba_wo_id b, ba_noc_status b)) (fd_basts s)"

definition crew_view :: "field_db \<Rightarrow> (uuid \<times> wo_role) list" where
  "crew_view s = map (\<lambda>a. (as_technician_id a, as_role a)) (fd_assigns s)"

definition started_view :: "field_db \<Rightarrow> _" where
  "started_view s = (wo_view s, crew_view s, map_sum (\<lambda>_. ()) snd (fst (SubmitBAST (fdemo 7) bast_in s)))"

lemma started_viewed: "started_view started =
    ([(50, WOTypeNewInstallation, WOStatusInProgress, Some 2)], [(7, WORoleLead), (8, WORoleObserver)], Inr ''000042'')"
  by code_simp

lemma handed_over_viewed: "(wo_view handed_over, bast_view handed_over) =
    ([(50, WOTypeNewInstallation, WOStatusPendingNOCVerification, Some 2)], [(2002, 50, NOCStatusPending)])"
  by code_simp

lemma single_row: "map (\<lambda>r. (key r, f r)) rows = [(k, y)] \<Longrightarrow> \<exists>r. rows = [r] \<and> tfind key k rows = Some r \<and> f r = y"
  by (cases rows) auto

lemma started_row: "\<exists>w. tfind wo_id 50 (fd_wos started) = Some w \<and> wo_status w = WOStatusInProgress"
  using single_row[of wo_id "\<lambda>w. (wo_kind w, wo_status w, wo_order_id w)" "fd_wos started"] started_viewed
  by (auto simp: started_view_def wo_view_def)

lemma handed_over_rows:
  "\<exists>w. fd_wos handed_over = [w] \<and> wo_id w = 50 \<and> wo_kind w = WOTypeNewInstallation
    \<and> wo_status w = WOStatusPendingNOCVerification \<and> wo_order_id w = Some 2"
  "\<exists>b. fd_basts handed_over = [b] \<and> ba_id b = 2002 \<and> ba_wo_id b = 50 \<and> ba_noc_status b = NOCStatusPending"
  using handed_over_viewed by (auto simp: wo_view_def bast_view_def)

lemma paid_invoice: "\<exists>v. invoices_FindOTCForOrder (bill_ok_env t) 2 (fd_bill paid_up) = Inr (Some v)
    \<and> iv_id (vw_invoice v) = 1000 \<and> iv_status (vw_invoice v) = InvoiceStatusPaid \<and> iv_total (vw_invoice v) = Fin 222"
proof -
  obtain i where "bd_invoices (bill_run otc_trace bill_start) = [i]" "iv_id i = 1000" "iv_order_id i = Some 2"
    "iv_type i = InvoiceTypeOTC" "iv_status i = InvoiceStatusPaid" "iv_total i = Fin 222"
    using otc_viewed by (auto simp: otc_view_def)
  then show ?thesis
    by (simp add: paid_up_def invoices_FindOTCForOrder_def bguard_def full_view_def Let_def)
qed

section \<open>Reachability\<close>

lemma reach_event: "field_reachable s \<Longrightarrow> field_apply E ev s = s' \<Longrightarrow> field_reachable s'"
  by (metis field_reachable.field_event)

lemma reach_billing:
  fixes E :: field_env
  assumes "field_reachable s" "bd_workorders (bill_apply (fe_bill E) ev (fd_bill s)) = bd_workorders (fd_bill s)"
  shows "field_reachable (s\<lparr>fd_bill := bill_apply (fe_bill E) ev (fd_bill s)\<rparr>)"
proof (rule reach_event[OF assms(1), of E "FevBilling ev (\<lambda>_. undefined)"])
  have "wo_keys (fd_wos s)" using reachable_field_ok[OF assms(1)] by (simp add: field_ok_def)
  then show "field_apply E (FevBilling ev (\<lambda>_. undefined)) s = s\<lparr>fd_bill := bill_apply (fe_bill E) ev (fd_bill s)\<rparr>"
    using assms(2) by (simp add: insert_wos_def Let_def)
qed

lemma reach_billing_again:
  fixes E :: field_env
  assumes "field_reachable (s\<lparr>fd_bill := b\<rparr>)" "bd_workorders (bill_apply (fe_bill E) ev b) = bd_workorders b"
  shows "field_reachable (s\<lparr>fd_bill := bill_apply (fe_bill E) ev b\<rparr>)"
  using reach_billing[OF assms(1), of E ev] assms(2) by simp

lemma reach_started: "field_reachable started"
proof -
  let ?s = "(field_initial None [] [])\<lparr>fd_wos := [demo_wo]\<rparr>"
  have "field_reachable ?s"
    by (rule reach_event[OF field_start[of None "[]" "[]"], of "fdemo 3" "FevInsertWO demo_wo"])
      (simp add: insert_wos_def field_initial_def wo_keys_def tkeyed_def wo_check_def demo_wo_def)
  from reach_event[OF this, of "fdemo 5" "FevAssign crew_in"]
  have "field_reachable (snd (AssignTechnicians (fdemo 5) crew_in ?s))" by simp
  from reach_event[OF this, of "fdemo 6" "FevStatus 50 WOStatusInProgress"]
  show ?thesis by (simp add: started_def)
qed

lemma reach_handed_over: "field_reachable handed_over"
  using reach_event[OF reach_started, of "fdemo 7" "FevSubmit bast_in"] by (simp add: handed_over_def)

lemma CreateInvoice_workorders: "bd_workorders (snd (CreateInvoice E x s)) = bd_workorders s"
  by (auto simp: CreateInvoice_def Let_def took_def invoices_Create_def split: sum.splits prod.splits if_splits)

lemma AssignTechnicians_bill: "fd_bill (snd (AssignTechnicians E x s)) = fd_bill s"
proof -
  have p: "fd_bill s2 = fd_bill s" if "assigns_UpsertPair E k l ob (ftook n s) = Inr s2" for k l ob n s2
    using UpsertPair_shape[OF that] by (metis field_db.ext_inject field_db.surjective field_db.update_convs(4) ftook_fields(5))
  show ?thesis
    using announce_assignment_same[unfolded same_tables_def]
    by (auto simp: AssignTechnicians_def Let_def dest!: p status_row split: sum.splits if_splits)
qed

lemma SubmitBAST_bill: "fd_bill (snd (SubmitBAST E x s)) = fd_bill s"
proof -
  have "fd_bill s2 = fd_bill s" if "basts_Create E b (ftook 1 s) = Inr s2" for b s2
    using basts_Create_shape[OF that] by simp
  then have "fd_bill (snd (store_bast E k b plain (ftook 1 s))) = fd_bill s" for k b plain
    by (auto simp: store_bast_def dest!: status_row split: sum.splits)
  then show ?thesis using SubmitBAST_split[of E x s] by (auto simp: same_tables_def)
qed

lemma UpdateStatus_bill: "fd_bill (snd (UpdateStatus E k st s)) = fd_bill s"
  by (auto simp: UpdateStatus_def dest!: status_row split: sum.splits)

lemma handed_over_bill: "fd_bill handed_over = bill_start"
  by (simp add: handed_over_def started_def field_initial_def bill_start_def AssignTechnicians_bill SubmitBAST_bill
      UpdateStatus_bill)

lemma reach_paid: "field_reachable paid_up"
proof -
  let ?b1 = "bill_apply (bill_ok_env (day_in_march 1)) (EvCrm [demo_customer] [demo_crm_order] [] [] []) bill_start"
  let ?b2 = "bill_apply (bill_ok_env (day_in_march 1)) (EvCreateInvoice otc_input) ?b1"
  let ?b3 = "bill_apply (bill_ok_env (day_in_march 2)) (EvRecordPayment (pay_otc (Fin 222) ''tx1'')) ?b2"
  have b3: "bill_run otc_trace bill_start = ?b3" by (simp only: otc_trace_def crm_event_def bill_run.simps)
  have w1: "bd_workorders ?b1 = []" "bd_workorders bill_start = []" by (simp_all add: bill_start_def bill_initial_def)
  then have w2: "bd_workorders ?b2 = []" by (simp add: CreateInvoice_workorders)
  have w3: "bd_workorders ?b3 = []" using otc_viewed unfolding b3[symmetric] by (simp only: otc_view_def prod.inject)
  have "field_reachable (handed_over\<lparr>fd_bill := ?b1\<rparr>)"
    using reach_billing[OF reach_handed_over, of "fdemo 1"] w1 by (simp only: handed_over_bill fdemo_fields)
  from reach_billing_again[OF this, of "fdemo 1" "EvCreateInvoice otc_input"] w1 w2
  have "field_reachable (handed_over\<lparr>fd_bill := ?b2\<rparr>)" by (simp only: fdemo_fields)
  from reach_billing_again[OF this, of "fdemo 2" "EvRecordPayment (pay_otc (Fin 222) ''tx1'')"] w2 w3
  show ?thesis by (simp only: fdemo_fields paid_up_def b3)
qed

section \<open>The decision on the paid installation\<close>

lemma paid_up_rows:
  "\<exists>w. tfind wo_id 50 (fd_wos paid_up) = Some w \<and> wo_kind w = WOTypeNewInstallation \<and> wo_order_id w = Some 2
    \<and> wo_status w = WOStatusPendingNOCVerification \<and> fd_wos paid_up = [w]"
  "\<exists>b. tfind ba_id 2002 (fd_basts paid_up) = Some b \<and> ba_wo_id b = 50 \<and> ba_noc_status b = NOCStatusPending
    \<and> fd_basts paid_up = [b]"
  using handed_over_rows by (auto simp: paid_up_def)

lemma paid_up_gate:
  assumes b: "tfind ba_id 2002 (fd_basts paid_up) = Some b" "ba_wo_id b = 50"
    and E: "fe_fail E (WoFind 0) = None" "fe_bill E = bill_ok_env t"
  shows "payment_gate E b paid_up = Inr ()"
proof -
  obtain w where w: "tfind wo_id 50 (fd_wos paid_up) = Some w" "wo_order_id w = Some 2" using paid_up_rows(1) by blast
  have "IsOrderOTCPaid (fe_bill E) 2 (fd_bill paid_up) = Inr True"
    using paid_invoice[of t] E(2) by (auto simp: IsOrderOTCPaid_def)
  with w b(2) E(1) show ?thesis by (simp add: payment_gate_def wos_FindByID_def fguard_def)
qed

text \<open>Approved by the working environment and by the broken one, where the activation fails.\<close>

lemma paid_up_approved: "\<exists>b. tfind ba_id 2002 (fd_basts (field_apply (fdemo 8) (FevVerify (verdict NOCStatusApproved)) paid_up)) = Some b
    \<and> ba_noc_status b = NOCStatusApproved"
proof -
  obtain b w where b: "tfind ba_id 2002 (fd_basts paid_up) = Some b" "ba_wo_id b = 50" "ba_noc_status b = NOCStatusPending"
    and w: "tfind wo_id 50 (fd_wos paid_up) = Some w" using paid_up_rows by blast
  have gate: "payment_gate (fdemo 8) b paid_up = Inr ()" by (rule paid_up_gate[OF b(1,2)]) simp_all
  obtain s2 b2 where "tfind ba_id 2002 (fd_basts s2) = Some b2" "ba_noc_status b2 = NOCStatusApproved"
    "VerifyBAST (fdemo 8) (verdict NOCStatusApproved) paid_up = (case approval_hooks (fdemo 8) 50 s2 of
        (Some e, s3) \<Rightarrow> (Inl e, s3) | (None, s3) \<Rightarrow> (basts_FindByID (fdemo 8) 1 (ba_id b) s3, s3))"
    using VerifyBAST_decides[of "fdemo 8" "verdict NOCStatusApproved" paid_up b w] b w gate by (auto simp: verdict_def)
  then show ?thesis using hooks_bill[of s2 "fdemo 8" 50] by (auto simp: bill_only_def split: prod.splits option.splits)
qed

lemma paid_up_broken: "\<exists>e s b. VerifyBAST broken (verdict NOCStatusApproved) paid_up = (Inl e, s)
    \<and> tfind ba_id 2002 (fd_basts s) = Some b \<and> ba_noc_status b = NOCStatusApproved"
proof -
  obtain b w where b: "tfind ba_id 2002 (fd_basts paid_up) = Some b" "ba_wo_id b = 50" "ba_noc_status b = NOCStatusPending"
    and w: "tfind wo_id 50 (fd_wos paid_up) = Some w" "wo_kind w = WOTypeNewInstallation" "wo_order_id w = Some 2"
    using paid_up_rows by blast
  have gate: "payment_gate broken b paid_up = Inr ()" by (rule paid_up_gate[OF b(1,2)]) (simp_all add: no_projection_def)
  obtain s2 b2 where s2: "tfind ba_id 2002 (fd_basts s2) = Some b2" "ba_noc_status b2 = NOCStatusApproved"
    "tfind wo_id 50 (fd_wos s2) = Some (w\<lparr>wo_status := WOStatusCompleted, wo_updated_at := fe_dbnow broken\<rparr>)"
    "VerifyBAST broken (verdict NOCStatusApproved) paid_up = (case approval_hooks broken 50 s2 of
        (Some e, s3) \<Rightarrow> (Inl e, s3) | (None, s3) \<Rightarrow> (basts_FindByID broken 1 (ba_id b) s3, s3))"
    using VerifyBAST_decides[of broken "verdict NOCStatusApproved" paid_up b w] b w gate
    by (auto simp: verdict_def no_projection_def)
  have "\<exists>e. approval_hooks broken 50 s2 = (Some e, s2)"
    using s2(3) w by (simp add: approval_hooks_def wos_FindByID_def fguard_def no_projection_def onInstallApproved_def
        ActivationProjectionForOrder_def)
  with s2 show ?thesis by auto
qed

section \<open>The termination\<close>

definition leaving_view :: "field_db \<Rightarrow> _" where
  "leaving_view s = (isl (fst (VerifyBAST (fdemo 8) (verdict NOCStatusApproved) s)),
     case terms_FindByWOID (bill_ok_env (day_in_march 8)) 50 (fd_bill s) of
       Inr (Some t) \<Rightarrow> Some (tr_id t, tr_customer_id t, term_open t) | _ \<Rightarrow> None)"

lemma leaving_viewed: "leaving_view leaving = (False, Some (60, 1, True))"
  by code_simp

end
