(* ===== verification/FieldClaims.thy ===== *)
theory FieldClaims
  imports FieldDemo
begin

text \<open>
  The properties of the field service and of its composition with billing, each with a witness
  on a reachable history of \<open>FieldDemo\<close>.
\<close>

section \<open>Work orders\<close>

text \<open>
  C12. A stored work order keeps its identity (number, order, customer, type, address, creation)
  for ever, and one event moves its status by at most one edge of the state graph. The only
  exception is the NOC's decision on the pending hand-over record of that very work order,
  which sets completed or in progress whatever the status was.
\<close>

theorem work_orders_follow_graph:
  assumes reach: "field_reachable s" and w: "w \<in> set (fd_wos s)"
  shows "(\<exists>w' \<in> set (fd_wos (field_apply E ev s)). wo_identity w' = wo_identity w
      \<and> (wo_status w' = wo_status w \<or> wo_status w' \<in> set (validTransitions (wo_status w))
         \<or> (\<exists>x. ev = FevVerify x \<and> decided x s (wo_id w) (wo_status w'))))
    \<and> (\<exists>v \<in> set (fd_wos (field_run evs s)). wo_identity v = wo_identity w)"
proof
  note ok = reachable_field_ok[OF reach]
  have d: "wos_delta (forced ev s) (fd_wos s) (fd_wos (field_apply E ev s))"
    using field_apply_delta[of ev s E] by (simp add: field_delta_def)
  have "\<exists>x. ev = FevVerify x \<and> decided x s k st" if "forced ev s k st" for k st
    using that by (cases ev) (auto simp: forced_def)
  with wos_delta_row[OF d _ w] ok
  show "\<exists>w' \<in> set (fd_wos (field_apply E ev s)). wo_identity w' = wo_identity w
      \<and> (wo_status w' = wo_status w \<or> wo_status w' \<in> set (validTransitions (wo_status w))
         \<or> (\<exists>x. ev = FevVerify x \<and> decided x s (wo_id w) (wo_status w')))"
    by (fastforce simp: field_ok_def wo_keys_def)
  have "wo_stored w s" using w ok by (auto simp: wo_stored_def)
  from order_stays.run_keeps[OF this, of evs]
  show "\<exists>v \<in> set (fd_wos (field_run evs s)). wo_identity v = wo_identity w"
    by (simp add: wo_stored_def field_run_fold)
qed

theorem work_orders_follow_graph_witness:
  "\<exists>w' \<in> set (fd_wos (field_apply (fdemo 8) (FevVerify (verdict NOCStatusApproved)) paid_up)).
     wo_id w' = 50 \<and> wo_number w' = wo_number (hd (fd_wos paid_up))"
proof -
  have "hd (fd_wos paid_up) \<in> set (fd_wos paid_up)" "wo_id (hd (fd_wos paid_up)) = 50"
    using paid_up_rows(1) by (auto dest: tfind_SomeD)
  then show ?thesis
    using work_orders_follow_graph[OF reach_paid, of "hd (fd_wos paid_up)" "fdemo 8" "FevVerify (verdict NOCStatusApproved)"]
      wo_identity_id by metis
qed

text \<open>
  C18. In every reachable state the tables of the field service are consistent: identifiers and
  numbers of work orders are unique, a work order has at most one hand-over record that is not
  rejected, its crew is nobody, a lead, or a lead with another technician as observer, and there
  is one response per checklist item.
\<close>

theorem field_tables_consistent:
  assumes "field_reachable s"
  shows "distinct (map wo_id (fd_wos s)) \<and> distinct (map wo_number (fd_wos s))
    \<and> length (filter (\<lambda>b. ba_wo_id b = k \<and> ba_noc_status b \<noteq> NOCStatusRejected) (fd_basts s)) \<le> 1
    \<and> crew_ok (filter (\<lambda>a. as_wo_id a = k) (fd_assigns s))
    \<and> distinct (map (\<lambda>r. (cr_wo_id r, cr_item_id r)) (fd_responses s))"
proof -
  note ok = reachable_field_ok[OF assms, unfolded field_ok_def wo_keys_def basts_ok_def tkeyed_def]
  let ?act = "filter active_bast (fd_basts s)"
  have "distinct (map ba_wo_id (filter (\<lambda>b. ba_wo_id b = k) ?act))"
    by (rule distinct_map_filter) (use ok in blast)
  then have "length (map ba_wo_id (filter (\<lambda>b. ba_wo_id b = k) ?act)) \<le> 1"
    by (rule distinct_single[of _ k]) auto
  then have "length (filter (\<lambda>b. ba_wo_id b = k) ?act) \<le> 1" by simp
  moreover have "filter (\<lambda>b. ba_wo_id b = k) ?act
      = filter (\<lambda>b. ba_wo_id b = k \<and> ba_noc_status b \<noteq> NOCStatusRejected) (fd_basts s)"
    by (auto simp: active_bast_def intro: filter_cong)
  ultimately show ?thesis using ok by (auto simp: crew_def response_key_def[abs_def])
qed

theorem field_tables_consistent_witness:
  "length (filter (\<lambda>b. ba_wo_id b = 50 \<and> ba_noc_status b \<noteq> NOCStatusRejected) (fd_basts paid_up)) = 1
    \<and> crew_ok (filter (\<lambda>a. as_wo_id a = 50) (fd_assigns paid_up)) \<and> distinct (map wo_number (fd_wos paid_up))"
  using field_tables_consistent[OF reach_paid, of 50] paid_up_rows(2) by auto

section \<open>The payment gate\<close>



text \<open>
  C36. The gate does not guard the status itself: two plain status calls complete any work order in
  progress, without a hand-over record, without a look at the invoice and without activation.
\<close>

theorem status_calls_bypass_gate:
  assumes w: "tfind wo_id k (fd_wos s) = Some w" "wo_status w = WOStatusInProgress"
    and ok: "fe_fail E = (\<lambda>_. None)"
    and s': "s' = field_run [(E, FevStatus k WOStatusPendingNOCVerification), (E, FevStatus k WOStatusCompleted)] s"
  shows "map_option wo_status (tfind wo_id k (fd_wos s')) = Some WOStatusCompleted
    \<and> fd_basts s' = fd_basts s \<and> fd_bill s' = fd_bill s \<and> fd_network s' = fd_network s"
proof -
  let ?s1 = "snd (UpdateStatus E k WOStatusPendingNOCVerification s)"
  let ?w1 = "w\<lparr>wo_status := WOStatusPendingNOCVerification, wo_updated_at := fe_dbnow E\<rparr>"
  note m1 = UpdateStatus_moves[OF ok w(1), of WOStatusPendingNOCVerification]
  have r1: "tfind wo_id k (fd_wos ?s1) = Some ?w1" using m1(2) w(2) by simp
  note m2 = UpdateStatus_moves[OF ok r1, of WOStatusCompleted]
  have "s' = snd (UpdateStatus E k WOStatusCompleted ?s1)" unfolding s' by simp
  with m1 m2 w(2) show ?thesis by simp
qed

theorem status_calls_bypass_gate_witness:
  "map_option wo_status (tfind wo_id 50 (fd_wos (field_run [(fdemo 8, FevStatus 50 WOStatusPendingNOCVerification),
     (fdemo 8, FevStatus 50 WOStatusCompleted)] started))) = Some WOStatusCompleted
   \<and> field_reachable started"
  using started_row reach_started status_calls_bypass_gate[of 50 started _ "fdemo 8", OF _ _ fdemo_fields(2) refl] by blast

text \<open>
  C38. Completed and cancelled are not terminal: a work order whose record is pending can be called
  back and cancelled, and a rejection of the record that is still pending puts the cancelled
  work order in progress again.
\<close>

theorem cancelled_order_reopened:
  assumes w: "tfind wo_id k (fd_wos s) = Some w" "wo_status w = WOStatusPendingNOCVerification"
    and b: "tfind ba_id j (fd_basts s) = Some b" "ba_wo_id b = k" "ba_noc_status b = NOCStatusPending"
    and ok: "fe_fail E = (\<lambda>_. None)" and x: "vb_bast_id x = j" "vb_decision x = NOCStatusRejected"
    and s1: "s1 = field_run [(E, FevStatus k WOStatusInProgress), (E, FevStatus k WOStatusCancelled)] s"
  shows "map_option wo_status (tfind wo_id k (fd_wos s1)) = Some WOStatusCancelled
    \<and> map_option wo_status (tfind wo_id k (fd_wos (field_apply E (FevVerify x) s1))) = Some WOStatusInProgress"
proof -
  let ?a = "snd (UpdateStatus E k WOStatusInProgress s)"
  let ?w1 = "w\<lparr>wo_status := WOStatusInProgress, wo_updated_at := fe_dbnow E\<rparr>"
  let ?w2 = "?w1\<lparr>wo_status := WOStatusCancelled, wo_updated_at := fe_dbnow E\<rparr>"
  note m1 = UpdateStatus_moves[OF ok w(1), of WOStatusInProgress]
  have r1: "tfind wo_id k (fd_wos ?a) = Some ?w1" using m1(2) w(2) by simp
  note m2 = UpdateStatus_moves[OF ok r1, of WOStatusCancelled]
  have e1: "s1 = snd (UpdateStatus E k WOStatusCancelled ?a)" unfolding s1 by simp
  have r2: "tfind wo_id k (fd_wos s1) = Some ?w2" using m2(2) e1 by simp
  have b1: "fd_basts s1 = fd_basts s" using e1 m2(1) m1(1) w(2) by simp
  have f: "basts_FindByID E 0 (vb_bast_id x) s1 = Inr (Some b)" using b b1 x ok by (simp add: basts_FindByID_def)
  obtain bs where mv: "basts_MarkVerified E (ba_id b) (vb_decision x) (vb_by x) (vb_notes x) s1 = Inr (s1\<lparr>fd_basts := bs\<rparr>)"
    using MarkVerified_ok[of E b s1] ok tfind_SomeD[OF b(1)] b1 by metis
  have r3: "tfind wo_id k (fd_wos (s1\<lparr>fd_basts := bs\<rparr>)) = Some ?w2" using r2 by simp
  obtain rows where up: "wos_UpdateStatus E 0 k WOStatusInProgress (s1\<lparr>fd_basts := bs\<rparr>) = Inr (s1\<lparr>fd_basts := bs, fd_wos := rows\<rparr>)"
    using status_ok[OF _ r3, of E 0 WOStatusInProgress] ok by auto
  have "snd (VerifyBAST E x s1) = s1\<lparr>fd_basts := bs, fd_wos := rows\<rparr>"
    using VerifyBAST_pass[OF f b(3)] x mv up b(2) by simp
  then show ?thesis using r2 status_row[OF up] by simp
qed

theorem cancelled_order_reopened_witness:
  "let s1 = field_run [(fdemo 8, FevStatus 50 WOStatusInProgress), (fdemo 8, FevStatus 50 WOStatusCancelled)] paid_up
   in map_option wo_status (tfind wo_id 50 (fd_wos s1)) = Some WOStatusCancelled
    \<and> map_option wo_status (tfind wo_id 50 (fd_wos (field_apply (fdemo 8) (FevVerify (verdict NOCStatusRejected)) s1)))
      = Some WOStatusInProgress"
proof -
  obtain w b where w: "tfind wo_id 50 (fd_wos paid_up) = Some w" "wo_status w = WOStatusPendingNOCVerification"
    and b: "tfind ba_id 2002 (fd_basts paid_up) = Some b" "ba_wo_id b = 50" "ba_noc_status b = NOCStatusPending"
    using paid_up_rows by blast
  show ?thesis unfolding Let_def
    by (rule cancelled_order_reopened[OF w b fdemo_fields(2), of "verdict NOCStatusRejected", OF _ _ refl])
      (simp_all add: verdict_def)
qed

section \<open>The hand-over\<close>

text \<open>
  C19. A hand-over record is accepted only for a work order in progress without an open or approved
  record, and only when every required item of its checklist has a response. It is then stored
  as pending, the work order waits for the NOC, billing is untouched, and a remote sign-off
  stores the hash of the six-digit code it hands out.
\<close>

theorem submit_bast_spec:
  assumes sub: "SubmitBAST E x s = (Inr (b, plain), s')"
  shows "(\<exists>w. tfind wo_id (sb_wo_id x) (fd_wos s) = Some w \<and> wo_status w = WOStatusInProgress
        \<and> (\<forall>t items i. effective_template E 0 w s = Some (t, items) \<and> i \<in> set items \<and> ci_required i \<longrightarrow>
             (\<exists>r \<in> set (fd_responses s). cr_wo_id r = sb_wo_id x \<and> cr_item_id r = ci_item_id i)))
    \<and> (\<forall>q \<in> set (fd_basts s). ba_wo_id q = sb_wo_id x \<longrightarrow> ba_noc_status q = NOCStatusRejected)
    \<and> fd_basts s' = fd_basts s @ [b] \<and> ba_wo_id b = sb_wo_id x \<and> ba_noc_status b = NOCStatusPending
    \<and> map_option wo_status (tfind wo_id (sb_wo_id x) (fd_wos s')) = Some WOStatusPendingNOCVerification
    \<and> fd_bill s' = fd_bill s
    \<and> (sb_mode x = SignOffRemote \<longrightarrow> plain = padLeft6 (fe_random E) \<and> ba_otp_code b = fe_hash E plain)"
proof -
  obtain w s2 where sb: "submitted E x s w b plain" and c: "basts_Create E b (ftook 1 s) = Inr s2"
    and u: "wos_UpdateStatus E 0 (sb_wo_id x) WOStatusPendingNOCVerification s2 = Inr s'"
    by (rule SubmitBAST_success[OF sub])
  note row = submitted_row[OF sb]
  have wid: "wo_id w = sb_wo_id x" using sb wos_FindByID_id by (auto simp: submitted_def)
  have gate: "checklist_gate E w s = Inr ()" using sb by (simp add: submitted_def)
  have stored: "s2 = (ftook 1 s)\<lparr>fd_basts := fd_basts s @ [b]\<rparr>" and free: "\<forall>q \<in> set (fd_basts s).
      ba_wo_id q = sb_wo_id x \<longrightarrow> ba_noc_status q = NOCStatusRejected"
    using basts_Create_shape[OF c] row by auto
  have "plain = padLeft6 (fe_random E) \<and> ba_otp_code b = fe_hash E plain" if "sb_mode x = SignOffRemote"
    using sb that by (auto simp: submitted_def sign_off_code_def generate6DigitOTP_def fguard_def Let_def split: sum.splits option.splits)
  then show ?thesis using row checklist_gate_complete[OF gate] wid free stored status_row[OF u] by auto
qed

theorem submit_bast_spec_witness:
  "\<exists>b. fd_basts handed_over = fd_basts started @ [b] \<and> ba_noc_status b = NOCStatusPending \<and> ba_otp_code b = ''h000042''
    \<and> map_option wo_status (tfind wo_id 50 (fd_wos handed_over)) = Some WOStatusPendingNOCVerification"
proof -
  obtain b s' where sub: "SubmitBAST (fdemo 7) bast_in started = (Inr (b, ''000042''), s')"
    using started_viewed by (cases "SubmitBAST (fdemo 7) bast_in started"; cases "fst (SubmitBAST (fdemo 7) bast_in started)")
      (auto simp: started_view_def)
  then have "s' = handed_over" by (simp add: handed_over_def)
  with submit_bast_spec[OF sub] show ?thesis
    by (auto simp: bast_in_def fdemo_def field_env_at_def)
qed

text \<open>
  C32. The approval of a termination's work order completes the request on the billing side: if
  billing knows an open request for the work order and answers, the request is completed, the
  customer is terminated and deactivated in RADIUS, and the work order is completed.
\<close>

theorem termination_completed_by_approval:
  assumes call: "VerifyBAST E x s = (Inr ob, s')" "vb_decision x = NOCStatusApproved"
    and b: "tfind ba_id (vb_bast_id x) (fd_basts s) = Some b"
    and w: "tfind wo_id (ba_wo_id b) (fd_wos s) = Some w" "wo_kind w = WOTypeTermination"
    and ok: "fe_fail E (WoFind 1) = None" "be_fail (fe_bill E) = (\<lambda>_. None)"
    and t: "terms_FindByWOID (fe_bill E) (ba_wo_id b) (fd_bill s) = Inr (Some t)" "term_open t"
  shows "map_option tr_status (tfind tr_id (tr_id t) (bd_terms (fd_bill s'))) = Some TerminationStatusCompleted
    \<and> (\<forall>c \<in> set (bd_customers (fd_bill s')). cc_id c = tr_customer_id t \<longrightarrow> cc_status c = ''terminated'')
    \<and> last (bd_radius (fd_bill s')) = RadiusDeactivated (tr_customer_id t)
    \<and> map_option wo_status (tfind wo_id (ba_wo_id b) (fd_wos s')) = Some WOStatusCompleted"
proof -
  note path = VerifyBAST_success[OF call b]
  obtain s2 where u: "fd_bill s2 = fd_bill s" "tfind wo_id (ba_wo_id b) (fd_wos s2)
      = Some (w\<lparr>wo_status := WOStatusCompleted, wo_updated_at := fe_dbnow E\<rparr>)"
    and h: "approval_hooks E (ba_wo_id b) s2 = (None, s')"
    using path w(1) by blast
  have "fd_wos s' = fd_wos s2" using hooks_bill[of s2 E "ba_wo_id b"] h by (simp add: bill_only_def)
  moreover obtain d where "CompleteTerminationByWO (fe_bill E) (ba_wo_id b) (fd_bill s) = (None, d)" "s' = s2\<lparr>fd_bill := d\<rparr>"
    using h u w(2) ok(1) by (auto simp: approval_hooks_def wos_FindByID_def fguard_def split: prod.splits option.splits)
  ultimately show ?thesis using CompleteTermination_effect[OF ok(2) t] u(2) by fastforce
qed

theorem termination_completed_by_approval_witness:
  "let s' = snd (VerifyBAST (fdemo 8) (verdict NOCStatusApproved) leaving)
   in map_option tr_status (tfind tr_id 60 (bd_terms (fd_bill s'))) = Some TerminationStatusCompleted
    \<and> last (bd_radius (fd_bill s')) = RadiusDeactivated 1
    \<and> map_option wo_status (tfind wo_id 50 (fd_wos s')) = Some WOStatusCompleted"
proof -
  obtain ob s' where call: "VerifyBAST (fdemo 8) (verdict NOCStatusApproved) leaving = (Inr ob, s')"
    using leaving_viewed by (cases "VerifyBAST (fdemo 8) (verdict NOCStatusApproved) leaving";
        cases "fst (VerifyBAST (fdemo 8) (verdict NOCStatusApproved) leaving)") (auto simp: leaving_view_def)
  obtain w b where w: "tfind wo_id (ba_wo_id b) (fd_wos leaving) = Some w" "wo_kind w = WOTypeTermination"
    and b: "tfind ba_id (vb_bast_id (verdict NOCStatusApproved)) (fd_basts leaving) = Some b" "ba_wo_id b = 50"
    using handed_over_rows by (auto simp: leaving_def verdict_def)
  obtain t where t: "terms_FindByWOID (fe_bill (fdemo 8)) (ba_wo_id b) (fd_bill leaving) = Inr (Some t)" "term_open t"
    "tr_id t = 60" "tr_customer_id t = 1"
    using leaving_viewed b(2) by (auto simp: leaving_view_def split: sum.splits option.splits)
  have d: "vb_decision (verdict NOCStatusApproved) = NOCStatusApproved" by (simp add: verdict_def)
  have nofail: "be_fail (bill_ok_env (day_in_march 8)) = (\<lambda>_. None)" by (rule ext) simp
  show ?thesis
    using termination_completed_by_approval[OF call d b(1) w _ _ t(1,2)] call b(2) t(3,4) nofail by simp
qed

section \<open>Decisions are final\<close>



end
