(* ===== verification/Spec2Isabelle.thy ===== *)
theory Spec2Isabelle
  imports PaymentClaims BillingClaims BillingPolicyClaims BillingPortalClaims FieldClaims
begin

text \<open>
  A model of three services of the ion backend and of what passes between them: the payment
  service (\<^verbatim>\<open>internal/payment\<close>: payment intents, refunds, gateway webhooks, bank statements), the
  billing service (\<^verbatim>\<open>internal/billing\<close>: invoices, payments, the monthly scheduler, suspension,
  commissions, terminations, add-ons, the customer portal) and the field service
  (\<^verbatim>\<open>internal/field\<close>: work orders, checklists, the signed hand-over record and the NOC's decision).
  All three store their rows in one PostgreSQL database through adapters; the field service
  embeds the billing use cases in process (may this order be approved, this termination is
  done), and billing inserts termination work orders into the field tables.

  \<^bold>\<open>Shared theories.\<close> \<open>Prelude\<close>: the typed errors of \<^verbatim>\<open>pkg/errors\<close>, the result type
  \<open>'a res = derr + 'a\<close>, strings and identifiers (a uuid is a 128-bit word, time is nanoseconds
  as an integer). \<open>Float64\<close>: Go's \<^verbatim>\<open>float64\<close> as exact dyadic values with the IEEE rounding written
  out; \<open>Money\<close>: \<^verbatim>\<open>round2\<close> and NUMERIC columns over it. \<open>Calendar\<close>: Go's UTC dates. \<open>Table\<close>:
  tables as lists of rows, with the locale \<open>repository\<close> for the read and write interface of an
  adapter.

  \<^bold>\<open>Payment.\<close> \<open>PaymentDomain\<close> holds the entities of \<^verbatim>\<open>domain/*.go\<close> with every transition method,
  \<open>PaymentLifecycle\<close> the documented graphs as inductive relations, \<open>PaymentRepo\<close> the tables and
  queries of \<^verbatim>\<open>adapter/postgres\<close>, \<open>PaymentRouting\<close> \<^verbatim>\<open>usecase/routing.go\<close>, \<open>PaymentIntentSvc\<close>
  \<^verbatim>\<open>intent.go\<close>, \<open>PaymentRefundSvc\<close> \<^verbatim>\<open>refund.go\<close>, \<open>PaymentWebhookSvc\<close> \<^verbatim>\<open>webhook.go\<close>, \<open>PaymentH2H\<close>
  \<^verbatim>\<open>h2h.go\<close>. \<open>PaymentSystem\<close> composes them: an event is a call under an environment (clock, failures,
  gateway answers), the reachable databases are closed under events, and the invariants are
  proved by rule induction. \<open>PaymentFacts\<close> and \<open>PaymentClaims\<close>: the properties and witnesses.

  \<^bold>\<open>Billing.\<close> \<open>BillingDomain\<close> and \<open>BillingPolicies\<close> hold the aggregates and the pure decisions
  (late fee, reminder, suspension ladder, commission split) of \<^verbatim>\<open>domain/*.go\<close>; \<open>BillingPeriods\<close> the
  period arithmetic of \<^verbatim>\<open>usecase/r2.go\<close>; \<open>BillingRepo\<close> the tables, keys and queries; \<open>BillingSvc\<close>
  invoices, payments, commissions, rewards and terminations (\<^verbatim>\<open>service.go\<close>, \<^verbatim>\<open>r2.go\<close>, \<^verbatim>\<open>r3.go\<close>);
  \<open>BillingTick\<close> the scheduler's passes; \<open>BillingOrch\<close> \<^verbatim>\<open>orchestration.go\<close> and \<^verbatim>\<open>addon.go\<close>;
  \<open>BillingPortal\<close> \<^verbatim>\<open>portal.go\<close>. \<open>BillingSystem\<close> and \<open>BillingTraces\<close> show that every event is a
  sequence of the writes the relation \<open>bill_write\<close> lists, so \<open>BillingInvariants\<close> needs one
  argument per kind of write; its locale \<open>unique_log\<close> is the contract of the tables with one row
  per business key. \<open>BillingPolicyFacts\<close>, \<open>BillingLedger\<close> (the abstract ledger that
  \<open>RecordPayment\<close> refines) and \<open>BillingPasses\<close> (repeating a pass) prepare the claims.

  \<^bold>\<open>Field.\<close> \<open>FieldDomain\<close> holds \<^verbatim>\<open>domain/*.go\<close> with the status graph \<open>validTransitions\<close>;
  \<open>FieldRepo\<close> the tables of \<^verbatim>\<open>adapter/postgres\<close> and the CRM and RADIUS gateways; its state
  \<open>field_db\<close> contains the billing state as \<open>fd_bill\<close>. \<open>FieldSvc\<close> and \<open>FieldBast\<close> are the
  operations of \<^verbatim>\<open>usecase/service.go\<close> and \<^verbatim>\<open>r2.go\<close>, in the order of the code. \<open>FieldSystem\<close> composes them
  with the billing events; \<open>field_delta\<close> says what a call does to each table and \<open>FieldTraces\<close>
  proves it per operation. \<open>FieldFacts\<close> has the invariants, the locale \<open>stable_fact\<close> and the locale
  \<open>billing_gateway\<close>, the port through which the payment gate asks billing, interpreted on the
  billing model. \<open>FieldDemo\<close> and \<open>FieldClaims\<close>: witnesses and properties.

  \<^bold>\<open>What is shown.\<close> Invariants along any sequence of calls, failures included: intents, invoices,
  termination requests and work orders move only along their graphs and keep their identity,
  keys are unique, paid invoices are covered. Safety: a webhook, a refund or a portal code takes
  effect once; a NOC approval implies a paid installation invoice. Functional descriptions and
  equivalences: routing, sorting, matching, periods, ladders, the hand-over, the completion of a
  termination. Refinement: payments against a ledger in whole cents. Bounds: late fees, codes per
  hour, status changes. Several theorems state what the code does where a comment promises more
  (refunds paid twice, payments lost after a failed delivery, late fees on every tick, months
  never billed after a failure, requests that wait for ever, the gate passed by two status
  calls, approvals whose hooks can never be run again, cancelled work orders reopened).

  \<^bold>\<open>Conventions.\<close> A call is a function from environment, input and state to a result and the state it
  leaves; there is no roll-back except where the code opens a transaction. The environment
  gives the clock (one reading per call), the fresh identifiers, the failure of any database or
  remote call, and the answers of contexts that are not modelled; it is unconstrained unless a
  theorem says so. Calls are atomic: requests that interleave inside an operation are not
  modelled. The order of equal rows under \<open>ORDER BY\<close> is insertion order, and no property depends
  on it. Services are wired as in \<^verbatim>\<open>cmd/\<close> (optional dependencies present). No definition uses fuel:
  the paging loop of the matcher and the loop of the insertion sort terminate by a measure.
  Columns no modelled code reads (display names, JSON metadata) are left out of the records.
  NUMERIC overflow and NaN in NUMERIC columns are refused by the database and count as failures.

  \<^bold>\<open>Not modelled.\<close> HTTP handlers, JSON and permissions; cron loops and the SLA watcher around the
  modelled passes; listings for screens; administration of gateways and methods; bcrypt, HMAC and
  random sources (arguments); the other contexts (CRM, enterprise, warehouse, network,
  reseller, partnership, operations, identity, HRIS, tax, platform), whose rows appear as events
  that change the shared tables in any way the database allows.
\<close>

end
